(* ===== verification/Go_Prelude.thy ===== *)
theory Go_Prelude
  imports Main
begin

text \<open>
  What the operator uses of the Go language and its standard library, and the generic lemmas the
  component theories share: error values (\<^verbatim>\<open>fmt.Errorf\<close> with and without \<^verbatim>\<open>%w\<close>, \<^verbatim>\<open>errors.Join\<close>,
  \<^verbatim>\<open>Error()\<close>), \<^verbatim>\<open>strings.Join\<close>, \<^verbatim>\<open>strings.TrimSpace\<close> and the \<^verbatim>\<open>%d\<close> verb of \<^verbatim>\<open>fmt.Sprintf\<close>.

  Conventions of the whole development.
  A Go string is its sequence of bytes, a \<^typ>\<open>string\<close>.
  A pointer or interface value that may be \<^verbatim>\<open>nil\<close> is an \<open>option\<close>; in particular an \<^verbatim>\<open>error\<close> result is
  an \<open>option\<close> whose \<open>None\<close> is \<^verbatim>\<open>nil\<close>.
  A function with effects takes the state of the world outside the process as its last argument, of
  an arbitrary type \<open>'w\<close>, and returns the new one as its last result; errors born outside the
  repository have an arbitrary type \<open>'e\<close>.
\<close>

section \<open>Named collections\<close>

named_theorems client_simps \<open>laws of the API client and of the Kubernetes libraries\<close>
named_theorems object_simps \<open>objects the operator builds, field by field\<close>
named_theorems outcome_simps \<open>error values and early returns\<close>

section \<open>Error values\<close>

datatype 'e goerror =
    External 'e                       \<comment> \<open>an error made outside the repository\<close>
  | Errorf string                     \<comment> \<open>\<^verbatim>\<open>fmt.Errorf(msg)\<close>\<close>
  | Wrapf string "'e goerror"         \<comment> \<open>\<^verbatim>\<open>fmt.Errorf(msg + ": %w", err)\<close>\<close>
  | JoinError "'e goerror list"       \<comment> \<open>the value \<^verbatim>\<open>errors.Join\<close> returns\<close>

type_synonym 'e err = "'e goerror option"

fun strings_Join :: "string list \<Rightarrow> string \<Rightarrow> string" where
  "strings_Join [] sep = []"
| "strings_Join [x] sep = x"
| "strings_Join (x # y # ys) sep = x @ sep @ strings_Join (y # ys) sep"

text \<open>The \<^verbatim>\<open>Error()\<close> method; \<open>t\<close> is the text of an external error.\<close>

primrec Error_text :: "('e \<Rightarrow> string) \<Rightarrow> 'e goerror \<Rightarrow> string" where
  "Error_text t (External e) = t e"
| "Error_text t (Errorf m) = m"
| "Error_text t (Wrapf m e) = m @ '': '' @ Error_text t e"
| "Error_text t (JoinError es) = strings_Join (map (Error_text t) es) [CHR 0x0A]"

text \<open>\<^verbatim>\<open>errors.Join\<close> drops the nil errors and is nil when nothing is left.\<close>

definition errors_Join :: "'e err list \<Rightarrow> 'e err" where
  "errors_Join es =
     (case List.map_filter id es of [] \<Rightarrow> None | e # es' \<Rightarrow> Some (JoinError (e # es')))"

lemma map_filter_id_Nil [simp]: "List.map_filter id es = [] \<longleftrightarrow> (\<forall>e \<in> set es. e = None)"
  by (induction es) (auto simp: List.map_filter_def)

lemma errors_Join_None [outcome_simps]: "errors_Join es = None \<longleftrightarrow> (\<forall>e \<in> set es. e = None)"
  by (simp add: errors_Join_def split: list.splits flip: map_filter_id_Nil)

lemma set_map_filter_id: "set (List.map_filter id es) = {e. Some e \<in> set es}"
  by (induction es) (auto simp: List.map_filter_def)

lemma errors_Join_Some:
  "errors_Join es = Some e \<longleftrightarrow>
     (\<exists>x \<in> set es. x \<noteq> None) \<and> e = JoinError (List.map_filter id es)"
proof (cases "List.map_filter id es")
  case Nil
  then have "\<forall>e \<in> set es. e = None" by simp
  with Nil show ?thesis by (auto simp: errors_Join_def simp del: map_filter_id_Nil)
next
  case (Cons x xs)
  then have "\<not> (\<forall>e \<in> set es. e = None)"
    by (metis map_filter_id_Nil list.distinct(1))
  with Cons show ?thesis by (auto simp: errors_Join_def)
qed

section \<open>Decimal integers\<close>

text \<open>The \<^verbatim>\<open>%d\<close> verb: a sign for the negative numbers, then the decimal digits.\<close>

definition digit_char :: "nat \<Rightarrow> char" where
  "digit_char d = char_of (48 + d)"

fun nat_digits :: "nat \<Rightarrow> string" where
  "nat_digits n =
     (if n < 10 then [digit_char n] else nat_digits (n div 10) @ [digit_char (n mod 10)])"

declare nat_digits.simps [simp del]

definition Sprintf_d :: "int \<Rightarrow> string" where
  "Sprintf_d i = (if i < 0 then CHR ''-'' # nat_digits (nat (- i)) else nat_digits (nat i))"

text \<open>Reading a decimal number back, the inverse used in round-trip statements.\<close>

definition digit_value :: "char \<Rightarrow> nat" where
  "digit_value c = of_char c - 48"

definition read_nat :: "string \<Rightarrow> nat" where
  "read_nat s = foldl (\<lambda>n c. 10 * n + digit_value c) 0 s"

fun read_int :: "string \<Rightarrow> int" where
  "read_int [] = 0"
| "read_int (c # cs) = (if c = CHR ''-'' then - int (read_nat cs) else int (read_nat (c # cs)))"

lemma digit_value_char [simp]: "d < 10 \<Longrightarrow> digit_value (digit_char d) = d"
  by (simp add: digit_value_def digit_char_def of_char_of)

lemma digit_char_range: "d < 10 \<Longrightarrow> of_char (digit_char d) = (48 + d :: nat)"
  by (simp add: digit_char_def of_char_of)

lemma read_nat_digits [simp]: "read_nat (nat_digits n) = n"
proof (induction n rule: nat_digits.induct)
  case (1 n)
  then show ?case
    by (subst nat_digits.simps) (auto simp: read_nat_def)
qed

lemma nat_digits_chars: "c \<in> set (nat_digits n) \<Longrightarrow> 48 \<le> (of_char c :: nat) \<and> (of_char c :: nat) < 58"
proof (induction n arbitrary: c rule: nat_digits.induct)
  case (1 n)
  then show ?case
    by (subst (asm) nat_digits.simps) (auto simp: digit_char_range split: if_splits)
qed

lemma nat_digits_not_Nil [simp]: "nat_digits n \<noteq> []"
  by (subst nat_digits.simps) simp

lemma read_int_Sprintf_d [simp]: "read_int (Sprintf_d i) = i"
proof (cases "i < 0")
  case True
  then show ?thesis by (simp add: Sprintf_d_def)
next
  case False
  obtain c cs where d: "nat_digits (nat i) = c # cs"
    by (cases "nat_digits (nat i)") auto
  have "48 \<le> (of_char c :: nat)"
    using nat_digits_chars [of c "nat i"] by (simp add: d)
  then have "c \<noteq> CHR ''-''" by auto
  then have "read_int (c # cs) = int (read_nat (nat_digits (nat i)))"
    by (simp add: d)
  also have "\<dots> = i" using False by simp
  finally show ?thesis using False by (simp add: Sprintf_d_def d del: read_int.simps)
qed

lemma Sprintf_d_inject [simp]: "Sprintf_d i = Sprintf_d j \<longleftrightarrow> i = j"
  by (metis read_int_Sprintf_d)

section \<open>White space\<close>

text \<open>
  \<^verbatim>\<open>strings.TrimSpace\<close> removes leading and trailing white space as \<^verbatim>\<open>unicode.IsSpace\<close> defines it.
  Strings are byte sequences, so the code points outside ASCII are listed by their UTF-8 encoding:
  U+0085, U+00A0, U+1680, U+2000 to U+200A, U+2028, U+2029, U+202F, U+205F and U+3000.
\<close>

definition space_runes :: "string list" where
  "space_runes =
     [[CHR 0x09], [CHR 0x0A], [CHR 0x0B], [CHR 0x0C], [CHR 0x0D], [CHR 0x20],
      [CHR 0xC2, CHR 0x85], [CHR 0xC2, CHR 0xA0], [CHR 0xE1, CHR 0x9A, CHR 0x80],
      [CHR 0xE2, CHR 0x80, CHR 0x80], [CHR 0xE2, CHR 0x80, CHR 0x81], [CHR 0xE2, CHR 0x80, CHR 0x82],
      [CHR 0xE2, CHR 0x80, CHR 0x83], [CHR 0xE2, CHR 0x80, CHR 0x84], [CHR 0xE2, CHR 0x80, CHR 0x85],
      [CHR 0xE2, CHR 0x80, CHR 0x86], [CHR 0xE2, CHR 0x80, CHR 0x87], [CHR 0xE2, CHR 0x80, CHR 0x88],
      [CHR 0xE2, CHR 0x80, CHR 0x89], [CHR 0xE2, CHR 0x80, CHR 0x8A], [CHR 0xE2, CHR 0x80, CHR 0xA8],
      [CHR 0xE2, CHR 0x80, CHR 0xA9], [CHR 0xE2, CHR 0x80, CHR 0xAF], [CHR 0xE2, CHR 0x81, CHR 0x9F],
      [CHR 0xE3, CHR 0x80, CHR 0x80]]"

fun strip_rune :: "string list \<Rightarrow> string \<Rightarrow> string option" where
  "strip_rune [] s = None"
| "strip_rune (r # rs) s =
     (if r \<noteq> [] \<and> take (length r) s = r then Some (drop (length r) s) else strip_rune rs s)"

lemma strip_rune_SomeD: "strip_rune rs s = Some t \<Longrightarrow> \<exists>r \<in> set rs. r \<noteq> [] \<and> s = r @ t"
  by (induction rs) (auto split: if_splits, metis append_take_drop_id)

lemma strip_rune_length: "strip_rune rs s = Some t \<Longrightarrow> length t < length s"
  by (auto dest!: strip_rune_SomeD)

function trim_left :: "string list \<Rightarrow> string \<Rightarrow> string" where
  "trim_left rs s = (case strip_rune rs s of None \<Rightarrow> s | Some t \<Rightarrow> trim_left rs t)"
  by pat_completeness auto
termination
  by (relation "measure (\<lambda>(rs, s). length s)") (auto dest: strip_rune_length)

declare trim_left.simps [simp del]

definition TrimSpace :: "string \<Rightarrow> string" where
  "TrimSpace s = rev (trim_left (map rev space_runes) (rev (trim_left space_runes s)))"

text \<open>A list of runes none of which is a prefix of another is stripped rune by rune.\<close>

definition prefix_free :: "string list \<Rightarrow> bool" where
  "prefix_free rs \<longleftrightarrow>
     (\<forall>r \<in> set rs. \<forall>q \<in> set rs. take (length r) q = r \<longrightarrow> r = q) \<and> [] \<notin> set rs"

lemma strip_rune_append:
  assumes "\<forall>q \<in> set rs. take (length q) (r @ s) = q \<longrightarrow> q = r" and "r \<in> set rs" and "r \<noteq> []"
  shows "strip_rune rs (r @ s) = Some s"
  using assms
proof (induction rs)
  case Nil
  then show ?case by simp
next
  case (Cons q rs)
  show ?case
  proof (cases "q = r")
    case True
    with Cons.prems show ?thesis by simp
  next
    case False
    with Cons.prems have "take (length q) (r @ s) \<noteq> q" by auto
    with False Cons.prems show ?thesis by (auto intro: Cons.IH)
  qed
qed

lemma prefix_free_unique:
  assumes pf: "prefix_free rs" and q: "q \<in> set rs" and r: "r \<in> set rs"
    and t: "take (length q) (r @ s) = q"
  shows "q = r"
proof (cases "length q \<le> length r")
  case True
  with t have "take (length q) r = q" by simp
  with pf q r show ?thesis by (auto simp: prefix_free_def)
next
  case False
  with t have "take (length r) q = r"
    by (metis append_take_drop_id append_eq_conv_conj nat_le_linear take_append take_all_iff)
  with pf q r show ?thesis by (auto simp: prefix_free_def)
qed

lemma trim_left_rune:
  assumes "prefix_free rs" and "r \<in> set rs"
  shows "trim_left rs (r @ s) = trim_left rs s"
proof -
  from assms have "r \<noteq> []" by (auto simp: prefix_free_def)
  then have "strip_rune rs (r @ s) = Some s"
    using assms by (intro strip_rune_append) (auto intro: prefix_free_unique)
  then show ?thesis by (subst trim_left.simps) simp
qed

lemma trim_left_concat:
  "prefix_free rs \<Longrightarrow> set us \<subseteq> set rs \<Longrightarrow> trim_left rs (concat us) = []"
proof (induction us)
  case Nil
  have "strip_rune rs [] = None" by (induction rs) auto
  then show ?case by (simp add: trim_left.simps [of rs "[]"])
next
  case (Cons u us)
  then show ?case by (simp add: trim_left_rune)
qed

lemma trim_left_split: "\<exists>us. set us \<subseteq> set rs \<and> s = concat us @ trim_left rs s"
proof (induction rs s rule: trim_left.induct)
  case (1 rs s)
  show ?case
  proof (cases "strip_rune rs s")
    case None
    then show ?thesis by (intro exI [of _ "[]"]) (simp add: trim_left.simps [of rs s])
  next
    case (Some t)
    then obtain r where r: "r \<in> set rs" "s = r @ t" by (auto dest: strip_rune_SomeD)
    from "1.IH" [OF Some] obtain us where us: "set us \<subseteq> set rs" "t = concat us @ trim_left rs t"
      by blast
    have "trim_left rs s = trim_left rs t" by (subst trim_left.simps) (simp add: Some)
    with r us show ?thesis by (intro exI [of _ "r # us"]) simp
  qed
qed

lemma trim_left_idem: "trim_left rs (trim_left rs s) = trim_left rs s"
proof (induction rs s rule: trim_left.induct)
  case (1 rs s)
  show ?case
  proof (cases "strip_rune rs s")
    case None
    then show ?thesis by (simp add: trim_left.simps [of rs s])
  next
    case (Some t)
    with "1.IH" [OF Some] show ?thesis by (simp add: trim_left.simps [of rs s])
  qed
qed

lemma prefix_free_spaces: "prefix_free space_runes"
  by (simp add: prefix_free_def space_runes_def)

text \<open>What the operator tests: nothing is left exactly when the string is all white space.\<close>

lemma TrimSpace_Nil:
  "TrimSpace s = [] \<longleftrightarrow> (\<exists>us. set us \<subseteq> set space_runes \<and> s = concat us)"
proof
  assume "TrimSpace s = []"
  define t where "t = trim_left space_runes s"
  have "trim_left (map rev space_runes) (rev t) = []"
    using \<open>TrimSpace s = []\<close> by (simp add: TrimSpace_def t_def)
  with trim_left_split [of "map rev space_runes" "rev t"]
  obtain vs where vs: "set vs \<subseteq> set (map rev space_runes)" "rev t = concat vs" by auto
  have "t = concat (rev (map rev vs))" using vs(2) by (metis rev_concat rev_map rev_rev_ident)
  moreover have "set (rev (map rev vs)) \<subseteq> set space_runes" using vs(1) by force
  ultimately have "trim_left space_runes t = []"
    by (simp add: trim_left_concat [OF prefix_free_spaces])
  then have "trim_left space_runes s = []" by (simp add: t_def trim_left_idem)
  with trim_left_split [of space_runes s]
  show "\<exists>us. set us \<subseteq> set space_runes \<and> s = concat us" by simp
next
  assume "\<exists>us. set us \<subseteq> set space_runes \<and> s = concat us"
  then have "trim_left space_runes s = []"
    by (auto simp: trim_left_concat [OF prefix_free_spaces])
  moreover have "trim_left (map rev space_runes) [] = []"
    by (simp add: trim_left.simps space_runes_def)
  ultimately show "TrimSpace s = []" by (simp add: TrimSpace_def)
qed

section \<open>Splitting\<close>

text \<open>\<^verbatim>\<open>strings.Split\<close> with a separator of one byte, as the receiver of a joined list applies it.\<close>

fun strings_Split :: "string \<Rightarrow> char \<Rightarrow> string list" where
  "strings_Split [] sep = [[]]"
| "strings_Split (c # cs) sep =
     (if c = sep then [] # strings_Split cs sep
      else case strings_Split cs sep of [] \<Rightarrow> [[c]] | x # xs \<Rightarrow> (c # x) # xs)"

lemma strings_Split_not_Nil [simp]: "strings_Split s sep \<noteq> []"
  by (cases s) (auto split: list.split)

lemma strings_Split_append:
  "sep \<notin> set x \<Longrightarrow> strings_Split (x @ sep # s) sep = x # strings_Split s sep"
  by (induction x) auto

lemma strings_Split_plain: "sep \<notin> set x \<Longrightarrow> strings_Split x sep = [x]"
  by (induction x) auto

lemma strings_Split_Join:
  "xs \<noteq> [] \<Longrightarrow> \<forall>x \<in> set xs. sep \<notin> set x \<Longrightarrow> strings_Split (strings_Join xs [sep]) sep = xs"
  by (induction xs "[sep]" rule: strings_Join.induct)
     (auto simp: strings_Split_append strings_Split_plain)

text \<open>The value of the first argument that starts with a flag, as the receiver of the arguments sees it.\<close>

fun flag_value :: "string \<Rightarrow> string list \<Rightarrow> string option" where
  "flag_value flag [] = None"
| "flag_value flag (a # as) =
     (if take (length flag) a = flag then Some (drop (length flag) a) else flag_value flag as)"

end
