(* ===== verification/Kube_Types.thy ===== *)
theory Kube_Types
  imports Go_Prelude
begin

text \<open>
  The Kubernetes API structs the operator fills in or reads (packages \<^verbatim>\<open>metav1\<close>, \<^verbatim>\<open>corev1\<close>,
  \<^verbatim>\<open>appsv1\<close>, \<^verbatim>\<open>batchv1\<close>), as records with a field for every field the source writes or reads,
  together with the neighbouring fields that a whole-struct assignment of the source resets.
  The field \<^verbatim>\<open>F\<close> of the struct \<^verbatim>\<open>T\<close> is written \<open>t_F\<close>.
  A Go composite literal leaves the fields it does not mention at their zero value; it is written
  here as an update of \<open>zero_T\<close>.
  Slices are lists (nil and the empty slice are told apart only where the code does), Go maps are
  partial functions, pointers are options, and the string types of the API (\<^verbatim>\<open>PullPolicy\<close>,
  \<^verbatim>\<open>TaintEffect\<close>, \<^verbatim>\<open>ConditionStatus\<close> and their kin) are strings: the source converts arbitrary
  strings of the custom resource to them.
  Sized integers are \<^typ>\<open>int\<close>: the operator compares and prints them and computes with none.
\<close>

section \<open>Metadata\<close>

type_synonym labels = "string \<rightharpoonup> string"

type_synonym time = int

record OwnerReference =
  or_APIVersion :: string
  or_Kind :: string
  or_Name :: string
  or_UID :: string
  or_Controller :: "bool option"
  or_BlockOwnerDeletion :: "bool option"

record ObjectMeta =
  om_Name :: string
  om_Namespace :: string
  om_UID :: string
  om_ResourceVersion :: string
  om_DeletionTimestamp :: "time option"
  om_Labels :: labels
  om_Annotations :: labels
  om_OwnerReferences :: "OwnerReference list"
  om_Finalizers :: "string list"

definition zero_ObjectMeta :: ObjectMeta where
  "zero_ObjectMeta = \<lparr>om_Name = [], om_Namespace = [], om_UID = [], om_ResourceVersion = [],
     om_DeletionTimestamp = None, om_Labels = Map.empty, om_Annotations = Map.empty,
     om_OwnerReferences = [], om_Finalizers = []\<rparr>"

record Condition =
  cond_Type :: string
  cond_Status :: string
  cond_LastTransitionTime :: time
  cond_Reason :: string
  cond_Message :: string

definition zero_Condition :: Condition where
  "zero_Condition = \<lparr>cond_Type = [], cond_Status = [], cond_LastTransitionTime = 0,
     cond_Reason = [], cond_Message = []\<rparr>"

abbreviation (input) ConditionTrue :: string where "ConditionTrue \<equiv> ''True''"
abbreviation (input) ConditionFalse :: string where "ConditionFalse \<equiv> ''False''"

section \<open>Pods\<close>

record Toleration =
  tol_Key :: string
  tol_Operator :: string
  tol_Value :: string
  tol_Effect :: string
  tol_TolerationSeconds :: "int option"

definition zero_Toleration :: Toleration where
  "zero_Toleration = \<lparr>tol_Key = [], tol_Operator = [], tol_Value = [], tol_Effect = [],
     tol_TolerationSeconds = None\<rparr>"

abbreviation (input) TolerationOpEqual :: string where "TolerationOpEqual \<equiv> ''Equal''"
abbreviation (input) TaintEffectNoSchedule :: string where "TaintEffectNoSchedule \<equiv> ''NoSchedule''"

record ObjectFieldSelector =
  ofs_APIVersion :: string
  ofs_FieldPath :: string

text \<open>A reference into a config map or a secret, as a custom resource may carry it.\<close>

record KeySelector =
  ks_Name :: string
  ks_Key :: string
  ks_Optional :: "bool option"

record ResourceFieldSelector =
  rfs_ContainerName :: string
  rfs_Resource :: string
  rfs_Divisor :: string

record EnvVarSource =
  evs_FieldRef :: "ObjectFieldSelector option"
  evs_ResourceFieldRef :: "ResourceFieldSelector option"
  evs_ConfigMapKeyRef :: "KeySelector option"
  evs_SecretKeyRef :: "KeySelector option"

record EnvVar =
  env_Name :: string
  env_Value :: string
  env_ValueFrom :: "EnvVarSource option"

definition zero_ObjectFieldSelector :: ObjectFieldSelector where
  "zero_ObjectFieldSelector = \<lparr>ofs_APIVersion = [], ofs_FieldPath = []\<rparr>"

definition zero_EnvVarSource :: EnvVarSource where
  "zero_EnvVarSource = \<lparr>evs_FieldRef = None, evs_ResourceFieldRef = None,
     evs_ConfigMapKeyRef = None, evs_SecretKeyRef = None\<rparr>"

definition zero_EnvVar :: EnvVar where
  "zero_EnvVar = \<lparr>env_Name = [], env_Value = [], env_ValueFrom = None\<rparr>"

text \<open>The literal the source repeats: a variable read from a field of the pod.\<close>

definition fieldEnv :: "string \<Rightarrow> string \<Rightarrow> EnvVar" where
  "fieldEnv name path =
     zero_EnvVar\<lparr>env_Name := name,
       env_ValueFrom := Some (zero_EnvVarSource\<lparr>evs_FieldRef :=
         Some (zero_ObjectFieldSelector\<lparr>ofs_FieldPath := path\<rparr>)\<rparr>)\<rparr>"

record Capabilities =
  cap_Add :: "string list"
  cap_Drop :: "string list"

record SELinuxOptions =
  sel_User :: string
  sel_Role :: string
  sel_Type :: string
  sel_Level :: string

record SeccompProfile =
  scp_Type :: string
  scp_LocalhostProfile :: "string option"

record SecurityContext =
  sc_Capabilities :: "Capabilities option"
  sc_Privileged :: "bool option"
  sc_SELinuxOptions :: "SELinuxOptions option"
  sc_RunAsUser :: "int option"
  sc_RunAsNonRoot :: "bool option"
  sc_ReadOnlyRootFilesystem :: "bool option"
  sc_AllowPrivilegeEscalation :: "bool option"
  sc_SeccompProfile :: "SeccompProfile option"

definition zero_Capabilities :: Capabilities where
  "zero_Capabilities = \<lparr>cap_Add = [], cap_Drop = []\<rparr>"

definition zero_SELinuxOptions :: SELinuxOptions where
  "zero_SELinuxOptions = \<lparr>sel_User = [], sel_Role = [], sel_Type = [], sel_Level = []\<rparr>"

definition zero_SeccompProfile :: SeccompProfile where
  "zero_SeccompProfile = \<lparr>scp_Type = [], scp_LocalhostProfile = None\<rparr>"

definition zero_SecurityContext :: SecurityContext where
  "zero_SecurityContext = \<lparr>sc_Capabilities = None, sc_Privileged = None,
     sc_SELinuxOptions = None, sc_RunAsUser = None, sc_RunAsNonRoot = None,
     sc_ReadOnlyRootFilesystem = None, sc_AllowPrivilegeEscalation = None,
     sc_SeccompProfile = None\<rparr>"

abbreviation (input) SeccompProfileTypeRuntimeDefault :: string where
  "SeccompProfileTypeRuntimeDefault \<equiv> ''RuntimeDefault''"

datatype IntOrString = FromInt int | FromString string

record HTTPGetAction =
  hga_Path :: string
  hga_Port :: IntOrString

record Probe =
  prb_HTTPGet :: "HTTPGetAction option"
  prb_InitialDelaySeconds :: int
  prb_TimeoutSeconds :: int
  prb_PeriodSeconds :: int
  prb_SuccessThreshold :: int
  prb_FailureThreshold :: int

definition zero_Probe :: Probe where
  "zero_Probe = \<lparr>prb_HTTPGet = None, prb_InitialDelaySeconds = 0, prb_TimeoutSeconds = 0,
     prb_PeriodSeconds = 0, prb_SuccessThreshold = 0, prb_FailureThreshold = 0\<rparr>"

record ContainerPort =
  cp_Name :: string
  cp_HostPort :: int
  cp_ContainerPort :: int
  cp_Protocol :: string

definition zero_ContainerPort :: ContainerPort where
  "zero_ContainerPort = \<lparr>cp_Name = [], cp_HostPort = 0, cp_ContainerPort = 0, cp_Protocol = []\<rparr>"

record VolumeMount =
  vm_Name :: string
  vm_ReadOnly :: bool
  vm_MountPath :: string
  vm_SubPath :: string

definition zero_VolumeMount :: VolumeMount where
  "zero_VolumeMount = \<lparr>vm_Name = [], vm_ReadOnly = False, vm_MountPath = [], vm_SubPath = []\<rparr>"

record KeyToPath =
  ktp_Key :: string
  ktp_Path :: string

record HostPathVolumeSource =
  hp_Path :: string
  hp_Type :: "string option"

record ConfigMapVolumeSource =
  cmv_Name :: string
  cmv_Items :: "KeyToPath list"
  cmv_Optional :: "bool option"

record Volume =
  vol_Name :: string
  vol_HostPath :: "HostPathVolumeSource option"
  vol_ConfigMap :: "ConfigMapVolumeSource option"

definition zero_Volume :: Volume where
  "zero_Volume = \<lparr>vol_Name = [], vol_HostPath = None, vol_ConfigMap = None\<rparr>"

definition zero_HostPathVolumeSource :: HostPathVolumeSource where
  "zero_HostPathVolumeSource = \<lparr>hp_Path = [], hp_Type = None\<rparr>"

definition zero_ConfigMapVolumeSource :: ConfigMapVolumeSource where
  "zero_ConfigMapVolumeSource = \<lparr>cmv_Name = [], cmv_Items = [], cmv_Optional = None\<rparr>"

abbreviation (input) HostPathSocket :: string where "HostPathSocket \<equiv> ''Socket''"
abbreviation (input) HostPathDirectory :: string where "HostPathDirectory \<equiv> ''Directory''"

record NodeSelectorRequirement =
  nsr_Key :: string
  nsr_Operator :: string
  nsr_Values :: "string list"

record NodeSelectorTerm =
  nst_MatchExpressions :: "NodeSelectorRequirement list"
  nst_MatchFields :: "NodeSelectorRequirement list"

record PreferredSchedulingTerm =
  pst_Weight :: int
  pst_Preference :: NodeSelectorTerm

record NodeAffinity =
  na_Required :: "NodeSelectorTerm list option"
  na_Preferred :: "PreferredSchedulingTerm list"

text \<open>Of an affinity the operator sets the node part only.\<close>

record Affinity =
  aff_NodeAffinity :: "NodeAffinity option"

definition zero_NodeSelectorRequirement :: NodeSelectorRequirement where
  "zero_NodeSelectorRequirement = \<lparr>nsr_Key = [], nsr_Operator = [], nsr_Values = []\<rparr>"

definition zero_NodeSelectorTerm :: NodeSelectorTerm where
  "zero_NodeSelectorTerm = \<lparr>nst_MatchExpressions = [], nst_MatchFields = []\<rparr>"

definition zero_NodeAffinity :: NodeAffinity where
  "zero_NodeAffinity = \<lparr>na_Required = None, na_Preferred = []\<rparr>"

abbreviation (input) NodeSelectorOpIn :: string where "NodeSelectorOpIn \<equiv> ''In''"

record Container =
  ctr_Name :: string
  ctr_Image :: string
  ctr_Command :: "string list"
  ctr_Args :: "string list"
  ctr_Ports :: "ContainerPort list"
  ctr_Env :: "EnvVar list"
  ctr_VolumeMounts :: "VolumeMount list"
  ctr_LivenessProbe :: "Probe option"
  ctr_ReadinessProbe :: "Probe option"
  ctr_ImagePullPolicy :: string
  ctr_SecurityContext :: "SecurityContext option"

definition zero_Container :: Container where
  "zero_Container = \<lparr>ctr_Name = [], ctr_Image = [], ctr_Command = [], ctr_Args = [],
     ctr_Ports = [], ctr_Env = [], ctr_VolumeMounts = [], ctr_LivenessProbe = None,
     ctr_ReadinessProbe = None, ctr_ImagePullPolicy = [], ctr_SecurityContext = None\<rparr>"

abbreviation (input) PullAlways :: string where "PullAlways \<equiv> ''Always''"
abbreviation (input) PullNever :: string where "PullNever \<equiv> ''Never''"
abbreviation (input) PullIfNotPresent :: string where "PullIfNotPresent \<equiv> ''IfNotPresent''"

record PodSpec =
  pod_Volumes :: "Volume list"
  pod_InitContainers :: "Container list"
  pod_Containers :: "Container list"
  pod_RestartPolicy :: string
  pod_DNSPolicy :: string
  pod_NodeSelector :: labels
  pod_ServiceAccountName :: string
  pod_HostNetwork :: bool
  pod_HostPID :: bool
  pod_Affinity :: "Affinity option"
  pod_Tolerations :: "Toleration list"

definition zero_PodSpec :: PodSpec where
  "zero_PodSpec = \<lparr>pod_Volumes = [], pod_InitContainers = [], pod_Containers = [],
     pod_RestartPolicy = [], pod_DNSPolicy = [], pod_NodeSelector = Map.empty,
     pod_ServiceAccountName = [], pod_HostNetwork = False, pod_HostPID = False,
     pod_Affinity = None, pod_Tolerations = []\<rparr>"

abbreviation (input) DNSClusterFirstWithHostNet :: string where
  "DNSClusterFirstWithHostNet \<equiv> ''ClusterFirstWithHostNet''"
abbreviation (input) RestartPolicyAlways :: string where "RestartPolicyAlways \<equiv> ''Always''"
abbreviation (input) RestartPolicyNever :: string where "RestartPolicyNever \<equiv> ''Never''"

record PodTemplateSpec =
  pts_ObjectMeta :: ObjectMeta
  pts_Spec :: PodSpec

definition zero_PodTemplateSpec :: PodTemplateSpec where
  "zero_PodTemplateSpec = \<lparr>pts_ObjectMeta = zero_ObjectMeta, pts_Spec = zero_PodSpec\<rparr>"

text \<open>A label selector with its \<^verbatim>\<open>MatchLabels\<close>; the operator writes no match expressions.\<close>

record LabelSelector =
  ls_MatchLabels :: labels

section \<open>Workloads\<close>

record DeploymentSpec =
  dps_Replicas :: "int option"
  dps_Selector :: "LabelSelector option"
  dps_Template :: PodTemplateSpec
  dps_StrategyType :: string
  dps_MinReadySeconds :: int
  dps_RevisionHistoryLimit :: "int option"
  dps_Paused :: bool
  dps_ProgressDeadlineSeconds :: "int option"

definition zero_DeploymentSpec :: DeploymentSpec where
  "zero_DeploymentSpec = \<lparr>dps_Replicas = None, dps_Selector = None,
     dps_Template = zero_PodTemplateSpec, dps_StrategyType = [], dps_MinReadySeconds = 0,
     dps_RevisionHistoryLimit = None, dps_Paused = False, dps_ProgressDeadlineSeconds = None\<rparr>"

record DeploymentStatus =
  dst_Replicas :: int
  dst_UpdatedReplicas :: int
  dst_ReadyReplicas :: int
  dst_AvailableReplicas :: int
  dst_UnavailableReplicas :: int

definition zero_DeploymentStatus :: DeploymentStatus where
  "zero_DeploymentStatus = \<lparr>dst_Replicas = 0, dst_UpdatedReplicas = 0, dst_ReadyReplicas = 0,
     dst_AvailableReplicas = 0, dst_UnavailableReplicas = 0\<rparr>"

record Deployment =
  dep_ObjectMeta :: ObjectMeta
  dep_Spec :: DeploymentSpec
  dep_Status :: DeploymentStatus

definition zero_Deployment :: Deployment where
  "zero_Deployment = \<lparr>dep_ObjectMeta = zero_ObjectMeta, dep_Spec = zero_DeploymentSpec,
     dep_Status = zero_DeploymentStatus\<rparr>"

record DaemonSetSpec =
  dss_Selector :: "LabelSelector option"
  dss_Template :: PodTemplateSpec
  dss_UpdateStrategyType :: string
  dss_MinReadySeconds :: int
  dss_RevisionHistoryLimit :: "int option"

definition zero_DaemonSetSpec :: DaemonSetSpec where
  "zero_DaemonSetSpec = \<lparr>dss_Selector = None, dss_Template = zero_PodTemplateSpec,
     dss_UpdateStrategyType = [], dss_MinReadySeconds = 0, dss_RevisionHistoryLimit = None\<rparr>"

record DaemonSetStatus =
  dsst_CurrentNumberScheduled :: int
  dsst_NumberMisscheduled :: int
  dsst_DesiredNumberScheduled :: int
  dsst_NumberReady :: int
  dsst_UpdatedNumberScheduled :: int
  dsst_NumberAvailable :: int
  dsst_NumberUnavailable :: int

definition zero_DaemonSetStatus :: DaemonSetStatus where
  "zero_DaemonSetStatus = \<lparr>dsst_CurrentNumberScheduled = 0, dsst_NumberMisscheduled = 0,
     dsst_DesiredNumberScheduled = 0, dsst_NumberReady = 0, dsst_UpdatedNumberScheduled = 0,
     dsst_NumberAvailable = 0, dsst_NumberUnavailable = 0\<rparr>"

record DaemonSet =
  ds_ObjectMeta :: ObjectMeta
  ds_Spec :: DaemonSetSpec
  ds_Status :: DaemonSetStatus

definition zero_DaemonSet :: DaemonSet where
  "zero_DaemonSet = \<lparr>ds_ObjectMeta = zero_ObjectMeta, ds_Spec = zero_DaemonSetSpec,
     ds_Status = zero_DaemonSetStatus\<rparr>"

record ConfigMap =
  cm_ObjectMeta :: ObjectMeta
  cm_Immutable :: "bool option"
  cm_Data :: "string \<rightharpoonup> string"
  cm_BinaryData :: "string \<rightharpoonup> string"

definition zero_ConfigMap :: ConfigMap where
  "zero_ConfigMap = \<lparr>cm_ObjectMeta = zero_ObjectMeta, cm_Immutable = None,
     cm_Data = Map.empty, cm_BinaryData = Map.empty\<rparr>"

record JobSpec =
  jsp_Parallelism :: "int option"
  jsp_Completions :: "int option"
  jsp_ActiveDeadlineSeconds :: "int option"
  jsp_BackoffLimit :: "int option"
  jsp_Template :: PodTemplateSpec
  jsp_TTLSecondsAfterFinished :: "int option"

definition zero_JobSpec :: JobSpec where
  "zero_JobSpec = \<lparr>jsp_Parallelism = None, jsp_Completions = None,
     jsp_ActiveDeadlineSeconds = None, jsp_BackoffLimit = None,
     jsp_Template = zero_PodTemplateSpec, jsp_TTLSecondsAfterFinished = None\<rparr>"

record JobStatus =
  jst_Active :: int
  jst_Succeeded :: int
  jst_Failed :: int

definition zero_JobStatus :: JobStatus where
  "zero_JobStatus = \<lparr>jst_Active = 0, jst_Succeeded = 0, jst_Failed = 0\<rparr>"

record Job =
  job_ObjectMeta :: ObjectMeta
  job_Spec :: JobSpec
  job_Status :: JobStatus

definition zero_Job :: Job where
  "zero_Job = \<lparr>job_ObjectMeta = zero_ObjectMeta, job_Spec = zero_JobSpec,
     job_Status = zero_JobStatus\<rparr>"

text \<open>
  Unfolding a literal built on a zero value; the proofs that look into the built objects
  use this bundle.
\<close>

lemmas zero_defs =
  zero_ObjectMeta_def zero_Condition_def zero_Toleration_def zero_ObjectFieldSelector_def
  zero_EnvVarSource_def zero_EnvVar_def zero_Capabilities_def zero_SELinuxOptions_def
  zero_SeccompProfile_def zero_SecurityContext_def zero_Probe_def zero_ContainerPort_def
  zero_VolumeMount_def zero_Volume_def zero_HostPathVolumeSource_def
  zero_ConfigMapVolumeSource_def zero_NodeSelectorRequirement_def zero_NodeSelectorTerm_def
  zero_NodeAffinity_def zero_Container_def zero_PodSpec_def zero_PodTemplateSpec_def
  zero_DeploymentSpec_def zero_DeploymentStatus_def zero_Deployment_def zero_DaemonSetSpec_def
  zero_DaemonSetStatus_def zero_DaemonSet_def zero_ConfigMap_def zero_JobSpec_def
  zero_JobStatus_def zero_Job_def

lemma fieldEnv_Name [object_simps]: "env_Name (fieldEnv n p) = n"
  by (simp add: fieldEnv_def)

section \<open>Well-formed pod templates\<close>

text \<open>
  The API server accepts a workload only when its selector matches the labels of its own pod
  template, and a pod only when the volumes it mounts are declared, under distinct names, and the
  ports its probes name are ports of the container.
\<close>

definition selects :: "LabelSelector option \<Rightarrow> labels \<Rightarrow> bool" where
  "selects sel ls \<longleftrightarrow>
     (case sel of None \<Rightarrow> False | Some s \<Rightarrow> ls_MatchLabels s \<subseteq>\<^sub>m ls)"

definition mounts_declared :: "PodSpec \<Rightarrow> bool" where
  "mounts_declared p \<longleftrightarrow>
     (\<forall>c \<in> set (pod_Containers p). \<forall>m \<in> set (ctr_VolumeMounts c).
        vm_Name m \<in> vol_Name ` set (pod_Volumes p))"

definition distinct_volumes :: "PodSpec \<Rightarrow> bool" where
  "distinct_volumes p \<longleftrightarrow>
     distinct (map vol_Name (pod_Volumes p)) \<and>
     (\<forall>c \<in> set (pod_Containers p). distinct (map vm_MountPath (ctr_VolumeMounts c)))"

definition probe_port_declared :: "Container \<Rightarrow> Probe option \<Rightarrow> bool" where
  "probe_port_declared c p \<longleftrightarrow>
     (case p of None \<Rightarrow> True
      | Some pr \<Rightarrow>
          (case prb_HTTPGet pr of None \<Rightarrow> False
           | Some h \<Rightarrow>
               (case hga_Port h of FromInt n \<Rightarrow> 0 < n \<and> n < 65536
                | FromString s \<Rightarrow> s \<in> cp_Name ` set (ctr_Ports c))))"

definition volume_source_given :: "Volume \<Rightarrow> bool" where
  "volume_source_given v \<longleftrightarrow> (vol_HostPath v = None) \<noteq> (vol_ConfigMap v = None)"

definition pod_wellformed :: "PodSpec \<Rightarrow> bool" where
  "pod_wellformed p \<longleftrightarrow>
     pod_Containers p \<noteq> [] \<and> mounts_declared p \<and> distinct_volumes p \<and>
     (\<forall>v \<in> set (pod_Volumes p). volume_source_given v) \<and>
     (\<forall>c \<in> set (pod_Containers p).
        probe_port_declared c (ctr_LivenessProbe c) \<and>
        probe_port_declared c (ctr_ReadinessProbe c) \<and> ctr_Name c \<noteq> [])"

lemmas wellformed_defs =
  selects_def mounts_declared_def distinct_volumes_def probe_port_declared_def
  volume_source_given_def pod_wellformed_def

text \<open>
  The restricted pod security standard, as far as the operator's containers are concerned: not root,
  no privilege escalation, no capabilities and no writable root file system.
\<close>

definition restricted :: "Container \<Rightarrow> bool" where
  "restricted c \<longleftrightarrow>
     (case ctr_SecurityContext c of None \<Rightarrow> False
      | Some sc \<Rightarrow>
          sc_RunAsNonRoot sc = Some True \<and> sc_RunAsUser sc \<noteq> Some 0 \<and>
          sc_AllowPrivilegeEscalation sc = Some False \<and>
          sc_ReadOnlyRootFilesystem sc = Some True \<and> sc_Privileged sc \<noteq> Some True \<and>
          (case sc_Capabilities sc of None \<Rightarrow> False
           | Some cap \<Rightarrow> cap_Add cap = [] \<and> ''ALL'' \<in> set (cap_Drop cap)))"

end
