(* ===== verification/Api_V1.thy ===== *)
theory Api_V1
  imports Kube_Types
begin

text \<open>
  The custom resource of \<^verbatim>\<open>api/v1/nodefeaturediscovery_types.go\<close>: the structs
  \<^verbatim>\<open>NodeFeatureDiscoverySpec\<close>, \<^verbatim>\<open>OperandSpec\<close>, \<^verbatim>\<open>ConfigMap\<close> (here \<open>WorkerConfigMap\<close>, so as not to clash
  with the core type of that name), \<^verbatim>\<open>NodeFeatureDiscoveryStatus\<close> and \<^verbatim>\<open>NodeFeatureDiscovery\<close>, with
  the methods \<^verbatim>\<open>ImagePath\<close>, \<^verbatim>\<open>ImagePolicy\<close> and \<^verbatim>\<open>Data\<close>. The record of the custom resource leaves out the
  embedded \<^verbatim>\<open>TypeMeta\<close>, which the operator does not read; the structs of \<open>Api_Deep_Copy\<close> have it.
\<close>

record OperandSpec =
  opr_Image :: string
  opr_ImagePullPolicy :: string
  opr_ServicePort :: int
  opr_WorkerTolerations :: "Toleration list"
  opr_MasterTolerations :: "Toleration list"
  opr_WorkerEnvs :: "EnvVar list"
  opr_MasterEnvs :: "EnvVar list"

record WorkerConfigMap =
  wcm_ConfigData :: string

record NodeFeatureDiscoverySpec =
  spc_Operand :: OperandSpec
  spc_TopologyUpdater :: bool
  spc_Instance :: string
  spc_ExtraLabelNs :: "string list"
  spc_ResourceLabels :: "string list"
  spc_LabelWhiteList :: string
  spc_WorkerConfig :: WorkerConfigMap
  spc_PruneOnDelete :: bool
  spc_EnableTaints :: bool

record NodeFeatureDiscoveryStatus =
  sts_Conditions :: "Condition list"

record NodeFeatureDiscovery =
  nfd_ObjectMeta :: ObjectMeta
  nfd_Spec :: NodeFeatureDiscoverySpec
  nfd_Status :: NodeFeatureDiscoveryStatus

definition zero_OperandSpec :: OperandSpec where
  "zero_OperandSpec = \<lparr>opr_Image = [], opr_ImagePullPolicy = [], opr_ServicePort = 0,
     opr_WorkerTolerations = [], opr_MasterTolerations = [], opr_WorkerEnvs = [],
     opr_MasterEnvs = []\<rparr>"

definition zero_NFDSpec :: NodeFeatureDiscoverySpec where
  "zero_NFDSpec = \<lparr>spc_Operand = zero_OperandSpec, spc_TopologyUpdater = False,
     spc_Instance = [], spc_ExtraLabelNs = [], spc_ResourceLabels = [], spc_LabelWhiteList = [],
     spc_WorkerConfig = \<lparr>wcm_ConfigData = []\<rparr>, spc_PruneOnDelete = False,
     spc_EnableTaints = False\<rparr>"

definition zero_NFD :: NodeFeatureDiscovery where
  "zero_NFD = \<lparr>nfd_ObjectMeta = zero_ObjectMeta, nfd_Spec = zero_NFDSpec,
     nfd_Status = \<lparr>sts_Conditions = []\<rparr>\<rparr>"

lemmas zero_nfd_defs = zero_OperandSpec_def zero_NFDSpec_def zero_NFD_def

text \<open>Field paths the operator reads all over, as the Go code spells them.\<close>

abbreviation nfd_Namespace :: "NodeFeatureDiscovery \<Rightarrow> string" where
  "nfd_Namespace cr \<equiv> om_Namespace (nfd_ObjectMeta cr)"

abbreviation nfd_Name :: "NodeFeatureDiscovery \<Rightarrow> string" where
  "nfd_Name cr \<equiv> om_Name (nfd_ObjectMeta cr)"

abbreviation nfd_Operand :: "NodeFeatureDiscovery \<Rightarrow> OperandSpec" where
  "nfd_Operand cr \<equiv> spc_Operand (nfd_Spec cr)"

definition ImagePath :: "OperandSpec \<Rightarrow> string" where
  "ImagePath opr = opr_Image opr"

definition ImagePolicy :: "OperandSpec \<Rightarrow> string \<Rightarrow> string" where
  "ImagePolicy opr pullPolicy =
     (if pullPolicy = PullAlways then PullAlways
      else if pullPolicy = PullNever then PullNever
      else PullIfNotPresent)"

definition Data :: "WorkerConfigMap \<Rightarrow> string" where
  "Data c = wcm_ConfigData c"

text \<open>\<^verbatim>\<open>ImagePolicy\<close> normalises any string to one of the three policies of the API.\<close>

lemma ImagePolicy_range:
  "ImagePolicy opr p \<in> {PullAlways, PullNever, PullIfNotPresent}"
  by (simp add: ImagePolicy_def)

lemma ImagePolicy_idem: "ImagePolicy opr (ImagePolicy opr p) = ImagePolicy opr p"
  by (simp add: ImagePolicy_def)

end
