(* ===== verification/Cluster_Api.thy ===== *)
theory Cluster_Api
  imports Api_V1
begin

text \<open>
  The code outside the repository the operator calls, as parameters of the model.

  \<open>client\<close> holds the methods of controller-runtime's \<^verbatim>\<open>client.Client\<close> that are used, one field per kind
  of object (the Go interface takes any object; the pointer passed in keeps its type).
  \<open>machinery\<close> holds the library functions: \<^verbatim>\<open>controllerutil\<close>, \<^verbatim>\<open>k8serrors\<close>, \<^verbatim>\<open>meta\<close>, \<^verbatim>\<open>metav1\<close> and the
  clock. Nothing is known of them but the laws of the locales \<open>machinery_laws\<close>, \<open>api_server\<close>,
  \<open>calm_server\<close>, \<open>settled_server\<close> and \<open>contested_server\<close>, which state their documented behaviour; the
  theory \<open>Memory_Cluster\<close> interprets all five. Which objects the server takes, \<open>admits\<close> what it makes of
  them and \<open>accepts\<close> whether it takes them at all, are parameters of the laws.

  A method writes through the pointers it is given, so it returns the object afterwards.
  The context argument carries the logger and cancellation only and is left out.
\<close>

type_synonym object_key = "string \<times> string"

record ('w, 'e) client =
  Get_Deployment :: "object_key \<Rightarrow> Deployment \<Rightarrow> 'w \<Rightarrow> 'e err \<times> Deployment \<times> 'w"
  Get_DaemonSet :: "object_key \<Rightarrow> DaemonSet \<Rightarrow> 'w \<Rightarrow> 'e err \<times> DaemonSet \<times> 'w"
  Get_Job :: "object_key \<Rightarrow> Job \<Rightarrow> 'w \<Rightarrow> 'e err \<times> Job \<times> 'w"
  Delete_Deployment :: "Deployment \<Rightarrow> 'w \<Rightarrow> 'e err \<times> 'w"
  Delete_DaemonSet :: "DaemonSet \<Rightarrow> 'w \<Rightarrow> 'e err \<times> 'w"
  Delete_ConfigMap :: "ConfigMap \<Rightarrow> 'w \<Rightarrow> 'e err \<times> 'w"
  Create_Job :: "Job \<Rightarrow> 'w \<Rightarrow> 'e err \<times> 'w"
  Update_NFD :: "NodeFeatureDiscovery \<Rightarrow> 'w \<Rightarrow> 'e err \<times> NodeFeatureDiscovery \<times> 'w"
  StatusPatch_NFD :: "NodeFeatureDiscovery \<Rightarrow> NodeFeatureDiscovery \<Rightarrow> 'w \<Rightarrow>
      'e err \<times> NodeFeatureDiscovery \<times> 'w"
    \<comment> \<open>\<^verbatim>\<open>Status().Patch(ctx, obj, client.MergeFrom(base))\<close>, the base second\<close>

record ('w, 'e, 's) machinery =
  CreateOrPatch_Deployment :: "('w, 'e) client \<Rightarrow> Deployment \<Rightarrow>
      (Deployment \<Rightarrow> 'e err \<times> Deployment) \<Rightarrow> 'w \<Rightarrow> string \<times> 'e err \<times> 'w"
  CreateOrPatch_DaemonSet :: "('w, 'e) client \<Rightarrow> DaemonSet \<Rightarrow>
      (DaemonSet \<Rightarrow> 'e err \<times> DaemonSet) \<Rightarrow> 'w \<Rightarrow> string \<times> 'e err \<times> 'w"
  CreateOrPatch_ConfigMap :: "('w, 'e) client \<Rightarrow> ConfigMap \<Rightarrow>
      (ConfigMap \<Rightarrow> 'e err \<times> ConfigMap) \<Rightarrow> 'w \<Rightarrow> string \<times> 'e err \<times> 'w"
  SetControllerReference :: "NodeFeatureDiscovery \<Rightarrow> ObjectMeta \<Rightarrow> 's \<Rightarrow> 'e err \<times> ObjectMeta"
    \<comment> \<open>owner, controlled object, scheme; only the metadata can be reached through \<^verbatim>\<open>metav1.Object\<close>\<close>
  ContainsFinalizer :: "ObjectMeta \<Rightarrow> string \<Rightarrow> bool"
  RemoveFinalizer :: "ObjectMeta \<Rightarrow> string \<Rightarrow> bool \<times> ObjectMeta"
  IsNotFound :: "'e goerror \<Rightarrow> bool"
  IgnoreNotFound :: "'e err \<Rightarrow> 'e err"
  FindStatusCondition :: "Condition list \<Rightarrow> string \<Rightarrow> Condition option"
  GetControllerOf :: "ObjectMeta \<Rightarrow> OwnerReference option"
  external_text :: "'e \<Rightarrow> string"
  time_Now :: "'w \<Rightarrow> time \<times> 'w"

section \<open>Objects of the cluster\<close>

datatype kind = KDeployment | KDaemonSet | KConfigMap | KJob | KNFD

datatype kobject =
    ODeployment Deployment
  | ODaemonSet DaemonSet
  | OConfigMap ConfigMap
  | OJob Job
  | ONFD NodeFeatureDiscovery

type_synonym cluster_key = "kind \<times> string \<times> string"

fun obj_kind :: "kobject \<Rightarrow> kind" where
  "obj_kind (ODeployment _) = KDeployment"
| "obj_kind (ODaemonSet _) = KDaemonSet"
| "obj_kind (OConfigMap _) = KConfigMap"
| "obj_kind (OJob _) = KJob"
| "obj_kind (ONFD _) = KNFD"

fun obj_meta :: "kobject \<Rightarrow> ObjectMeta" where
  "obj_meta (ODeployment d) = dep_ObjectMeta d"
| "obj_meta (ODaemonSet d) = ds_ObjectMeta d"
| "obj_meta (OConfigMap c) = cm_ObjectMeta c"
| "obj_meta (OJob j) = job_ObjectMeta j"
| "obj_meta (ONFD n) = nfd_ObjectMeta n"

definition obj_key :: "kobject \<Rightarrow> cluster_key" where
  "obj_key x = (obj_kind x, om_Namespace (obj_meta x), om_Name (obj_meta x))"

lemma obj_key_simps [simp]:
  "obj_key (ODeployment d) = (KDeployment, om_Namespace (dep_ObjectMeta d), om_Name (dep_ObjectMeta d))"
  "obj_key (ODaemonSet s) = (KDaemonSet, om_Namespace (ds_ObjectMeta s), om_Name (ds_ObjectMeta s))"
  "obj_key (OConfigMap c) = (KConfigMap, om_Namespace (cm_ObjectMeta c), om_Name (cm_ObjectMeta c))"
  "obj_key (OJob j) = (KJob, om_Namespace (job_ObjectMeta j), om_Name (job_ObjectMeta j))"
  "obj_key (ONFD n) = (KNFD, om_Namespace (nfd_ObjectMeta n), om_Name (nfd_ObjectMeta n))"
  by (simp_all add: obj_key_def)

text \<open>The key of the custom resource itself.\<close>

definition cr_key :: "NodeFeatureDiscovery \<Rightarrow> cluster_key" where
  "cr_key cr = (KNFD, nfd_Namespace cr, nfd_Name cr)"

text \<open>
  An object is gone when it is no longer stored or is being deleted: the API server keeps an object
  that has finalizers of its own, marked with a deletion timestamp, until they are removed.
\<close>

definition gone :: "kobject option \<Rightarrow> bool" where
  "gone x \<longleftrightarrow> (case x of None \<Rightarrow> True | Some y \<Rightarrow> om_DeletionTimestamp (obj_meta y) \<noteq> None)"

definition terminating :: "kobject option \<Rightarrow> bool" where
  "terminating x \<longleftrightarrow> x \<noteq> None \<and> gone x"

text \<open>The kind name of the custom resource, which the operator computes by reflection.\<close>

definition nfd_kind :: string where
  "nfd_kind = ''NodeFeatureDiscovery''"

definition controlled_by :: "NodeFeatureDiscovery \<Rightarrow> OwnerReference \<Rightarrow> bool" where
  "controlled_by cr r \<longleftrightarrow>
     or_Kind r = nfd_kind \<and> or_Name r = nfd_Name cr \<and> or_UID r = om_UID (nfd_ObjectMeta cr)"

text \<open>
  The stored object \<open>x\<close> is what the server made of an object the operator submitted for the custom
  resource \<open>cr\<close>: of the given name, in the namespace of \<open>cr\<close>, with payload \<open>p\<close>, controlled by \<open>cr\<close>.
\<close>

definition stored_as ::
  "('w, 'e, 's) machinery \<Rightarrow> (kobject \<Rightarrow> kobject \<Rightarrow> bool) \<Rightarrow> ('o \<Rightarrow> kobject) \<Rightarrow> ('o \<Rightarrow> ObjectMeta) \<Rightarrow>
     ('o \<Rightarrow> 'p) \<Rightarrow> 'p \<Rightarrow> NodeFeatureDiscovery \<Rightarrow> string \<Rightarrow> kobject option \<Rightarrow> bool" where
  "stored_as lib admits mk meta payload p cr name x \<longleftrightarrow>
     (\<exists>ob y. x = Some y \<and> admits (mk ob) y \<and> payload ob = p \<and>
        om_Name (meta ob) = name \<and> om_Namespace (meta ob) = nfd_Namespace cr \<and>
        (\<exists>r. GetControllerOf lib (meta ob) = Some r \<and> controlled_by cr r))"

text \<open>
  What is stored after an update of the custom resource to \<open>n\<close>: nothing when the last finalizer came off
  an object that is being deleted, and otherwise \<open>n\<close> but for what the server fills in.
\<close>

definition updated_cr :: "NodeFeatureDiscovery \<Rightarrow> kobject option \<Rightarrow> bool" where
  "updated_cr n x \<longleftrightarrow>
     (if om_DeletionTimestamp (nfd_ObjectMeta n) \<noteq> None \<and> om_Finalizers (nfd_ObjectMeta n) = []
      then x = None
      else \<exists>n'. x = Some (ONFD n') \<and> nfd_Spec n' = nfd_Spec n \<and>
             om_UID (nfd_ObjectMeta n') = om_UID (nfd_ObjectMeta n) \<and>
             om_DeletionTimestamp (nfd_ObjectMeta n') = om_DeletionTimestamp (nfd_ObjectMeta n) \<and>
             om_Finalizers (nfd_ObjectMeta n') = om_Finalizers (nfd_ObjectMeta n))"

section \<open>Documented behaviour of the libraries\<close>

locale machinery_laws =
  fixes lib :: "('w, 'e, 's) machinery"
  assumes IsNotFound_Errorf: "\<not> IsNotFound lib (Errorf m)"
    and IsNotFound_Wrapf: "IsNotFound lib (Wrapf m e) = IsNotFound lib e"
    and IgnoreNotFound_None: "IgnoreNotFound lib None = None"
    and IgnoreNotFound_Some:
      "IgnoreNotFound lib (Some e) = (if IsNotFound lib e then None else Some e)"
    and ContainsFinalizer_iff: "ContainsFinalizer lib om f \<longleftrightarrow> f \<in> set (om_Finalizers om)"
    and RemoveFinalizer_eq:
      "RemoveFinalizer lib om f =
         (f \<in> set (om_Finalizers om), om\<lparr>om_Finalizers := removeAll f (om_Finalizers om)\<rparr>)"
    and SetControllerReference_ok:
      "SetControllerReference lib owner om s = (None, om') \<Longrightarrow>
         (\<exists>refs r. om' = om\<lparr>om_OwnerReferences := refs\<rparr> \<and>
            GetControllerOf lib om' = Some r \<and> controlled_by owner r)"
    and GetControllerOf_refs:
      "om_OwnerReferences om = om_OwnerReferences om' \<Longrightarrow>
         GetControllerOf lib om = GetControllerOf lib om'"
    and FindStatusCondition_None:
      "FindStatusCondition lib cs t = None \<longleftrightarrow> (\<forall>c \<in> set cs. cond_Type c \<noteq> t)"
    and FindStatusCondition_Some:
      "FindStatusCondition lib cs t = Some c \<Longrightarrow> c \<in> set cs \<and> cond_Type c = t"
begin

lemma FindStatusCondition_distinct:
  assumes "distinct (map cond_Type cs)" and "c \<in> set cs"
  shows "FindStatusCondition lib cs (cond_Type c) = Some c"
proof (cases "FindStatusCondition lib cs (cond_Type c)")
  case None
  with assms show ?thesis by (auto simp: FindStatusCondition_None)
next
  case (Some c')
  then have "c' \<in> set cs" "cond_Type c' = cond_Type c"
    by (auto dest: FindStatusCondition_Some)
  with assms have "c' = c" by (auto simp: distinct_map dest: inj_onD)
  with Some show ?thesis by simp
qed

text \<open>
  The test the delete operations make: an error is reported unless it says that the object was
  not there.
\<close>

lemma ignored_iff:
  "(e \<noteq> None \<and> IgnoreNotFound lib e \<noteq> None) \<longleftrightarrow> (\<exists>x. e = Some x \<and> \<not> IsNotFound lib x)"
  by (cases e) (auto simp: IgnoreNotFound_None IgnoreNotFound_Some)

end

text \<open>
  The API server as one operator process sees it during a pass, when no one else writes to the
  cluster and the client's cache is in sync. \<open>view w\<close> is the stored state of the world \<open>w\<close> and
  \<open>admits x y\<close> says that \<open>y\<close> is what the server stores when \<open>x\<close> is submitted: it may fill in defaults
  of the specification, the UID and the resource version.
\<close>

locale api_server = machinery_laws lib
  for lib :: "('w, 'e, 's) machinery" +
  fixes cl :: "('w, 'e) client"
    and view :: "'w \<Rightarrow> cluster_key \<Rightarrow> kobject option"
    and admits :: "kobject \<Rightarrow> kobject \<Rightarrow> bool"
  assumes view_key: "view w k = Some x \<Longrightarrow> obj_key x = k"
    and admits_key: "admits x y \<Longrightarrow> obj_key y = obj_key x"
    and admits_meta: "admits x y \<Longrightarrow>
      (\<exists>u v. obj_meta y = (obj_meta x)\<lparr>om_UID := u, om_ResourceVersion := v\<rparr>)"
    and admits_data: "admits (OConfigMap c) (OConfigMap c') \<Longrightarrow> cm_Data c' = cm_Data c"
    and admits_cr: "admits (ONFD n) (ONFD n') \<Longrightarrow>
      nfd_Spec n' = nfd_Spec n \<and> nfd_Status n' = nfd_Status n"
    and time_Now_view: "time_Now lib w = (t, w') \<Longrightarrow> view w' = view w"
    and Get_Deployment_view: "Get_Deployment cl ky d w = (r, d', w') \<Longrightarrow> view w' = view w"
    and Get_Deployment_ok:
      "Get_Deployment cl (ns, nm) d w = (None, d', w') \<Longrightarrow>
         view w (KDeployment, ns, nm) = Some (ODeployment d')"
    and Get_Deployment_absent:
      "Get_Deployment cl (ns, nm) d w = (Some e, d', w') \<Longrightarrow> IsNotFound lib e \<Longrightarrow>
         view w (KDeployment, ns, nm) = None"
    and Get_DaemonSet_view: "Get_DaemonSet cl ky s w = (r, s', w') \<Longrightarrow> view w' = view w"
    and Get_DaemonSet_ok:
      "Get_DaemonSet cl (ns, nm) s w = (None, s', w') \<Longrightarrow>
         view w (KDaemonSet, ns, nm) = Some (ODaemonSet s')"
    and Get_DaemonSet_absent:
      "Get_DaemonSet cl (ns, nm) s w = (Some e, s', w') \<Longrightarrow> IsNotFound lib e \<Longrightarrow>
         view w (KDaemonSet, ns, nm) = None"
    and Get_Job_view: "Get_Job cl ky j w = (r, j', w') \<Longrightarrow> view w' = view w"
    and Get_Job_ok:
      "Get_Job cl (ns, nm) j w = (None, j', w') \<Longrightarrow> view w (KJob, ns, nm) = Some (OJob j')"
    and Get_Job_absent:
      "Get_Job cl (ns, nm) j w = (Some e, j', w') \<Longrightarrow> IsNotFound lib e \<Longrightarrow>
         view w (KJob, ns, nm) = None"
    and Delete_Deployment_ok:
      "Delete_Deployment cl d w = (None, w') \<Longrightarrow> gone (view w' (obj_key (ODeployment d)))"
    and Delete_Deployment_absent:
      "Delete_Deployment cl d w = (Some e, w') \<Longrightarrow> IsNotFound lib e \<Longrightarrow>
         view w' (obj_key (ODeployment d)) = None"
    and Delete_Deployment_frame:
      "Delete_Deployment cl d w = (r, w') \<Longrightarrow> k \<noteq> obj_key (ODeployment d) \<Longrightarrow> view w' k = view w k"
    and Delete_Deployment_stays_gone:
      "Delete_Deployment cl d w = (r, w') \<Longrightarrow> gone (view w (obj_key (ODeployment d))) \<Longrightarrow>
         gone (view w' (obj_key (ODeployment d)))"
    and Delete_DaemonSet_ok:
      "Delete_DaemonSet cl s w = (None, w') \<Longrightarrow> gone (view w' (obj_key (ODaemonSet s)))"
    and Delete_DaemonSet_absent:
      "Delete_DaemonSet cl s w = (Some e, w') \<Longrightarrow> IsNotFound lib e \<Longrightarrow>
         view w' (obj_key (ODaemonSet s)) = None"
    and Delete_DaemonSet_frame:
      "Delete_DaemonSet cl s w = (r, w') \<Longrightarrow> k \<noteq> obj_key (ODaemonSet s) \<Longrightarrow> view w' k = view w k"
    and Delete_DaemonSet_stays_gone:
      "Delete_DaemonSet cl s w = (r, w') \<Longrightarrow> gone (view w (obj_key (ODaemonSet s))) \<Longrightarrow>
         gone (view w' (obj_key (ODaemonSet s)))"
    and Delete_ConfigMap_ok:
      "Delete_ConfigMap cl c w = (None, w') \<Longrightarrow> gone (view w' (obj_key (OConfigMap c)))"
    and Delete_ConfigMap_absent:
      "Delete_ConfigMap cl c w = (Some e, w') \<Longrightarrow> IsNotFound lib e \<Longrightarrow>
         view w' (obj_key (OConfigMap c)) = None"
    and Delete_ConfigMap_frame:
      "Delete_ConfigMap cl c w = (r, w') \<Longrightarrow> k \<noteq> obj_key (OConfigMap c) \<Longrightarrow> view w' k = view w k"
    and Delete_ConfigMap_stays_gone:
      "Delete_ConfigMap cl c w = (r, w') \<Longrightarrow> gone (view w (obj_key (OConfigMap c))) \<Longrightarrow>
         gone (view w' (obj_key (OConfigMap c)))"
    and Create_Job_ok:
      "Create_Job cl j w = (None, w') \<Longrightarrow>
         (\<exists>y. admits (OJob j) y \<and> view w' = (view w)(obj_key (OJob j) \<mapsto> y))"
    and Create_Job_frame:
      "Create_Job cl j w = (r, w') \<Longrightarrow> k \<noteq> obj_key (OJob j) \<Longrightarrow> view w' k = view w k"
    and Update_NFD_stored:
      "Update_NFD cl n w = (None, n', w') \<Longrightarrow> updated_cr n (view w' (obj_key (ONFD n)))"
    and Update_NFD_failed:
      "Update_NFD cl n w = (Some e, n', w') \<Longrightarrow>
         view w' (obj_key (ONFD n)) = view w (obj_key (ONFD n)) \<or>
         updated_cr n (view w' (obj_key (ONFD n)))"
    and Update_NFD_frame:
      "Update_NFD cl n w = (r, n', w') \<Longrightarrow> k \<noteq> obj_key (ONFD n) \<Longrightarrow> view w' k = view w k"
    and StatusPatch_NFD_ok:
      "StatusPatch_NFD cl n base w = (None, n', w') \<Longrightarrow>
         sts_Conditions (nfd_Status n) \<noteq> sts_Conditions (nfd_Status base) \<Longrightarrow>
         (\<exists>n0 y. view w (obj_key (ONFD n)) = Some (ONFD n0) \<and>
            admits (ONFD (n0\<lparr>nfd_Status := (nfd_Status n0)\<lparr>sts_Conditions :=
               sts_Conditions (nfd_Status n)\<rparr>\<rparr>)) y \<and>
            view w' (obj_key (ONFD n)) = Some y)"
    and StatusPatch_NFD_status_only:
      "StatusPatch_NFD cl n base w = (r, n', w') \<Longrightarrow> view w (obj_key (ONFD n)) = Some (ONFD n0) \<Longrightarrow>
         (\<exists>m. view w' (obj_key (ONFD n)) = Some (ONFD m) \<and> nfd_Spec m = nfd_Spec n0 \<and>
            om_UID (nfd_ObjectMeta m) = om_UID (nfd_ObjectMeta n0) \<and>
            om_DeletionTimestamp (nfd_ObjectMeta m) = om_DeletionTimestamp (nfd_ObjectMeta n0) \<and>
            om_Finalizers (nfd_ObjectMeta m) = om_Finalizers (nfd_ObjectMeta n0))"
    and StatusPatch_NFD_frame:
      "StatusPatch_NFD cl n base w = (r, n', w') \<Longrightarrow> k \<noteq> obj_key (ONFD n) \<Longrightarrow>
         view w' k = view w k"
    and CreateOrPatch_Deployment_ok:
      "CreateOrPatch_Deployment lib cl d f w = (op, None, w') \<Longrightarrow>
         (\<exists>b d' y. (case view w (obj_key (ODeployment d)) of None \<Rightarrow> b = d
                     | Some x \<Rightarrow> x = ODeployment b) \<and>
            f b = (None, d') \<and> admits (ODeployment d') y \<and>
            view w' (obj_key (ODeployment d)) = Some y)"
    and CreateOrPatch_Deployment_frame:
      "CreateOrPatch_Deployment lib cl d f w = (op, r, w') \<Longrightarrow> k \<noteq> obj_key (ODeployment d) \<Longrightarrow>
         view w' k = view w k"
    and CreateOrPatch_DaemonSet_ok:
      "CreateOrPatch_DaemonSet lib cl s g w = (op, None, w') \<Longrightarrow>
         (\<exists>b s' y. (case view w (obj_key (ODaemonSet s)) of None \<Rightarrow> b = s
                     | Some x \<Rightarrow> x = ODaemonSet b) \<and>
            g b = (None, s') \<and> admits (ODaemonSet s') y \<and>
            view w' (obj_key (ODaemonSet s)) = Some y)"
    and CreateOrPatch_DaemonSet_frame:
      "CreateOrPatch_DaemonSet lib cl s g w = (op, r, w') \<Longrightarrow> k \<noteq> obj_key (ODaemonSet s) \<Longrightarrow>
         view w' k = view w k"
    and CreateOrPatch_ConfigMap_ok:
      "CreateOrPatch_ConfigMap lib cl c h w = (op, None, w') \<Longrightarrow>
         (\<exists>b c' y. (case view w (obj_key (OConfigMap c)) of None \<Rightarrow> b = c
                     | Some x \<Rightarrow> x = OConfigMap b) \<and>
            h b = (None, c') \<and> admits (OConfigMap c') y \<and>
            view w' (obj_key (OConfigMap c)) = Some y)"
    and CreateOrPatch_ConfigMap_frame:
      "CreateOrPatch_ConfigMap lib cl c h w = (op, r, w') \<Longrightarrow> k \<noteq> obj_key (OConfigMap c) \<Longrightarrow>
         view w' k = view w k"

context api_server
begin

lemmas Update_NFD_ok = Update_NFD_stored [unfolded updated_cr_def]

text \<open>A failed request may have taken effect.\<close>

lemma Update_NFD_outcome:
  "Update_NFD cl n w = (r, n', w') \<Longrightarrow>
     view w' (obj_key (ONFD n)) = view w (obj_key (ONFD n)) \<or> updated_cr n (view w' (obj_key (ONFD n)))"
  using Update_NFD_stored Update_NFD_failed by (cases r) blast+

end

text \<open>
  The same server while nothing fails: the cluster is \<open>calm\<close> in a world when every request is
  answered on its merits. A request for an absent object reports that it is not found, an owner
  reference is refused only for an object that another owner controls or in another namespace, and an
  update only when it was made from an outdated object.

  Even a calm server validates what is submitted and keeps some fields immutable: \<open>accepts x y\<close> says
  that it takes \<open>y\<close> in the place of the stored object \<open>x\<close>, or as a new object when \<open>x\<close> is \<open>None\<close>. Nothing is
  known of \<open>accepts\<close>; that a create or a patch succeeds is promised for accepted objects only.
\<close>

definition adoptable :: "('w, 'e, 's) machinery \<Rightarrow> NodeFeatureDiscovery \<Rightarrow> ObjectMeta \<Rightarrow> bool" where
  "adoptable lib cr om \<longleftrightarrow>
     om_Namespace om = nfd_Namespace cr \<and>
     (case GetControllerOf lib om of None \<Rightarrow> True | Some r \<Rightarrow> controlled_by cr r)"

locale calm_server = api_server lib cl view admits
  for lib :: "('w, 'e, 's) machinery" and cl view admits +
  fixes accepts :: "kobject option \<Rightarrow> kobject \<Rightarrow> bool"
    and calm :: "'w \<Rightarrow> bool"
  assumes SetControllerReference_adopts:
      "adoptable lib owner om \<Longrightarrow> fst (SetControllerReference lib owner om s) = None"
    and GetControllerOf_new: "om_OwnerReferences om = [] \<Longrightarrow> GetControllerOf lib om = None"
    and calm_time_Now: "calm w \<Longrightarrow> time_Now lib w = (t, w') \<Longrightarrow> calm w'"
    and calm_Get_Deployment:
      "calm w \<Longrightarrow> Get_Deployment cl ky d w = (r, d', w') \<Longrightarrow>
         calm w' \<and> (\<forall>e. r = Some e \<longrightarrow> IsNotFound lib e)"
    and calm_Get_DaemonSet:
      "calm w \<Longrightarrow> Get_DaemonSet cl ky s' w = (r, s'', w') \<Longrightarrow>
         calm w' \<and> (\<forall>e. r = Some e \<longrightarrow> IsNotFound lib e)"
    and calm_Get_Job:
      "calm w \<Longrightarrow> Get_Job cl ky j w = (r, j', w') \<Longrightarrow>
         calm w' \<and> (\<forall>e. r = Some e \<longrightarrow> IsNotFound lib e)"
    and calm_Delete_Deployment:
      "calm w \<Longrightarrow> Delete_Deployment cl d w = (r, w') \<Longrightarrow>
         calm w' \<and> (\<forall>e. r = Some e \<longrightarrow> IsNotFound lib e)"
    and calm_Delete_DaemonSet:
      "calm w \<Longrightarrow> Delete_DaemonSet cl s' w = (r, w') \<Longrightarrow>
         calm w' \<and> (\<forall>e. r = Some e \<longrightarrow> IsNotFound lib e)"
    and calm_Delete_ConfigMap:
      "calm w \<Longrightarrow> Delete_ConfigMap cl c w = (r, w') \<Longrightarrow>
         calm w' \<and> (\<forall>e. r = Some e \<longrightarrow> IsNotFound lib e)"
    and calm_Create_Job:
      "calm w \<Longrightarrow> Create_Job cl j w = (r, w') \<Longrightarrow>
         calm w' \<and> (view w (obj_key (OJob j)) = None \<longrightarrow> accepts None (OJob j) \<longrightarrow> r = None)"
    and calm_Update_NFD:
      "calm w \<Longrightarrow> Update_NFD cl n w = (r, n', w') \<Longrightarrow>
         calm w' \<and>
         (\<forall>n0. view w (obj_key (ONFD n)) = Some (ONFD n0) \<longrightarrow>
            om_ResourceVersion (nfd_ObjectMeta n) = om_ResourceVersion (nfd_ObjectMeta n0) \<longrightarrow>
            r = None)"
    and calm_StatusPatch_NFD:
      "calm w \<Longrightarrow> StatusPatch_NFD cl n base w = (r, n', w') \<Longrightarrow>
         calm w' \<and> (view w (obj_key (ONFD n)) \<noteq> None \<longrightarrow> r = None)"
    and calm_CreateOrPatch_Deployment:
      "calm w \<Longrightarrow> CreateOrPatch_Deployment lib cl d f w = (op, r, w') \<Longrightarrow>
         calm w' \<and>
         ((\<forall>b. (case view w (obj_key (ODeployment d)) of None \<Rightarrow> b = d
                 | Some x \<Rightarrow> x = ODeployment b) \<longrightarrow>
             fst (f b) = None \<and>
             obj_key (ODeployment (snd (f b))) = obj_key (ODeployment d) \<and>
             accepts (view w (obj_key (ODeployment d))) (ODeployment (snd (f b)))) \<longrightarrow> r = None)"
    and calm_CreateOrPatch_DaemonSet:
      "calm w \<Longrightarrow> CreateOrPatch_DaemonSet lib cl s' g w = (op, r, w') \<Longrightarrow>
         calm w' \<and>
         ((\<forall>b. (case view w (obj_key (ODaemonSet s')) of None \<Rightarrow> b = s'
                 | Some x \<Rightarrow> x = ODaemonSet b) \<longrightarrow>
             fst (g b) = None \<and>
             obj_key (ODaemonSet (snd (g b))) = obj_key (ODaemonSet s') \<and>
             accepts (view w (obj_key (ODaemonSet s'))) (ODaemonSet (snd (g b)))) \<longrightarrow> r = None)"
    and calm_CreateOrPatch_ConfigMap:
      "calm w \<Longrightarrow> CreateOrPatch_ConfigMap lib cl c h w = (op, r, w') \<Longrightarrow>
         calm w' \<and>
         ((\<forall>b. (case view w (obj_key (OConfigMap c)) of None \<Rightarrow> b = c
                 | Some x \<Rightarrow> x = OConfigMap b) \<longrightarrow>
             fst (h b) = None \<and>
             obj_key (OConfigMap (snd (h b))) = obj_key (OConfigMap c) \<and>
             accepts (view w (obj_key (OConfigMap c))) (OConfigMap (snd (h b)))) \<longrightarrow> r = None)"

text \<open>
  The same server as a store that comes to rest: what the client library and the server do when they
  are asked for what is already there. Setting an owner reference again changes nothing, what was
  stored for a content is what would be stored for that content again, and a create-or-patch that asks
  for what is stored leaves the store as it is (the API server does not write an unchanged object).
\<close>

locale settled_server = calm_server lib cl view admits accepts calm
  for lib :: "('w, 'e, 's) machinery" and cl view admits accepts calm +
  assumes SetControllerReference_owner:
      "nfd_Namespace n = nfd_Namespace cr \<Longrightarrow> nfd_Name n = nfd_Name cr \<Longrightarrow>
         om_UID (nfd_ObjectMeta n) = om_UID (nfd_ObjectMeta cr) \<Longrightarrow>
         SetControllerReference lib n = SetControllerReference lib cr"
    and SetControllerReference_again:
      "SetControllerReference lib owner om s = (None, om') \<Longrightarrow>
         om_OwnerReferences om'' = om_OwnerReferences om' \<Longrightarrow> om_Namespace om'' = om_Namespace om' \<Longrightarrow>
         SetControllerReference lib owner om'' s = (None, om'')"
    and admits_again_Deployment:
      "admits (ODeployment d) (ODeployment y) \<Longrightarrow>
         admits (ODeployment (y\<lparr>dep_Spec := dep_Spec d\<rparr>)) (ODeployment y)"
    and admits_again_DaemonSet:
      "admits (ODaemonSet x) (ODaemonSet y') \<Longrightarrow>
         admits (ODaemonSet (y'\<lparr>ds_Spec := ds_Spec x\<rparr>)) (ODaemonSet y')"
    and admits_again_ConfigMap:
      "admits (OConfigMap c) (OConfigMap y'') \<Longrightarrow>
         admits (OConfigMap (y''\<lparr>cm_Data := cm_Data c\<rparr>)) (OConfigMap y'')"
    and CreateOrPatch_Deployment_same:
      "calm w \<Longrightarrow> view w (obj_key (ODeployment d)) = Some (ODeployment b) \<Longrightarrow>
         f b = (None, d') \<Longrightarrow> admits (ODeployment d') (ODeployment b) \<Longrightarrow>
         CreateOrPatch_Deployment lib cl d f w = (op, r, w') \<Longrightarrow> view w' = view w"
    and CreateOrPatch_DaemonSet_same:
      "calm w \<Longrightarrow> view w (obj_key (ODaemonSet x)) = Some (ODaemonSet b') \<Longrightarrow>
         g b' = (None, x') \<Longrightarrow> admits (ODaemonSet x') (ODaemonSet b') \<Longrightarrow>
         CreateOrPatch_DaemonSet lib cl x g w = (op, r, w') \<Longrightarrow> view w' = view w"
    and CreateOrPatch_ConfigMap_same:
      "calm w \<Longrightarrow> view w (obj_key (OConfigMap c)) = Some (OConfigMap b'') \<Longrightarrow>
         h b'' = (None, c') \<Longrightarrow> admits (OConfigMap c') (OConfigMap b'') \<Longrightarrow>
         CreateOrPatch_ConfigMap lib cl c h w = (op, r, w') \<Longrightarrow> view w' = view w"

text \<open>
  The same server where several custom resources share a namespace: an object that another one controls
  is not given a second controller, and a create-or-patch whose mutating function fails on the stored
  object reports an error and writes nothing.
\<close>

locale contested_server = calm_server lib cl view admits accepts calm
  for lib :: "('w, 'e, 's) machinery" and cl view admits accepts calm +
  assumes SetControllerReference_refuses:
      "GetControllerOf lib om = Some other \<Longrightarrow> or_Kind other = nfd_kind \<Longrightarrow>
         or_Name other \<noteq> nfd_Name owner \<Longrightarrow> or_UID other \<noteq> om_UID (nfd_ObjectMeta owner) \<Longrightarrow> fst (SetControllerReference lib owner om s) \<noteq> None"
    and CreateOrPatch_Deployment_refused:
      "view w (obj_key (ODeployment d)) = Some (ODeployment b) \<Longrightarrow> fst (f b) \<noteq> None \<Longrightarrow>
         CreateOrPatch_Deployment lib cl d f w = (op, r, w') \<Longrightarrow> r \<noteq> None \<and> view w' = view w"
    and CreateOrPatch_DaemonSet_refused:
      "view w (obj_key (ODaemonSet x)) = Some (ODaemonSet b') \<Longrightarrow> fst (g b') \<noteq> None \<Longrightarrow>
         CreateOrPatch_DaemonSet lib cl x g w = (op, r, w') \<Longrightarrow> r \<noteq> None \<and> view w' = view w"
    and CreateOrPatch_ConfigMap_refused:
      "view w (obj_key (OConfigMap c)) = Some (OConfigMap b'') \<Longrightarrow> fst (h b'') \<noteq> None \<Longrightarrow>
         CreateOrPatch_ConfigMap lib cl c h w = (op, r, w') \<Longrightarrow> r \<noteq> None \<and> view w' = view w"

end
