(* ===== verification/Component_Contracts.thy ===== *)
theory Component_Contracts
  imports Cluster_Api
begin

text \<open>
  The contracts the packages of the operator promise each other, as locales.
  \<open>desired_state\<close> is what a \<^verbatim>\<open>Set...AsDesired\<close> function promises to the reconciler, \<open>exact_setter\<close> what
  it does besides, so that setting twice is setting once,
  \<open>object_deleter\<close> what the three \<^verbatim>\<open>Delete...\<close> functions promise, and \<open>object_getter\<close> what
  \<^verbatim>\<open>GetDeployment\<close> and \<^verbatim>\<open>GetDaemonSet\<close> promise to the status package. Each is interpreted, in the
  theory of the package that provides the operation, on the model of that operation.
\<close>

section \<open>Writing the desired state into an object\<close>

text \<open>
  \<open>set cr x\<close> overwrites the object \<open>x\<close>, which may hold anything a previous version of the operator or
  another user wrote, for the custom resource \<open>cr\<close>; \<open>payload\<close> is the part of the object the setter
  owns (the specification, the data of a config map) and \<open>desired cr\<close> what it must be.
\<close>

locale desired_state =
  fixes lib :: "('w, 'e, 's) machinery"
    and scheme :: 's
    and set_desired :: "NodeFeatureDiscovery \<Rightarrow> 'o \<Rightarrow> 'e err \<times> 'o"
    and meta :: "'o \<Rightarrow> ObjectMeta"
    and payload :: "'o \<Rightarrow> 'p"
    and desired :: "NodeFeatureDiscovery \<Rightarrow> 'p"
    and relabel :: "labels \<Rightarrow> labels"
  assumes set_payload: "payload (snd (set_desired cr x)) = desired cr"
    and set_meta:
      "(fst (set_desired cr x), meta (snd (set_desired cr x))) =
         SetControllerReference lib cr ((meta x)\<lparr>om_Labels := relabel (om_Labels (meta x))\<rparr>) scheme"
begin

text \<open>Drift correction: what the object held before does not influence the result.\<close>

lemma payload_overwritten: "payload (snd (set_desired cr x)) = payload (snd (set_desired cr y))"
  by (simp add: set_payload)

lemma error_from_owner_reference:
  "fst (set_desired cr x) =
     fst (SetControllerReference lib cr ((meta x)\<lparr>om_Labels := relabel (om_Labels (meta x))\<rparr>) scheme)"
  using set_meta [of cr x] by (metis fst_conv)

lemma set_meta_ok:
  assumes "machinery_laws lib" and "set_desired cr x = (None, y)"
  shows "\<exists>refs r. meta y =
           (meta x)\<lparr>om_Labels := relabel (om_Labels (meta x)), om_OwnerReferences := refs\<rparr> \<and>
           GetControllerOf lib (meta y) = Some r \<and> controlled_by cr r"
proof -
  have "SetControllerReference lib cr ((meta x)\<lparr>om_Labels := relabel (om_Labels (meta x))\<rparr>) scheme =
      (None, meta y)"
    using set_meta [of cr x] assms(2) by simp
  from machinery_laws.SetControllerReference_ok [OF assms(1) this] show ?thesis by auto
qed

lemma set_keeps_identity:
  assumes "machinery_laws lib" and "set_desired cr x = (None, y)"
  shows "om_Name (meta y) = om_Name (meta x)" "om_Namespace (meta y) = om_Namespace (meta x)"
    "om_DeletionTimestamp (meta y) = om_DeletionTimestamp (meta x)"
    "om_Annotations (meta y) = om_Annotations (meta x)"
    "om_Finalizers (meta y) = om_Finalizers (meta x)"
    "om_Labels (meta y) = relabel (om_Labels (meta x))"
  using set_meta_ok [OF assms] by auto

lemma set_controlled:
  assumes "machinery_laws lib" and "set_desired cr x = (None, y)"
  shows "\<exists>r. GetControllerOf lib (meta y) = Some r \<and> controlled_by cr r"
  using set_meta_ok [OF assms] by auto

text \<open>What a successful create-or-patch with this setter leaves in the cluster.\<close>

lemma set_stored:
  assumes laws: "machinery_laws lib" and set: "set_desired cr b = (None, d)" and y: "admits (mk d) y"
    and name: "om_Name (meta b) = name" and ns: "om_Namespace (meta b) = nfd_Namespace cr"
  shows "stored_as lib admits mk meta payload (desired cr) cr name (Some y)"
proof -
  have "payload d = desired cr" using set_payload [of cr b] set by simp
  with y name ns show ?thesis
    unfolding stored_as_def
    using set_keeps_identity [OF laws set] set_controlled [OF laws set] by auto
qed

end

text \<open>
  The setter writes nothing but the metadata and the payload: \<open>put\<close> replaces these two parts of an
  object. So it is idempotent, and it depends on the custom resource through the desired payload and the
  owner reference only.
\<close>

locale exact_setter = desired_state lib scheme set_desired meta payload desired relabel
  for lib :: "('w, 'e, 's) machinery" and scheme :: 's
    and set_desired :: "NodeFeatureDiscovery \<Rightarrow> 'o \<Rightarrow> 'e err \<times> 'o"
    and meta :: "'o \<Rightarrow> ObjectMeta" and payload :: "'o \<Rightarrow> 'p"
    and desired :: "NodeFeatureDiscovery \<Rightarrow> 'p" and relabel :: "labels \<Rightarrow> labels" +
  fixes put :: "ObjectMeta \<Rightarrow> 'p \<Rightarrow> 'o \<Rightarrow> 'o"
  assumes set_only: "snd (set_desired cr x) = put (meta (snd (set_desired cr x))) (desired cr) x"
    and relabel_again: "relabel (relabel ls) = relabel ls"
begin

lemma set_is_put:
  "set_desired cr x =
     (let (e, om) = SetControllerReference lib cr ((meta x)\<lparr>om_Labels := relabel (om_Labels (meta x))\<rparr>) scheme
      in (e, put om (desired cr) x))"
  using set_only [of cr x]
  by (simp add: set_meta [of cr x, symmetric] prod_eq_iff)

lemma set_cong:
  "SetControllerReference lib n = SetControllerReference lib cr \<Longrightarrow> desired n = desired cr \<Longrightarrow>
     set_desired n = set_desired cr"
  by (rule ext) (simp add: set_is_put)

text \<open>Setting once more what has been set, on an object that has come back from the server.\<close>

lemma set_again:
  assumes set: "set_desired cr b = (None, d)"
    and stored: "meta y = (meta d)\<lparr>om_UID := u, om_ResourceVersion := v\<rparr>"
    and again: "\<And>om. SetControllerReference lib cr om scheme = (None, meta d) \<Longrightarrow>
      SetControllerReference lib cr (meta y) scheme = (None, meta y)"
    and laws: "machinery_laws lib"
  shows "set_desired cr y = (None, put (meta y) (payload d) y)"
proof -
  have "om_Labels (meta y) = relabel (om_Labels (meta b))"
    using set_keeps_identity(6) [OF laws set] stored by simp
  then have "(meta y)\<lparr>om_Labels := relabel (om_Labels (meta y))\<rparr> = meta y"
    by (simp add: relabel_again)
  moreover have "SetControllerReference lib cr (meta y) scheme = (None, meta y)"
    by (rule again) (use set_meta [of cr b] set in simp)
  moreover have "payload d = desired cr" using set_payload [of cr b] set by simp
  ultimately show ?thesis by (simp add: set_is_put)
qed

end

section \<open>Deleting an object by name\<close>

text \<open>
  \<open>raw_delete\<close> is the client call the operation makes for the object called \<open>name\<close> in \<open>ns\<close>; the
  operation treats an absent object as deleted and wraps every other error with \<open>message\<close>.
\<close>

locale object_deleter =
  fixes lib :: "('w, 'e, 's) machinery"
    and delete :: "string \<Rightarrow> string \<Rightarrow> 'w \<Rightarrow> 'e err \<times> 'w"
    and raw_delete :: "string \<Rightarrow> string \<Rightarrow> 'w \<Rightarrow> 'e err \<times> 'w"
    and message :: "string \<Rightarrow> string \<Rightarrow> string"
  assumes delete_world: "snd (delete ns name w) = snd (raw_delete ns name w)"
    and delete_result:
      "fst (delete ns name w) =
         (case fst (raw_delete ns name w) of None \<Rightarrow> None
          | Some e \<Rightarrow> if IgnoreNotFound lib (Some e) \<noteq> None
                      then Some (Wrapf (message ns name) e) else None)"
begin

lemma delete_ok_iff:
  assumes "machinery_laws lib"
  shows "fst (delete ns name w) = None \<longleftrightarrow>
     (case fst (raw_delete ns name w) of None \<Rightarrow> True | Some e \<Rightarrow> IsNotFound lib e)"
  using machinery_laws.IgnoreNotFound_Some [OF assms]
  by (auto simp: delete_result split: option.splits)

lemma delete_error_iff:
  assumes "machinery_laws lib"
  shows "fst (delete ns name w) = Some x \<longleftrightarrow>
     (\<exists>e. fst (raw_delete ns name w) = Some e \<and> \<not> IsNotFound lib e \<and>
        x = Wrapf (message ns name) e)"
  using machinery_laws.IgnoreNotFound_Some [OF assms]
  by (auto simp: delete_result split: option.splits)

text \<open>Carrying facts of the client call over to the operation.\<close>

lemma delete_raw: "delete ns name w = (r, w') \<Longrightarrow> \<exists>e. raw_delete ns name w = (e, w')"
  using delete_world [of ns name w] by (cases "raw_delete ns name w") simp

lemma delete_establishes:
  assumes laws: "machinery_laws lib" and call: "delete ns name w = (None, w')"
    and ok: "raw_delete ns name w = (None, w') \<Longrightarrow> P"
    and absent: "\<And>e. raw_delete ns name w = (Some e, w') \<Longrightarrow> IsNotFound lib e \<Longrightarrow> P"
  shows P
proof -
  obtain e where raw: "raw_delete ns name w = (e, w')"
    using delete_raw [OF call] by blast
  then show ?thesis
    using delete_ok_iff [OF laws, of ns name w] call ok absent by (cases e) auto
qed

text \<open>An error the operation reports is never a not-found error.\<close>

lemma delete_error_not_absent:
  assumes "machinery_laws lib" and "fst (delete ns name w) = Some x"
  shows "\<not> IsNotFound lib x"
  using assms delete_error_iff [OF assms(1)] machinery_laws.IsNotFound_Wrapf [OF assms(1)] by auto

end

section \<open>Reading an object by name\<close>

locale object_getter =
  fixes get :: "string \<Rightarrow> string \<Rightarrow> 'w \<Rightarrow> ('o \<times> 'e err) \<times> 'w"
    and raw_get :: "object_key \<Rightarrow> 'o \<Rightarrow> 'w \<Rightarrow> 'e err \<times> 'o \<times> 'w"
    and empty_object :: 'o
  assumes get_is_raw:
    "get ns name w =
       (case raw_get (ns, name) empty_object w of (e, x, w') \<Rightarrow> ((x, e), w'))"
begin

lemma get_world: "snd (get ns name w) = snd (snd (raw_get (ns, name) empty_object w))"
  by (simp add: get_is_raw split: prod.splits)

lemma get_result:
  "fst (get ns name w) =
     (fst (snd (raw_get (ns, name) empty_object w)), fst (raw_get (ns, name) empty_object w))"
  by (simp add: get_is_raw split: prod.splits)

end

end
