(* ===== verification/Deployment_Pkg.thy ===== *)
theory Deployment_Pkg
  imports Component_Contracts
begin

text \<open>
  The package \<^verbatim>\<open>internal/deployment\<close>: the master and garbage collector deployments, their pods and
  arguments, and reading and deleting a deployment. Its state is the client and the scheme it was
  built with; the interface \<^verbatim>\<open>DeploymentAPI\<close> is a record of its methods.
\<close>

section \<open>Pods\<close>

definition defaultServicePort :: int where
  "defaultServicePort = 12000"

definition dep_getPodsTolerations :: "NodeFeatureDiscovery \<Rightarrow> Toleration list" where
  "dep_getPodsTolerations cr =
     (let basicTolerations =
        [zero_Toleration\<lparr>tol_Key := ''node-role.kubernetes.io/master'',
           tol_Operator := TolerationOpEqual, tol_Effect := TaintEffectNoSchedule\<rparr>,
         zero_Toleration\<lparr>tol_Key := ''node-role.kubernetes.io/control-plane'',
           tol_Operator := TolerationOpEqual, tol_Effect := TaintEffectNoSchedule\<rparr>]
      in basicTolerations @ opr_MasterTolerations (nfd_Operand cr))"

definition dep_getPodsAffinity :: Affinity where
  "dep_getPodsAffinity =
     \<lparr>aff_NodeAffinity = Some (zero_NodeAffinity\<lparr>na_Preferred :=
        [\<lparr>pst_Weight = 1,
          pst_Preference = zero_NodeSelectorTerm\<lparr>nst_MatchExpressions :=
            [zero_NodeSelectorRequirement\<lparr>nsr_Key := ''node-role.kubernetes.io/master'',
               nsr_Operator := NodeSelectorOpIn, nsr_Values := [[]]\<rparr>]\<rparr>\<rparr>,
         \<lparr>pst_Weight = 1,
          pst_Preference = zero_NodeSelectorTerm\<lparr>nst_MatchExpressions :=
            [zero_NodeSelectorRequirement\<lparr>nsr_Key := ''node-role.kubernetes.io/control-plane'',
               nsr_Operator := NodeSelectorOpIn, nsr_Values := [[]]\<rparr>]\<rparr>\<rparr>]\<rparr>)\<rparr>"

definition dep_getImagePullPolicy :: "NodeFeatureDiscovery \<Rightarrow> string" where
  "dep_getImagePullPolicy cr =
     (if opr_ImagePullPolicy (nfd_Operand cr) \<noteq> []
      then opr_ImagePullPolicy (nfd_Operand cr)
      else PullAlways)"

definition dep_getArgs :: "NodeFeatureDiscovery \<Rightarrow> string list" where
  "dep_getArgs cr =
     (let port = (if opr_ServicePort (nfd_Operand cr) \<noteq> 0
                  then opr_ServicePort (nfd_Operand cr) else defaultServicePort);
          args = [''--port='' @ Sprintf_d port];
          args = (if length (spc_ExtraLabelNs (nfd_Spec cr)) \<noteq> 0
                  then args @ [''--extra-label-ns='' @ strings_Join (spc_ExtraLabelNs (nfd_Spec cr)) '','']
                  else args);
          args = (if length (spc_ResourceLabels (nfd_Spec cr)) \<noteq> 0
                  then args @ [''--resource-labels='' @ strings_Join (spc_ResourceLabels (nfd_Spec cr)) '','']
                  else args);
          args = (if TrimSpace (spc_LabelWhiteList (nfd_Spec cr)) \<noteq> []
                  then args @ [''--label-whitelist='' @ spc_LabelWhiteList (nfd_Spec cr)]
                  else args);
          args = (if spc_EnableTaints (nfd_Spec cr) then args @ [''--enable-taints''] else args)
      in args)"

definition dep_getEnvs :: "EnvVar list" where
  "dep_getEnvs = [fieldEnv ''NODE_NAME'' ''spec.nodeName'']"

definition getMasterEnvs :: "NodeFeatureDiscovery \<Rightarrow> EnvVar list" where
  "getMasterEnvs cr = dep_getEnvs @ opr_MasterEnvs (nfd_Operand cr)"

definition getMasterSecurityContext :: SecurityContext where
  "getMasterSecurityContext =
     zero_SecurityContext\<lparr>
       sc_RunAsNonRoot := Some True,
       sc_SeccompProfile := Some (zero_SeccompProfile\<lparr>scp_Type := SeccompProfileTypeRuntimeDefault\<rparr>),
       sc_ReadOnlyRootFilesystem := Some True,
       sc_Capabilities := Some (zero_Capabilities\<lparr>cap_Drop := [''ALL'']\<rparr>),
       sc_AllowPrivilegeEscalation := Some False\<rparr>"

definition getGCSecurityContext :: SecurityContext where
  "getGCSecurityContext =
     zero_SecurityContext\<lparr>
       sc_RunAsNonRoot := Some True,
       sc_ReadOnlyRootFilesystem := Some True,
       sc_Capabilities := Some (zero_Capabilities\<lparr>cap_Drop := [''ALL'']\<rparr>),
       sc_AllowPrivilegeEscalation := Some False\<rparr>"

definition getLivenessProbe :: Probe where
  "getLivenessProbe =
     zero_Probe\<lparr>prb_InitialDelaySeconds := 10,
       prb_HTTPGet := Some \<lparr>hga_Path = ''/healthz'', hga_Port = FromString ''http''\<rparr>\<rparr>"

definition getReadinessProbe :: Probe where
  "getReadinessProbe =
     zero_Probe\<lparr>prb_InitialDelaySeconds := 5, prb_FailureThreshold := 10,
       prb_HTTPGet := Some \<lparr>hga_Path = ''/healthz'', hga_Port = FromString ''http''\<rparr>\<rparr>"

definition getPorts :: "ContainerPort list" where
  "getPorts = [zero_ContainerPort\<lparr>cp_ContainerPort := 8080, cp_Name := ''http''\<rparr>]"

section \<open>The desired deployments\<close>

definition masterLabels :: labels where
  "masterLabels = [''app'' \<mapsto> ''nfd-master'']"

text \<open>The composite literal \<^verbatim>\<open>SetMasterDeploymentAsDesired\<close> assigns to \<^verbatim>\<open>masterDep.Spec\<close>.\<close>

definition masterDeploymentSpec :: "NodeFeatureDiscovery \<Rightarrow> DeploymentSpec" where
  "masterDeploymentSpec cr =
     zero_DeploymentSpec\<lparr>
       dps_Replicas := Some 1,
       dps_Selector := Some \<lparr>ls_MatchLabels = masterLabels\<rparr>,
       dps_Template := zero_PodTemplateSpec\<lparr>
         pts_ObjectMeta := zero_ObjectMeta\<lparr>om_Labels := masterLabels\<rparr>,
         pts_Spec := zero_PodSpec\<lparr>
           pod_ServiceAccountName := ''nfd-master'',
           pod_DNSPolicy := DNSClusterFirstWithHostNet,
           pod_RestartPolicy := RestartPolicyAlways,
           pod_Tolerations := dep_getPodsTolerations cr,
           pod_Affinity := Some dep_getPodsAffinity,
           pod_Containers := [zero_Container\<lparr>
             ctr_Name := ''nfd-master'',
             ctr_Image := ImagePath (nfd_Operand cr),
             ctr_ImagePullPolicy := dep_getImagePullPolicy cr,
             ctr_Command := [''nfd-master''],
             ctr_Args := dep_getArgs cr,
             ctr_Env := getMasterEnvs cr,
             ctr_SecurityContext := Some getMasterSecurityContext,
             ctr_LivenessProbe := Some getLivenessProbe,
             ctr_ReadinessProbe := Some getReadinessProbe,
             ctr_Ports := getPorts\<rparr>]\<rparr>\<rparr>\<rparr>"

definition gcMatchLabels :: labels where
  "gcMatchLabels = [''app'' \<mapsto> ''nfd-gc'']"

definition gcDeploymentSpec :: "NodeFeatureDiscovery \<Rightarrow> DeploymentSpec" where
  "gcDeploymentSpec cr =
     zero_DeploymentSpec\<lparr>
       dps_Replicas := Some 1,
       dps_Selector := Some \<lparr>ls_MatchLabels = gcMatchLabels\<rparr>,
       dps_Template := zero_PodTemplateSpec\<lparr>
         pts_ObjectMeta := zero_ObjectMeta\<lparr>om_Labels := gcMatchLabels\<rparr>,
         pts_Spec := zero_PodSpec\<lparr>
           pod_ServiceAccountName := ''nfd-gc'',
           pod_DNSPolicy := DNSClusterFirstWithHostNet,
           pod_RestartPolicy := RestartPolicyAlways,
           pod_Containers := [zero_Container\<lparr>
             ctr_Name := ''nfd-gc'',
             ctr_Image := ImagePath (nfd_Operand cr),
             ctr_ImagePullPolicy := PullAlways,
             ctr_Command := [''nfd-gc''],
             ctr_Env := dep_getEnvs,
             ctr_SecurityContext := Some getGCSecurityContext,
             ctr_LivenessProbe := Some getLivenessProbe,
             ctr_ReadinessProbe := Some getReadinessProbe,
             ctr_Ports := getPorts\<rparr>]\<rparr>\<rparr>\<rparr>"

section \<open>The operations\<close>

record ('w, 'e, 's) deployment =
  d_client :: "('w, 'e) client"
  d_scheme :: 's

definition SetMasterDeploymentAsDesired ::
  "('w, 'e, 's) machinery \<Rightarrow> ('w, 'e, 's) deployment \<Rightarrow> NodeFeatureDiscovery \<Rightarrow> Deployment \<Rightarrow>
     'e err \<times> Deployment" where
  "SetMasterDeploymentAsDesired lib d cr masterDep =
     (let standartLabels = masterLabels;
          masterDep = masterDep\<lparr>dep_ObjectMeta :=
            (dep_ObjectMeta masterDep)\<lparr>om_Labels := standartLabels\<rparr>\<rparr>;
          masterDep = masterDep\<lparr>dep_Spec := masterDeploymentSpec cr\<rparr>;
          (err, om) = SetControllerReference lib cr (dep_ObjectMeta masterDep) (d_scheme d)
      in (err, masterDep\<lparr>dep_ObjectMeta := om\<rparr>))"

definition SetGCDeploymentAsDesired ::
  "('w, 'e, 's) machinery \<Rightarrow> ('w, 'e, 's) deployment \<Rightarrow> NodeFeatureDiscovery \<Rightarrow> Deployment \<Rightarrow>
     'e err \<times> Deployment" where
  "SetGCDeploymentAsDesired lib d cr gcDep =
     (let gcDep = gcDep\<lparr>dep_ObjectMeta :=
            (dep_ObjectMeta gcDep)\<lparr>om_Labels := [''app'' \<mapsto> ''nfd'']\<rparr>\<rparr>;
          gcDep = gcDep\<lparr>dep_Spec := gcDeploymentSpec cr\<rparr>;
          (err, om) = SetControllerReference lib cr (dep_ObjectMeta gcDep) (d_scheme d)
      in (err, gcDep\<lparr>dep_ObjectMeta := om\<rparr>))"

definition DeleteDeployment ::
  "('w, 'e, 's) machinery \<Rightarrow> ('w, 'e, 's) deployment \<Rightarrow> string \<Rightarrow> string \<Rightarrow> 'w \<Rightarrow> 'e err \<times> 'w" where
  "DeleteDeployment lib d namespace name w =
     (let dep = zero_Deployment\<lparr>dep_ObjectMeta :=
            zero_ObjectMeta\<lparr>om_Namespace := namespace, om_Name := name\<rparr>\<rparr>;
          (err, w) = Delete_Deployment (d_client d) dep w
      in case err of
           None \<Rightarrow> (None, w)
         | Some e \<Rightarrow>
             if IgnoreNotFound lib (Some e) \<noteq> None
             then (Some (Wrapf (''failed to delete deployment '' @ namespace @ ''/'' @ name) e), w)
             else (None, w))"

definition GetDeployment ::
  "('w, 'e, 's) deployment \<Rightarrow> string \<Rightarrow> string \<Rightarrow> 'w \<Rightarrow> (Deployment \<times> 'e err) \<times> 'w" where
  "GetDeployment d namespace name w =
     (let dep = zero_Deployment;
          (err, dep, w) = Get_Deployment (d_client d) (namespace, name) dep w
      in ((dep, err), w))"

text \<open>The interface \<^verbatim>\<open>DeploymentAPI\<close> and its constructor.\<close>

record ('w, 'e) DeploymentAPI =
  api_SetMasterDeploymentAsDesired :: "NodeFeatureDiscovery \<Rightarrow> Deployment \<Rightarrow> 'e err \<times> Deployment"
  api_SetGCDeploymentAsDesired :: "NodeFeatureDiscovery \<Rightarrow> Deployment \<Rightarrow> 'e err \<times> Deployment"
  api_DeleteDeployment :: "string \<Rightarrow> string \<Rightarrow> 'w \<Rightarrow> 'e err \<times> 'w"
  api_GetDeployment :: "string \<Rightarrow> string \<Rightarrow> 'w \<Rightarrow> (Deployment \<times> 'e err) \<times> 'w"

definition NewDeploymentAPI ::
  "('w, 'e, 's) machinery \<Rightarrow> ('w, 'e) client \<Rightarrow> 's \<Rightarrow> ('w, 'e) DeploymentAPI" where
  "NewDeploymentAPI lib cl scheme =
     (let d = \<lparr>d_client = cl, d_scheme = scheme\<rparr>
      in \<lparr>api_SetMasterDeploymentAsDesired = SetMasterDeploymentAsDesired lib d,
          api_SetGCDeploymentAsDesired = SetGCDeploymentAsDesired lib d,
          api_DeleteDeployment = DeleteDeployment lib d,
          api_GetDeployment = GetDeployment d\<rparr>)"

lemma NewDeploymentAPI_sel [simp]:
  "api_SetMasterDeploymentAsDesired (NewDeploymentAPI lib cl s) =
     SetMasterDeploymentAsDesired lib \<lparr>d_client = cl, d_scheme = s\<rparr>"
  "api_SetGCDeploymentAsDesired (NewDeploymentAPI lib cl s) =
     SetGCDeploymentAsDesired lib \<lparr>d_client = cl, d_scheme = s\<rparr>"
  "api_DeleteDeployment (NewDeploymentAPI lib cl s) = DeleteDeployment lib \<lparr>d_client = cl, d_scheme = s\<rparr>"
  "api_GetDeployment (NewDeploymentAPI lib cl s) = GetDeployment \<lparr>d_client = cl, d_scheme = s\<rparr>"
  by (simp_all add: NewDeploymentAPI_def Let_def)

section \<open>The contracts hold\<close>

interpretation master: desired_state lib "d_scheme d" "SetMasterDeploymentAsDesired lib d"
    dep_ObjectMeta dep_Spec masterDeploymentSpec "\<lambda>_. masterLabels"
  for lib :: "('w, 'e, 's) machinery" and d
  by unfold_locales (simp_all add: SetMasterDeploymentAsDesired_def Let_def split: prod.split)

interpretation gc: desired_state lib "d_scheme d" "SetGCDeploymentAsDesired lib d"
    dep_ObjectMeta dep_Spec gcDeploymentSpec "\<lambda>_. [''app'' \<mapsto> ''nfd'']"
  for lib :: "('w, 'e, 's) machinery" and d
  by unfold_locales (simp_all add: SetGCDeploymentAsDesired_def Let_def split: prod.split)

interpretation master: exact_setter lib "d_scheme d" "SetMasterDeploymentAsDesired lib d"
    dep_ObjectMeta dep_Spec masterDeploymentSpec "\<lambda>_. masterLabels"
    "\<lambda>m p x. x\<lparr>dep_ObjectMeta := m, dep_Spec := p\<rparr>"
  for lib :: "('w, 'e, 's) machinery" and d
  by unfold_locales (simp_all add: SetMasterDeploymentAsDesired_def Let_def split: prod.split)

interpretation gc: exact_setter lib "d_scheme d" "SetGCDeploymentAsDesired lib d"
    dep_ObjectMeta dep_Spec gcDeploymentSpec "\<lambda>_. [''app'' \<mapsto> ''nfd'']"
    "\<lambda>m p x. x\<lparr>dep_ObjectMeta := m, dep_Spec := p\<rparr>"
  for lib :: "('w, 'e, 's) machinery" and d
  by unfold_locales (simp_all add: SetGCDeploymentAsDesired_def Let_def split: prod.split)

text \<open>The object a delete call names.\<close>

definition named_Deployment :: "string \<Rightarrow> string \<Rightarrow> Deployment" where
  "named_Deployment ns name =
     zero_Deployment\<lparr>dep_ObjectMeta := zero_ObjectMeta\<lparr>om_Namespace := ns, om_Name := name\<rparr>\<rparr>"

lemma named_Deployment_meta [simp]:
  "om_Name (dep_ObjectMeta (named_Deployment ns name)) = name"
  "om_Namespace (dep_ObjectMeta (named_Deployment ns name)) = ns"
  by (simp_all add: named_Deployment_def)

interpretation dep_del: object_deleter lib "DeleteDeployment lib d"
    "\<lambda>ns name. Delete_Deployment (d_client d) (named_Deployment ns name)"
    "\<lambda>ns name. ''failed to delete deployment '' @ ns @ ''/'' @ name"
  for lib :: "('w, 'e, 's) machinery" and d
  by unfold_locales
     (auto simp: DeleteDeployment_def named_Deployment_def Let_def split: prod.split option.split)

interpretation dep_get: object_getter "GetDeployment d" "Get_Deployment (d_client d)" zero_Deployment
  for d :: "('w, 'e, 's) deployment"
  by unfold_locales (simp add: GetDeployment_def)

section \<open>The arguments of the master\<close>

text \<open>
  C15: the master's arguments carry the specification. Read back from the argument list, the port is the
  service port of the operand or 12000 when that is zero, the extra label namespaces and the resource
  labels are the comma-separated lists, given only when they are not empty, the label white list is
  given, untouched, only when something is left of it after trimming white space, and the taints flag is
  there exactly when taints are enabled.
\<close>

theorem master_args_carry_spec:
  "map_option read_int (flag_value ''--port='' (dep_getArgs cr)) =
     Some (if opr_ServicePort (nfd_Operand cr) = 0 then 12000 else opr_ServicePort (nfd_Operand cr)) \<and>
   flag_value ''--extra-label-ns='' (dep_getArgs cr) =
     (if spc_ExtraLabelNs (nfd_Spec cr) = [] then None
      else Some (strings_Join (spc_ExtraLabelNs (nfd_Spec cr)) '','')) \<and>
   flag_value ''--resource-labels='' (dep_getArgs cr) =
     (if spc_ResourceLabels (nfd_Spec cr) = [] then None
      else Some (strings_Join (spc_ResourceLabels (nfd_Spec cr)) '','')) \<and>
   flag_value ''--label-whitelist='' (dep_getArgs cr) =
     (if TrimSpace (spc_LabelWhiteList (nfd_Spec cr)) = [] then None
      else Some (spc_LabelWhiteList (nfd_Spec cr))) \<and>
   (''--enable-taints'' \<in> set (dep_getArgs cr) \<longleftrightarrow> spc_EnableTaints (nfd_Spec cr))"
  by (intro conjI) (simp_all add: dep_getArgs_def defaultServicePort_def Let_def)

text \<open>
  C16: joining loses nothing. Label namespaces without a comma, at least one, are recovered from the
  master's arguments by splitting the value of the flag at the commas.
\<close>

theorem label_namespaces_round_trip:
  assumes "spc_ExtraLabelNs (nfd_Spec cr) \<noteq> []"
    and "\<forall>ns \<in> set (spc_ExtraLabelNs (nfd_Spec cr)). CHR '','' \<notin> set ns"
  shows "map_option (\<lambda>v. strings_Split v (CHR '','')) (flag_value ''--extra-label-ns='' (dep_getArgs cr)) =
    Some (spc_ExtraLabelNs (nfd_Spec cr))"
proof -
  have "flag_value ''--extra-label-ns='' (dep_getArgs cr) =
      Some (strings_Join (spc_ExtraLabelNs (nfd_Spec cr)) '','')"
    using assms(1) by (simp add: dep_getArgs_def Let_def)
  with strings_Split_Join [OF assms] show ?thesis by simp
qed

theorem label_namespaces_round_trip_witness:
  "map_option (\<lambda>v. strings_Split v (CHR '','')) (flag_value ''--extra-label-ns='' (dep_getArgs
     (zero_NFD\<lparr>nfd_Spec := zero_NFDSpec\<lparr>spc_ExtraLabelNs := [''a.io'', ''b.io'']\<rparr>\<rparr>))) =
   Some [''a.io'', ''b.io'']"
  using label_namespaces_round_trip [of "zero_NFD\<lparr>nfd_Spec := zero_NFDSpec\<lparr>
    spc_ExtraLabelNs := [''a.io'', ''b.io'']\<rparr>\<rparr>"] by simp

text \<open>
  C17: a label white list of white space alone is no white list. The flag is left out exactly when the
  string consists of the white space characters of \<^verbatim>\<open>unicode.IsSpace\<close>.
\<close>

theorem blank_white_list_dropped:
  "flag_value ''--label-whitelist='' (dep_getArgs cr) = None \<longleftrightarrow>
     (\<exists>us. set us \<subseteq> set space_runes \<and> spc_LabelWhiteList (nfd_Spec cr) = concat us)"
  unfolding TrimSpace_Nil [symmetric] by (simp add: dep_getArgs_def Let_def)

section \<open>The pods\<close>

lemma master_pod_wellformed: "pod_wellformed (pts_Spec (dps_Template (masterDeploymentSpec cr)))"
  by (simp add: wellformed_defs masterDeploymentSpec_def getLivenessProbe_def getReadinessProbe_def
      getPorts_def zero_defs)

lemma gc_pod_wellformed: "pod_wellformed (pts_Spec (dps_Template (gcDeploymentSpec cr)))"
  by (simp add: wellformed_defs gcDeploymentSpec_def getLivenessProbe_def getReadinessProbe_def
      getPorts_def zero_defs)

lemma master_pod_restricted:
  "\<forall>c \<in> set (pod_Containers (pts_Spec (dps_Template (masterDeploymentSpec cr)))). restricted c"
  by (simp add: restricted_def masterDeploymentSpec_def getMasterSecurityContext_def zero_defs)

lemma gc_pod_restricted:
  "\<forall>c \<in> set (pod_Containers (pts_Spec (dps_Template (gcDeploymentSpec cr)))). restricted c"
  by (simp add: restricted_def gcDeploymentSpec_def getGCSecurityContext_def zero_defs)

end
