(* ===== verification/Daemonset_Pkg.thy ===== *)
theory Daemonset_Pkg
  imports Component_Contracts
begin

text \<open>
  The package \<^verbatim>\<open>internal/daemonset\<close> (\<^verbatim>\<open>daemonset.go\<close> and \<^verbatim>\<open>worker.go\<close>): the worker and topology
  updater daemon sets, their pods, volumes and mounts, and reading and deleting a daemon set.
\<close>

section \<open>Pods of both daemon sets\<close>

definition ds_getImagePullPolicy :: "NodeFeatureDiscovery \<Rightarrow> string" where
  "ds_getImagePullPolicy cr =
     (if opr_ImagePullPolicy (nfd_Operand cr) \<noteq> []
      then opr_ImagePullPolicy (nfd_Operand cr)
      else PullAlways)"

definition getBasicEnvs :: "EnvVar list" where
  "getBasicEnvs =
     [fieldEnv ''NODE_NAME'' ''spec.nodeName'',
      fieldEnv ''POD_NAME'' ''metadata.name'',
      fieldEnv ''POD_UID'' ''metadata.uid'']"

section \<open>The topology updater\<close>

definition ds_getArgs :: "NodeFeatureDiscovery \<Rightarrow> string list" where
  "ds_getArgs cr =
     [''-podresources-socket=/host-var/lib/kubelet/pod-resources/kubelet.sock'',
      ''-sleep-interval=3s'']"

definition getTopologyEnvs :: "EnvVar list" where
  "getTopologyEnvs =
     (let nodeAddressEnv = fieldEnv ''NODE_ADDRESS'' ''status.hostIP''
      in getBasicEnvs @ [nodeAddressEnv])"

definition ds_getSecurityContext :: SecurityContext where
  "ds_getSecurityContext =
     zero_SecurityContext\<lparr>
       sc_RunAsUser := Some 0,
       sc_SELinuxOptions := Some (zero_SELinuxOptions\<lparr>sel_Type := ''container_runtime_t''\<rparr>),
       sc_ReadOnlyRootFilesystem := Some True,
       sc_Capabilities := Some (zero_Capabilities\<lparr>cap_Drop := [''ALL'']\<rparr>),
       sc_AllowPrivilegeEscalation := Some True\<rparr>"

definition getVolumeMounts :: "VolumeMount list" where
  "getVolumeMounts =
     [zero_VolumeMount\<lparr>vm_Name := ''kubelet-podresources-sock'',
        vm_MountPath := ''/host-var/lib/kubelet/pod-resources/kubelet.sock''\<rparr>,
      zero_VolumeMount\<lparr>vm_Name := ''host-sys'', vm_MountPath := ''/host-sys''\<rparr>,
      zero_VolumeMount\<lparr>vm_Name := ''kubelet-state-files'',
        vm_MountPath := ''/host-var/lib/kubelet'', vm_ReadOnly := True\<rparr>]"

definition getVolumes :: "Volume list" where
  "getVolumes =
     [zero_Volume\<lparr>vol_Name := ''kubelet-podresources-sock'',
        vol_HostPath := Some (zero_HostPathVolumeSource\<lparr>
          hp_Path := ''/var/lib/kubelet/pod-resources/kubelet.sock'',
          hp_Type := Some HostPathSocket\<rparr>)\<rparr>,
      zero_Volume\<lparr>vol_Name := ''host-sys'',
        vol_HostPath := Some (zero_HostPathVolumeSource\<lparr>
          hp_Path := ''/sys'', hp_Type := Some HostPathDirectory\<rparr>)\<rparr>,
      zero_Volume\<lparr>vol_Name := ''kubelet-state-files'',
        vol_HostPath := Some (zero_HostPathVolumeSource\<lparr>
          hp_Path := ''/var/lib/kubelet'', hp_Type := Some HostPathDirectory\<rparr>)\<rparr>]"

definition topologyLabels :: labels where
  "topologyLabels = [''app'' \<mapsto> ''nfd-topology-updater'']"

text \<open>The composite literal \<^verbatim>\<open>SetTopologyDaemonsetAsDesired\<close> assigns to \<^verbatim>\<open>topologyDS.Spec\<close>.\<close>

definition topologyDaemonSetSpec :: "NodeFeatureDiscovery \<Rightarrow> DaemonSetSpec" where
  "topologyDaemonSetSpec cr =
     zero_DaemonSetSpec\<lparr>
       dss_Selector := Some \<lparr>ls_MatchLabels = topologyLabels\<rparr>,
       dss_Template := zero_PodTemplateSpec\<lparr>
         pts_ObjectMeta := zero_ObjectMeta\<lparr>om_Labels := topologyLabels\<rparr>,
         pts_Spec := zero_PodSpec\<lparr>
           pod_ServiceAccountName := ''nfd-topology-updater'',
           pod_DNSPolicy := DNSClusterFirstWithHostNet,
           pod_Containers := [zero_Container\<lparr>
             ctr_Name := ''nfd-topology-updater'',
             ctr_Image := ImagePath (nfd_Operand cr),
             ctr_ImagePullPolicy := ds_getImagePullPolicy cr,
             ctr_Command := [''nfd-topology-updater''],
             ctr_Args := ds_getArgs cr,
             ctr_Env := getTopologyEnvs,
             ctr_SecurityContext := Some ds_getSecurityContext,
             ctr_VolumeMounts := getVolumeMounts\<rparr>],
           pod_Volumes := getVolumes\<rparr>\<rparr>\<rparr>"

section \<open>The worker\<close>

definition getWorkerEnvs :: "NodeFeatureDiscovery \<Rightarrow> EnvVar list" where
  "getWorkerEnvs cr =
     (let basicEnvVars = getBasicEnvs in basicEnvVars @ opr_WorkerEnvs (nfd_Operand cr))"

definition getWorkerAffinity :: Affinity where
  "getWorkerAffinity =
     \<lparr>aff_NodeAffinity = Some (zero_NodeAffinity\<lparr>na_Required := Some
        [zero_NodeSelectorTerm\<lparr>nst_MatchExpressions :=
           [zero_NodeSelectorRequirement\<lparr>nsr_Key := ''node-role.kubernetes.io/master'',
              nsr_Operator := ''DoesNotExist''\<rparr>,
            zero_NodeSelectorRequirement\<lparr>nsr_Key := ''kubernetes.io/os'',
              nsr_Operator := NodeSelectorOpIn, nsr_Values := [''linux'']\<rparr>]\<rparr>,
         zero_NodeSelectorTerm\<lparr>nst_MatchExpressions :=
           [zero_NodeSelectorRequirement\<lparr>nsr_Key := ''node-role.kubernetes.io/node'',
              nsr_Operator := ''Exists''\<rparr>,
            zero_NodeSelectorRequirement\<lparr>nsr_Key := ''kubernetes.io/os'',
              nsr_Operator := NodeSelectorOpIn, nsr_Values := [''linux'']\<rparr>]\<rparr>]\<rparr>)\<rparr>"

definition getWorkerSecurityContext :: SecurityContext where
  "getWorkerSecurityContext =
     zero_SecurityContext\<lparr>
       sc_ReadOnlyRootFilesystem := Some True,
       sc_RunAsNonRoot := Some True,
       sc_AllowPrivilegeEscalation := Some False,
       sc_SeccompProfile := Some (zero_SeccompProfile\<lparr>scp_Type := ''RuntimeDefault''\<rparr>),
       sc_Capabilities := Some (zero_Capabilities\<lparr>cap_Drop := [''ALL'']\<rparr>)\<rparr>"

definition getWorkerVolumeMounts :: "VolumeMount list" where
  "getWorkerVolumeMounts =
     [zero_VolumeMount\<lparr>vm_Name := ''host-boot'', vm_MountPath := ''/host-boot'', vm_ReadOnly := True\<rparr>,
      zero_VolumeMount\<lparr>vm_Name := ''host-os-release'', vm_MountPath := ''/host-etc/os-release'',
        vm_ReadOnly := True\<rparr>,
      zero_VolumeMount\<lparr>vm_Name := ''host-sys'', vm_MountPath := ''/host-sys''\<rparr>,
      zero_VolumeMount\<lparr>vm_Name := ''nfd-worker-config'',
        vm_MountPath := ''/etc/kubernetes/node-feature-discovery''\<rparr>,
      zero_VolumeMount\<lparr>vm_Name := ''nfd-hooks'',
        vm_MountPath := ''/etc/kubernetes/node-feature-discovery/source.d''\<rparr>,
      zero_VolumeMount\<lparr>vm_Name := ''nfd-features'',
        vm_MountPath := ''/etc/kubernetes/node-feature-discovery/features.d''\<rparr>,
      zero_VolumeMount\<lparr>vm_Name := ''host-usr-lib'', vm_MountPath := ''/host-usr/lib'',
        vm_ReadOnly := True\<rparr>,
      zero_VolumeMount\<lparr>vm_Name := ''host-lib'', vm_MountPath := ''/host-lib'', vm_ReadOnly := True\<rparr>,
      zero_VolumeMount\<lparr>vm_Name := ''host-usr-src'', vm_MountPath := ''/host-usr/src'',
        vm_ReadOnly := True\<rparr>,
      zero_VolumeMount\<lparr>vm_Name := ''host-proc-swaps'', vm_MountPath := ''/host-proc/swaps'',
        vm_ReadOnly := True\<rparr>]"

definition getWorkerVolumes :: "Volume list" where
  "getWorkerVolumes =
     [zero_Volume\<lparr>vol_Name := ''host-boot'',
        vol_HostPath := Some (zero_HostPathVolumeSource\<lparr>hp_Path := ''/boot''\<rparr>)\<rparr>,
      zero_Volume\<lparr>vol_Name := ''host-os-release'',
        vol_HostPath := Some (zero_HostPathVolumeSource\<lparr>hp_Path := ''/etc/os-release''\<rparr>)\<rparr>,
      zero_Volume\<lparr>vol_Name := ''host-sys'',
        vol_HostPath := Some (zero_HostPathVolumeSource\<lparr>hp_Path := ''/sys''\<rparr>)\<rparr>,
      zero_Volume\<lparr>vol_Name := ''nfd-hooks'',
        vol_HostPath := Some (zero_HostPathVolumeSource\<lparr>
          hp_Path := ''/etc/kubernetes/node-feature-discovery/source.d''\<rparr>)\<rparr>,
      zero_Volume\<lparr>vol_Name := ''nfd-features'',
        vol_HostPath := Some (zero_HostPathVolumeSource\<lparr>
          hp_Path := ''/etc/kubernetes/node-feature-discovery/features.d''\<rparr>)\<rparr>,
      zero_Volume\<lparr>vol_Name := ''nfd-worker-config'',
        vol_ConfigMap := Some (zero_ConfigMapVolumeSource\<lparr>cmv_Name := ''nfd-worker'',
          cmv_Items := [\<lparr>ktp_Key = ''nfd-worker-conf'', ktp_Path = ''nfd-worker.conf''\<rparr>]\<rparr>)\<rparr>,
      zero_Volume\<lparr>vol_Name := ''host-usr-lib'',
        vol_HostPath := Some (zero_HostPathVolumeSource\<lparr>hp_Path := ''/host-usr/lib''\<rparr>)\<rparr>,
      zero_Volume\<lparr>vol_Name := ''host-lib'',
        vol_HostPath := Some (zero_HostPathVolumeSource\<lparr>hp_Path := ''/host-lib''\<rparr>)\<rparr>,
      zero_Volume\<lparr>vol_Name := ''host-usr-src'',
        vol_HostPath := Some (zero_HostPathVolumeSource\<lparr>hp_Path := ''/host-usr/src''\<rparr>)\<rparr>,
      zero_Volume\<lparr>vol_Name := ''host-proc-swaps'',
        vol_HostPath := Some (zero_HostPathVolumeSource\<lparr>hp_Path := ''/host-proc/swaps''\<rparr>)\<rparr>]"

definition getWorkerLabelsAForApp :: "string \<Rightarrow> labels" where
  "getWorkerLabelsAForApp name = [''app'' \<mapsto> name]"

definition getWorkerTolerations :: "NodeFeatureDiscovery \<Rightarrow> Toleration list" where
  "getWorkerTolerations cr =
     (let basicTolerations =
        [zero_Toleration\<lparr>tol_Operator := ''Exists'', tol_Effect := ''NoSchedule''\<rparr>]
      in basicTolerations @ opr_WorkerTolerations (nfd_Operand cr))"

text \<open>The composite literal \<^verbatim>\<open>SetWorkerDaemonsetAsDesired\<close> assigns to \<^verbatim>\<open>workerDS.Spec\<close>.\<close>

definition workerDaemonSetSpec :: "NodeFeatureDiscovery \<Rightarrow> DaemonSetSpec" where
  "workerDaemonSetSpec cr =
     zero_DaemonSetSpec\<lparr>
       dss_Selector := Some \<lparr>ls_MatchLabels = getWorkerLabelsAForApp ''nfd-worker''\<rparr>,
       dss_Template := zero_PodTemplateSpec\<lparr>
         pts_ObjectMeta := zero_ObjectMeta\<lparr>om_Labels := getWorkerLabelsAForApp ''nfd-worker''\<rparr>,
         pts_Spec := zero_PodSpec\<lparr>
           pod_Tolerations := getWorkerTolerations cr,
           pod_Affinity := Some getWorkerAffinity,
           pod_ServiceAccountName := ''nfd-worker'',
           pod_DNSPolicy := DNSClusterFirstWithHostNet,
           pod_Containers := [zero_Container\<lparr>
             ctr_Env := getWorkerEnvs cr,
             ctr_Image := ImagePath (nfd_Operand cr),
             ctr_Name := ''nfd-worker'',
             ctr_Command := [''nfd-worker''],
             ctr_Args := [],
             ctr_VolumeMounts := getWorkerVolumeMounts,
             ctr_ImagePullPolicy := ds_getImagePullPolicy cr,
             ctr_SecurityContext := Some getWorkerSecurityContext\<rparr>],
           pod_Volumes := getWorkerVolumes\<rparr>\<rparr>\<rparr>"

section \<open>The operations\<close>

record ('w, 'e, 's) daemonset =
  s_client :: "('w, 'e) client"
  s_scheme :: 's

definition SetTopologyDaemonsetAsDesired ::
  "('w, 'e, 's) machinery \<Rightarrow> ('w, 'e, 's) daemonset \<Rightarrow> NodeFeatureDiscovery \<Rightarrow> DaemonSet \<Rightarrow>
     'e err \<times> DaemonSet" where
  "SetTopologyDaemonsetAsDesired lib d cr topologyDS =
     (let topologyDS = topologyDS\<lparr>ds_ObjectMeta :=
            (ds_ObjectMeta topologyDS)\<lparr>om_Labels := [''app'' \<mapsto> ''nfd'']\<rparr>\<rparr>;
          topologyDS = topologyDS\<lparr>ds_Spec := topologyDaemonSetSpec cr\<rparr>;
          (err, om) = SetControllerReference lib cr (ds_ObjectMeta topologyDS) (s_scheme d)
      in (err, topologyDS\<lparr>ds_ObjectMeta := om\<rparr>))"

definition SetWorkerDaemonsetAsDesired ::
  "('w, 'e, 's) machinery \<Rightarrow> ('w, 'e, 's) daemonset \<Rightarrow> NodeFeatureDiscovery \<Rightarrow> DaemonSet \<Rightarrow>
     'e err \<times> DaemonSet" where
  "SetWorkerDaemonsetAsDesired lib d cr workerDS =
     (let workerDS = workerDS\<lparr>ds_ObjectMeta :=
            (ds_ObjectMeta workerDS)\<lparr>om_Labels := [''app'' \<mapsto> ''nfd'']\<rparr>\<rparr>;
          workerDS = workerDS\<lparr>ds_Spec := workerDaemonSetSpec cr\<rparr>;
          (err, om) = SetControllerReference lib cr (ds_ObjectMeta workerDS) (s_scheme d)
      in (err, workerDS\<lparr>ds_ObjectMeta := om\<rparr>))"

definition DeleteDaemonSet ::
  "('w, 'e, 's) machinery \<Rightarrow> ('w, 'e, 's) daemonset \<Rightarrow> string \<Rightarrow> string \<Rightarrow> 'w \<Rightarrow> 'e err \<times> 'w" where
  "DeleteDaemonSet lib d namespace name w =
     (let ds = zero_DaemonSet\<lparr>ds_ObjectMeta :=
            zero_ObjectMeta\<lparr>om_Namespace := namespace, om_Name := name\<rparr>\<rparr>;
          (err, w) = Delete_DaemonSet (s_client d) ds w
      in case err of
           None \<Rightarrow> (None, w)
         | Some e \<Rightarrow>
             if IgnoreNotFound lib (Some e) \<noteq> None
             then (Some (Wrapf (''failed to delete daemonset '' @ namespace @ ''/'' @ name) e), w)
             else (None, w))"

definition GetDaemonSet ::
  "('w, 'e, 's) daemonset \<Rightarrow> string \<Rightarrow> string \<Rightarrow> 'w \<Rightarrow> (DaemonSet \<times> 'e err) \<times> 'w" where
  "GetDaemonSet d namespace name w =
     (let ds = zero_DaemonSet;
          (err, ds, w) = Get_DaemonSet (s_client d) (namespace, name) ds w
      in ((ds, err), w))"

text \<open>The interface \<^verbatim>\<open>DaemonsetAPI\<close> and its constructor.\<close>

record ('w, 'e) DaemonsetAPI =
  api_SetTopologyDaemonsetAsDesired :: "NodeFeatureDiscovery \<Rightarrow> DaemonSet \<Rightarrow> 'e err \<times> DaemonSet"
  api_SetWorkerDaemonsetAsDesired :: "NodeFeatureDiscovery \<Rightarrow> DaemonSet \<Rightarrow> 'e err \<times> DaemonSet"
  api_DeleteDaemonSet :: "string \<Rightarrow> string \<Rightarrow> 'w \<Rightarrow> 'e err \<times> 'w"
  api_GetDaemonSet :: "string \<Rightarrow> string \<Rightarrow> 'w \<Rightarrow> (DaemonSet \<times> 'e err) \<times> 'w"

definition NewDaemonsetAPI ::
  "('w, 'e, 's) machinery \<Rightarrow> ('w, 'e) client \<Rightarrow> 's \<Rightarrow> ('w, 'e) DaemonsetAPI" where
  "NewDaemonsetAPI lib cl scheme =
     (let d = \<lparr>s_client = cl, s_scheme = scheme\<rparr>
      in \<lparr>api_SetTopologyDaemonsetAsDesired = SetTopologyDaemonsetAsDesired lib d,
          api_SetWorkerDaemonsetAsDesired = SetWorkerDaemonsetAsDesired lib d,
          api_DeleteDaemonSet = DeleteDaemonSet lib d,
          api_GetDaemonSet = GetDaemonSet d\<rparr>)"

lemma NewDaemonsetAPI_sel [simp]:
  "api_SetTopologyDaemonsetAsDesired (NewDaemonsetAPI lib cl s) =
     SetTopologyDaemonsetAsDesired lib \<lparr>s_client = cl, s_scheme = s\<rparr>"
  "api_SetWorkerDaemonsetAsDesired (NewDaemonsetAPI lib cl s) =
     SetWorkerDaemonsetAsDesired lib \<lparr>s_client = cl, s_scheme = s\<rparr>"
  "api_DeleteDaemonSet (NewDaemonsetAPI lib cl s) = DeleteDaemonSet lib \<lparr>s_client = cl, s_scheme = s\<rparr>"
  "api_GetDaemonSet (NewDaemonsetAPI lib cl s) = GetDaemonSet \<lparr>s_client = cl, s_scheme = s\<rparr>"
  by (simp_all add: NewDaemonsetAPI_def Let_def)

section \<open>The contracts hold\<close>

interpretation topology: desired_state lib "s_scheme d" "SetTopologyDaemonsetAsDesired lib d"
    ds_ObjectMeta ds_Spec topologyDaemonSetSpec "\<lambda>_. [''app'' \<mapsto> ''nfd'']"
  for lib :: "('w, 'e, 's) machinery" and d
  by unfold_locales (simp_all add: SetTopologyDaemonsetAsDesired_def Let_def split: prod.split)

interpretation worker: desired_state lib "s_scheme d" "SetWorkerDaemonsetAsDesired lib d"
    ds_ObjectMeta ds_Spec workerDaemonSetSpec "\<lambda>_. [''app'' \<mapsto> ''nfd'']"
  for lib :: "('w, 'e, 's) machinery" and d
  by unfold_locales (simp_all add: SetWorkerDaemonsetAsDesired_def Let_def split: prod.split)

interpretation topology: exact_setter lib "s_scheme d" "SetTopologyDaemonsetAsDesired lib d"
    ds_ObjectMeta ds_Spec topologyDaemonSetSpec "\<lambda>_. [''app'' \<mapsto> ''nfd'']"
    "\<lambda>m p x. x\<lparr>ds_ObjectMeta := m, ds_Spec := p\<rparr>"
  for lib :: "('w, 'e, 's) machinery" and d
  by unfold_locales (simp_all add: SetTopologyDaemonsetAsDesired_def Let_def split: prod.split)

interpretation worker: exact_setter lib "s_scheme d" "SetWorkerDaemonsetAsDesired lib d"
    ds_ObjectMeta ds_Spec workerDaemonSetSpec "\<lambda>_. [''app'' \<mapsto> ''nfd'']"
    "\<lambda>m p x. x\<lparr>ds_ObjectMeta := m, ds_Spec := p\<rparr>"
  for lib :: "('w, 'e, 's) machinery" and d
  by unfold_locales (simp_all add: SetWorkerDaemonsetAsDesired_def Let_def split: prod.split)

text \<open>The object a delete call names.\<close>

definition named_DaemonSet :: "string \<Rightarrow> string \<Rightarrow> DaemonSet" where
  "named_DaemonSet ns name =
     zero_DaemonSet\<lparr>ds_ObjectMeta := zero_ObjectMeta\<lparr>om_Namespace := ns, om_Name := name\<rparr>\<rparr>"

lemma named_DaemonSet_meta [simp]:
  "om_Name (ds_ObjectMeta (named_DaemonSet ns name)) = name"
  "om_Namespace (ds_ObjectMeta (named_DaemonSet ns name)) = ns"
  by (simp_all add: named_DaemonSet_def)

interpretation ds_del: object_deleter lib "DeleteDaemonSet lib d"
    "\<lambda>ns name. Delete_DaemonSet (s_client d) (named_DaemonSet ns name)"
    "\<lambda>ns name. ''failed to delete daemonset '' @ ns @ ''/'' @ name"
  for lib :: "('w, 'e, 's) machinery" and d
  by unfold_locales
     (auto simp: DeleteDaemonSet_def named_DaemonSet_def Let_def split: prod.split option.split)

interpretation ds_get: object_getter "GetDaemonSet d" "Get_DaemonSet (s_client d)" zero_DaemonSet
  for d :: "('w, 'e, 's) daemonset"
  by unfold_locales (simp add: GetDaemonSet_def)

section \<open>Facts about the pods\<close>

text \<open>How the worker's container finds its configuration file.\<close>

lemma worker_config_volume:
  "\<exists>v src item mount.
     v \<in> set (pod_Volumes (pts_Spec (dss_Template (workerDaemonSetSpec cr)))) \<and>
     vol_ConfigMap v = Some src \<and> cmv_Name src = ''nfd-worker'' \<and>
     item \<in> set (cmv_Items src) \<and> ktp_Key item = ''nfd-worker-conf'' \<and>
     (\<exists>ctr \<in> set (pod_Containers (pts_Spec (dss_Template (workerDaemonSetSpec cr)))).
        mount \<in> set (ctr_VolumeMounts ctr)) \<and>
     vm_Name mount = vol_Name v \<and>
     vm_MountPath mount @ ''/'' @ ktp_Path item =
       ''/etc/kubernetes/node-feature-discovery/nfd-worker.conf''"
proof -
  let ?item = "\<lparr>ktp_Key = ''nfd-worker-conf'', ktp_Path = ''nfd-worker.conf''\<rparr>"
  let ?src = "zero_ConfigMapVolumeSource\<lparr>cmv_Name := ''nfd-worker'', cmv_Items := [?item]\<rparr>"
  let ?v = "zero_Volume\<lparr>vol_Name := ''nfd-worker-config'', vol_ConfigMap := Some ?src\<rparr>"
  let ?m = "zero_VolumeMount\<lparr>vm_Name := ''nfd-worker-config'',
    vm_MountPath := ''/etc/kubernetes/node-feature-discovery''\<rparr>"
  have "?v \<in> set getWorkerVolumes" "?m \<in> set getWorkerVolumeMounts"
    by (simp_all only: getWorkerVolumes_def getWorkerVolumeMounts_def list.set insert_iff simp_thms)
  then show ?thesis
    by (intro exI [of _ ?v] exI [of _ ?src] exI [of _ ?item] exI [of _ ?m])
       (simp add: workerDaemonSetSpec_def)
qed

lemma worker_pod_wellformed: "pod_wellformed (pts_Spec (dss_Template (workerDaemonSetSpec cr)))"
  by (simp add: wellformed_defs workerDaemonSetSpec_def getWorkerVolumes_def getWorkerVolumeMounts_def
      zero_defs)

lemma topology_pod_wellformed: "pod_wellformed (pts_Spec (dss_Template (topologyDaemonSetSpec cr)))"
  by (simp add: wellformed_defs topologyDaemonSetSpec_def getVolumes_def getVolumeMounts_def zero_defs)

lemma worker_pod_restricted:
  "\<forall>c \<in> set (pod_Containers (pts_Spec (dss_Template (workerDaemonSetSpec cr)))). restricted c"
  by (simp add: restricted_def workerDaemonSetSpec_def getWorkerSecurityContext_def zero_defs)

text \<open>The topology updater runs as root and may escalate its privileges.\<close>

lemma topology_pod_unrestricted:
  "\<forall>c \<in> set (pod_Containers (pts_Spec (dss_Template (topologyDaemonSetSpec cr)))). \<not> restricted c"
  by (simp add: restricted_def topologyDaemonSetSpec_def ds_getSecurityContext_def zero_defs)

text \<open>
  Where a container should find a path of the host: a mount under \<^verbatim>\<open>/host-\<close> stands for the path
  after that prefix.
\<close>

definition host_path_of_mount :: "string \<Rightarrow> string option" where
  "host_path_of_mount p =
     (if take 6 p = ''/host-'' then Some (CHR ''/'' # drop 6 p) else None)"

text \<open>The volume of a given name among those of a pod.\<close>

definition volume_named :: "string \<Rightarrow> Volume list \<Rightarrow> Volume option" where
  "volume_named n vs = List.find (\<lambda>v. vol_Name v = n) vs"

text \<open>
  Four of the worker's host volumes do not show the host. Every mount of the worker under
  \<^verbatim>\<open>/host-\<close> has a host path volume; the boot directory, the release file and \<^verbatim>\<open>/sys\<close> are taken from the
  host path the mount stands for, but the volumes for \<^verbatim>\<open>/usr/lib\<close>, \<^verbatim>\<open>/lib\<close>, \<^verbatim>\<open>/usr/src\<close> and
  \<^verbatim>\<open>/proc/swaps\<close> name the path of the mount itself as the path on the host.
\<close>

lemma worker_host_paths:
  "list_all (\<lambda>m.
     case host_path_of_mount (vm_MountPath m) of None \<Rightarrow> True
     | Some host \<Rightarrow>
         (case Option.bind (volume_named (vm_Name m) getWorkerVolumes) vol_HostPath of None \<Rightarrow> False
          | Some hp \<Rightarrow>
              hp_Path hp = (if vm_Name m \<in> {''host-usr-lib'', ''host-lib'', ''host-usr-src'', ''host-proc-swaps''}
                            then vm_MountPath m else host)))
     getWorkerVolumeMounts"
  by (simp add: getWorkerVolumeMounts_def getWorkerVolumes_def host_path_of_mount_def
      volume_named_def zero_defs)

end
