(* ===== verification/Status_Pkg.thy ===== *)
theory Status_Pkg
  imports Deployment_Pkg Daemonset_Pkg
begin

text \<open>
  The package \<^verbatim>\<open>internal/status\<close>: the conditions of the custom resource, computed from the status of
  the four workloads, and the comparison that decides whether they are written. A slice that may be
  nil is an option here, because \<^verbatim>\<open>GetConditions\<close> tests it against nil.
\<close>

section \<open>Condition lists\<close>

abbreviation (input) conditionStatusProgressing :: string where "conditionStatusProgressing \<equiv> ''progressing''"
abbreviation (input) conditionStatusDegraded :: string where "conditionStatusDegraded \<equiv> ''degrading''"
abbreviation (input) conditionStatusAvailable :: string where "conditionStatusAvailable \<equiv> ''available''"

abbreviation (input) conditionAvailable :: string where "conditionAvailable \<equiv> ''Available''"
abbreviation (input) conditionProgressing :: string where "conditionProgressing \<equiv> ''Progressing''"
abbreviation (input) conditionDegraded :: string where "conditionDegraded \<equiv> ''Degraded''"
abbreviation (input) conditionUpgradeable :: string where "conditionUpgradeable \<equiv> ''Upgradeable''"

abbreviation (input) conditionFailedGettingNFDWorkerDaemonSet :: string where "conditionFailedGettingNFDWorkerDaemonSet \<equiv> ''FailedGettingNFDWorkerDaemonSet''"
abbreviation (input) conditionNFDWorkerDaemonSetDegraded :: string where "conditionNFDWorkerDaemonSetDegraded \<equiv> ''NFDWorkerDaemonSetDegraded''"
abbreviation (input) conditionNFDWorkerDaemonSetProgressing :: string where "conditionNFDWorkerDaemonSetProgressing \<equiv> ''NFDWorkerDaemonSetProgressing''"
abbreviation (input) conditionFailedGettingNFDTopologyDaemonSet :: string where "conditionFailedGettingNFDTopologyDaemonSet \<equiv> ''FailedGettingNFDTopologyDaemonSet''"
abbreviation (input) conditionNFDTopologyDaemonSetDegraded :: string where "conditionNFDTopologyDaemonSetDegraded \<equiv> ''NFDTopologyDaemonSetDegraded''"
abbreviation (input) conditionNFDTopologyDaemonSetProgressing :: string where "conditionNFDTopologyDaemonSetProgressing \<equiv> ''NFDTopologyDaemonSetProgressing''"
abbreviation (input) conditionFailedGettingNFDMasterDeployment :: string where "conditionFailedGettingNFDMasterDeployment \<equiv> ''FailedGettingNFDMasterDeployment''"
abbreviation (input) conditionNFDMasterDeploymentDegraded :: string where "conditionNFDMasterDeploymentDegraded \<equiv> ''NFDMasterDeploymentDegraded''"
abbreviation (input) conditionNFDMasterDeploymentProgressing :: string where "conditionNFDMasterDeploymentProgressing \<equiv> ''NFDMasterDeploymentProgressing''"
abbreviation (input) conditionFailedGettingNFDGCDeployment :: string where "conditionFailedGettingNFDGCDeployment \<equiv> ''FailedGettingNFDGCDeployment''"
abbreviation (input) conditionNFDGCDeploymentDegraded :: string where "conditionNFDGCDeploymentDegraded \<equiv> ''NFDGCDegraded''"
abbreviation (input) conditionNFDGCDeploymentProgressing :: string where "conditionNFDGCDeploymentProgressing \<equiv> ''NFDGCDeploymentProgressing''"

definition conditionIsFalseReason :: string where
  "conditionIsFalseReason = ''ConditionNotBeingMetCurrently''"

definition getAvailableConditions :: "time \<Rightarrow> Condition list" where
  "getAvailableConditions now =
     [zero_Condition\<lparr>cond_Type := conditionAvailable, cond_Status := ConditionTrue,
        cond_Reason := ''AllInstanceComponentsAreDeployedSuccessfuly'',
        cond_LastTransitionTime := now\<rparr>,
      zero_Condition\<lparr>cond_Type := conditionUpgradeable, cond_Status := ConditionTrue,
        cond_Reason := ''CanBeUpgraded'', cond_LastTransitionTime := now\<rparr>,
      zero_Condition\<lparr>cond_Type := conditionProgressing, cond_Status := ConditionFalse,
        cond_Reason := conditionIsFalseReason, cond_LastTransitionTime := now\<rparr>,
      zero_Condition\<lparr>cond_Type := conditionDegraded, cond_Status := ConditionFalse,
        cond_Reason := conditionIsFalseReason, cond_LastTransitionTime := now\<rparr>]"

definition getDegradedConditions :: "string \<Rightarrow> string \<Rightarrow> time \<Rightarrow> Condition list" where
  "getDegradedConditions reason message now =
     [zero_Condition\<lparr>cond_Type := conditionAvailable, cond_Status := ConditionFalse,
        cond_Reason := conditionIsFalseReason, cond_LastTransitionTime := now\<rparr>,
      zero_Condition\<lparr>cond_Type := conditionUpgradeable, cond_Status := ConditionFalse,
        cond_Reason := conditionIsFalseReason, cond_LastTransitionTime := now\<rparr>,
      zero_Condition\<lparr>cond_Type := conditionProgressing, cond_Status := ConditionFalse,
        cond_Reason := conditionIsFalseReason, cond_LastTransitionTime := now\<rparr>,
      zero_Condition\<lparr>cond_Type := conditionDegraded, cond_Status := ConditionTrue,
        cond_LastTransitionTime := now, cond_Reason := reason, cond_Message := message\<rparr>]"

definition getProgressingConditions :: "string \<Rightarrow> string \<Rightarrow> time \<Rightarrow> Condition list" where
  "getProgressingConditions reason message now =
     [zero_Condition\<lparr>cond_Type := conditionAvailable, cond_Status := ConditionFalse,
        cond_Reason := conditionIsFalseReason, cond_LastTransitionTime := now\<rparr>,
      zero_Condition\<lparr>cond_Type := conditionUpgradeable, cond_Status := ConditionFalse,
        cond_Reason := conditionIsFalseReason, cond_LastTransitionTime := now\<rparr>,
      zero_Condition\<lparr>cond_Type := conditionProgressing, cond_Status := ConditionTrue,
        cond_LastTransitionTime := now, cond_Reason := reason, cond_Message := message\<rparr>,
      zero_Condition\<lparr>cond_Type := conditionDegraded, cond_Status := ConditionFalse,
        cond_Reason := conditionIsFalseReason, cond_LastTransitionTime := now\<rparr>]"

lemmas condition_list_defs =
  getAvailableConditions_def getDegradedConditions_def getProgressingConditions_def
  zero_Condition_def conditionIsFalseReason_def

section \<open>The state of one workload\<close>

definition getDaemonSetConditions :: "DaemonSet \<Rightarrow> string \<times> string" where
  "getDaemonSetConditions ds =
     (if dsst_DesiredNumberScheduled (ds_Status ds) = 0
      then (conditionStatusDegraded, ''number of desired nodes for scheduling is 0'')
      else if dsst_CurrentNumberScheduled (ds_Status ds) = 0
      then (conditionStatusDegraded, ''0 nodes have pods scheduled'')
      else if dsst_NumberReady (ds_Status ds) = dsst_DesiredNumberScheduled (ds_Status ds)
      then (conditionStatusAvailable, [])
      else (conditionStatusProgressing, ''ds is progressing''))"

definition getDeploymentConditions :: "Deployment \<Rightarrow> string \<times> string" where
  "getDeploymentConditions dep =
     (if dst_AvailableReplicas (dep_Status dep) = 0
      then (conditionStatusDegraded, ''number of available pods is 0'')
      else (conditionStatusAvailable, []))"

section \<open>The helper\<close>

record ('w, 'e) statusHelper =
  sh_deploymentAPI :: "('w, 'e) DeploymentAPI"
  sh_daemonsetAPI :: "('w, 'e) DaemonsetAPI"

text \<open>
  \<^verbatim>\<open>time.Now\<close> is called by the three condition constructors, so it is read only on the branches
  that build a list.
\<close>

definition getDaemonSetNotAvailableConditions ::
  "('w, 'e, 's) machinery \<Rightarrow> ('w, 'e) statusHelper \<Rightarrow> string \<Rightarrow> string \<Rightarrow> string \<Rightarrow> string \<Rightarrow> string \<Rightarrow>
     'w \<Rightarrow> Condition list option \<times> 'w" where
  "getDaemonSetNotAvailableConditions lib sh dsNamespace dsName failedToGetDSReason
       dsDegradedReason dsProgressingReason w =
     (let ((ds, err), w) = api_GetDaemonSet (sh_daemonsetAPI sh) dsNamespace dsName w
      in case err of
           Some e \<Rightarrow>
             (let (now, w) = time_Now lib w
              in (Some (getDegradedConditions failedToGetDSReason (Error_text (external_text lib) e) now), w))
         | None \<Rightarrow>
             (let (conditionsStatus, message) = getDaemonSetConditions ds
              in if conditionsStatus = conditionStatusDegraded
                 then (let (now, w) = time_Now lib w
                       in (Some (getDegradedConditions dsDegradedReason message now), w))
                 else if conditionsStatus = conditionStatusProgressing
                 then (let (now, w) = time_Now lib w
                       in (Some (getProgressingConditions dsProgressingReason message now), w))
                 else (None, w)))"

definition getDeploymentNotAvailableConditions ::
  "('w, 'e, 's) machinery \<Rightarrow> ('w, 'e) statusHelper \<Rightarrow> string \<Rightarrow> string \<Rightarrow> string \<Rightarrow> string \<Rightarrow> string \<Rightarrow>
     'w \<Rightarrow> Condition list option \<times> 'w" where
  "getDeploymentNotAvailableConditions lib sh deploymentNamespace deploymentName
       failedToGetDeploymentReason deploymentDegradedReason deploymentProgressingReason w =
     (let ((dep, err), w) = api_GetDeployment (sh_deploymentAPI sh) deploymentNamespace deploymentName w
      in case err of
           Some e \<Rightarrow>
             (let (now, w) = time_Now lib w
              in (Some (getDegradedConditions failedToGetDeploymentReason
                          (Error_text (external_text lib) e) now), w))
         | None \<Rightarrow>
             (let (conditionsStatus, message) = getDeploymentConditions dep
              in if conditionsStatus = conditionStatusDegraded
                 then (let (now, w) = time_Now lib w
                       in (Some (getDegradedConditions deploymentDegradedReason message now), w))
                 else if conditionsStatus = conditionStatusProgressing
                 then (let (now, w) = time_Now lib w
                       in (Some (getProgressingConditions deploymentProgressingReason message now), w))
                 else (None, w)))"

definition getWorkerNotAvailableConditions ::
  "('w, 'e, 's) machinery \<Rightarrow> ('w, 'e) statusHelper \<Rightarrow> NodeFeatureDiscovery \<Rightarrow> 'w \<Rightarrow>
     Condition list option \<times> 'w" where
  "getWorkerNotAvailableConditions lib sh cr =
     getDaemonSetNotAvailableConditions lib sh (nfd_Namespace cr) ''nfd-worker''
       conditionFailedGettingNFDWorkerDaemonSet conditionNFDWorkerDaemonSetDegraded
       conditionNFDWorkerDaemonSetProgressing"

definition getTopologyNotAvailableConditions ::
  "('w, 'e, 's) machinery \<Rightarrow> ('w, 'e) statusHelper \<Rightarrow> NodeFeatureDiscovery \<Rightarrow> 'w \<Rightarrow>
     Condition list option \<times> 'w" where
  "getTopologyNotAvailableConditions lib sh cr =
     getDaemonSetNotAvailableConditions lib sh (nfd_Namespace cr) ''nfd-topology-updater''
       conditionFailedGettingNFDTopologyDaemonSet conditionNFDTopologyDaemonSetDegraded
       conditionNFDTopologyDaemonSetProgressing"

definition getMasterNotAvailableConditions ::
  "('w, 'e, 's) machinery \<Rightarrow> ('w, 'e) statusHelper \<Rightarrow> NodeFeatureDiscovery \<Rightarrow> 'w \<Rightarrow>
     Condition list option \<times> 'w" where
  "getMasterNotAvailableConditions lib sh cr =
     getDeploymentNotAvailableConditions lib sh (nfd_Namespace cr) ''nfd-master''
       conditionFailedGettingNFDMasterDeployment conditionNFDMasterDeploymentDegraded
       conditionNFDMasterDeploymentProgressing"

definition getGCNotAvailableConditions ::
  "('w, 'e, 's) machinery \<Rightarrow> ('w, 'e) statusHelper \<Rightarrow> NodeFeatureDiscovery \<Rightarrow> 'w \<Rightarrow>
     Condition list option \<times> 'w" where
  "getGCNotAvailableConditions lib sh cr =
     getDeploymentNotAvailableConditions lib sh (nfd_Namespace cr) ''nfd-gc''
       conditionFailedGettingNFDGCDeployment conditionNFDGCDeploymentDegraded conditionNFDGCDeploymentProgressing"

lemmas source_defs =
  getWorkerNotAvailableConditions_def getMasterNotAvailableConditions_def
  getGCNotAvailableConditions_def getTopologyNotAvailableConditions_def

text \<open>The interface \<^verbatim>\<open>statusHelperAPI\<close> and its constructor.\<close>

record ('w, 'e) statusHelperAPI =
  api_getWorkerNotAvailableConditions :: "NodeFeatureDiscovery \<Rightarrow> 'w \<Rightarrow> Condition list option \<times> 'w"
  api_getTopologyNotAvailableConditions :: "NodeFeatureDiscovery \<Rightarrow> 'w \<Rightarrow> Condition list option \<times> 'w"
  api_getMasterNotAvailableConditions :: "NodeFeatureDiscovery \<Rightarrow> 'w \<Rightarrow> Condition list option \<times> 'w"
  api_getGCNotAvailableConditions :: "NodeFeatureDiscovery \<Rightarrow> 'w \<Rightarrow> Condition list option \<times> 'w"

definition newStatusHelperAPI ::
  "('w, 'e, 's) machinery \<Rightarrow> ('w, 'e) DeploymentAPI \<Rightarrow> ('w, 'e) DaemonsetAPI \<Rightarrow>
     ('w, 'e) statusHelperAPI" where
  "newStatusHelperAPI lib deploymentAPI daemonsetAPI =
     (let sh = \<lparr>sh_deploymentAPI = deploymentAPI, sh_daemonsetAPI = daemonsetAPI\<rparr>
      in \<lparr>api_getWorkerNotAvailableConditions = getWorkerNotAvailableConditions lib sh,
          api_getTopologyNotAvailableConditions = getTopologyNotAvailableConditions lib sh,
          api_getMasterNotAvailableConditions = getMasterNotAvailableConditions lib sh,
          api_getGCNotAvailableConditions = getGCNotAvailableConditions lib sh\<rparr>)"

section \<open>The operations\<close>

definition GetConditions ::
  "('w, 'e, 's) machinery \<Rightarrow> ('w, 'e) statusHelperAPI \<Rightarrow> NodeFeatureDiscovery \<Rightarrow> 'w \<Rightarrow>
     Condition list \<times> 'w" where
  "GetConditions lib helper cr w =
     (let (nonAvailableConditions, w) = api_getWorkerNotAvailableConditions helper cr w
      in case nonAvailableConditions of Some cs \<Rightarrow> (cs, w) | None \<Rightarrow>
     (let (nonAvailableConditions, w) = api_getMasterNotAvailableConditions helper cr w
      in case nonAvailableConditions of Some cs \<Rightarrow> (cs, w) | None \<Rightarrow>
     (let (nonAvailableConditions, w) = api_getGCNotAvailableConditions helper cr w
      in case nonAvailableConditions of Some cs \<Rightarrow> (cs, w) | None \<Rightarrow>
     (let (nonAvailableConditions, w) =
            (if spc_TopologyUpdater (nfd_Spec cr)
             then api_getTopologyNotAvailableConditions helper cr w else (None, w))
      in case nonAvailableConditions of Some cs \<Rightarrow> (cs, w) | None \<Rightarrow>
     (let (now, w) = time_Now lib w
      in (getAvailableConditions now, w))))))"

fun AreConditionsEqual ::
  "('w, 'e, 's) machinery \<Rightarrow> Condition list \<Rightarrow> Condition list \<Rightarrow> bool" where
  "AreConditionsEqual lib prevConditions [] = True"
| "AreConditionsEqual lib prevConditions (newCondition # newConditions) =
     (case FindStatusCondition lib prevConditions (cond_Type newCondition) of
        None \<Rightarrow> False
      | Some oldCondition \<Rightarrow>
          (if cond_Status oldCondition \<noteq> cond_Status newCondition \<or>
              cond_Reason oldCondition \<noteq> cond_Reason newCondition \<or>
              cond_Message oldCondition \<noteq> cond_Message newCondition
           then False
           else AreConditionsEqual lib prevConditions newConditions))"

text \<open>The interface \<^verbatim>\<open>StatusAPI\<close> and its constructor.\<close>

record ('w, 'e) StatusAPI =
  api_GetConditions :: "NodeFeatureDiscovery \<Rightarrow> 'w \<Rightarrow> Condition list \<times> 'w"
  api_AreConditionsEqual :: "Condition list \<Rightarrow> Condition list \<Rightarrow> bool"

definition NewStatusAPI ::
  "('w, 'e, 's) machinery \<Rightarrow> ('w, 'e) DeploymentAPI \<Rightarrow> ('w, 'e) DaemonsetAPI \<Rightarrow>
     ('w, 'e) StatusAPI" where
  "NewStatusAPI lib deploymentAPI daemonsetAPI =
     (let helper = newStatusHelperAPI lib deploymentAPI daemonsetAPI
      in \<lparr>api_GetConditions = GetConditions lib helper,
          api_AreConditionsEqual = AreConditionsEqual lib\<rparr>)"

lemma NewStatusAPI_sel [simp]:
  "api_GetConditions (NewStatusAPI lib da sa) = GetConditions lib (newStatusHelperAPI lib da sa)"
  "api_AreConditionsEqual (NewStatusAPI lib da sa) = AreConditionsEqual lib"
  by (simp_all add: NewStatusAPI_def)

lemma newStatusHelperAPI_sel [simp]:
  "api_getWorkerNotAvailableConditions (newStatusHelperAPI lib da sa) =
     getWorkerNotAvailableConditions lib \<lparr>sh_deploymentAPI = da, sh_daemonsetAPI = sa\<rparr>"
  "api_getTopologyNotAvailableConditions (newStatusHelperAPI lib da sa) =
     getTopologyNotAvailableConditions lib \<lparr>sh_deploymentAPI = da, sh_daemonsetAPI = sa\<rparr>"
  "api_getMasterNotAvailableConditions (newStatusHelperAPI lib da sa) =
     getMasterNotAvailableConditions lib \<lparr>sh_deploymentAPI = da, sh_daemonsetAPI = sa\<rparr>"
  "api_getGCNotAvailableConditions (newStatusHelperAPI lib da sa) =
     getGCNotAvailableConditions lib \<lparr>sh_deploymentAPI = da, sh_daemonsetAPI = sa\<rparr>"
  by (simp_all add: newStatusHelperAPI_def Let_def)

section \<open>What a condition list says\<close>

datatype health = Healthy | Rolling | Broken

text \<open>The status of the condition of type \<open>t\<close>, and the verdict of a whole list.\<close>

definition cond_is_true :: "Condition list \<Rightarrow> string \<Rightarrow> bool" where
  "cond_is_true cs t \<longleftrightarrow> (\<exists>c \<in> set cs. cond_Type c = t \<and> cond_Status c = ConditionTrue)"

definition report_health :: "Condition list \<Rightarrow> health" where
  "report_health cs =
     (if cond_is_true cs conditionAvailable then Healthy
      else if cond_is_true cs conditionProgressing then Rolling
      else Broken)"

text \<open>
  The shape every list has: one condition of each of the four types, each true or false with a
  reason, exactly one of Available, Progressing and Degraded true, and Upgradeable with Available.
\<close>

definition report_wellformed :: "Condition list \<Rightarrow> bool" where
  "report_wellformed cs \<longleftrightarrow>
     map cond_Type cs = [conditionAvailable, conditionUpgradeable, conditionProgressing, conditionDegraded] \<and>
     (\<forall>c \<in> set cs. cond_Status c \<in> {ConditionTrue, ConditionFalse} \<and> cond_Reason c \<noteq> []) \<and>
     length (filter (cond_is_true cs) [conditionAvailable, conditionProgressing, conditionDegraded]) = 1 \<and>
     (cond_is_true cs conditionUpgradeable \<longleftrightarrow> cond_is_true cs conditionAvailable)"

lemmas report_defs = report_wellformed_def report_health_def cond_is_true_def

lemma available_report [simp]:
  "report_wellformed (getAvailableConditions now)" "report_health (getAvailableConditions now) = Healthy"
  by (simp_all add: report_defs condition_list_defs)

lemma degraded_report [simp]:
  "reason \<noteq> [] \<Longrightarrow> report_wellformed (getDegradedConditions reason message now)"
  "report_health (getDegradedConditions reason message now) = Broken"
  by (simp_all add: report_defs condition_list_defs)

lemma progressing_report [simp]:
  "reason \<noteq> [] \<Longrightarrow> report_wellformed (getProgressingConditions reason message now)"
  "report_health (getProgressingConditions reason message now) = Rolling"
  by (simp_all add: report_defs condition_list_defs)

section \<open>The verdict on one workload\<close>

text \<open>The specification the two classification functions implement.\<close>

definition daemonset_health :: "DaemonSet \<Rightarrow> health" where
  "daemonset_health ds =
     (let st = ds_Status ds
      in if dsst_DesiredNumberScheduled st = 0 \<or> dsst_CurrentNumberScheduled st = 0 then Broken
         else if dsst_NumberReady st = dsst_DesiredNumberScheduled st then Healthy else Rolling)"

definition deployment_health :: "Deployment \<Rightarrow> health" where
  "deployment_health dep = (if dst_AvailableReplicas (dep_Status dep) = 0 then Broken else Healthy)"

fun status_word :: "health \<Rightarrow> string" where
  "status_word Healthy = conditionStatusAvailable"
| "status_word Rolling = conditionStatusProgressing"
| "status_word Broken = conditionStatusDegraded"

lemma getDaemonSetConditions_health: "fst (getDaemonSetConditions ds) = status_word (daemonset_health ds)"
  by (simp add: getDaemonSetConditions_def daemonset_health_def Let_def)

lemma getDeploymentConditions_health: "fst (getDeploymentConditions dep) = status_word (deployment_health dep)"
  by (simp add: getDeploymentConditions_def deployment_health_def)

text \<open>The health a read of a workload shows: a failed read counts as broken.\<close>

definition read_health :: "('o \<Rightarrow> health) \<Rightarrow> ('o \<times> 'e err) \<Rightarrow> health" where
  "read_health f r = (case snd r of None \<Rightarrow> f (fst r) | Some _ \<Rightarrow> Broken)"

text \<open>A report on one workload: nil when it is healthy, a well-formed list that says so otherwise.\<close>

definition reports :: "health \<Rightarrow> Condition list option \<Rightarrow> bool" where
  "reports h r \<longleftrightarrow>
     (case r of None \<Rightarrow> h = Healthy
      | Some cs \<Rightarrow> h \<noteq> Healthy \<and> report_wellformed cs \<and> report_health cs = h)"

lemma daemonset_reports:
  assumes "r1 \<noteq> []" and "r2 \<noteq> []" and "r3 \<noteq> []"
  shows "reports (read_health daemonset_health (fst (api_GetDaemonSet (sh_daemonsetAPI sh) ns name w)))
           (fst (getDaemonSetNotAvailableConditions lib sh ns name r1 r2 r3 w))"
proof -
  obtain ds err w1 where g: "api_GetDaemonSet (sh_daemonsetAPI sh) ns name w = ((ds, err), w1)"
    by (metis prod.exhaust)
  obtain now w2 where t: "time_Now lib w1 = (now, w2)" by fastforce
  obtain st msg where c: "getDaemonSetConditions ds = (st, msg)" by fastforce
  have st: "st = status_word (daemonset_health ds)"
    using getDaemonSetConditions_health [of ds] by (simp add: c)
  show ?thesis
    using assms
    by (cases err; cases "daemonset_health ds")
       (simp_all add: getDaemonSetNotAvailableConditions_def g t c st reports_def read_health_def)
qed

lemma deployment_reports:
  assumes "r1 \<noteq> []" and "r2 \<noteq> []" and "r3 \<noteq> []"
  shows "reports (read_health deployment_health (fst (api_GetDeployment (sh_deploymentAPI sh) ns name w)))
           (fst (getDeploymentNotAvailableConditions lib sh ns name r1 r2 r3 w))"
proof -
  obtain dep err w1 where g: "api_GetDeployment (sh_deploymentAPI sh) ns name w = ((dep, err), w1)"
    by (metis prod.exhaust)
  obtain now w2 where t: "time_Now lib w1 = (now, w2)" by fastforce
  obtain st msg where c: "getDeploymentConditions dep = (st, msg)" by fastforce
  have st: "st = status_word (deployment_health dep)"
    using getDeploymentConditions_health [of dep] by (simp add: c)
  show ?thesis
    using assms
    by (cases err; cases "deployment_health dep")
       (simp_all add: getDeploymentNotAvailableConditions_def g t c st reports_def read_health_def)
qed

lemma getWorker_reports:
  "reports (read_health daemonset_health (fst (api_GetDaemonSet sa (nfd_Namespace cr) ''nfd-worker'' w)))
     (fst (getWorkerNotAvailableConditions lib \<lparr>sh_deploymentAPI = da, sh_daemonsetAPI = sa\<rparr> cr w))"
  unfolding getWorkerNotAvailableConditions_def
  by (rule daemonset_reports [of _ _ _ "\<lparr>sh_deploymentAPI = da, sh_daemonsetAPI = sa\<rparr>", simplified]) simp_all

lemma getTopology_reports:
  "reports (read_health daemonset_health
       (fst (api_GetDaemonSet sa (nfd_Namespace cr) ''nfd-topology-updater'' w)))
     (fst (getTopologyNotAvailableConditions lib \<lparr>sh_deploymentAPI = da, sh_daemonsetAPI = sa\<rparr> cr w))"
  unfolding getTopologyNotAvailableConditions_def
  by (rule daemonset_reports [of _ _ _ "\<lparr>sh_deploymentAPI = da, sh_daemonsetAPI = sa\<rparr>", simplified]) simp_all

lemma getMaster_reports:
  "reports (read_health deployment_health (fst (api_GetDeployment da (nfd_Namespace cr) ''nfd-master'' w)))
     (fst (getMasterNotAvailableConditions lib \<lparr>sh_deploymentAPI = da, sh_daemonsetAPI = sa\<rparr> cr w))"
  unfolding getMasterNotAvailableConditions_def
  by (rule deployment_reports [of _ _ _ "\<lparr>sh_deploymentAPI = da, sh_daemonsetAPI = sa\<rparr>", simplified]) simp_all

lemma getGC_reports:
  "reports (read_health deployment_health (fst (api_GetDeployment da (nfd_Namespace cr) ''nfd-gc'' w)))
     (fst (getGCNotAvailableConditions lib \<lparr>sh_deploymentAPI = da, sh_daemonsetAPI = sa\<rparr> cr w))"
  unfolding getGCNotAvailableConditions_def
  by (rule deployment_reports [of _ _ _ "\<lparr>sh_deploymentAPI = da, sh_daemonsetAPI = sa\<rparr>", simplified]) simp_all

lemmas source_reports_bundle = getWorker_reports getTopology_reports getMaster_reports getGC_reports

section \<open>The contract of the helper, and the overall verdict\<close>

text \<open>
  \<open>status_source\<close> is what each method of \<^verbatim>\<open>statusHelperAPI\<close> promises: a nil slice when the workload
  it looks at is healthy, a well-formed list with the workload's state otherwise.
\<close>

locale status_source =
  fixes source :: "NodeFeatureDiscovery \<Rightarrow> 'w \<Rightarrow> Condition list option \<times> 'w"
    and health_of :: "NodeFeatureDiscovery \<Rightarrow> 'w \<Rightarrow> health"
  assumes source_reports: "reports (health_of cr w) (fst (source cr w))"
begin

lemma source_nil: "fst (source cr w) = None \<longleftrightarrow> health_of cr w = Healthy"
  using source_reports [of cr w] by (auto simp: reports_def split: option.splits)

lemma source_list:
  "fst (source cr w) = Some cs \<Longrightarrow>
     health_of cr w \<noteq> Healthy \<and> report_wellformed cs \<and> report_health cs = health_of cr w"
  using source_reports [of cr w] by (simp add: reports_def)

end

fun first_unhealthy :: "health list \<Rightarrow> health" where
  "first_unhealthy [] = Healthy"
| "first_unhealthy (h # hs) = (if h = Healthy then first_unhealthy hs else h)"

lemma first_unhealthy_Healthy: "first_unhealthy hs = Healthy \<longleftrightarrow> (\<forall>h \<in> set hs. h = Healthy)"
  by (induction hs) auto

locale status_helper =
  worker: status_source "api_getWorkerNotAvailableConditions helper" hw +
  master: status_source "api_getMasterNotAvailableConditions helper" hm +
  gc: status_source "api_getGCNotAvailableConditions helper" hg +
  topology: status_source "api_getTopologyNotAvailableConditions helper" ht
  for helper :: "('w, 'e) statusHelperAPI"
    and hw hm hg ht :: "NodeFeatureDiscovery \<Rightarrow> 'w \<Rightarrow> health"
begin

text \<open>
  The healths in the order \<^verbatim>\<open>GetConditions\<close> reads them, each in the world the previous read left; the
  topology updater counts only when it is enabled.
\<close>

lemma GetConditions_report:
  assumes w1: "w1 = snd (api_getWorkerNotAvailableConditions helper cr w)"
    and w2: "w2 = snd (api_getMasterNotAvailableConditions helper cr w1)"
    and w3: "w3 = snd (api_getGCNotAvailableConditions helper cr w2)"
  shows "report_wellformed (fst (GetConditions lib helper cr w)) \<and>
    report_health (fst (GetConditions lib helper cr w)) =
      first_unhealthy [hw cr w, hm cr w1, hg cr w2,
        if spc_TopologyUpdater (nfd_Spec cr) then ht cr w3 else Healthy]"
proof -
  obtain a where a: "api_getWorkerNotAvailableConditions helper cr w = (a, w1)"
    using w1 by (metis prod.collapse)
  obtain b where b: "api_getMasterNotAvailableConditions helper cr w1 = (b, w2)"
    using w2 by (metis prod.collapse)
  obtain c where c: "api_getGCNotAvailableConditions helper cr w2 = (c, w3)"
    using w3 by (metis prod.collapse)
  obtain d w4 where d: "api_getTopologyNotAvailableConditions helper cr w3 = (d, w4)" by fastforce
  obtain now w5 where t: "time_Now lib w4 = (now, w5)" by fastforce
  obtain now' w5' where t': "time_Now lib w3 = (now', w5')" by fastforce
  have eq: "fst (GetConditions lib helper cr w) =
      (case a of Some cs \<Rightarrow> cs | None \<Rightarrow>
       case b of Some cs \<Rightarrow> cs | None \<Rightarrow>
       case c of Some cs \<Rightarrow> cs | None \<Rightarrow>
       if spc_TopologyUpdater (nfd_Spec cr)
       then (case d of Some cs \<Rightarrow> cs | None \<Rightarrow> getAvailableConditions now)
       else getAvailableConditions now')"
    by (simp add: GetConditions_def a b c d t t' split: option.split)
  have "reports (hw cr w) a" "reports (hm cr w1) b" "reports (hg cr w2) c" "reports (ht cr w3) d"
    using worker.source_reports [of cr w] master.source_reports [of cr w1]
      gc.source_reports [of cr w2] topology.source_reports [of cr w3]
    by (simp_all add: a b c d)
  then show ?thesis
    by (auto simp: eq reports_def split: option.splits)
qed

end

text \<open>The helper the operator builds keeps the contract, whatever the two APIs answer.\<close>

interpretation built: status_helper "newStatusHelperAPI lib da sa"
    "\<lambda>cr w. read_health daemonset_health (fst (api_GetDaemonSet sa (nfd_Namespace cr) ''nfd-worker'' w))"
    "\<lambda>cr w. read_health deployment_health (fst (api_GetDeployment da (nfd_Namespace cr) ''nfd-master'' w))"
    "\<lambda>cr w. read_health deployment_health (fst (api_GetDeployment da (nfd_Namespace cr) ''nfd-gc'' w))"
    "\<lambda>cr w. read_health daemonset_health
        (fst (api_GetDaemonSet sa (nfd_Namespace cr) ''nfd-topology-updater'' w))"
  for lib :: "('w, 'e, 's) machinery" and da sa
  by unfold_locales (simp_all add: source_reports_bundle)

section \<open>Comparing condition lists\<close>

definition without_time :: "Condition \<Rightarrow> Condition" where
  "without_time c = c\<lparr>cond_LastTransitionTime := 0\<rparr>"

lemma without_time_eq:
  "without_time c = without_time d \<longleftrightarrow>
     cond_Type c = cond_Type d \<and> cond_Status c = cond_Status d \<and>
     cond_Reason c = cond_Reason d \<and> cond_Message c = cond_Message d"
  by (cases c; cases d) (simp add: without_time_def)

lemma AreConditionsEqual_iff:
  assumes "machinery_laws lib" and "distinct (map cond_Type prev)"
  shows "AreConditionsEqual lib prev new \<longleftrightarrow>
     without_time ` set new \<subseteq> without_time ` set prev"
proof (induction new)
  case Nil
  then show ?case by simp
next
  case (Cons n new)
  have "(\<exists>p. FindStatusCondition lib prev (cond_Type n) = Some p \<and> without_time p = without_time n)
      \<longleftrightarrow> without_time n \<in> without_time ` set prev"
  proof
    assume "without_time n \<in> without_time ` set prev"
    then obtain p where p: "p \<in> set prev" "without_time n = without_time p" by auto
    then have "cond_Type n = cond_Type p" by (simp add: without_time_eq)
    with p machinery_laws.FindStatusCondition_distinct [OF assms p(1)]
    show "\<exists>p. FindStatusCondition lib prev (cond_Type n) = Some p \<and> without_time p = without_time n"
      by auto
  next
    assume "\<exists>p. FindStatusCondition lib prev (cond_Type n) = Some p \<and> without_time p = without_time n"
    then obtain p where "p \<in> set prev" "without_time p = without_time n"
      using machinery_laws.FindStatusCondition_Some [OF assms(1)] by blast
    then show "without_time n \<in> without_time ` set prev" by (metis imageI)
  qed
  then have member: "without_time n \<in> without_time ` set prev \<longleftrightarrow>
      (\<exists>p. FindStatusCondition lib prev (cond_Type n) = Some p \<and> without_time p = without_time n)"
    by (rule sym)
  show ?case
  proof (cases "FindStatusCondition lib prev (cond_Type n)")
    case None
    with member show ?thesis by simp
  next
    case (Some p)
    then have "cond_Type p = cond_Type n"
      using machinery_laws.FindStatusCondition_Some [OF assms(1)] by blast
    with Some member have "without_time n \<in> without_time ` set prev \<longleftrightarrow>
        cond_Status p = cond_Status n \<and> cond_Reason p = cond_Reason n \<and>
        cond_Message p = cond_Message n"
      by (simp add: without_time_eq)
    with Some Cons.IH show ?thesis by auto
  qed
qed

text \<open>Without any assumption on the old list the comparison still never passes over a difference.\<close>

lemma AreConditionsEqual_covers:
  assumes "machinery_laws lib"
  shows "AreConditionsEqual lib prev new \<Longrightarrow> without_time ` set new \<subseteq> without_time ` set prev"
proof (induction new)
  case Nil
  then show ?case by simp
next
  case (Cons n new)
  then obtain p where p: "FindStatusCondition lib prev (cond_Type n) = Some p"
    "without_time n = without_time p" "AreConditionsEqual lib prev new"
    using machinery_laws.FindStatusCondition_Some [OF assms]
    by (auto simp: without_time_eq split: option.splits if_splits)
  then have "p \<in> set prev" using machinery_laws.FindStatusCondition_Some [OF assms] by blast
  with p Cons.IH show ?case by auto
qed

lemma report_wellformed_distinct: "report_wellformed cs \<Longrightarrow> distinct (map cond_Type cs)"
  by (simp add: report_wellformed_def)

text \<open>Between two well-formed lists the comparison is equality up to the timestamps.\<close>

lemma AreConditionsEqual_reports:
  assumes laws: "machinery_laws lib" and p: "report_wellformed prev" and n: "report_wellformed new"
  shows "AreConditionsEqual lib prev new \<longleftrightarrow> map without_time prev = map without_time new"
proof
  assume "AreConditionsEqual lib prev new"
  then have sub: "without_time ` set new \<subseteq> without_time ` set prev"
    using AreConditionsEqual_iff [OF laws report_wellformed_distinct [OF p]] by simp
  have types: "map cond_Type prev = map cond_Type new"
    using p n by (simp add: report_wellformed_def)
  then have len: "length prev = length new" by (metis length_map)
  have "without_time (prev ! i) = without_time (new ! i)" if i: "i < length new" for i
  proof -
    from sub i obtain q where q: "q \<in> set prev" "without_time (new ! i) = without_time q"
      using nth_mem by blast
    have "prev ! i \<in> set prev" using i len by simp
    moreover have "cond_Type q = cond_Type (prev ! i)"
      using types i len q(2) without_time_eq by (metis nth_map)
    moreover have "inj_on cond_Type (set prev)"
      using report_wellformed_distinct [OF p] by (simp add: distinct_map)
    ultimately have "q = prev ! i" using q(1) by (simp add: inj_on_eq_iff)
    with q show ?thesis by simp
  qed
  with len show "map without_time prev = map without_time new" by (intro nth_equalityI) auto
next
  assume "map without_time prev = map without_time new"
  then have "without_time ` set prev = without_time ` set new" by (metis list.set_map)
  then show "AreConditionsEqual lib prev new"
    using AreConditionsEqual_iff [OF laws report_wellformed_distinct [OF p]] by simp
qed

section \<open>The report\<close>

text \<open>
  C19: the report is the worst news first. Whatever the two APIs answer, \<^verbatim>\<open>GetConditions\<close> gives a
  well-formed report, and its verdict is that of the first workload that is not healthy, in the order
  worker, master, garbage collector and, when it is enabled, topology updater; it is Available when all
  are healthy. A workload that cannot be read counts as broken.
\<close>

theorem report_of_workloads:
  "let helper = newStatusHelperAPI lib da sa;
       w1 = snd (api_getWorkerNotAvailableConditions helper cr w);
       w2 = snd (api_getMasterNotAvailableConditions helper cr w1);
       w3 = snd (api_getGCNotAvailableConditions helper cr w2);
       ns = nfd_Namespace cr
   in report_wellformed (fst (GetConditions lib helper cr w)) \<and>
      report_health (fst (GetConditions lib helper cr w)) = first_unhealthy
        [read_health daemonset_health (fst (api_GetDaemonSet sa ns ''nfd-worker'' w)),
         read_health deployment_health (fst (api_GetDeployment da ns ''nfd-master'' w1)),
         read_health deployment_health (fst (api_GetDeployment da ns ''nfd-gc'' w2)),
         if spc_TopologyUpdater (nfd_Spec cr)
         then read_health daemonset_health (fst (api_GetDaemonSet sa ns ''nfd-topology-updater'' w3))
         else Healthy]"
  unfolding Let_def by (rule built.GetConditions_report [OF refl refl refl])

text \<open>
  When a workload counts as available. A daemon set is available exactly when it wants at least one
  node, runs on at least one and is ready on all it wants; it is degraded when it wants or has none and
  progressing otherwise. A deployment is available exactly when a replica is, and degraded otherwise. A
  message is given exactly when the workload is not available.
\<close>

theorem workload_classification:
  "(fst (getDaemonSetConditions ds) = conditionStatusAvailable \<longleftrightarrow>
      dsst_DesiredNumberScheduled (ds_Status ds) \<noteq> 0 \<and> dsst_CurrentNumberScheduled (ds_Status ds) \<noteq> 0 \<and>
      dsst_NumberReady (ds_Status ds) = dsst_DesiredNumberScheduled (ds_Status ds)) \<and>
   (fst (getDaemonSetConditions ds) = conditionStatusDegraded \<longleftrightarrow>
      dsst_DesiredNumberScheduled (ds_Status ds) = 0 \<or> dsst_CurrentNumberScheduled (ds_Status ds) = 0) \<and>
   fst (getDaemonSetConditions ds) \<in>
     {conditionStatusAvailable, conditionStatusDegraded, conditionStatusProgressing} \<and>
   (snd (getDaemonSetConditions ds) = [] \<longleftrightarrow>
      fst (getDaemonSetConditions ds) = conditionStatusAvailable) \<and>
   fst (getDeploymentConditions dep) =
     (if dst_AvailableReplicas (dep_Status dep) \<noteq> 0 then conditionStatusAvailable
      else conditionStatusDegraded) \<and>
   (snd (getDeploymentConditions dep) = [] \<longleftrightarrow>
      fst (getDeploymentConditions dep) = conditionStatusAvailable)"
  by (simp add: getDaemonSetConditions_def getDeploymentConditions_def)

end
