(* ===== verification/Configmap_Pkg.thy ===== *)
theory Configmap_Pkg
  imports Component_Contracts
begin

text \<open>
  The package \<^verbatim>\<open>internal/configmap\<close>: the config map with the worker's configuration file.
\<close>

record ('w, 'e, 's) configMap =
  c_client :: "('w, 'e) client"
  c_scheme :: 's

definition SetWorkerConfigMapAsDesired ::
  "('w, 'e, 's) machinery \<Rightarrow> ('w, 'e, 's) configMap \<Rightarrow> NodeFeatureDiscovery \<Rightarrow> ConfigMap \<Rightarrow>
     'e err \<times> ConfigMap" where
  "SetWorkerConfigMapAsDesired lib c cr cm =
     (let cm = cm\<lparr>cm_Data := [''nfd-worker-conf'' \<mapsto> wcm_ConfigData (spc_WorkerConfig (nfd_Spec cr))]\<rparr>;
          (err, om) = SetControllerReference lib cr (cm_ObjectMeta cm) (c_scheme c)
      in (err, cm\<lparr>cm_ObjectMeta := om\<rparr>))"

definition DeleteConfigMap ::
  "('w, 'e, 's) machinery \<Rightarrow> ('w, 'e, 's) configMap \<Rightarrow> string \<Rightarrow> string \<Rightarrow> 'w \<Rightarrow> 'e err \<times> 'w" where
  "DeleteConfigMap lib c namespace name w =
     (let cm = zero_ConfigMap\<lparr>cm_ObjectMeta :=
            zero_ObjectMeta\<lparr>om_Namespace := namespace, om_Name := name\<rparr>\<rparr>;
          (err, w) = Delete_ConfigMap (c_client c) cm w
      in case err of
           None \<Rightarrow> (None, w)
         | Some e \<Rightarrow>
             if IgnoreNotFound lib (Some e) \<noteq> None
             then (Some (Wrapf (''failed to delete configmap '' @ namespace @ ''/'' @ name) e), w)
             else (None, w))"

text \<open>The interface \<^verbatim>\<open>ConfigMapAPI\<close> and its constructor.\<close>

record ('w, 'e) ConfigMapAPI =
  api_SetWorkerConfigMapAsDesired :: "NodeFeatureDiscovery \<Rightarrow> ConfigMap \<Rightarrow> 'e err \<times> ConfigMap"
  api_DeleteConfigMap :: "string \<Rightarrow> string \<Rightarrow> 'w \<Rightarrow> 'e err \<times> 'w"

definition NewConfigMapAPI ::
  "('w, 'e, 's) machinery \<Rightarrow> ('w, 'e) client \<Rightarrow> 's \<Rightarrow> ('w, 'e) ConfigMapAPI" where
  "NewConfigMapAPI lib cl scheme =
     (let c = \<lparr>c_client = cl, c_scheme = scheme\<rparr>
      in \<lparr>api_SetWorkerConfigMapAsDesired = SetWorkerConfigMapAsDesired lib c,
          api_DeleteConfigMap = DeleteConfigMap lib c\<rparr>)"

lemma NewConfigMapAPI_sel [simp]:
  "api_SetWorkerConfigMapAsDesired (NewConfigMapAPI lib cl s) =
     SetWorkerConfigMapAsDesired lib \<lparr>c_client = cl, c_scheme = s\<rparr>"
  "api_DeleteConfigMap (NewConfigMapAPI lib cl s) = DeleteConfigMap lib \<lparr>c_client = cl, c_scheme = s\<rparr>"
  by (simp_all add: NewConfigMapAPI_def Let_def)

section \<open>The contracts hold\<close>

text \<open>The setter writes the data and leaves the labels alone.\<close>

interpretation worker_cm: desired_state lib "c_scheme c" "SetWorkerConfigMapAsDesired lib c"
    cm_ObjectMeta cm_Data
    "\<lambda>cr. [''nfd-worker-conf'' \<mapsto> wcm_ConfigData (spc_WorkerConfig (nfd_Spec cr))]" "\<lambda>ls. ls"
  for lib :: "('w, 'e, 's) machinery" and c
  by unfold_locales (simp_all add: SetWorkerConfigMapAsDesired_def Let_def split: prod.split)

interpretation worker_cm: exact_setter lib "c_scheme c" "SetWorkerConfigMapAsDesired lib c"
    cm_ObjectMeta cm_Data
    "\<lambda>cr. [''nfd-worker-conf'' \<mapsto> wcm_ConfigData (spc_WorkerConfig (nfd_Spec cr))]" "\<lambda>ls. ls"
    "\<lambda>m p x. x\<lparr>cm_ObjectMeta := m, cm_Data := p\<rparr>"
  for lib :: "('w, 'e, 's) machinery" and c
  by unfold_locales (simp_all add: SetWorkerConfigMapAsDesired_def Let_def split: prod.split)

text \<open>The object a delete call names.\<close>

definition named_ConfigMap :: "string \<Rightarrow> string \<Rightarrow> ConfigMap" where
  "named_ConfigMap ns name =
     zero_ConfigMap\<lparr>cm_ObjectMeta := zero_ObjectMeta\<lparr>om_Namespace := ns, om_Name := name\<rparr>\<rparr>"

lemma named_ConfigMap_meta [simp]:
  "om_Name (cm_ObjectMeta (named_ConfigMap ns name)) = name"
  "om_Namespace (cm_ObjectMeta (named_ConfigMap ns name)) = ns"
  by (simp_all add: named_ConfigMap_def)

interpretation cm_del: object_deleter lib "DeleteConfigMap lib c"
    "\<lambda>ns name. Delete_ConfigMap (c_client c) (named_ConfigMap ns name)"
    "\<lambda>ns name. ''failed to delete configmap '' @ ns @ ''/'' @ name"
  for lib :: "('w, 'e, 's) machinery" and c
  by unfold_locales
     (auto simp: DeleteConfigMap_def named_ConfigMap_def Let_def split: prod.split option.split)

end
