(* ===== verification/Job_Pkg.thy ===== *)
theory Job_Pkg
  imports Component_Contracts
begin

text \<open>
  The package \<^verbatim>\<open>internal/job\<close>: the prune job, which removes the NFD labels from the nodes when the
  custom resource is deleted.
\<close>

section \<open>The pod of the prune job\<close>

definition job_getPodsTolerations :: "Toleration list" where
  "job_getPodsTolerations =
     [zero_Toleration\<lparr>tol_Key := ''node-role.kubernetes.io/master'',
        tol_Operator := TolerationOpEqual, tol_Effect := TaintEffectNoSchedule\<rparr>,
      zero_Toleration\<lparr>tol_Key := ''node-role.kubernetes.io/control-plane'',
        tol_Operator := TolerationOpEqual, tol_Effect := TaintEffectNoSchedule\<rparr>]"

definition job_getPodsAffinity :: Affinity where
  "job_getPodsAffinity =
     \<lparr>aff_NodeAffinity = Some (zero_NodeAffinity\<lparr>na_Preferred :=
        [\<lparr>pst_Weight = 1,
          pst_Preference = zero_NodeSelectorTerm\<lparr>nst_MatchExpressions :=
            [zero_NodeSelectorRequirement\<lparr>nsr_Key := ''node-role.kubernetes.io/master'',
               nsr_Operator := NodeSelectorOpIn, nsr_Values := [[]]\<rparr>]\<rparr>\<rparr>,
         \<lparr>pst_Weight = 1,
          pst_Preference = zero_NodeSelectorTerm\<lparr>nst_MatchExpressions :=
            [zero_NodeSelectorRequirement\<lparr>nsr_Key := ''node-role.kubernetes.io/control-plane'',
               nsr_Operator := NodeSelectorOpIn, nsr_Values := [[]]\<rparr>]\<rparr>\<rparr>]\<rparr>)\<rparr>"

definition job_getEnvs :: "EnvVar list" where
  "job_getEnvs = [fieldEnv ''NODE_NAME'' ''spec.nodeName'']"

definition job_getSecurityContext :: SecurityContext where
  "job_getSecurityContext =
     zero_SecurityContext\<lparr>
       sc_RunAsNonRoot := Some True,
       sc_ReadOnlyRootFilesystem := Some True,
       sc_Capabilities := Some (zero_Capabilities\<lparr>cap_Drop := [''ALL'']\<rparr>),
       sc_AllowPrivilegeEscalation := Some False\<rparr>"

text \<open>The job \<^verbatim>\<open>CreatePruneJob\<close> builds, before its owner reference is set.\<close>

definition pruneJobObject :: "NodeFeatureDiscovery \<Rightarrow> Job" where
  "pruneJobObject cr =
     zero_Job\<lparr>
       job_ObjectMeta := zero_ObjectMeta\<lparr>
         om_Name := ''nfd-prune'',
         om_Namespace := nfd_Namespace cr,
         om_Labels := [''app'' \<mapsto> ''nfd'']\<rparr>,
       job_Spec := zero_JobSpec\<lparr>
         jsp_Completions := Some 1,
         jsp_Template := zero_PodTemplateSpec\<lparr>
           pts_ObjectMeta := zero_ObjectMeta\<lparr>om_Labels := [''app'' \<mapsto> ''nfd-prune'']\<rparr>,
           pts_Spec := zero_PodSpec\<lparr>
             pod_ServiceAccountName := ''nfd-prune'',
             pod_Affinity := Some job_getPodsAffinity,
             pod_RestartPolicy := RestartPolicyNever,
             pod_Tolerations := job_getPodsTolerations,
             pod_Containers := [zero_Container\<lparr>
               ctr_Name := ''nfd-prune'',
               ctr_Image := ImagePath (nfd_Operand cr),
               ctr_ImagePullPolicy := PullAlways,
               ctr_Command := [''nfd-master''],
               ctr_Args := [''-prune''],
               ctr_Env := job_getEnvs,
               ctr_SecurityContext := Some job_getSecurityContext\<rparr>]\<rparr>\<rparr>\<rparr>\<rparr>"

section \<open>The operations\<close>

record ('w, 'e, 's) job =
  j_client :: "('w, 'e) client"
  j_scheme :: 's

text \<open>\<^verbatim>\<open>GetJob\<close> returns \<^verbatim>\<open>(nil, err)\<close> or \<^verbatim>\<open>(job, nil)\<close>: a sum, the error on the left.\<close>

definition GetJob ::
  "('w, 'e, 's) job \<Rightarrow> string \<Rightarrow> string \<Rightarrow> 'w \<Rightarrow> ('e goerror + Job) \<times> 'w" where
  "GetJob j namespace name w =
     (let pruneJob = zero_Job;
          (err, pruneJob, w) = Get_Job (j_client j) (namespace, name) pruneJob w
      in case err of
           Some e \<Rightarrow> (Inl (Wrapf ''failed to get prune job'' e), w)
         | None \<Rightarrow> (Inr pruneJob, w))"

definition CreatePruneJob ::
  "('w, 'e, 's) machinery \<Rightarrow> ('w, 'e, 's) job \<Rightarrow> NodeFeatureDiscovery \<Rightarrow> 'w \<Rightarrow> 'e err \<times> 'w" where
  "CreatePruneJob lib j cr w =
     (let pruneJob = pruneJobObject cr;
          (err, om) = SetControllerReference lib cr (job_ObjectMeta pruneJob) (j_scheme j);
          pruneJob = pruneJob\<lparr>job_ObjectMeta := om\<rparr>
      in case err of
           Some e \<Rightarrow> (Some (Wrapf ''failed to set controller reference for prune job'' e), w)
         | None \<Rightarrow> Create_Job (j_client j) pruneJob w)"

text \<open>The interface \<^verbatim>\<open>JobAPI\<close> and its constructor.\<close>

record ('w, 'e) JobAPI =
  api_GetJob :: "string \<Rightarrow> string \<Rightarrow> 'w \<Rightarrow> ('e goerror + Job) \<times> 'w"
  api_CreatePruneJob :: "NodeFeatureDiscovery \<Rightarrow> 'w \<Rightarrow> 'e err \<times> 'w"

definition NewJobAPI :: "('w, 'e, 's) machinery \<Rightarrow> ('w, 'e) client \<Rightarrow> 's \<Rightarrow> ('w, 'e) JobAPI" where
  "NewJobAPI lib cl scheme =
     (let j = \<lparr>j_client = cl, j_scheme = scheme\<rparr>
      in \<lparr>api_GetJob = GetJob j, api_CreatePruneJob = CreatePruneJob lib j\<rparr>)"

lemma NewJobAPI_sel [simp]:
  "api_GetJob (NewJobAPI lib cl s) = GetJob \<lparr>j_client = cl, j_scheme = s\<rparr>"
  "api_CreatePruneJob (NewJobAPI lib cl s) = CreatePruneJob lib \<lparr>j_client = cl, j_scheme = s\<rparr>"
  by (simp_all add: NewJobAPI_def Let_def)

section \<open>What the reconciler relies on\<close>

text \<open>
  The error of \<^verbatim>\<open>GetJob\<close> wraps the client's, so it is a not-found error exactly when the client's is.
\<close>

lemma GetJob_Inr:
  "GetJob j ns name w = (Inr x, w') \<longleftrightarrow> Get_Job (j_client j) (ns, name) zero_Job w = (None, x, w')"
  by (auto simp: GetJob_def Let_def split: option.splits prod.splits)

lemma GetJob_Inl:
  "GetJob j ns name w = (Inl e, w') \<longleftrightarrow>
     (\<exists>e' x. Get_Job (j_client j) (ns, name) zero_Job w = (Some e', x, w') \<and>
        e = Wrapf ''failed to get prune job'' e')"
  by (auto simp: GetJob_def Let_def split: option.splits prod.splits)

lemma pruneJobObject_meta [simp]:
  "om_Name (job_ObjectMeta (pruneJobObject cr)) = ''nfd-prune''"
  "om_Namespace (job_ObjectMeta (pruneJobObject cr)) = nfd_Namespace cr"
  by (simp_all add: pruneJobObject_def)

lemma CreatePruneJob_refused:
  "SetControllerReference lib cr (job_ObjectMeta (pruneJobObject cr)) (j_scheme j) = (Some e, om) \<Longrightarrow>
     CreatePruneJob lib j cr w =
       (Some (Wrapf ''failed to set controller reference for prune job'' e), w)"
  by (simp add: CreatePruneJob_def Let_def)

lemma prune_pod_wellformed: "pod_wellformed (pts_Spec (jsp_Template (job_Spec (pruneJobObject cr))))"
  by (simp add: wellformed_defs pruneJobObject_def zero_defs)

lemma prune_pod_restricted:
  "\<forall>c \<in> set (pod_Containers (pts_Spec (jsp_Template (job_Spec (pruneJobObject cr))))). restricted c"
  by (simp add: restricted_def pruneJobObject_def job_getSecurityContext_def zero_defs)

end
