(* ===== verification/Reconciler.thy ===== *)
theory Reconciler
  imports Status_Pkg Configmap_Pkg Job_Pkg
begin

text \<open>
  The package \<^verbatim>\<open>internal/controllers\<close>: \<^verbatim>\<open>Reconcile\<close>, the helper with one method per component, the
  event predicates, and the wiring of \<^verbatim>\<open>main.go\<close> that builds them on one client. Methods whose
  implementation writes to the custom resource through its pointer return it; logging is left out.
\<close>

definition finalizerLabel :: string where
  "finalizerLabel = ''nfd-finalizer''"

section \<open>The helper\<close>

record ('w, 'e, 's) nodeFeatureDiscoveryHelper =
  h_client :: "('w, 'e) client"
  h_deploymentAPI :: "('w, 'e) DeploymentAPI"
  h_daemonsetAPI :: "('w, 'e) DaemonsetAPI"
  h_configmapAPI :: "('w, 'e) ConfigMapAPI"
  h_jobAPI :: "('w, 'e) JobAPI"
  h_statusAPI :: "('w, 'e) StatusAPI"
  h_scheme :: 's

definition finalizeComponents ::
  "('w, 'e, 's) nodeFeatureDiscoveryHelper \<Rightarrow> NodeFeatureDiscovery \<Rightarrow> 'w \<Rightarrow> 'e err \<times> 'w" where
  "finalizeComponents nfdh cr w =
     (let (err, w) = api_DeleteDaemonSet (h_daemonsetAPI nfdh) (nfd_Namespace cr) ''nfd-worker'' w
      in case err of Some e \<Rightarrow> (Some (Wrapf ''failed to delete worker daemonset'' e), w) | None \<Rightarrow>
     (let (err, w) = api_DeleteConfigMap (h_configmapAPI nfdh) (nfd_Namespace cr) ''nfd-worker'' w
      in case err of Some e \<Rightarrow> (Some (Wrapf ''failed to delete worker config map'' e), w) | None \<Rightarrow>
     (let (err, w) =
            (if spc_TopologyUpdater (nfd_Spec cr)
             then api_DeleteDaemonSet (h_daemonsetAPI nfdh) (nfd_Namespace cr) ''nfd-topology-updater'' w
             else (None, w))
      in case err of Some e \<Rightarrow> (Some (Wrapf ''failed to delete topology-updater daemonset'' e), w) | None \<Rightarrow>
     (let (err, w) = api_DeleteDeployment (h_deploymentAPI nfdh) (nfd_Namespace cr) ''nfd-master'' w
      in case err of Some e \<Rightarrow> (Some (Wrapf ''failed to delete master deployment'' e), w) | None \<Rightarrow>
      api_DeleteDeployment (h_deploymentAPI nfdh) (nfd_Namespace cr) ''nfd-gc'' w))))"

definition hasFinalizer :: "('w, 'e, 's) machinery \<Rightarrow> NodeFeatureDiscovery \<Rightarrow> bool" where
  "hasFinalizer lib cr = ContainsFinalizer lib (nfd_ObjectMeta cr) finalizerLabel"

definition setFinalizer ::
  "('w, 'e, 's) nodeFeatureDiscoveryHelper \<Rightarrow> NodeFeatureDiscovery \<Rightarrow> 'w \<Rightarrow>
     'e err \<times> NodeFeatureDiscovery \<times> 'w" where
  "setFinalizer nfdh cr w =
     (let cr = cr\<lparr>nfd_ObjectMeta := (nfd_ObjectMeta cr)\<lparr>om_Finalizers :=
            om_Finalizers (nfd_ObjectMeta cr) @ [finalizerLabel]\<rparr>\<rparr>
      in Update_NFD (h_client nfdh) cr w)"

definition removeFinalizer ::
  "('w, 'e, 's) machinery \<Rightarrow> ('w, 'e, 's) nodeFeatureDiscoveryHelper \<Rightarrow> NodeFeatureDiscovery \<Rightarrow> 'w \<Rightarrow>
     'e err \<times> NodeFeatureDiscovery \<times> 'w" where
  "removeFinalizer lib nfdh cr w =
     (let (updated, om) = RemoveFinalizer lib (nfd_ObjectMeta cr) finalizerLabel;
          cr = cr\<lparr>nfd_ObjectMeta := om\<rparr>
      in if updated then Update_NFD (h_client nfdh) cr w else (None, cr, w))"

definition handleMaster ::
  "('w, 'e, 's) machinery \<Rightarrow> ('w, 'e, 's) nodeFeatureDiscoveryHelper \<Rightarrow> NodeFeatureDiscovery \<Rightarrow> 'w \<Rightarrow>
     'e err \<times> 'w" where
  "handleMaster lib nfdh cr w =
     (let masterDep = zero_Deployment\<lparr>dep_ObjectMeta :=
            zero_ObjectMeta\<lparr>om_Name := ''nfd-master'', om_Namespace := nfd_Namespace cr\<rparr>\<rparr>;
          (opRes, err, w) = CreateOrPatch_Deployment lib (h_client nfdh) masterDep
            (api_SetMasterDeploymentAsDesired (h_deploymentAPI nfdh) cr) w
      in case err of
           Some e \<Rightarrow> (Some (Wrapf (''failed to reconcile master deployment '' @ nfd_Namespace cr @
                         ''/'' @ nfd_Name cr) e), w)
         | None \<Rightarrow> (None, w))"

definition handleWorker ::
  "('w, 'e, 's) machinery \<Rightarrow> ('w, 'e, 's) nodeFeatureDiscoveryHelper \<Rightarrow> NodeFeatureDiscovery \<Rightarrow> 'w \<Rightarrow>
     'e err \<times> 'w" where
  "handleWorker lib nfdh cr w =
     (let workerCM = zero_ConfigMap\<lparr>cm_ObjectMeta :=
            zero_ObjectMeta\<lparr>om_Name := ''nfd-worker'', om_Namespace := nfd_Namespace cr\<rparr>\<rparr>;
          (cmRes, err, w) = CreateOrPatch_ConfigMap lib (h_client nfdh) workerCM
            (api_SetWorkerConfigMapAsDesired (h_configmapAPI nfdh) cr) w
      in case err of
           Some e \<Rightarrow> (Some (Wrapf (''failed to reconcile worker configmap '' @ nfd_Namespace cr @
                         ''/'' @ nfd_Name cr) e), w)
         | None \<Rightarrow>
     (let workerDS = zero_DaemonSet\<lparr>ds_ObjectMeta :=
            zero_ObjectMeta\<lparr>om_Name := ''nfd-worker'', om_Namespace := nfd_Namespace cr\<rparr>\<rparr>;
          (opRes, err, w) = CreateOrPatch_DaemonSet lib (h_client nfdh) workerDS
            (api_SetWorkerDaemonsetAsDesired (h_daemonsetAPI nfdh) cr) w
      in case err of
           Some e \<Rightarrow> (Some (Wrapf (''failed to reconcile worker DaemonSet '' @ nfd_Namespace cr @
                         ''/'' @ nfd_Name cr) e), w)
         | None \<Rightarrow> (None, w)))"

definition handleTopology ::
  "('w, 'e, 's) machinery \<Rightarrow> ('w, 'e, 's) nodeFeatureDiscoveryHelper \<Rightarrow> NodeFeatureDiscovery \<Rightarrow> 'w \<Rightarrow>
     'e err \<times> 'w" where
  "handleTopology lib nfdh cr w =
     (if \<not> spc_TopologyUpdater (nfd_Spec cr) then (None, w) else
      let topologyDS = zero_DaemonSet\<lparr>ds_ObjectMeta :=
            zero_ObjectMeta\<lparr>om_Name := ''nfd-topology-updater'', om_Namespace := nfd_Namespace cr\<rparr>\<rparr>;
          (opRes, err, w) = CreateOrPatch_DaemonSet lib (h_client nfdh) topologyDS
            (api_SetTopologyDaemonsetAsDesired (h_daemonsetAPI nfdh) cr) w
      in case err of
           Some e \<Rightarrow> (Some (Wrapf (''failed to reconcile topology daemonset '' @ nfd_Namespace cr @
                         ''/'' @ nfd_Name cr) e), w)
         | None \<Rightarrow> (None, w))"

definition handleGC ::
  "('w, 'e, 's) machinery \<Rightarrow> ('w, 'e, 's) nodeFeatureDiscoveryHelper \<Rightarrow> NodeFeatureDiscovery \<Rightarrow> 'w \<Rightarrow>
     'e err \<times> 'w" where
  "handleGC lib nfdh cr w =
     (let gcDep = zero_Deployment\<lparr>dep_ObjectMeta :=
            zero_ObjectMeta\<lparr>om_Name := ''nfd-gc'', om_Namespace := nfd_Namespace cr\<rparr>\<rparr>;
          (opRes, err, w) = CreateOrPatch_Deployment lib (h_client nfdh) gcDep
            (api_SetGCDeploymentAsDesired (h_deploymentAPI nfdh) cr) w
      in case err of
           Some e \<Rightarrow> (Some (Wrapf (''failed to reconcile nfd-gc deployment '' @ nfd_Namespace cr @
                         ''/'' @ nfd_Name cr) e), w)
         | None \<Rightarrow> (None, w))"

definition handlePrune ::
  "('w, 'e, 's) machinery \<Rightarrow> ('w, 'e, 's) nodeFeatureDiscoveryHelper \<Rightarrow> NodeFeatureDiscovery \<Rightarrow> 'w \<Rightarrow>
     (bool \<times> 'e err) \<times> 'w" where
  "handlePrune lib nfdh cr w =
     (if \<not> spc_PruneOnDelete (nfd_Spec cr) then ((True, None), w) else
      let (result, w) = api_GetJob (h_jobAPI nfdh) (nfd_Namespace cr) ''nfd-prune'' w
      in case result of
           Inl err \<Rightarrow>
             (if IsNotFound lib err
              then (let (err, w) = api_CreatePruneJob (h_jobAPI nfdh) cr w
                    in case err of
                         Some e \<Rightarrow> ((False, Some (Wrapf ''failed to create nfd-prune job'' e)), w)
                       | None \<Rightarrow> ((False, None), w))
              else ((False, Some (Wrapf ''failed to get nfd-prune job'' err)), w))
         | Inr pruneJob \<Rightarrow>
             (let returnErr = None;
                  done = False;
                  done = (if jst_Succeeded (job_Status pruneJob) > 0 then True else done);
                  returnErr = (if jst_Failed (job_Status pruneJob) > 0
                               then Some (Errorf ''prune job's pod has failed'') else returnErr)
              in ((done, returnErr), w)))"

text \<open>
  \<^verbatim>\<open>DeepCopy\<close> takes a snapshot; records being values, the snapshot is the record before the
  assignment to the conditions.
\<close>

definition handleStatus ::
  "('w, 'e, 's) nodeFeatureDiscoveryHelper \<Rightarrow> NodeFeatureDiscovery \<Rightarrow> 'w \<Rightarrow>
     'e err \<times> NodeFeatureDiscovery \<times> 'w" where
  "handleStatus nfdh cr w =
     (let (conditions, w) = api_GetConditions (h_statusAPI nfdh) cr w
      in if api_AreConditionsEqual (h_statusAPI nfdh) (sts_Conditions (nfd_Status cr)) conditions
         then (None, cr, w)
         else
           (let unmodifiedCR = cr;
                cr = cr\<lparr>nfd_Status := (nfd_Status cr)\<lparr>sts_Conditions := conditions\<rparr>\<rparr>
            in StatusPatch_NFD (h_client nfdh) cr unmodifiedCR w))"

text \<open>The interface \<^verbatim>\<open>nodeFeatureDiscoveryHelperAPI\<close> and its constructor.\<close>

record ('w, 'e) helperAPI =
  api_finalizeComponents :: "NodeFeatureDiscovery \<Rightarrow> 'w \<Rightarrow> 'e err \<times> 'w"
  api_hasFinalizer :: "NodeFeatureDiscovery \<Rightarrow> bool"
  api_setFinalizer :: "NodeFeatureDiscovery \<Rightarrow> 'w \<Rightarrow> 'e err \<times> NodeFeatureDiscovery \<times> 'w"
  api_removeFinalizer :: "NodeFeatureDiscovery \<Rightarrow> 'w \<Rightarrow> 'e err \<times> NodeFeatureDiscovery \<times> 'w"
  api_handleMaster :: "NodeFeatureDiscovery \<Rightarrow> 'w \<Rightarrow> 'e err \<times> 'w"
  api_handleWorker :: "NodeFeatureDiscovery \<Rightarrow> 'w \<Rightarrow> 'e err \<times> 'w"
  api_handleTopology :: "NodeFeatureDiscovery \<Rightarrow> 'w \<Rightarrow> 'e err \<times> 'w"
  api_handleGC :: "NodeFeatureDiscovery \<Rightarrow> 'w \<Rightarrow> 'e err \<times> 'w"
  api_handlePrune :: "NodeFeatureDiscovery \<Rightarrow> 'w \<Rightarrow> (bool \<times> 'e err) \<times> 'w"
  api_handleStatus :: "NodeFeatureDiscovery \<Rightarrow> 'w \<Rightarrow> 'e err \<times> NodeFeatureDiscovery \<times> 'w"

definition newNodeFeatureDiscoveryHelperAPI ::
  "('w, 'e, 's) machinery \<Rightarrow> ('w, 'e) client \<Rightarrow> ('w, 'e) DeploymentAPI \<Rightarrow> ('w, 'e) DaemonsetAPI \<Rightarrow>
     ('w, 'e) ConfigMapAPI \<Rightarrow> ('w, 'e) JobAPI \<Rightarrow> ('w, 'e) StatusAPI \<Rightarrow> 's \<Rightarrow> ('w, 'e) helperAPI" where
  "newNodeFeatureDiscoveryHelperAPI lib cl deploymentAPI daemonsetAPI configmapAPI jobAPI statusAPI scheme =
     (let nfdh = \<lparr>h_client = cl, h_deploymentAPI = deploymentAPI, h_daemonsetAPI = daemonsetAPI,
            h_configmapAPI = configmapAPI, h_jobAPI = jobAPI, h_statusAPI = statusAPI,
            h_scheme = scheme\<rparr>
      in \<lparr>api_finalizeComponents = finalizeComponents nfdh,
          api_hasFinalizer = hasFinalizer lib,
          api_setFinalizer = setFinalizer nfdh,
          api_removeFinalizer = removeFinalizer lib nfdh,
          api_handleMaster = handleMaster lib nfdh,
          api_handleWorker = handleWorker lib nfdh,
          api_handleTopology = handleTopology lib nfdh,
          api_handleGC = handleGC lib nfdh,
          api_handlePrune = handlePrune lib nfdh,
          api_handleStatus = handleStatus nfdh\<rparr>)"

section \<open>Reconcile\<close>

record Result =
  res_Requeue :: bool
  res_RequeueAfter :: int

definition zero_Result :: Result where
  "zero_Result = \<lparr>res_Requeue = False, res_RequeueAfter = 0\<rparr>"

definition Reconcile ::
  "('w, 'e) helperAPI \<Rightarrow> NodeFeatureDiscovery \<Rightarrow> 'w \<Rightarrow>
     (Result \<times> 'e err) \<times> NodeFeatureDiscovery \<times> 'w" where
  "Reconcile helper cr w =
     (let res = zero_Result
      in if om_DeletionTimestamp (nfd_ObjectMeta cr) \<noteq> None
      then
       (let (err, w) = api_finalizeComponents helper cr w
        in case err of
             Some e \<Rightarrow> ((res, Some (Wrapf (''failed to finalize components for '' @
                           nfd_Namespace cr @ ''/'' @ nfd_Name cr) e)), cr, w)
           | None \<Rightarrow>
       (let ((done, err), w) = api_handlePrune helper cr w
        in case err of
             Some e \<Rightarrow> ((res, Some (Wrapf (''failed to handle pruning for '' @
                           nfd_Namespace cr @ ''/'' @ nfd_Name cr) e)), cr, w)
           | None \<Rightarrow>
              if \<not> done then ((res, None), cr, w)
              else (let (err, cr, w) = api_removeFinalizer helper cr w in ((res, err), cr, w))))
      else if \<not> api_hasFinalizer helper cr
      then (let (err, cr, w) = api_setFinalizer helper cr w in ((res, err), cr, w))
      else
       (let (err1, w) = api_handleMaster helper cr w;
            (err2, w) = api_handleWorker helper cr w;
            (err3, w) = api_handleTopology helper cr w;
            (err4, w) = api_handleGC helper cr w;
            (err5, cr, w) = api_handleStatus helper cr w
        in ((res, errors_Join [err1, err2, err3, err4, err5]), cr, w)))"

section \<open>Event predicates\<close>

text \<open>
  The predicates look at the metadata of the objects only. \<^verbatim>\<open>reflect.TypeOf(NodeFeatureDiscovery{}).Name()\<close>
  is the name of the Go type, \<^const>\<open>nfd_kind\<close>.
\<close>

datatype event =
    CreateEvent ObjectMeta
  | UpdateEvent ObjectMeta ObjectMeta  \<comment> \<open>old, new\<close>
  | DeleteEvent ObjectMeta
  | GenericEvent ObjectMeta

definition isControlledByNFD :: "('w, 'e, 's) machinery \<Rightarrow> ObjectMeta \<Rightarrow> bool" where
  "isControlledByNFD lib obj =
     (case GetControllerOf lib obj of
        None \<Rightarrow> False
      | Some controller \<Rightarrow> or_Kind controller = nfd_kind)"

fun getPredicates :: "('w, 'e, 's) machinery \<Rightarrow> event \<Rightarrow> bool" where
  "getPredicates lib (CreateEvent obj) = False"
| "getPredicates lib (GenericEvent obj) = False"
| "getPredicates lib (UpdateEvent objOld objNew) = isControlledByNFD lib objNew"
| "getPredicates lib (DeleteEvent obj) = isControlledByNFD lib obj"

section \<open>The wiring of main.go\<close>

text \<open>\<^verbatim>\<open>main\<close> builds the five APIs and the helper on the manager's client and scheme.\<close>

definition operatorHelper ::
  "('w, 'e, 's) machinery \<Rightarrow> ('w, 'e) client \<Rightarrow> 's \<Rightarrow> ('w, 'e, 's) nodeFeatureDiscoveryHelper" where
  "operatorHelper lib cl scheme =
     (let deploymentAPI = NewDeploymentAPI lib cl scheme;
          daemonsetAPI = NewDaemonsetAPI lib cl scheme;
          configmapAPI = NewConfigMapAPI lib cl scheme;
          jobAPI = NewJobAPI lib cl scheme;
          statusAPI = NewStatusAPI lib deploymentAPI daemonsetAPI
      in \<lparr>h_client = cl, h_deploymentAPI = deploymentAPI, h_daemonsetAPI = daemonsetAPI,
          h_configmapAPI = configmapAPI, h_jobAPI = jobAPI, h_statusAPI = statusAPI,
          h_scheme = scheme\<rparr>)"

text \<open>A \<^verbatim>\<open>nodeFeatureDiscoveryReconciler\<close> is a struct of one field, the helper, and stands for it.\<close>

definition NewNodeFeatureDiscoveryReconciler ::
  "('w, 'e, 's) machinery \<Rightarrow> ('w, 'e) client \<Rightarrow> ('w, 'e) DeploymentAPI \<Rightarrow> ('w, 'e) DaemonsetAPI \<Rightarrow>
     ('w, 'e) ConfigMapAPI \<Rightarrow> ('w, 'e) JobAPI \<Rightarrow> ('w, 'e) StatusAPI \<Rightarrow> 's \<Rightarrow> ('w, 'e) helperAPI" where
  "NewNodeFeatureDiscoveryReconciler lib cl deploymentAPI daemonsetAPI configmapAPI jobAPI statusAPI scheme =
     newNodeFeatureDiscoveryHelperAPI lib cl deploymentAPI daemonsetAPI configmapAPI jobAPI statusAPI scheme"

definition operatorReconciler ::
  "('w, 'e, 's) machinery \<Rightarrow> ('w, 'e) client \<Rightarrow> 's \<Rightarrow> ('w, 'e) helperAPI" where
  "operatorReconciler lib cl scheme =
     (let deploymentAPI = NewDeploymentAPI lib cl scheme;
          daemonsetAPI = NewDaemonsetAPI lib cl scheme;
          configmapAPI = NewConfigMapAPI lib cl scheme;
          jobAPI = NewJobAPI lib cl scheme;
          statusAPI = NewStatusAPI lib deploymentAPI daemonsetAPI
      in NewNodeFeatureDiscoveryReconciler lib cl deploymentAPI daemonsetAPI configmapAPI jobAPI
           statusAPI scheme)"

end
