(* ===== verification/Reconciler_Facts.thy ===== *)
theory Reconciler_Facts
  imports Reconciler
begin

text \<open>
  What each method of the helper does to the cluster, over the laws of \<open>api_server\<close>: the objects it
  writes, and that it writes nothing else. The methods run on the helper \<^const>\<open>operatorHelper\<close> that
  \<^verbatim>\<open>main\<close> builds.
\<close>

lemma operatorHelper_sel [simp]:
  "h_client (operatorHelper lib cl s) = cl"
  "h_deploymentAPI (operatorHelper lib cl s) = NewDeploymentAPI lib cl s"
  "h_daemonsetAPI (operatorHelper lib cl s) = NewDaemonsetAPI lib cl s"
  "h_configmapAPI (operatorHelper lib cl s) = NewConfigMapAPI lib cl s"
  "h_jobAPI (operatorHelper lib cl s) = NewJobAPI lib cl s"
  "h_statusAPI (operatorHelper lib cl s) =
     NewStatusAPI lib (NewDeploymentAPI lib cl s) (NewDaemonsetAPI lib cl s)"
  by (simp_all add: operatorHelper_def Let_def)

lemma operatorReconciler_sel [simp]:
  "api_finalizeComponents (operatorReconciler lib cl s) = finalizeComponents (operatorHelper lib cl s)"
  "api_hasFinalizer (operatorReconciler lib cl s) = hasFinalizer lib"
  "api_setFinalizer (operatorReconciler lib cl s) = setFinalizer (operatorHelper lib cl s)"
  "api_removeFinalizer (operatorReconciler lib cl s) = removeFinalizer lib (operatorHelper lib cl s)"
  "api_handleMaster (operatorReconciler lib cl s) = handleMaster lib (operatorHelper lib cl s)"
  "api_handleWorker (operatorReconciler lib cl s) = handleWorker lib (operatorHelper lib cl s)"
  "api_handleTopology (operatorReconciler lib cl s) = handleTopology lib (operatorHelper lib cl s)"
  "api_handleGC (operatorReconciler lib cl s) = handleGC lib (operatorHelper lib cl s)"
  "api_handlePrune (operatorReconciler lib cl s) = handlePrune lib (operatorHelper lib cl s)"
  "api_handleStatus (operatorReconciler lib cl s) = handleStatus (operatorHelper lib cl s)"
  by (simp_all add: operatorReconciler_def NewNodeFeatureDiscoveryReconciler_def
      operatorHelper_def newNodeFeatureDiscoveryHelperAPI_def Let_def)

text \<open>
  The objects the custom resource asks for, by their keys: the topology updater only when it is
  enabled. With the custom resource itself and the prune job they are all a pass may write.
\<close>

definition managed_keys :: "NodeFeatureDiscovery \<Rightarrow> cluster_key list" where
  "managed_keys cr =
     [(KDeployment, nfd_Namespace cr, ''nfd-master''),
      (KConfigMap, nfd_Namespace cr, ''nfd-worker''),
      (KDaemonSet, nfd_Namespace cr, ''nfd-worker'')] @
     (if spc_TopologyUpdater (nfd_Spec cr)
      then [(KDaemonSet, nfd_Namespace cr, ''nfd-topology-updater'')] else []) @
     [(KDeployment, nfd_Namespace cr, ''nfd-gc'')]"

definition prune_key :: "NodeFeatureDiscovery \<Rightarrow> cluster_key" where
  "prune_key cr = (KJob, nfd_Namespace cr, ''nfd-prune'')"

definition footprint :: "NodeFeatureDiscovery \<Rightarrow> cluster_key list" where
  "footprint cr = cr_key cr # prune_key cr # managed_keys cr"

lemma gone_None [simp]: "gone None"
  by (simp add: gone_def)

text \<open>The job's counters, which decide the outcome of a pruning pass.\<close>

definition prune_succeeded :: "Job \<Rightarrow> bool" where
  "prune_succeeded j \<longleftrightarrow> 0 < jst_Succeeded (job_Status j)"

definition prune_failed :: "Job \<Rightarrow> bool" where
  "prune_failed j \<longleftrightarrow> 0 < jst_Failed (job_Status j)"

text \<open>The joined error of an applying pass names the component \<open>what\<close>.\<close>

definition reconcile_error :: "string \<Rightarrow> NodeFeatureDiscovery \<Rightarrow> 'e goerror \<Rightarrow> bool" where
  "reconcile_error what cr e \<longleftrightarrow>
     (\<exists>x. e = Wrapf (''failed to reconcile '' @ what @ '' '' @ nfd_Namespace cr @ ''/'' @ nfd_Name cr) x)"

definition blames :: "string \<Rightarrow> NodeFeatureDiscovery \<Rightarrow> 'e err \<Rightarrow> bool" where
  "blames what cr err \<longleftrightarrow> (\<exists>es e. err = Some (JoinError es) \<and> e \<in> set es \<and> reconcile_error what cr e)"

lemma blames_errors_Join:
  assumes "Some e \<in> set es" and "reconcile_error what cr e"
  shows "blames what cr (errors_Join es)"
proof -
  have "errors_Join es = Some (JoinError (List.map_filter id es))"
    using assms(1) by (auto simp: errors_Join_Some)
  with assms show ?thesis
    unfolding blames_def by (auto simp: set_map_filter_id)
qed

text \<open>The errors the handlers return.\<close>

lemma handleMaster_error:
  "handleMaster lib nfdh cr w = (Some e, w') \<Longrightarrow> reconcile_error ''master deployment'' cr e"
  by (auto simp: handleMaster_def reconcile_error_def Let_def split: prod.splits option.splits)

lemma handleGC_error:
  "handleGC lib nfdh cr w = (Some e, w') \<Longrightarrow> reconcile_error ''nfd-gc deployment'' cr e"
  by (auto simp: handleGC_def reconcile_error_def Let_def split: prod.splits option.splits)

lemma handleTopology_error:
  "handleTopology lib nfdh cr w = (Some e, w') \<Longrightarrow> reconcile_error ''topology daemonset'' cr e"
  by (auto simp: handleTopology_def reconcile_error_def Let_def
      split: prod.splits option.splits if_splits)

text \<open>All the workloads the custom resource asks for are stored and healthy.\<close>

definition healthy_DaemonSet :: "(cluster_key \<Rightarrow> kobject option) \<Rightarrow> string \<Rightarrow> string \<Rightarrow> bool" where
  "healthy_DaemonSet v ns n \<longleftrightarrow>
     (case v (KDaemonSet, ns, n) of Some (ODaemonSet d) \<Rightarrow> daemonset_health d = Healthy | _ \<Rightarrow> False)"

definition healthy_Deployment :: "(cluster_key \<Rightarrow> kobject option) \<Rightarrow> string \<Rightarrow> string \<Rightarrow> bool" where
  "healthy_Deployment v ns n \<longleftrightarrow>
     (case v (KDeployment, ns, n) of Some (ODeployment d) \<Rightarrow> deployment_health d = Healthy | _ \<Rightarrow> False)"

definition workloads_healthy :: "NodeFeatureDiscovery \<Rightarrow> (cluster_key \<Rightarrow> kobject option) \<Rightarrow> bool" where
  "workloads_healthy cr v \<longleftrightarrow>
     healthy_DaemonSet v (nfd_Namespace cr) ''nfd-worker'' \<and>
     healthy_Deployment v (nfd_Namespace cr) ''nfd-master'' \<and>
     healthy_Deployment v (nfd_Namespace cr) ''nfd-gc'' \<and>
     (spc_TopologyUpdater (nfd_Spec cr) \<longrightarrow>
        healthy_DaemonSet v (nfd_Namespace cr) ''nfd-topology-updater'')"

context api_server
begin

lemma laws: "machinery_laws lib"
  by unfold_locales

section \<open>Creating and patching\<close>

text \<open>A successful create-or-patch with a setter that keeps its contract leaves the desired object.\<close>

lemma CreateOrPatch_Deployment_stored:
  assumes setter: "desired_state lib sc set_desired dep_ObjectMeta payload desired relabel"
    and call: "CreateOrPatch_Deployment lib cl x (set_desired cr) w = (opr, None, w')"
    and name: "om_Name (dep_ObjectMeta x) = name" and ns: "om_Namespace (dep_ObjectMeta x) = nfd_Namespace cr"
  shows "stored_as lib admits ODeployment dep_ObjectMeta payload (desired cr) cr name
    (view w' (KDeployment, nfd_Namespace cr, name))"
    and "\<not> terminating (view w (KDeployment, nfd_Namespace cr, name)) \<Longrightarrow>
      om_DeletionTimestamp (dep_ObjectMeta x) = None \<Longrightarrow> \<not> gone (view w' (KDeployment, nfd_Namespace cr, name))"
proof -
  from CreateOrPatch_Deployment_ok [OF call] obtain b x' y where
    b: "case view w (obj_key (ODeployment x)) of None \<Rightarrow> b = x | Some z \<Rightarrow> z = ODeployment b"
    and set: "set_desired cr b = (None, x')"
    and y: "admits (ODeployment x') y" "view w' (obj_key (ODeployment x)) = Some y"
    by blast
  have "om_Name (dep_ObjectMeta b) = name" "om_Namespace (dep_ObjectMeta b) = nfd_Namespace cr"
    using b view_key [of w "obj_key (ODeployment x)"] name ns by (auto split: option.splits)
  with desired_state.set_stored [where admits = admits and mk = ODeployment, OF setter laws set y(1)]
    y(2) name ns
  show "stored_as lib admits ODeployment dep_ObjectMeta payload (desired cr) cr name
    (view w' (KDeployment, nfd_Namespace cr, name))" by simp
  assume "\<not> terminating (view w (KDeployment, nfd_Namespace cr, name))"
    and x: "om_DeletionTimestamp (dep_ObjectMeta x) = None"
  then have "om_DeletionTimestamp (dep_ObjectMeta b) = None"
    using b name ns by (auto simp: terminating_def gone_def split: option.splits)
  then have "om_DeletionTimestamp (dep_ObjectMeta x') = None"
    using desired_state.set_keeps_identity [OF setter laws set] by simp
  then have "om_DeletionTimestamp (obj_meta y) = None" using admits_meta [OF y(1)] by auto
  with y(2) name ns show "\<not> gone (view w' (KDeployment, nfd_Namespace cr, name))" by (simp add: gone_def)
qed

lemma CreateOrPatch_DaemonSet_stored:
  assumes setter: "desired_state lib sc set_desired ds_ObjectMeta payload desired relabel"
    and call: "CreateOrPatch_DaemonSet lib cl x (set_desired cr) w = (opr, None, w')"
    and name: "om_Name (ds_ObjectMeta x) = name" and ns: "om_Namespace (ds_ObjectMeta x) = nfd_Namespace cr"
  shows "stored_as lib admits ODaemonSet ds_ObjectMeta payload (desired cr) cr name
    (view w' (KDaemonSet, nfd_Namespace cr, name))"
    and "\<not> terminating (view w (KDaemonSet, nfd_Namespace cr, name)) \<Longrightarrow>
      om_DeletionTimestamp (ds_ObjectMeta x) = None \<Longrightarrow> \<not> gone (view w' (KDaemonSet, nfd_Namespace cr, name))"
proof -
  from CreateOrPatch_DaemonSet_ok [OF call] obtain b x' y where
    b: "case view w (obj_key (ODaemonSet x)) of None \<Rightarrow> b = x | Some z \<Rightarrow> z = ODaemonSet b"
    and set: "set_desired cr b = (None, x')"
    and y: "admits (ODaemonSet x') y" "view w' (obj_key (ODaemonSet x)) = Some y"
    by blast
  have "om_Name (ds_ObjectMeta b) = name" "om_Namespace (ds_ObjectMeta b) = nfd_Namespace cr"
    using b view_key [of w "obj_key (ODaemonSet x)"] name ns by (auto split: option.splits)
  with desired_state.set_stored [where admits = admits and mk = ODaemonSet, OF setter laws set y(1)]
    y(2) name ns
  show "stored_as lib admits ODaemonSet ds_ObjectMeta payload (desired cr) cr name
    (view w' (KDaemonSet, nfd_Namespace cr, name))" by simp
  assume "\<not> terminating (view w (KDaemonSet, nfd_Namespace cr, name))"
    and x: "om_DeletionTimestamp (ds_ObjectMeta x) = None"
  then have "om_DeletionTimestamp (ds_ObjectMeta b) = None"
    using b name ns by (auto simp: terminating_def gone_def split: option.splits)
  then have "om_DeletionTimestamp (ds_ObjectMeta x') = None"
    using desired_state.set_keeps_identity [OF setter laws set] by simp
  then have "om_DeletionTimestamp (obj_meta y) = None" using admits_meta [OF y(1)] by auto
  with y(2) name ns show "\<not> gone (view w' (KDaemonSet, nfd_Namespace cr, name))" by (simp add: gone_def)
qed

lemma CreateOrPatch_ConfigMap_stored:
  assumes setter: "desired_state lib sc set_desired cm_ObjectMeta payload desired relabel"
    and call: "CreateOrPatch_ConfigMap lib cl x (set_desired cr) w = (opr, None, w')"
    and name: "om_Name (cm_ObjectMeta x) = name" and ns: "om_Namespace (cm_ObjectMeta x) = nfd_Namespace cr"
  shows "stored_as lib admits OConfigMap cm_ObjectMeta payload (desired cr) cr name
    (view w' (KConfigMap, nfd_Namespace cr, name))"
    and "\<not> terminating (view w (KConfigMap, nfd_Namespace cr, name)) \<Longrightarrow>
      om_DeletionTimestamp (cm_ObjectMeta x) = None \<Longrightarrow> \<not> gone (view w' (KConfigMap, nfd_Namespace cr, name))"
proof -
  from CreateOrPatch_ConfigMap_ok [OF call] obtain b x' y where
    b: "case view w (obj_key (OConfigMap x)) of None \<Rightarrow> b = x | Some z \<Rightarrow> z = OConfigMap b"
    and set: "set_desired cr b = (None, x')"
    and y: "admits (OConfigMap x') y" "view w' (obj_key (OConfigMap x)) = Some y"
    by blast
  have "om_Name (cm_ObjectMeta b) = name" "om_Namespace (cm_ObjectMeta b) = nfd_Namespace cr"
    using b view_key [of w "obj_key (OConfigMap x)"] name ns by (auto split: option.splits)
  with desired_state.set_stored [where admits = admits and mk = OConfigMap, OF setter laws set y(1)]
    y(2) name ns
  show "stored_as lib admits OConfigMap cm_ObjectMeta payload (desired cr) cr name
    (view w' (KConfigMap, nfd_Namespace cr, name))" by simp
  assume "\<not> terminating (view w (KConfigMap, nfd_Namespace cr, name))"
    and x: "om_DeletionTimestamp (cm_ObjectMeta x) = None"
  then have "om_DeletionTimestamp (cm_ObjectMeta b) = None"
    using b name ns by (auto simp: terminating_def gone_def split: option.splits)
  then have "om_DeletionTimestamp (cm_ObjectMeta x') = None"
    using desired_state.set_keeps_identity [OF setter laws set] by simp
  then have "om_DeletionTimestamp (obj_meta y) = None" using admits_meta [OF y(1)] by auto
  with y(2) name ns show "\<not> gone (view w' (KConfigMap, nfd_Namespace cr, name))" by (simp add: gone_def)
qed

lemma handleMaster_frame:
  assumes "handleMaster lib (operatorHelper lib cl s) cr w = (r, w')"
    and "k \<noteq> (KDeployment, nfd_Namespace cr, ''nfd-master'')"
  shows "view w' k = view w k"
  using assms
  by (auto simp: handleMaster_def Let_def split: prod.splits option.splits if_splits
      dest!: CreateOrPatch_Deployment_frame [where k = k])

lemma handleMaster_ok:
  assumes "handleMaster lib (operatorHelper lib cl s) cr w = (None, w')"
  shows "stored_as lib admits ODeployment dep_ObjectMeta dep_Spec (masterDeploymentSpec cr) cr
    ''nfd-master'' (view w' (KDeployment, nfd_Namespace cr, ''nfd-master''))"
  using assms
  by (auto simp: handleMaster_def Let_def split: prod.splits option.splits
      dest!: CreateOrPatch_Deployment_stored(1) [OF master.desired_state_axioms])

lemma handleMaster_live:
  assumes "handleMaster lib (operatorHelper lib cl s) cr w = (None, w')"
    and "\<not> terminating (view w (KDeployment, nfd_Namespace cr, ''nfd-master''))"
  shows "\<not> gone (view w' (KDeployment, nfd_Namespace cr, ''nfd-master''))"
  using assms
  by (auto simp: handleMaster_def zero_defs Let_def split: prod.splits option.splits
      dest!: CreateOrPatch_Deployment_stored(2) [OF master.desired_state_axioms])

lemma handleGC_frame:
  assumes "handleGC lib (operatorHelper lib cl s) cr w = (r, w')"
    and "k \<noteq> (KDeployment, nfd_Namespace cr, ''nfd-gc'')"
  shows "view w' k = view w k"
  using assms
  by (auto simp: handleGC_def Let_def split: prod.splits option.splits if_splits
      dest!: CreateOrPatch_Deployment_frame [where k = k])

lemma handleGC_ok:
  assumes "handleGC lib (operatorHelper lib cl s) cr w = (None, w')"
  shows "stored_as lib admits ODeployment dep_ObjectMeta dep_Spec (gcDeploymentSpec cr) cr
    ''nfd-gc'' (view w' (KDeployment, nfd_Namespace cr, ''nfd-gc''))"
  using assms
  by (auto simp: handleGC_def Let_def split: prod.splits option.splits
      dest!: CreateOrPatch_Deployment_stored(1) [OF gc.desired_state_axioms])

lemma handleGC_live:
  assumes "handleGC lib (operatorHelper lib cl s) cr w = (None, w')"
    and "\<not> terminating (view w (KDeployment, nfd_Namespace cr, ''nfd-gc''))"
  shows "\<not> gone (view w' (KDeployment, nfd_Namespace cr, ''nfd-gc''))"
  using assms
  by (auto simp: handleGC_def zero_defs Let_def split: prod.splits option.splits
      dest!: CreateOrPatch_Deployment_stored(2) [OF gc.desired_state_axioms])

lemma handleTopology_frame:
  assumes "handleTopology lib (operatorHelper lib cl s) cr w = (r, w')"
    and "k \<noteq> (KDaemonSet, nfd_Namespace cr, ''nfd-topology-updater'')"
  shows "view w' k = view w k"
  using assms
  by (auto simp: handleTopology_def Let_def split: prod.splits option.splits if_splits
      dest!: CreateOrPatch_DaemonSet_frame [where k = k])

lemma handleTopology_ok:
  assumes "handleTopology lib (operatorHelper lib cl s) cr w = (None, w')"
    and "spc_TopologyUpdater (nfd_Spec cr)"
  shows "stored_as lib admits ODaemonSet ds_ObjectMeta ds_Spec (topologyDaemonSetSpec cr) cr
    ''nfd-topology-updater'' (view w' (KDaemonSet, nfd_Namespace cr, ''nfd-topology-updater''))"
  using assms
  by (auto simp: handleTopology_def Let_def split: prod.splits option.splits
      dest!: CreateOrPatch_DaemonSet_stored(1) [OF topology.desired_state_axioms])

lemma handleTopology_live:
  assumes "handleTopology lib (operatorHelper lib cl s) cr w = (None, w')"
    and "spc_TopologyUpdater (nfd_Spec cr)"
    and "\<not> terminating (view w (KDaemonSet, nfd_Namespace cr, ''nfd-topology-updater''))"
  shows "\<not> gone (view w' (KDaemonSet, nfd_Namespace cr, ''nfd-topology-updater''))"
  using assms
  by (auto simp: handleTopology_def zero_defs Let_def split: prod.splits option.splits
      dest!: CreateOrPatch_DaemonSet_stored(2) [OF topology.desired_state_axioms])

lemma handleTopology_disabled:
  "\<not> spc_TopologyUpdater (nfd_Spec cr) \<Longrightarrow> handleTopology lib nfdh cr w = (None, w)"
  by (simp add: handleTopology_def)

lemma handleWorker_frame:
  assumes "handleWorker lib (operatorHelper lib cl s) cr w = (r, w')"
    and "k \<noteq> (KConfigMap, nfd_Namespace cr, ''nfd-worker'')"
    and "k \<noteq> (KDaemonSet, nfd_Namespace cr, ''nfd-worker'')"
  shows "view w' k = view w k"
  using assms
  by (auto simp: handleWorker_def Let_def split: prod.splits option.splits
      dest!: CreateOrPatch_ConfigMap_frame [where k = k] CreateOrPatch_DaemonSet_frame [where k = k])

lemma handleWorker_ok:
  assumes "handleWorker lib (operatorHelper lib cl s) cr w = (None, w')"
  shows "stored_as lib admits OConfigMap cm_ObjectMeta cm_Data
      [''nfd-worker-conf'' \<mapsto> wcm_ConfigData (spc_WorkerConfig (nfd_Spec cr))] cr
      ''nfd-worker'' (view w' (KConfigMap, nfd_Namespace cr, ''nfd-worker''))"
    and "stored_as lib admits ODaemonSet ds_ObjectMeta ds_Spec (workerDaemonSetSpec cr) cr
      ''nfd-worker'' (view w' (KDaemonSet, nfd_Namespace cr, ''nfd-worker''))"
    and "\<not> terminating (view w (KConfigMap, nfd_Namespace cr, ''nfd-worker'')) \<Longrightarrow>
      \<not> gone (view w' (KConfigMap, nfd_Namespace cr, ''nfd-worker''))"
    and "\<not> terminating (view w (KDaemonSet, nfd_Namespace cr, ''nfd-worker'')) \<Longrightarrow>
      \<not> gone (view w' (KDaemonSet, nfd_Namespace cr, ''nfd-worker''))"
proof -
  let ?cm = "zero_ConfigMap\<lparr>cm_ObjectMeta :=
    zero_ObjectMeta\<lparr>om_Name := ''nfd-worker'', om_Namespace := nfd_Namespace cr\<rparr>\<rparr>"
  let ?ds = "zero_DaemonSet\<lparr>ds_ObjectMeta :=
    zero_ObjectMeta\<lparr>om_Name := ''nfd-worker'', om_Namespace := nfd_Namespace cr\<rparr>\<rparr>"
  from assms obtain op1 w1 op2 where
    c1: "CreateOrPatch_ConfigMap lib cl ?cm
      (SetWorkerConfigMapAsDesired lib \<lparr>c_client = cl, c_scheme = s\<rparr> cr) w = (op1, None, w1)"
    and c2: "CreateOrPatch_DaemonSet lib cl ?ds
      (SetWorkerDaemonsetAsDesired lib \<lparr>s_client = cl, s_scheme = s\<rparr> cr) w1 = (op2, None, w')"
    by (auto simp: handleWorker_def Let_def split: prod.splits option.splits)
  show "stored_as lib admits ODaemonSet ds_ObjectMeta ds_Spec (workerDaemonSetSpec cr) cr
      ''nfd-worker'' (view w' (KDaemonSet, nfd_Namespace cr, ''nfd-worker''))"
    by (rule CreateOrPatch_DaemonSet_stored(1) [OF worker.desired_state_axioms c2]) simp_all
  have ds: "view w1 (KDaemonSet, nfd_Namespace cr, ''nfd-worker'') =
      view w (KDaemonSet, nfd_Namespace cr, ''nfd-worker'')"
    by (rule CreateOrPatch_ConfigMap_frame [OF c1]) simp
  show "\<not> gone (view w' (KDaemonSet, nfd_Namespace cr, ''nfd-worker''))"
    if "\<not> terminating (view w (KDaemonSet, nfd_Namespace cr, ''nfd-worker''))"
    by (rule CreateOrPatch_DaemonSet_stored(2) [OF worker.desired_state_axioms c2])
       (use that ds in \<open>simp_all add: zero_defs\<close>)
  have cm: "view w' (KConfigMap, nfd_Namespace cr, ''nfd-worker'') =
      view w1 (KConfigMap, nfd_Namespace cr, ''nfd-worker'')"
    by (rule CreateOrPatch_DaemonSet_frame [OF c2]) simp
  show "\<not> gone (view w' (KConfigMap, nfd_Namespace cr, ''nfd-worker''))"
    if "\<not> terminating (view w (KConfigMap, nfd_Namespace cr, ''nfd-worker''))"
    unfolding cm
    by (rule CreateOrPatch_ConfigMap_stored(2) [OF worker_cm.desired_state_axioms c1])
       (use that in \<open>simp_all add: zero_defs\<close>)
  from cm CreateOrPatch_ConfigMap_stored(1) [OF worker_cm.desired_state_axioms c1]
  show "stored_as lib admits OConfigMap cm_ObjectMeta cm_Data
      [''nfd-worker-conf'' \<mapsto> wcm_ConfigData (spc_WorkerConfig (nfd_Spec cr))] cr
      ''nfd-worker'' (view w' (KConfigMap, nfd_Namespace cr, ''nfd-worker''))"
    by simp
qed

text \<open>When the worker's daemon set fails, its config map is stored nevertheless.\<close>

lemma handleWorker_error:
  assumes "handleWorker lib (operatorHelper lib cl s) cr w = (Some e, w')"
  shows "reconcile_error ''worker configmap'' cr e \<or>
    reconcile_error ''worker DaemonSet'' cr e \<and>
      stored_as lib admits OConfigMap cm_ObjectMeta cm_Data
        [''nfd-worker-conf'' \<mapsto> wcm_ConfigData (spc_WorkerConfig (nfd_Spec cr))] cr
        ''nfd-worker'' (view w' (KConfigMap, nfd_Namespace cr, ''nfd-worker''))"
proof -
  let ?cm = "zero_ConfigMap\<lparr>cm_ObjectMeta :=
    zero_ObjectMeta\<lparr>om_Name := ''nfd-worker'', om_Namespace := nfd_Namespace cr\<rparr>\<rparr>"
  let ?ds = "zero_DaemonSet\<lparr>ds_ObjectMeta :=
    zero_ObjectMeta\<lparr>om_Name := ''nfd-worker'', om_Namespace := nfd_Namespace cr\<rparr>\<rparr>"
  obtain op1 e1 w1 where c1: "CreateOrPatch_ConfigMap lib cl ?cm
      (SetWorkerConfigMapAsDesired lib \<lparr>c_client = cl, c_scheme = s\<rparr> cr) w = (op1, e1, w1)"
    by (metis prod.exhaust)
  obtain op2 e2 w2 where c2: "CreateOrPatch_DaemonSet lib cl ?ds
      (SetWorkerDaemonsetAsDesired lib \<lparr>s_client = cl, s_scheme = s\<rparr> cr) w1 = (op2, e2, w2)"
    by (metis prod.exhaust)
  show ?thesis
  proof (cases e1)
    case (Some x)
    with c1 assms show ?thesis by (auto simp: handleWorker_def reconcile_error_def)
  next
    case None
    with c1 c2 assms have e: "reconcile_error ''worker DaemonSet'' cr e" "w2 = w'"
      by (auto simp: handleWorker_def reconcile_error_def split: option.splits)
    have "view w' (KConfigMap, nfd_Namespace cr, ''nfd-worker'') =
        view w1 (KConfigMap, nfd_Namespace cr, ''nfd-worker'')"
      using CreateOrPatch_DaemonSet_frame [OF c2] e(2) by simp
    with CreateOrPatch_ConfigMap_stored(1) [OF worker_cm.desired_state_axioms c1 [unfolded None]] e(1)
    show ?thesis by simp
  qed
qed

section \<open>Deleting\<close>

lemma DeleteDeployment_frame:
  assumes "DeleteDeployment lib \<lparr>d_client = cl, d_scheme = s\<rparr> ns n w = (r, w')" and "k \<noteq> (KDeployment, ns, n)"
  shows "view w' k = view w k"
proof -
  obtain e where e: "Delete_Deployment cl (named_Deployment ns n) w = (e, w')"
    using dep_del.delete_raw [OF assms(1)] by auto
  show ?thesis by (rule Delete_Deployment_frame [OF e]) (simp add: assms(2))
qed

lemma DeleteDeployment_stays_gone:
  assumes "DeleteDeployment lib \<lparr>d_client = cl, d_scheme = s\<rparr> ns n w = (r, w')" and "gone (view w k)"
  shows "gone (view w' k)"
proof (cases "k = (KDeployment, ns, n)")
  case True
  obtain e where "Delete_Deployment cl (named_Deployment ns n) w = (e, w')"
    using dep_del.delete_raw [OF assms(1)] by auto
  from Delete_Deployment_stays_gone [OF this] True assms(2) show ?thesis by simp
next
  case False
  then show ?thesis using DeleteDeployment_frame [OF assms(1)] assms(2) by simp
qed

lemma DeleteDeployment_gone:
  assumes "DeleteDeployment lib \<lparr>d_client = cl, d_scheme = s\<rparr> ns n w = (None, w')"
  shows "gone (view w' (KDeployment, ns, n))"
  by (rule dep_del.delete_establishes [OF laws assms])
     (auto dest!: Delete_Deployment_ok Delete_Deployment_absent)

lemma DeleteDaemonSet_frame:
  assumes "DeleteDaemonSet lib \<lparr>s_client = cl, s_scheme = s\<rparr> ns n w = (r, w')" and "k \<noteq> (KDaemonSet, ns, n)"
  shows "view w' k = view w k"
proof -
  obtain e where e: "Delete_DaemonSet cl (named_DaemonSet ns n) w = (e, w')"
    using ds_del.delete_raw [OF assms(1)] by auto
  show ?thesis by (rule Delete_DaemonSet_frame [OF e]) (simp add: assms(2))
qed

lemma DeleteDaemonSet_stays_gone:
  assumes "DeleteDaemonSet lib \<lparr>s_client = cl, s_scheme = s\<rparr> ns n w = (r, w')" and "gone (view w k)"
  shows "gone (view w' k)"
proof (cases "k = (KDaemonSet, ns, n)")
  case True
  obtain e where "Delete_DaemonSet cl (named_DaemonSet ns n) w = (e, w')"
    using ds_del.delete_raw [OF assms(1)] by auto
  from Delete_DaemonSet_stays_gone [OF this] True assms(2) show ?thesis by simp
next
  case False
  then show ?thesis using DeleteDaemonSet_frame [OF assms(1)] assms(2) by simp
qed

lemma DeleteDaemonSet_gone:
  assumes "DeleteDaemonSet lib \<lparr>s_client = cl, s_scheme = s\<rparr> ns n w = (None, w')"
  shows "gone (view w' (KDaemonSet, ns, n))"
  by (rule ds_del.delete_establishes [OF laws assms])
     (auto dest!: Delete_DaemonSet_ok Delete_DaemonSet_absent)

lemma DeleteConfigMap_frame:
  assumes "DeleteConfigMap lib \<lparr>c_client = cl, c_scheme = s\<rparr> ns n w = (r, w')" and "k \<noteq> (KConfigMap, ns, n)"
  shows "view w' k = view w k"
proof -
  obtain e where e: "Delete_ConfigMap cl (named_ConfigMap ns n) w = (e, w')"
    using cm_del.delete_raw [OF assms(1)] by auto
  show ?thesis by (rule Delete_ConfigMap_frame [OF e]) (simp add: assms(2))
qed

lemma DeleteConfigMap_stays_gone:
  assumes "DeleteConfigMap lib \<lparr>c_client = cl, c_scheme = s\<rparr> ns n w = (r, w')" and "gone (view w k)"
  shows "gone (view w' k)"
proof (cases "k = (KConfigMap, ns, n)")
  case True
  obtain e where "Delete_ConfigMap cl (named_ConfigMap ns n) w = (e, w')"
    using cm_del.delete_raw [OF assms(1)] by auto
  from Delete_ConfigMap_stays_gone [OF this] True assms(2) show ?thesis by simp
next
  case False
  then show ?thesis using DeleteConfigMap_frame [OF assms(1)] assms(2) by simp
qed

lemma DeleteConfigMap_gone:
  assumes "DeleteConfigMap lib \<lparr>c_client = cl, c_scheme = s\<rparr> ns n w = (None, w')"
  shows "gone (view w' (KConfigMap, ns, n))"
  by (rule cm_del.delete_establishes [OF laws assms])
     (auto dest!: Delete_ConfigMap_ok Delete_ConfigMap_absent)

lemmas delete_frames = DeleteDeployment_frame DeleteDaemonSet_frame DeleteConfigMap_frame

lemma finalizeComponents_frame:
  assumes fin: "finalizeComponents (operatorHelper lib cl s) cr w = (r, w')"
    and k: "k \<notin> set (managed_keys cr)"
  shows "view w' k = view w k"
proof -
  have "k \<noteq> (KDeployment, nfd_Namespace cr, ''nfd-master'')"
    "k \<noteq> (KConfigMap, nfd_Namespace cr, ''nfd-worker'')"
    "k \<noteq> (KDaemonSet, nfd_Namespace cr, ''nfd-worker'')"
    "spc_TopologyUpdater (nfd_Spec cr) \<Longrightarrow> k \<noteq> (KDaemonSet, nfd_Namespace cr, ''nfd-topology-updater'')"
    "k \<noteq> (KDeployment, nfd_Namespace cr, ''nfd-gc'')"
    using k by (auto simp: managed_keys_def)
  with fin show ?thesis
    by (auto simp: finalizeComponents_def Let_def split: prod.splits option.splits if_splits
        dest!: delete_frames [where k = k])
qed

lemmas delete_stays_gone =
  DeleteDeployment_stays_gone DeleteDaemonSet_stays_gone DeleteConfigMap_stays_gone

lemma finalizeComponents_stays_gone:
  assumes "finalizeComponents (operatorHelper lib cl s) cr w = (r, w')" and "gone (view w k)"
  shows "gone (view w' k)"
  using assms
  by (auto simp: finalizeComponents_def Let_def split: prod.splits option.splits if_splits
      dest!: delete_stays_gone [where k = k])

text \<open>A later deletion does not bring an earlier object back.\<close>

lemma finalizeComponents_ok:
  assumes "finalizeComponents (operatorHelper lib cl s) cr w = (None, w')"
  shows "\<forall>k \<in> set (managed_keys cr). gone (view w' k)"
proof -
  let ?ns = "nfd_Namespace cr" and ?topo = "spc_TopologyUpdater (nfd_Spec cr)"
  from assms obtain w1 w2 w3 w4 where
    d1: "DeleteDaemonSet lib \<lparr>s_client = cl, s_scheme = s\<rparr> ?ns ''nfd-worker'' w = (None, w1)"
    and d2: "DeleteConfigMap lib \<lparr>c_client = cl, c_scheme = s\<rparr> ?ns ''nfd-worker'' w1 = (None, w2)"
    and d3: "(if ?topo
              then DeleteDaemonSet lib \<lparr>s_client = cl, s_scheme = s\<rparr> ?ns ''nfd-topology-updater'' w2
              else (None, w2)) = (None, w3)"
    and d4: "DeleteDeployment lib \<lparr>d_client = cl, d_scheme = s\<rparr> ?ns ''nfd-master'' w3 = (None, w4)"
    and d5: "DeleteDeployment lib \<lparr>d_client = cl, d_scheme = s\<rparr> ?ns ''nfd-gc'' w4 = (None, w')"
    by (auto simp: finalizeComponents_def Let_def split: prod.splits option.splits cong: if_cong)
  have v3: "view w3 k = view w2 k" if "k \<noteq> (KDaemonSet, ?ns, ''nfd-topology-updater'')" for k
    using d3 that DeleteDaemonSet_frame by (auto split: if_splits)
  note frames = DeleteDeployment_frame [OF d5] DeleteDeployment_frame [OF d4] v3
    DeleteConfigMap_frame [OF d2]
  have "gone (view w' (KDaemonSet, ?ns, ''nfd-worker''))"
    using DeleteDaemonSet_gone [OF d1] by (simp add: frames)
  moreover have "gone (view w' (KConfigMap, ?ns, ''nfd-worker''))"
    using DeleteConfigMap_gone [OF d2] by (simp add: frames)
  moreover have "gone (view w' (KDaemonSet, ?ns, ''nfd-topology-updater''))" if ?topo
    using d3 that DeleteDaemonSet_gone by (simp add: frames)
  moreover have "gone (view w' (KDeployment, ?ns, ''nfd-master''))"
    using DeleteDeployment_gone [OF d4] by (simp add: frames)
  moreover have "gone (view w' (KDeployment, ?ns, ''nfd-gc''))"
    by (rule DeleteDeployment_gone [OF d5])
  ultimately show ?thesis by (simp add: managed_keys_def)
qed

section \<open>Pruning\<close>

text \<open>The result of the read of the prune job, against the stored state.\<close>

lemma GetJob_view:
  "GetJob \<lparr>j_client = cl, j_scheme = s\<rparr> ns n w = (r, w') \<Longrightarrow> view w' = view w"
  by (cases r) (auto simp: GetJob_Inr GetJob_Inl dest: Get_Job_view)

lemma GetJob_stored:
  assumes "GetJob \<lparr>j_client = cl, j_scheme = s\<rparr> ns n w = (Inr j, w')"
  shows "view w (KJob, ns, n) = Some (OJob j)"
  using assms by (auto simp: GetJob_Inr dest: Get_Job_ok)

lemma GetJob_absent:
  assumes "GetJob \<lparr>j_client = cl, j_scheme = s\<rparr> ns n w = (Inl e, w')" and "IsNotFound lib e"
  shows "view w (KJob, ns, n) = None"
  using assms by (auto simp: GetJob_Inl IsNotFound_Wrapf dest: Get_Job_absent)

lemma CreatePruneJob_frame:
  assumes "CreatePruneJob lib \<lparr>j_client = cl, j_scheme = s\<rparr> cr w = (r, w')" and "k \<noteq> prune_key cr"
  shows "view w' k = view w k"
proof -
  obtain err om where sc: "SetControllerReference lib cr (job_ObjectMeta (pruneJobObject cr)) s = (err, om)"
    by fastforce
  show ?thesis
  proof (cases err)
    case None
    from SetControllerReference_ok [OF sc [unfolded None]]
    have "om_Name om = ''nfd-prune''" "om_Namespace om = nfd_Namespace cr" by auto
    moreover have "Create_Job cl ((pruneJobObject cr)\<lparr>job_ObjectMeta := om\<rparr>) w = (r, w')"
      using assms(1) by (simp add: CreatePruneJob_def sc None)
    ultimately show ?thesis
      using assms(2) Create_Job_frame [where k = k] by (auto simp: prune_key_def)
  next
    case (Some e)
    then show ?thesis using assms(1) by (simp add: CreatePruneJob_def sc)
  qed
qed

lemma CreatePruneJob_ok:
  assumes "CreatePruneJob lib \<lparr>j_client = cl, j_scheme = s\<rparr> cr w = (None, w')"
  shows "stored_as lib admits OJob job_ObjectMeta job_Spec (job_Spec (pruneJobObject cr)) cr
    ''nfd-prune'' (view w' (prune_key cr))"
proof -
  obtain err om where sc: "SetControllerReference lib cr (job_ObjectMeta (pruneJobObject cr)) s = (err, om)"
    by fastforce
  with assms have "err = None" by (auto simp: CreatePruneJob_def split: option.splits)
  from SetControllerReference_ok [OF sc [unfolded this]] obtain refs r where
    om: "om = (job_ObjectMeta (pruneJobObject cr))\<lparr>om_OwnerReferences := refs\<rparr>"
    and r: "GetControllerOf lib om = Some r" "controlled_by cr r" by blast
  have "Create_Job cl ((pruneJobObject cr)\<lparr>job_ObjectMeta := om\<rparr>) w = (None, w')"
    using assms by (simp add: CreatePruneJob_def sc \<open>err = None\<close>)
  from Create_Job_ok [OF this] obtain y where
    y: "admits (OJob ((pruneJobObject cr)\<lparr>job_ObjectMeta := om\<rparr>)) y"
    "view w' (obj_key (OJob ((pruneJobObject cr)\<lparr>job_ObjectMeta := om\<rparr>))) = Some y"
    by auto
  then have "view w' (prune_key cr) = Some y" by (simp add: om prune_key_def)
  with y(1) r om show ?thesis
    unfolding stored_as_def
    by (intro exI [of _ "(pruneJobObject cr)\<lparr>job_ObjectMeta := om\<rparr>"] exI [of _ y]) auto
qed

lemma handlePrune_frame:
  assumes "handlePrune lib (operatorHelper lib cl s) cr w = (r, w')" and "k \<noteq> prune_key cr"
  shows "view w' k = view w k"
  using assms CreatePruneJob_frame [where k = k]
  by (auto simp: handlePrune_def Let_def split: prod.splits sum.splits option.splits if_splits
      dest!: GetJob_view)

text \<open>A prune job that exists is only read.\<close>

lemma handlePrune_existing:
  assumes "handlePrune lib (operatorHelper lib cl s) cr w = (r, w')"
    and "view w (prune_key cr) \<noteq> None"
  shows "view w' = view w"
  using assms GetJob_absent [of s "nfd_Namespace cr" "''nfd-prune''" w]
  by (auto simp: handlePrune_def prune_key_def Let_def split: prod.splits sum.splits if_splits
      dest!: GetJob_view)

lemma handlePrune_done:
  assumes "handlePrune lib (operatorHelper lib cl s) cr w = ((True, None), w')"
  shows "view w' = view w \<and>
    (spc_PruneOnDelete (nfd_Spec cr) \<longrightarrow>
      (\<exists>j. view w (prune_key cr) = Some (OJob j) \<and> prune_succeeded j \<and> \<not> prune_failed j))"
  using assms GetJob_stored [of s "nfd_Namespace cr" "''nfd-prune''" w]
  by (auto simp: handlePrune_def prune_key_def prune_succeeded_def prune_failed_def Let_def
      split: prod.splits sum.splits if_splits option.splits dest!: GetJob_view)

lemma handlePrune_waiting:
  assumes "handlePrune lib (operatorHelper lib cl s) cr w = ((False, None), w')"
  shows "spc_PruneOnDelete (nfd_Spec cr) \<and>
    ((view w (prune_key cr) = None \<and>
        stored_as lib admits OJob job_ObjectMeta job_Spec (job_Spec (pruneJobObject cr)) cr
          ''nfd-prune'' (view w' (prune_key cr))) \<or>
     (\<exists>j. view w (prune_key cr) = Some (OJob j) \<and> \<not> prune_succeeded j \<and> \<not> prune_failed j))"
proof -
  obtain r w1 where g: "GetJob \<lparr>j_client = cl, j_scheme = s\<rparr> (nfd_Namespace cr) ''nfd-prune'' w = (r, w1)"
    by fastforce
  show ?thesis
  proof (cases r)
    case (Inl e)
    with assms g have p: "spc_PruneOnDelete (nfd_Spec cr)" "IsNotFound lib e"
      "CreatePruneJob lib \<lparr>j_client = cl, j_scheme = s\<rparr> cr w1 = (None, w')"
      by (auto simp: handlePrune_def split: if_splits prod.splits option.splits)
    with GetJob_absent [OF g [unfolded Inl]] CreatePruneJob_ok [OF p(3)] show ?thesis
      by (simp add: prune_key_def)
  next
    case (Inr j)
    with assms g GetJob_stored [OF g [unfolded Inr]] show ?thesis
      by (auto simp: handlePrune_def prune_key_def prune_succeeded_def prune_failed_def
          split: if_splits)
  qed
qed

text \<open>Once a pod of the job has failed, the pass ends in an error, whether or not the job succeeded.\<close>

lemma handlePrune_failed:
  assumes "view w (prune_key cr) = Some (OJob j)" and "prune_failed j"
    and "spc_PruneOnDelete (nfd_Spec cr)"
  shows "snd (fst (handlePrune lib (operatorHelper lib cl s) cr w)) \<noteq> None"
proof -
  obtain r w1 where g: "GetJob \<lparr>j_client = cl, j_scheme = s\<rparr> (nfd_Namespace cr) ''nfd-prune'' w = (r, w1)"
    by fastforce
  show ?thesis
  proof (cases r)
    case (Inl e)
    with GetJob_absent [OF g [unfolded Inl]] assms(1) have "\<not> IsNotFound lib e"
      by (auto simp: prune_key_def)
    with g Inl assms(3) show ?thesis by (simp add: handlePrune_def)
  next
    case (Inr j')
    with GetJob_stored [OF g [unfolded Inr]] assms(1) have "j' = j" by (simp add: prune_key_def)
    with g Inr assms(2,3) show ?thesis by (simp add: handlePrune_def prune_failed_def)
  qed
qed

section \<open>Status\<close>

lemma GetDaemonSet_view:
  "GetDaemonSet \<lparr>s_client = cl, s_scheme = s\<rparr> ns n w = (r, w') \<Longrightarrow> view w' = view w"
  by (auto simp: ds_get.get_is_raw split: prod.splits dest: Get_DaemonSet_view)

lemma GetDeployment_view:
  "GetDeployment \<lparr>d_client = cl, d_scheme = s\<rparr> ns n w = (r, w') \<Longrightarrow> view w' = view w"
  by (auto simp: dep_get.get_is_raw split: prod.splits dest: Get_Deployment_view)

lemma getDaemonSetNotAvailable_view:
  assumes "getDaemonSetNotAvailableConditions lib
     \<lparr>sh_deploymentAPI = da, sh_daemonsetAPI = NewDaemonsetAPI lib cl s\<rparr> ns n r1 r2 r3 w = (r, w')"
  shows "view w' = view w"
  using assms
  by (auto simp: getDaemonSetNotAvailableConditions_def Let_def
      split: prod.splits option.splits if_splits dest!: GetDaemonSet_view time_Now_view)

lemma getDeploymentNotAvailable_view:
  assumes "getDeploymentNotAvailableConditions lib
     \<lparr>sh_deploymentAPI = NewDeploymentAPI lib cl s, sh_daemonsetAPI = sa\<rparr> ns n r1 r2 r3 w = (r, w')"
  shows "view w' = view w"
  using assms
  by (auto simp: getDeploymentNotAvailableConditions_def Let_def
      split: prod.splits option.splits if_splits dest!: GetDeployment_view time_Now_view)

lemma read_DaemonSet_healthy:
  assumes "read_health daemonset_health (fst (GetDaemonSet \<lparr>s_client = cl, s_scheme = s\<rparr> ns n w)) = Healthy"
  shows "healthy_DaemonSet (view w) ns n"
proof (cases "Get_DaemonSet cl (ns, n) zero_DaemonSet w")
  case (fields e d w1)
  with assms Get_DaemonSet_ok [of ns n zero_DaemonSet w d w1] show ?thesis
    by (cases e) (auto simp: ds_get.get_is_raw read_health_def healthy_DaemonSet_def)
qed

lemma read_Deployment_healthy:
  assumes "read_health deployment_health (fst (GetDeployment \<lparr>d_client = cl, d_scheme = s\<rparr> ns n w)) = Healthy"
  shows "healthy_Deployment (view w) ns n"
proof (cases "Get_Deployment cl (ns, n) zero_Deployment w")
  case (fields e d w1)
  with assms Get_Deployment_ok [of ns n zero_Deployment w d w1] show ?thesis
    by (cases e) (auto simp: dep_get.get_is_raw read_health_def healthy_Deployment_def)
qed

lemma sources_view:
  "view (snd (getWorkerNotAvailableConditions lib
      \<lparr>sh_deploymentAPI = da, sh_daemonsetAPI = NewDaemonsetAPI lib cl s\<rparr> cr w)) = view w"
  "view (snd (getTopologyNotAvailableConditions lib
      \<lparr>sh_deploymentAPI = da, sh_daemonsetAPI = NewDaemonsetAPI lib cl s\<rparr> cr w)) = view w"
  "view (snd (getMasterNotAvailableConditions lib
      \<lparr>sh_deploymentAPI = NewDeploymentAPI lib cl s, sh_daemonsetAPI = sa\<rparr> cr w)) = view w"
  "view (snd (getGCNotAvailableConditions lib
      \<lparr>sh_deploymentAPI = NewDeploymentAPI lib cl s, sh_daemonsetAPI = sa\<rparr> cr w)) = view w"
  unfolding source_defs
  by (metis getDaemonSetNotAvailable_view getDeploymentNotAvailable_view prod.collapse)+

lemma GetConditions_view:
  assumes "GetConditions lib
    (newStatusHelperAPI lib (NewDeploymentAPI lib cl s) (NewDaemonsetAPI lib cl s)) cr w = (cs, w')"
  shows "view w' = view w"
proof -
  let ?H = "newStatusHelperAPI lib (NewDeploymentAPI lib cl s) (NewDaemonsetAPI lib cl s)"
  obtain a w1 where a: "api_getWorkerNotAvailableConditions ?H cr w = (a, w1)" by fastforce
  obtain b w2 where b: "api_getMasterNotAvailableConditions ?H cr w1 = (b, w2)" by fastforce
  obtain c w3 where c: "api_getGCNotAvailableConditions ?H cr w2 = (c, w3)" by fastforce
  obtain d w4 where d: "api_getTopologyNotAvailableConditions ?H cr w3 = (d, w4)" by fastforce
  have v: "view w1 = view w" "view w2 = view w" "view w3 = view w" "view w4 = view w"
    using sources_view(1) [of "NewDeploymentAPI lib cl s" s cr w]
      sources_view(3) [of s "NewDaemonsetAPI lib cl s" cr w1]
      sources_view(4) [of s "NewDaemonsetAPI lib cl s" cr w2]
      sources_view(2) [of "NewDeploymentAPI lib cl s" s cr w3] a b c d
    by simp_all
  from assms show ?thesis
    using v by (auto simp: GetConditions_def a b c d simp del: newStatusHelperAPI_sel
      split: option.splits if_splits prod.splits dest!: time_Now_view)
qed

text \<open>An Available report is never given for a workload that is missing or unhealthy.\<close>

lemma GetConditions_sound:
  assumes g: "GetConditions lib
      (newStatusHelperAPI lib (NewDeploymentAPI lib cl s) (NewDaemonsetAPI lib cl s)) cr w = (cs, w')"
    and h: "report_health cs = Healthy"
  shows "workloads_healthy cr (view w)"
proof -
  let ?da = "NewDeploymentAPI lib cl s" and ?sa = "NewDaemonsetAPI lib cl s"
  let ?H = "newStatusHelperAPI lib ?da ?sa"
  define w1 where "w1 = snd (api_getWorkerNotAvailableConditions ?H cr w)"
  define w2 where "w2 = snd (api_getMasterNotAvailableConditions ?H cr w1)"
  define w3 where "w3 = snd (api_getGCNotAvailableConditions ?H cr w2)"
  note worlds = w1_def w2_def w3_def
  have v: "view w1 = view w" "view w2 = view w" "view w3 = view w"
    by (simp_all add: worlds sources_view)
  from built.GetConditions_report [OF w1_def w2_def w3_def] h g
  have "first_unhealthy
    [read_health daemonset_health (fst (api_GetDaemonSet ?sa (nfd_Namespace cr) ''nfd-worker'' w)),
     read_health deployment_health (fst (api_GetDeployment ?da (nfd_Namespace cr) ''nfd-master'' w1)),
     read_health deployment_health (fst (api_GetDeployment ?da (nfd_Namespace cr) ''nfd-gc'' w2)),
     if spc_TopologyUpdater (nfd_Spec cr)
     then read_health daemonset_health
       (fst (api_GetDaemonSet ?sa (nfd_Namespace cr) ''nfd-topology-updater'' w3))
     else Healthy] = Healthy"
    by (metis fst_conv)
  then have
    "read_health daemonset_health (fst (api_GetDaemonSet ?sa (nfd_Namespace cr) ''nfd-worker'' w)) = Healthy"
    "read_health deployment_health (fst (api_GetDeployment ?da (nfd_Namespace cr) ''nfd-master'' w1)) = Healthy"
    "read_health deployment_health (fst (api_GetDeployment ?da (nfd_Namespace cr) ''nfd-gc'' w2)) = Healthy"
    "spc_TopologyUpdater (nfd_Spec cr) \<Longrightarrow> read_health daemonset_health
       (fst (api_GetDaemonSet ?sa (nfd_Namespace cr) ''nfd-topology-updater'' w3)) = Healthy"
    unfolding first_unhealthy_Healthy by (auto split: if_splits)
  then show ?thesis
    unfolding workloads_healthy_def
    using read_DaemonSet_healthy [of s "nfd_Namespace cr" _ w]
      read_Deployment_healthy [of s "nfd_Namespace cr" _ w1]
      read_Deployment_healthy [of s "nfd_Namespace cr" _ w2]
      read_DaemonSet_healthy [of s "nfd_Namespace cr" _ w3]
    by (simp add: v)
qed

lemma handleStatus_frame:
  assumes "handleStatus (operatorHelper lib cl s) cr w = (r, cr', w')" and "k \<noteq> cr_key cr"
  shows "view w' k = view w k"
proof -
  obtain cs w1 where g: "GetConditions lib
      (newStatusHelperAPI lib (NewDeploymentAPI lib cl s) (NewDaemonsetAPI lib cl s)) cr w = (cs, w1)"
    by fastforce
  with assms GetConditions_view [OF g] show ?thesis
    by (auto simp: handleStatus_def cr_key_def Let_def split: if_splits
        dest!: StatusPatch_NFD_frame [where k = k])
qed

text \<open>Of the custom resource the status step changes the status at most.\<close>

lemma handleStatus_cr:
  assumes "handleStatus (operatorHelper lib cl s) cr w = (r, cr', w')"
    and "view w (cr_key cr) = Some (ONFD n)"
  shows "\<exists>m. view w' (cr_key cr) = Some (ONFD m) \<and> nfd_Spec m = nfd_Spec n \<and>
    om_UID (nfd_ObjectMeta m) = om_UID (nfd_ObjectMeta n) \<and>
    om_DeletionTimestamp (nfd_ObjectMeta m) = om_DeletionTimestamp (nfd_ObjectMeta n) \<and>
    om_Finalizers (nfd_ObjectMeta m) = om_Finalizers (nfd_ObjectMeta n)"
proof -
  obtain cs w1 where g: "GetConditions lib
      (newStatusHelperAPI lib (NewDeploymentAPI lib cl s) (NewDaemonsetAPI lib cl s)) cr w = (cs, w1)"
    by fastforce
  let ?n = "cr\<lparr>nfd_Status := (nfd_Status cr)\<lparr>sts_Conditions := cs\<rparr>\<rparr>"
  from assms(1) g have "(r, cr', w') = (None, cr, w1) \<or> StatusPatch_NFD cl ?n cr w1 = (r, cr', w')"
    by (auto simp: handleStatus_def Let_def split: if_splits)
  moreover have "view w1 (obj_key (ONFD ?n)) = Some (ONFD n)"
    using GetConditions_view [OF g] assms(2) by (simp add: cr_key_def)
  ultimately show ?thesis
    using StatusPatch_NFD_status_only [of ?n cr w1 r cr' w' n] GetConditions_view [OF g] assms(2)
    by (auto simp: cr_key_def)
qed

lemma GetConditions_wellformed:
  assumes "GetConditions lib (newStatusHelperAPI lib da sa) cr w = (cs, w')"
  shows "report_wellformed cs"
proof -
  have "report_wellformed (fst (GetConditions lib (newStatusHelperAPI lib da sa) cr w))"
    by (rule conjunct1 [OF built.GetConditions_report [OF refl refl refl]])
  with assms show ?thesis by simp
qed

lemma workloads_healthy_cong:
  assumes "\<And>k. k \<noteq> cr_key cr \<Longrightarrow> v' k = v k"
  shows "workloads_healthy cr v' = workloads_healthy cr v"
  by (simp add: workloads_healthy_def healthy_DaemonSet_def healthy_Deployment_def assms cr_key_def)

text \<open>
  After the status step the stored conditions contain, up to the timestamps, the report that was
  computed in it.
\<close>

lemma handleStatus_stores:
  assumes h: "handleStatus (operatorHelper lib cl s) cr w = (None, cr', w')"
    and cr: "view w (cr_key cr) = Some (ONFD n)"
    and current: "sts_Conditions (nfd_Status n) = sts_Conditions (nfd_Status cr)"
  obtains cs w1 m where "GetConditions lib
      (newStatusHelperAPI lib (NewDeploymentAPI lib cl s) (NewDaemonsetAPI lib cl s)) cr w = (cs, w1)"
    "view w' (cr_key cr) = Some (ONFD m)"
    "without_time ` set cs \<subseteq> without_time ` set (sts_Conditions (nfd_Status m))"
proof -
  let ?H = "newStatusHelperAPI lib (NewDeploymentAPI lib cl s) (NewDaemonsetAPI lib cl s)"
  obtain cs w1 where g: "GetConditions lib ?H cr w = (cs, w1)" by fastforce
  show thesis
  proof (cases "AreConditionsEqual lib (sts_Conditions (nfd_Status cr)) cs")
    case True
    with h g have "w' = w1" by (simp add: handleStatus_def)
    with that [OF g] GetConditions_view [OF g] cr current AreConditionsEqual_covers [OF laws True]
    show thesis by simp
  next
    case False
    let ?n = "cr\<lparr>nfd_Status := (nfd_Status cr)\<lparr>sts_Conditions := cs\<rparr>\<rparr>"
    from h g False have p: "StatusPatch_NFD cl ?n cr w1 = (None, cr', w')"
      by (simp add: handleStatus_def Let_def)
    note wf = GetConditions_wellformed [OF g]
    from False have "sts_Conditions (nfd_Status cr) \<noteq> cs"
      using AreConditionsEqual_reports [OF laws wf wf] by auto
    with StatusPatch_NFD_ok [OF p] obtain n0 y where
      y: "admits (ONFD (n0\<lparr>nfd_Status := (nfd_Status n0)\<lparr>sts_Conditions := cs\<rparr>\<rparr>)) y"
        "view w' (cr_key cr) = Some y"
      by (auto simp: cr_key_def)
    then obtain m where m: "y = ONFD m" using view_key [OF y(2)] by (cases y) (auto simp: cr_key_def)
    with admits_cr y(1) have "sts_Conditions (nfd_Status m) = cs" by fastforce
    with that [OF g] y(2) m show thesis by simp
  qed
qed

lemma handleStatus_reports:
  assumes h: "handleStatus (operatorHelper lib cl s) cr w = (None, cr', w')"
    and cr: "view w (cr_key cr) = Some (ONFD n)"
    and current: "sts_Conditions (nfd_Status n) = sts_Conditions (nfd_Status cr)"
  shows "\<exists>cs m. view w' (cr_key cr) = Some (ONFD m) \<and> report_wellformed cs \<and>
    without_time ` set cs \<subseteq> without_time ` set (sts_Conditions (nfd_Status m)) \<and>
    (report_health cs = Healthy \<longrightarrow> workloads_healthy cr (view w'))"
proof -
  from handleStatus_stores [OF h cr current] obtain cs w1 m where
    g: "GetConditions lib
      (newStatusHelperAPI lib (NewDeploymentAPI lib cl s) (NewDaemonsetAPI lib cl s)) cr w = (cs, w1)"
    and m: "view w' (cr_key cr) = Some (ONFD m)"
      "without_time ` set cs \<subseteq> without_time ` set (sts_Conditions (nfd_Status m))" by blast
  have "workloads_healthy cr (view w')" if "report_health cs = Healthy"
    using GetConditions_sound [OF g that] workloads_healthy_cong [of cr "view w'" "view w"]
      handleStatus_frame [OF h] by blast
  with m GetConditions_wellformed [OF g] show ?thesis by blast
qed

text \<open>Nothing is written when the stored conditions already say what the report says.\<close>

lemma handleStatus_quiet:
  assumes h: "handleStatus (operatorHelper lib cl s) cr w = (r, cr', w')"
    and g: "GetConditions lib
      (newStatusHelperAPI lib (NewDeploymentAPI lib cl s) (NewDaemonsetAPI lib cl s)) cr w = (cs, w1)"
    and same: "map without_time (sts_Conditions (nfd_Status cr)) = map without_time cs"
  shows "r = None \<and> cr' = cr \<and> view w' = view w"
proof -
  have "map cond_Type (sts_Conditions (nfd_Status cr)) = map cond_Type cs"
    using arg_cong [OF same, of "map cond_Type"] by (simp add: comp_def without_time_def)
  then have "distinct (map cond_Type (sts_Conditions (nfd_Status cr)))"
    using report_wellformed_distinct [OF GetConditions_wellformed [OF g]] by simp
  moreover have "without_time ` set cs \<subseteq> without_time ` set (sts_Conditions (nfd_Status cr))"
    using arg_cong [OF same, of set] by simp
  ultimately have "AreConditionsEqual lib (sts_Conditions (nfd_Status cr)) cs"
    using AreConditionsEqual_iff [OF laws] by simp
  with h g GetConditions_view [OF g] show ?thesis by (simp add: handleStatus_def)
qed

end

end
