(* ===== verification/Reconcile_Passes.thy ===== *)
theory Reconcile_Passes
  imports Reconciler_Facts
begin

text \<open>
  Whole reconciliation passes. A pass is one of three, chosen by the deletion timestamp and the
  finalizer of the custom resource: tearing down, adding the finalizer, or applying the desired
  state. The first part decomposes \<^verbatim>\<open>Reconcile\<close> for an arbitrary helper; the second, over the laws of
  \<open>api_server\<close>, says what each kind of pass does to the cluster.
\<close>

datatype pass = TearDown | AddFinalizer | Apply

definition pass_of :: "('w, 'e) helperAPI \<Rightarrow> NodeFeatureDiscovery \<Rightarrow> pass" where
  "pass_of helper cr =
     (if om_DeletionTimestamp (nfd_ObjectMeta cr) \<noteq> None then TearDown
      else if \<not> api_hasFinalizer helper cr then AddFinalizer else Apply)"

section \<open>Decomposition, for any helper\<close>

lemma Reconcile_Apply:
  assumes "pass_of helper cr = Apply" and "Reconcile helper cr w = (r, cr', w')"
  obtains e1 w1 e2 w2 e3 w3 e4 w4 e5 where
    "api_handleMaster helper cr w = (e1, w1)" "api_handleWorker helper cr w1 = (e2, w2)"
    "api_handleTopology helper cr w2 = (e3, w3)" "api_handleGC helper cr w3 = (e4, w4)"
    "api_handleStatus helper cr w4 = (e5, cr', w')"
    "r = (zero_Result, errors_Join [e1, e2, e3, e4, e5])"
  using assms
  by (auto simp: pass_of_def Reconcile_def Let_def split: if_splits prod.splits)

lemma Reconcile_AddFinalizer:
  assumes "pass_of helper cr = AddFinalizer" and "Reconcile helper cr w = (r, cr', w')"
  obtains e where "api_setFinalizer helper cr w = (e, cr', w')" "r = (zero_Result, e)"
  using assms
  by (auto simp: pass_of_def Reconcile_def Let_def split: if_splits prod.splits)

text \<open>
  The four ways a tear-down pass ends: a component could not be deleted, pruning failed, pruning is
  not done yet, or the finalizer is taken off.
\<close>

lemma Reconcile_TearDown [consumes 2, case_names finalize_failed prune_failed prune_waiting released]:
  assumes "pass_of helper cr = TearDown" and "Reconcile helper cr w = (r, cr', w')"
  obtains
    (finalize_failed) e where "api_finalizeComponents helper cr w = (Some e, w')" "cr' = cr"
      "r = (zero_Result, Some (Wrapf (''failed to finalize components for '' @
             nfd_Namespace cr @ ''/'' @ nfd_Name cr) e))"
  | (prune_failed) w1 d e where "api_finalizeComponents helper cr w = (None, w1)"
      "api_handlePrune helper cr w1 = ((d, Some e), w')" "cr' = cr"
      "r = (zero_Result, Some (Wrapf (''failed to handle pruning for '' @
             nfd_Namespace cr @ ''/'' @ nfd_Name cr) e))"
  | (prune_waiting) w1 where "api_finalizeComponents helper cr w = (None, w1)"
      "api_handlePrune helper cr w1 = ((False, None), w')" "cr' = cr" "r = (zero_Result, None)"
  | (released) w1 w2 e where "api_finalizeComponents helper cr w = (None, w1)"
      "api_handlePrune helper cr w1 = ((True, None), w2)"
      "api_removeFinalizer helper cr w2 = (e, cr', w')" "r = (zero_Result, e)"
proof -
  obtain e1 w1 where f: "api_finalizeComponents helper cr w = (e1, w1)" by fastforce
  obtain d e2 w2 where p: "api_handlePrune helper cr w1 = ((d, e2), w2)"
    by (metis prod.exhaust)
  obtain e3 cr3 w3 where rm: "api_removeFinalizer helper cr w2 = (e3, cr3, w3)"
    by (metis prod.exhaust)
  from assms(1) have del: "om_DeletionTimestamp (nfd_ObjectMeta cr) \<noteq> None"
    by (simp add: pass_of_def split: if_splits)
  note run = assms(2) [unfolded Reconcile_def Let_def f]
  show thesis
  proof (cases e1)
    case (Some e)
    with run del f show thesis by (intro that(1) [of e]) auto
  next
    case None
    note f = f [unfolded None]
    show thesis
    proof (cases e2)
      case (Some e)
      with run del None p show thesis by (intro that(2) [OF f, of d e]) auto
    next
      case None
      show thesis
      proof (cases d)
        case True
        with run del \<open>e1 = None\<close> None p rm show thesis
          by (intro that(4) [OF f, of w2 e3]) auto
      next
        case False
        with run del \<open>e1 = None\<close> None p show thesis
          by (intro that(3) [OF f]) auto
      qed
    qed
  qed
qed

text \<open>What the three steps of a tear-down keep, the pass keeps.\<close>

lemma TearDown_preserves:
  assumes pass: "pass_of helper cr = TearDown" "Reconcile helper cr w = (r, cr', w')" and "P w"
    and "\<And>w e w'. api_finalizeComponents helper cr w = (e, w') \<Longrightarrow> P w \<Longrightarrow> P w'"
    and "\<And>w d e w'. api_handlePrune helper cr w = ((d, e), w') \<Longrightarrow> P w \<Longrightarrow> P w'"
    and "\<And>w e n w'. api_removeFinalizer helper cr w = (e, n, w') \<Longrightarrow> P w \<Longrightarrow> P w'"
  shows "P w'"
  by (cases rule: Reconcile_TearDown [OF pass]) (use assms(3-) in blast)+

lemma pass_of_operator [simp]:
  "pass_of (operatorReconciler lib cl s) cr = TearDown \<longleftrightarrow>
     om_DeletionTimestamp (nfd_ObjectMeta cr) \<noteq> None"
  by (simp add: pass_of_def)

lemma operator_Apply:
  assumes "pass_of (operatorReconciler lib cl s) cr = Apply"
    and "Reconcile (operatorReconciler lib cl s) cr w = (r, cr', w')"
  obtains e1 w1 e2 w2 e3 w3 e4 w4 e5 where
    "handleMaster lib (operatorHelper lib cl s) cr w = (e1, w1)"
    "handleWorker lib (operatorHelper lib cl s) cr w1 = (e2, w2)"
    "handleTopology lib (operatorHelper lib cl s) cr w2 = (e3, w3)"
    "handleGC lib (operatorHelper lib cl s) cr w3 = (e4, w4)"
    "handleStatus (operatorHelper lib cl s) cr w4 = (e5, cr', w')"
    "r = (zero_Result, errors_Join [e1, e2, e3, e4, e5])"
  by (rule Reconcile_Apply [OF assms, unfolded operatorReconciler_sel]) (rule that)

section \<open>The effect of a pass on the cluster\<close>

text \<open>The finalizer list a successful update leaves, or the object gone.\<close>

definition finalizers_of :: "kobject option \<Rightarrow> string list" where
  "finalizers_of x = (case x of Some (ONFD n) \<Rightarrow> om_Finalizers (nfd_ObjectMeta n) | _ \<Rightarrow> [])"

text \<open>Every object the custom resource asks for is stored with the content it asks for.\<close>

definition components_stored ::
  "('w, 'e, 's) machinery \<Rightarrow> (kobject \<Rightarrow> kobject \<Rightarrow> bool) \<Rightarrow> NodeFeatureDiscovery \<Rightarrow>
     (cluster_key \<Rightarrow> kobject option) \<Rightarrow> bool" where
  "components_stored lib admits cr v \<longleftrightarrow>
     stored_as lib admits ODeployment dep_ObjectMeta dep_Spec (masterDeploymentSpec cr) cr
       ''nfd-master'' (v (KDeployment, nfd_Namespace cr, ''nfd-master'')) \<and>
     stored_as lib admits OConfigMap cm_ObjectMeta cm_Data
       [''nfd-worker-conf'' \<mapsto> wcm_ConfigData (spc_WorkerConfig (nfd_Spec cr))] cr
       ''nfd-worker'' (v (KConfigMap, nfd_Namespace cr, ''nfd-worker'')) \<and>
     stored_as lib admits ODaemonSet ds_ObjectMeta ds_Spec (workerDaemonSetSpec cr) cr
       ''nfd-worker'' (v (KDaemonSet, nfd_Namespace cr, ''nfd-worker'')) \<and>
     (spc_TopologyUpdater (nfd_Spec cr) \<longrightarrow>
        stored_as lib admits ODaemonSet ds_ObjectMeta ds_Spec (topologyDaemonSetSpec cr) cr
          ''nfd-topology-updater'' (v (KDaemonSet, nfd_Namespace cr, ''nfd-topology-updater''))) \<and>
     stored_as lib admits ODeployment dep_ObjectMeta dep_Spec (gcDeploymentSpec cr) cr
       ''nfd-gc'' (v (KDeployment, nfd_Namespace cr, ''nfd-gc''))"

context api_server
begin

lemma pass_of_Apply:
  "pass_of (operatorReconciler lib cl s) cr = Apply \<longleftrightarrow>
     om_DeletionTimestamp (nfd_ObjectMeta cr) = None \<and>
     finalizerLabel \<in> set (om_Finalizers (nfd_ObjectMeta cr))"
  by (simp add: pass_of_def hasFinalizer_def ContainsFinalizer_iff)

lemma pass_of_AddFinalizer:
  "pass_of (operatorReconciler lib cl s) cr = AddFinalizer \<longleftrightarrow>
     om_DeletionTimestamp (nfd_ObjectMeta cr) = None \<and>
     finalizerLabel \<notin> set (om_Finalizers (nfd_ObjectMeta cr))"
  by (simp add: pass_of_def hasFinalizer_def ContainsFinalizer_iff)

lemma setFinalizer_frame:
  assumes "setFinalizer (operatorHelper lib cl s) cr w = (e, cr', w')" and "k \<noteq> cr_key cr"
  shows "view w' k = view w k"
  using assms Update_NFD_frame [where k = k] by (auto simp: setFinalizer_def cr_key_def Let_def)

lemma removeFinalizer_frame:
  assumes "removeFinalizer lib (operatorHelper lib cl s) cr w = (e, cr', w')" and "k \<noteq> cr_key cr"
  shows "view w' k = view w k"
  using assms Update_NFD_frame [where k = k]
  by (auto simp: removeFinalizer_def RemoveFinalizer_eq cr_key_def Let_def split: if_splits)

lemma setFinalizer_ok:
  assumes "setFinalizer (operatorHelper lib cl s) cr w = (None, cr', w')"
    and "om_DeletionTimestamp (nfd_ObjectMeta cr) = None"
  shows "\<exists>n. view w' (cr_key cr) = Some (ONFD n) \<and> nfd_Spec n = nfd_Spec cr \<and>
    om_UID (nfd_ObjectMeta n) = om_UID (nfd_ObjectMeta cr) \<and>
    om_DeletionTimestamp (nfd_ObjectMeta n) = None \<and>
    om_Finalizers (nfd_ObjectMeta n) = om_Finalizers (nfd_ObjectMeta cr) @ [finalizerLabel]"
  using assms by (auto simp: setFinalizer_def cr_key_def Let_def dest!: Update_NFD_ok)

text \<open>
  Releasing the custom resource: it disappears when no other finalizer is left, and otherwise is
  kept, without the operator's finalizer.
\<close>

lemma removeFinalizer_ok:
  assumes rm: "removeFinalizer lib (operatorHelper lib cl s) cr w = (None, cr', w')"
    and del: "om_DeletionTimestamp (nfd_ObjectMeta cr) \<noteq> None"
    and cr: "view w (cr_key cr) = Some (ONFD cr)"
  shows "finalizers_of (view w' (cr_key cr)) =
      removeAll finalizerLabel (om_Finalizers (nfd_ObjectMeta cr)) \<and>
    (finalizerLabel \<in> set (om_Finalizers (nfd_ObjectMeta cr)) \<longrightarrow>
     removeAll finalizerLabel (om_Finalizers (nfd_ObjectMeta cr)) = [] \<longrightarrow> view w' (cr_key cr) = None)"
proof (cases "finalizerLabel \<in> set (om_Finalizers (nfd_ObjectMeta cr))")
  case True
  let ?n = "cr\<lparr>nfd_ObjectMeta := (nfd_ObjectMeta cr)\<lparr>om_Finalizers :=
    removeAll finalizerLabel (om_Finalizers (nfd_ObjectMeta cr))\<rparr>\<rparr>"
  from rm True have "Update_NFD cl ?n w = (None, cr', w')"
    by (simp add: removeFinalizer_def RemoveFinalizer_eq)
  from Update_NFD_ok [OF this] del show ?thesis
    by (auto simp: finalizers_of_def cr_key_def split: if_splits)
next
  case False
  with rm have "w' = w" by (simp add: removeFinalizer_def RemoveFinalizer_eq)
  with cr False show ?thesis by (simp add: finalizers_of_def)
qed

subsection \<open>Nothing else is touched\<close>

lemma TearDown_frame:
  assumes run: "Reconcile (operatorReconciler lib cl s) cr w = (r, cr', w')"
    and tear: "pass_of (operatorReconciler lib cl s) cr = TearDown" and k: "k \<notin> set (footprint cr)"
  shows "view w' k = view w k"
  by (rule TearDown_preserves [OF tear run, where P = "\<lambda>w'. view w' k = view w k"])
     (use k finalizeComponents_frame [of s cr _ _ _ k] handlePrune_frame [of s cr _ _ _ k]
        removeFinalizer_frame [of s cr _ _ _ _ k] in \<open>auto simp: footprint_def\<close>)

lemma Apply_frame:
  assumes run: "Reconcile (operatorReconciler lib cl s) cr w = (r, cr', w')"
    and app: "pass_of (operatorReconciler lib cl s) cr = Apply"
    and km: "k \<notin> set (managed_keys cr)" and kcr: "k \<noteq> cr_key cr"
  shows "view w' k = view w k"
proof -
  let ?H = "operatorHelper lib cl s"
  obtain e1 w1 e2 w2 e3 w3 e4 w4 e5 where
    h: "handleMaster lib ?H cr w = (e1, w1)" "handleWorker lib ?H cr w1 = (e2, w2)"
      "handleTopology lib ?H cr w2 = (e3, w3)" "handleGC lib ?H cr w3 = (e4, w4)"
      "handleStatus ?H cr w4 = (e5, cr', w')"
      "r = (zero_Result, errors_Join [e1, e2, e3, e4, e5])"
    by (rule operator_Apply [OF app run])
  note km = km [unfolded managed_keys_def]
  have "view w1 k = view w k" by (rule handleMaster_frame [OF h(1)]) (use km in auto)
  moreover have "view w2 k = view w1 k" by (rule handleWorker_frame [OF h(2)]) (use km in auto)
  moreover have "view w3 k = view w2 k"
    using handleTopology_frame [OF h(3), of k] handleTopology_disabled [of cr ?H w2] h(3) km
    by (cases "spc_TopologyUpdater (nfd_Spec cr)") auto
  moreover have "view w4 k = view w3 k" by (rule handleGC_frame [OF h(4)]) (use km in auto)
  moreover have "view w' k = view w4 k" by (rule handleStatus_frame [OF h(5) kcr])
  ultimately show ?thesis by simp
qed

lemma Reconcile_frame:
  assumes run: "Reconcile (operatorReconciler lib cl s) cr w = (r, cr', w')"
    and k: "k \<notin> set (footprint cr)"
  shows "view w' k = view w k"
proof -
  from k have k': "k \<noteq> cr_key cr" "k \<notin> set (managed_keys cr)" by (auto simp: footprint_def)
  show ?thesis
  proof (cases "pass_of (operatorReconciler lib cl s) cr")
    case TearDown
    with run k show ?thesis by (intro TearDown_frame)
  next
    case AddFinalizer
    from Reconcile_AddFinalizer [OF AddFinalizer run] show ?thesis
      using setFinalizer_frame [OF _ k'(1)] by (metis operatorReconciler_sel(3))
  next
    case Apply
    with run k' show ?thesis by (intro Apply_frame)
  qed
qed

subsection \<open>Applying converges\<close>

lemma Reconcile_Apply_converges:
  assumes run: "Reconcile (operatorReconciler lib cl s) cr w = ((res, None), cr', w')"
    and apply_pass: "pass_of (operatorReconciler lib cl s) cr = Apply"
  shows "components_stored lib admits cr (view w')"
proof -
  let ?H = "operatorHelper lib cl s" and ?ns = "nfd_Namespace cr"
  obtain e1 w1 e2 w2 e3 w3 e4 w4 e5 where
    h: "handleMaster lib ?H cr w = (e1, w1)" "handleWorker lib ?H cr w1 = (e2, w2)"
      "handleTopology lib ?H cr w2 = (e3, w3)" "handleGC lib ?H cr w3 = (e4, w4)"
      "handleStatus ?H cr w4 = (e5, cr', w')"
      "(res, None) = (zero_Result, errors_Join [e1, e2, e3, e4, e5])"
    by (rule operator_Apply [OF apply_pass run])
  have "errors_Join [e1, e2, e3, e4, e5] = None" using h(6) by simp
  then have e: "e1 = None" "e2 = None" "e3 = None" "e4 = None" by (simp_all add: outcome_simps)
  have v3: "view w3 k = view w2 k" if "k \<noteq> (KDaemonSet, ?ns, ''nfd-topology-updater'')" for k
    by (rule handleTopology_frame [OF h(3) that])
  note v = handleStatus_frame [OF h(5), unfolded cr_key_def] handleGC_frame [OF h(4)] v3
    handleWorker_frame [OF h(2)]
  show ?thesis
    unfolding components_stored_def
    using handleMaster_ok [OF h(1) [unfolded e]] handleWorker_ok [OF h(2) [unfolded e]]
      handleTopology_ok [OF h(3) [unfolded e]] handleGC_ok [OF h(4) [unfolded e]]
    by (simp add: v)
qed

text \<open>
  An error in one component does not keep the others from being applied: for each component the pass
  either leaves the desired object or names it in the joined error.
\<close>

lemma Reconcile_Apply_isolates:
  assumes run: "Reconcile (operatorReconciler lib cl s) cr w = ((res, err), cr', w')"
    and apply_pass: "pass_of (operatorReconciler lib cl s) cr = Apply"
  shows "blames ''master deployment'' cr err \<or>
      stored_as lib admits ODeployment dep_ObjectMeta dep_Spec (masterDeploymentSpec cr) cr
        ''nfd-master'' (view w' (KDeployment, nfd_Namespace cr, ''nfd-master''))" (is ?master)
    and "blames ''worker configmap'' cr err \<or>
      stored_as lib admits OConfigMap cm_ObjectMeta cm_Data
        [''nfd-worker-conf'' \<mapsto> wcm_ConfigData (spc_WorkerConfig (nfd_Spec cr))] cr
        ''nfd-worker'' (view w' (KConfigMap, nfd_Namespace cr, ''nfd-worker''))" (is ?config)
    and "blames ''worker configmap'' cr err \<or> blames ''worker DaemonSet'' cr err \<or>
      stored_as lib admits ODaemonSet ds_ObjectMeta ds_Spec (workerDaemonSetSpec cr) cr
        ''nfd-worker'' (view w' (KDaemonSet, nfd_Namespace cr, ''nfd-worker''))" (is ?worker)
    and "spc_TopologyUpdater (nfd_Spec cr) \<Longrightarrow> blames ''topology daemonset'' cr err \<or>
      stored_as lib admits ODaemonSet ds_ObjectMeta ds_Spec (topologyDaemonSetSpec cr) cr
        ''nfd-topology-updater'' (view w' (KDaemonSet, nfd_Namespace cr, ''nfd-topology-updater''))" (is "_ \<Longrightarrow> ?topology")
    and "blames ''nfd-gc deployment'' cr err \<or>
      stored_as lib admits ODeployment dep_ObjectMeta dep_Spec (gcDeploymentSpec cr) cr
        ''nfd-gc'' (view w' (KDeployment, nfd_Namespace cr, ''nfd-gc''))" (is ?gc)
proof -
  let ?H = "operatorHelper lib cl s"
  obtain e1 w1 e2 w2 e3 w3 e4 w4 e5 where
    h: "handleMaster lib ?H cr w = (e1, w1)" "handleWorker lib ?H cr w1 = (e2, w2)"
      "handleTopology lib ?H cr w2 = (e3, w3)" "handleGC lib ?H cr w3 = (e4, w4)"
      "handleStatus ?H cr w4 = (e5, cr', w')"
      "(res, err) = (zero_Result, errors_Join [e1, e2, e3, e4, e5])"
    by (rule operator_Apply [OF apply_pass run])
  have err: "err = errors_Join [e1, e2, e3, e4, e5]" using h(6) by simp
  have blame: "blames what cr err" if "Some e \<in> {e1, e2, e3, e4}" "reconcile_error what cr e" for what e
    unfolding err by (rule blames_errors_Join [OF _ that(2)]) (use that(1) in auto)
  have b1: "e1 = Some e \<Longrightarrow> blames ''master deployment'' cr err" for e
    by (rule blame [OF _ handleMaster_error]) (use h(1) in auto)
  have b3: "e3 = Some e \<Longrightarrow> blames ''topology daemonset'' cr err" for e
    by (rule blame [OF _ handleTopology_error]) (use h(3) in auto)
  have b4: "e4 = Some e \<Longrightarrow> blames ''nfd-gc deployment'' cr err" for e
    by (rule blame [OF _ handleGC_error]) (use h(4) in auto)
  note v = handleStatus_frame [OF h(5), unfolded cr_key_def] handleGC_frame [OF h(4)]
    handleTopology_frame [OF h(3)] handleWorker_frame [OF h(2)] handleMaster_frame [OF h(1)]
  show ?master
    using h(1) handleMaster_ok [of s cr w w1] b1 by (cases e1) (auto simp: v)
  show ?config
  proof (cases e2)
    case None
    with h(2) handleWorker_ok(1) [of s cr w1 w2] show ?thesis by (simp add: v)
  next
    case (Some e)
    with handleWorker_error [OF h(2) [unfolded Some]] blame [of e] show ?thesis by (auto simp: v)
  qed
  show ?worker
  proof (cases e2)
    case None
    with h(2) handleWorker_ok(2) [of s cr w1 w2] show ?thesis by (simp add: v)
  next
    case (Some e)
    with handleWorker_error [OF h(2) [unfolded Some]] blame [of e] show ?thesis by auto
  qed
  show ?topology
    if "spc_TopologyUpdater (nfd_Spec cr)"
    using h(3) handleTopology_ok [of s cr w2 w3] b3 that by (cases e3) (auto simp: v)
  show ?gc
    using h(4) handleGC_ok [of s cr w3 w4] b4 by (cases e4) (auto simp: v)
qed

text \<open>A component that was not already being deleted is running afterwards.\<close>

lemma Reconcile_Apply_live:
  assumes run: "Reconcile (operatorReconciler lib cl s) cr w = ((res, None), cr', w')"
    and apply_pass: "pass_of (operatorReconciler lib cl s) cr = Apply"
    and k: "k \<in> set (managed_keys cr)" and live: "\<not> terminating (view w k)"
  shows "\<not> gone (view w' k)"
proof -
  let ?H = "operatorHelper lib cl s" and ?ns = "nfd_Namespace cr"
  obtain e1 w1 e2 w2 e3 w3 e4 w4 e5 where
    h: "handleMaster lib ?H cr w = (e1, w1)" "handleWorker lib ?H cr w1 = (e2, w2)"
      "handleTopology lib ?H cr w2 = (e3, w3)" "handleGC lib ?H cr w3 = (e4, w4)"
      "handleStatus ?H cr w4 = (e5, cr', w')"
      "(res, None) = (zero_Result, errors_Join [e1, e2, e3, e4, e5])"
    by (rule operator_Apply [OF apply_pass run])
  have "errors_Join [e1, e2, e3, e4, e5] = None" using h(6) by simp
  then have e: "e1 = None" "e2 = None" "e3 = None" "e4 = None" by (simp_all add: outcome_simps)
  note v = handleStatus_frame [OF h(5), unfolded cr_key_def] handleGC_frame [OF h(4)]
    handleTopology_frame [OF h(3)] handleWorker_frame [OF h(2)] handleMaster_frame [OF h(1)]
  from k consider "k = (KDeployment, ?ns, ''nfd-master'')" | "k = (KConfigMap, ?ns, ''nfd-worker'')"
    | "k = (KDaemonSet, ?ns, ''nfd-worker'')"
    | "k = (KDaemonSet, ?ns, ''nfd-topology-updater'')" "spc_TopologyUpdater (nfd_Spec cr)"
    | "k = (KDeployment, ?ns, ''nfd-gc'')"
    by (auto simp: managed_keys_def split: if_splits)
  then show ?thesis
    using live handleMaster_live [OF h(1) [unfolded e]] handleWorker_ok(3,4) [OF h(2) [unfolded e]]
      handleTopology_live [OF h(3) [unfolded e]] handleGC_live [OF h(4) [unfolded e]]
    by cases (simp_all add: v)
qed

text \<open>The status that an applying pass leaves is not better than the workloads.\<close>

lemma Reconcile_Apply_status:
  assumes run: "Reconcile (operatorReconciler lib cl s) cr w = ((res, None), cr', w')"
    and apply_pass: "pass_of (operatorReconciler lib cl s) cr = Apply"
    and cr: "view w (cr_key cr) = Some (ONFD cr)"
  shows "\<exists>cs m. view w' (cr_key cr) = Some (ONFD m) \<and> report_wellformed cs \<and>
    without_time ` set cs \<subseteq> without_time ` set (sts_Conditions (nfd_Status m)) \<and>
    (report_health cs = Healthy \<longrightarrow> workloads_healthy cr (view w'))"
proof -
  let ?H = "operatorHelper lib cl s"
  obtain e1 w1 e2 w2 e3 w3 e4 w4 e5 where
    h: "handleMaster lib ?H cr w = (e1, w1)" "handleWorker lib ?H cr w1 = (e2, w2)"
      "handleTopology lib ?H cr w2 = (e3, w3)" "handleGC lib ?H cr w3 = (e4, w4)"
      "handleStatus ?H cr w4 = (e5, cr', w')"
      "(res, None) = (zero_Result, errors_Join [e1, e2, e3, e4, e5])"
    by (rule operator_Apply [OF apply_pass run])
  have "errors_Join [e1, e2, e3, e4, e5] = None" using h(6) by simp
  then have "e5 = None" by (simp add: outcome_simps)
  moreover have "view w4 (cr_key cr) = view w (cr_key cr)"
    using handleMaster_frame [OF h(1), of "cr_key cr"] handleWorker_frame [OF h(2), of "cr_key cr"]
      handleTopology_frame [OF h(3), of "cr_key cr"] handleGC_frame [OF h(4), of "cr_key cr"]
    by (simp add: cr_key_def)
  ultimately show ?thesis using handleStatus_reports [OF h(5) [unfolded \<open>e5 = None\<close>]] cr by simp
qed

subsection \<open>Adding the finalizer\<close>

lemma Reconcile_AddFinalizer_only:
  assumes run: "Reconcile (operatorReconciler lib cl s) cr w = (r, cr', w')"
    and add: "pass_of (operatorReconciler lib cl s) cr = AddFinalizer" and k: "k \<noteq> cr_key cr"
  shows "view w' k = view w k"
proof -
  obtain e where "api_setFinalizer (operatorReconciler lib cl s) cr w = (e, cr', w')"
    "r = (zero_Result, e)"
    by (rule Reconcile_AddFinalizer [OF add run])
  then show ?thesis using setFinalizer_frame [OF _ k] by simp
qed

lemma Reconcile_AddFinalizer_ok:
  assumes run: "Reconcile (operatorReconciler lib cl s) cr w = ((res, None), cr', w')"
    and add: "pass_of (operatorReconciler lib cl s) cr = AddFinalizer"
  shows "\<exists>n. view w' (cr_key cr) = Some (ONFD n) \<and> nfd_Spec n = nfd_Spec cr \<and>
    om_UID (nfd_ObjectMeta n) = om_UID (nfd_ObjectMeta cr) \<and> pass_of (operatorReconciler lib cl s) n = Apply \<and>
    om_Finalizers (nfd_ObjectMeta n) = om_Finalizers (nfd_ObjectMeta cr) @ [finalizerLabel]"
proof -
  obtain e where e: "api_setFinalizer (operatorReconciler lib cl s) cr w = (e, cr', w')"
    "(res, None) = (zero_Result, e)"
    by (rule Reconcile_AddFinalizer [OF add run])
  from add have "om_DeletionTimestamp (nfd_ObjectMeta cr) = None"
    by (simp add: pass_of_def split: if_splits)
  moreover have "setFinalizer (operatorHelper lib cl s) cr w = (None, cr', w')" using e by simp
  ultimately obtain n where
    "view w' (cr_key cr) = Some (ONFD n)" "nfd_Spec n = nfd_Spec cr"
    "om_UID (nfd_ObjectMeta n) = om_UID (nfd_ObjectMeta cr)"
    "om_DeletionTimestamp (nfd_ObjectMeta n) = None"
    "om_Finalizers (nfd_ObjectMeta n) = om_Finalizers (nfd_ObjectMeta cr) @ [finalizerLabel]"
    using setFinalizer_ok by blast
  then show ?thesis
    by (auto simp: pass_of_def hasFinalizer_def ContainsFinalizer_iff)
qed

subsection \<open>Tearing down\<close>

text \<open>
  The custom resource is not touched before every component it asked for is gone and, when pruning is
  asked for, the prune job has succeeded without a failed pod.
\<close>

lemma Reconcile_TearDown_safe:
  assumes run: "Reconcile (operatorReconciler lib cl s) cr w = (r, cr', w')"
    and tear: "pass_of (operatorReconciler lib cl s) cr = TearDown"
    and changed: "view w' (cr_key cr) \<noteq> view w (cr_key cr)"
  shows "(\<forall>k \<in> set (managed_keys cr). gone (view w' k)) \<and>
    (spc_PruneOnDelete (nfd_Spec cr) \<longrightarrow>
      (\<exists>j. view w (prune_key cr) = Some (OJob j) \<and> prune_succeeded j \<and> \<not> prune_failed j))"
proof -
  have ncr: "cr_key cr \<notin> set (managed_keys cr)" "cr_key cr \<noteq> prune_key cr"
    "prune_key cr \<notin> set (managed_keys cr)"
    by (auto simp: cr_key_def managed_keys_def prune_key_def)
  note frames = finalizeComponents_frame [OF _ ncr(1)] handlePrune_frame [OF _ ncr(2)]
  from tear run show ?thesis
  proof (cases rule: Reconcile_TearDown)
    case (finalize_failed e)
    with changed show ?thesis by (simp add: frames)
  next
    case (prune_failed w1 d e)
    then have "view w1 (cr_key cr) = view w (cr_key cr)" "view w' (cr_key cr) = view w1 (cr_key cr)"
      by (simp_all add: frames)
    with changed show ?thesis by simp
  next
    case (prune_waiting w1)
    then have "view w1 (cr_key cr) = view w (cr_key cr)" "view w' (cr_key cr) = view w1 (cr_key cr)"
      by (simp_all add: frames)
    with changed show ?thesis by simp
  next
    case (released w1 w2 e)
    then have f: "finalizeComponents (operatorHelper lib cl s) cr w = (None, w1)"
      and p: "handlePrune lib (operatorHelper lib cl s) cr w1 = ((True, None), w2)"
      and rm: "removeFinalizer lib (operatorHelper lib cl s) cr w2 = (e, cr', w')"
      by simp_all
    have "view w' k = view w1 k" if "k \<in> set (managed_keys cr)" for k
    proof -
      have "view w' k = view w2 k" using that ncr(1) by (intro removeFinalizer_frame [OF rm]) auto
      then show ?thesis using handlePrune_done [OF p] by simp
    qed
    moreover have "view w1 (prune_key cr) = view w (prune_key cr)"
      by (rule finalizeComponents_frame [OF f ncr(3)])
    ultimately show ?thesis
      using finalizeComponents_ok [OF f] handlePrune_done [OF p] by simp
  qed
qed

text \<open>
  A tear-down pass without an error makes progress: either the prune job is there and still running,
  or the operator's finalizer is off the custom resource.
\<close>

lemma Reconcile_TearDown_progress:
  assumes run: "Reconcile (operatorReconciler lib cl s) cr w = ((res, None), cr', w')"
    and tear: "pass_of (operatorReconciler lib cl s) cr = TearDown"
    and stored: "view w (cr_key cr) = Some (ONFD cr)"
  shows "(\<forall>k \<in> set (managed_keys cr). gone (view w' k)) \<and>
    (spc_PruneOnDelete (nfd_Spec cr) \<and> view w' (prune_key cr) \<noteq> None \<and>
       view w' (cr_key cr) = view w (cr_key cr) \<or>
     finalizers_of (view w' (cr_key cr)) = removeAll finalizerLabel (om_Finalizers (nfd_ObjectMeta cr)))"
proof -
  have ncr: "cr_key cr \<notin> set (managed_keys cr)" "cr_key cr \<noteq> prune_key cr"
    "prune_key cr \<notin> set (managed_keys cr)"
    by (auto simp: cr_key_def managed_keys_def prune_key_def)
  from tear run show ?thesis
  proof (cases rule: Reconcile_TearDown)
    case (prune_waiting w1)
    then have f: "finalizeComponents (operatorHelper lib cl s) cr w = (None, w1)"
      and p: "handlePrune lib (operatorHelper lib cl s) cr w1 = ((False, None), w')"
      by simp_all
    have "view w' k = view w1 k" if "k \<noteq> prune_key cr" for k
      by (rule handlePrune_frame [OF p that])
    moreover have "view w' (prune_key cr) \<noteq> None"
      using handlePrune_waiting [OF p] handlePrune_existing [OF p]
      by (auto simp: stored_as_def)
    moreover have "view w1 (cr_key cr) = view w (cr_key cr)"
      by (rule finalizeComponents_frame [OF f ncr(1)])
    ultimately show ?thesis
      using finalizeComponents_ok [OF f] handlePrune_waiting [OF p] ncr by metis
  next
    case (released w1 w2 e)
    then have f: "finalizeComponents (operatorHelper lib cl s) cr w = (None, w1)"
      and p: "handlePrune lib (operatorHelper lib cl s) cr w1 = ((True, None), w2)"
      and rm: "removeFinalizer lib (operatorHelper lib cl s) cr w2 = (None, cr', w')"
      by simp_all
    have "view w2 (cr_key cr) = Some (ONFD cr)"
      using handlePrune_done [OF p] finalizeComponents_frame [OF f ncr(1)] stored by simp
    moreover have "om_DeletionTimestamp (nfd_ObjectMeta cr) \<noteq> None" using tear by simp
    ultimately have "finalizers_of (view w' (cr_key cr)) =
        removeAll finalizerLabel (om_Finalizers (nfd_ObjectMeta cr))"
      using removeFinalizer_ok [OF rm] by simp
    moreover have "view w' k = view w1 k" if "k \<in> set (managed_keys cr)" for k
    proof -
      have "view w' k = view w2 k" using that ncr(1) by (intro removeFinalizer_frame [OF rm]) auto
      then show ?thesis using handlePrune_done [OF p] by simp
    qed
    ultimately show ?thesis using finalizeComponents_ok [OF f] by simp
  qed simp_all
qed

text \<open>A failed pod of the prune job blocks the release: the pass fails and the job stays.\<close>

lemma Reconcile_TearDown_blocked:
  assumes run: "Reconcile (operatorReconciler lib cl s) cr w = ((res, err), cr', w')"
    and tear: "pass_of (operatorReconciler lib cl s) cr = TearDown"
    and prune: "spc_PruneOnDelete (nfd_Spec cr)"
    and job: "view w (prune_key cr) = Some (OJob j)" "prune_failed j"
  shows "err \<noteq> None \<and> cr' = cr \<and> view w' (cr_key cr) = view w (cr_key cr) \<and>
    view w' (prune_key cr) = view w (prune_key cr)"
proof -
  have ncr: "cr_key cr \<notin> set (managed_keys cr)" "cr_key cr \<noteq> prune_key cr"
    "prune_key cr \<notin> set (managed_keys cr)"
    by (auto simp: cr_key_def managed_keys_def prune_key_def)
  have blocked: "snd (fst (handlePrune lib (operatorHelper lib cl s) cr w1)) \<noteq> None"
    and same: "view w1 k = view w k"
    if f: "finalizeComponents (operatorHelper lib cl s) cr w = (r1, w1)"
      and k: "k \<in> {cr_key cr, prune_key cr}" for r1 w1 k
  proof -
    have "view w1 (prune_key cr) = Some (OJob j)"
      using finalizeComponents_frame [OF f ncr(3)] job(1) by simp
    from handlePrune_failed [OF this job(2) prune]
    show "snd (fst (handlePrune lib (operatorHelper lib cl s) cr w1)) \<noteq> None" .
    show "view w1 k = view w k" using k ncr finalizeComponents_frame [OF f, of k] by auto
  qed
  from tear run show ?thesis
  proof (cases rule: Reconcile_TearDown)
    case (finalize_failed e)
    with same show ?thesis by simp
  next
    case (prune_failed w1 d e)
    then have f: "finalizeComponents (operatorHelper lib cl s) cr w = (None, w1)"
      and p: "handlePrune lib (operatorHelper lib cl s) cr w1 = ((d, Some e), w')" by simp_all
    have "view w' = view w1" using handlePrune_existing [OF p] same [OF f] job(1) by simp
    with same [OF f] prune_failed show ?thesis by simp
  next
    case (prune_waiting w1)
    then have "finalizeComponents (operatorHelper lib cl s) cr w = (None, w1)" by simp
    from blocked [OF this, of "cr_key cr"] prune_waiting show ?thesis by simp
  next
    case (released w1 w2 e)
    then have "finalizeComponents (operatorHelper lib cl s) cr w = (None, w1)" by simp
    from blocked [OF this, of "cr_key cr"] released show ?thesis by simp
  qed
qed

subsection \<open>What the stored components are good for\<close>

text \<open>A change or the removal of a stored component passes the event filter of the controller.\<close>

lemma stored_as_watched:
  assumes st: "stored_as lib admits mk meta payload p cr name (view w k)"
    and mk: "\<And>ob. obj_meta (mk ob) = meta ob"
  shows "\<exists>y. view w k = Some y \<and> isControlledByNFD lib (obj_meta y)"
proof -
  from st obtain ob y r where y: "view w k = Some y" "admits (mk ob) y"
    "GetControllerOf lib (meta ob) = Some r" "controlled_by cr r"
    unfolding stored_as_def by blast
  from admits_meta [OF y(2)] obtain u v where
    "obj_meta y = (meta ob)\<lparr>om_UID := u, om_ResourceVersion := v\<rparr>" by (auto simp: mk)
  then have "GetControllerOf lib (obj_meta y) = GetControllerOf lib (meta ob)"
    by (intro GetControllerOf_refs) simp
  with y show ?thesis by (simp add: isControlledByNFD_def controlled_by_def)
qed

lemma components_stored_watched:
  assumes "components_stored lib admits cr (view w)" and "k \<in> set (managed_keys cr)"
  shows "\<exists>y. view w k = Some y \<and> isControlledByNFD lib (obj_meta y)"
  using assms
  by (auto simp: components_stored_def managed_keys_def split: if_splits intro: stored_as_watched)

text \<open>The data of the worker's config map.\<close>

lemma components_stored_config:
  assumes "components_stored lib admits cr (view w)"
  shows "\<exists>c. view w (KConfigMap, nfd_Namespace cr, ''nfd-worker'') = Some (OConfigMap c) \<and>
    cm_Data c = [''nfd-worker-conf'' \<mapsto> wcm_ConfigData (spc_WorkerConfig (nfd_Spec cr))]"
proof -
  from assms obtain ob y where
    y: "view w (KConfigMap, nfd_Namespace cr, ''nfd-worker'') = Some y" "admits (OConfigMap ob) y"
      "cm_Data ob = [''nfd-worker-conf'' \<mapsto> wcm_ConfigData (spc_WorkerConfig (nfd_Spec cr))]"
    unfolding components_stored_def stored_as_def by blast
  from view_key [OF y(1)] obtain c where "y = OConfigMap c" by (cases y) auto
  with admits_data y show ?thesis by auto
qed

subsection \<open>The prune job\<close>

lemma handlePrune_writes:
  assumes p: "handlePrune lib (operatorHelper lib cl s) cr w = ((d, e), w')"
    and changed: "view w' (prune_key cr) \<noteq> view w (prune_key cr)"
  shows "spc_PruneOnDelete (nfd_Spec cr) \<and> view w (prune_key cr) = None \<and> \<not> d \<and>
    (e = None \<longrightarrow> stored_as lib admits OJob job_ObjectMeta job_Spec (job_Spec (pruneJobObject cr)) cr
       ''nfd-prune'' (view w' (prune_key cr)))"
proof -
  have pr: "spc_PruneOnDelete (nfd_Spec cr)"
    using p changed by (auto simp: handlePrune_def split: if_splits)
  have new: "view w (prune_key cr) = None" using handlePrune_existing [OF p] changed by metis
  have d: "\<not> d"
  proof
    assume d
    obtain gr w1 where g: "GetJob \<lparr>j_client = cl, j_scheme = s\<rparr> (nfd_Namespace cr) ''nfd-prune'' w = (gr, w1)"
      by fastforce
    with GetJob_stored [of s "nfd_Namespace cr" "''nfd-prune''" w _ w1] new \<open>d\<close> p pr show False
      by (cases gr) (auto simp: handlePrune_def prune_key_def Let_def split: if_splits prod.splits option.splits)
  qed
  with p handlePrune_waiting [of s cr w w'] new pr show ?thesis by auto
qed

lemma Reconcile_prune_key:
  assumes run: "Reconcile (operatorReconciler lib cl s) cr w = (r, cr', w')"
    and changed: "view w' (prune_key cr) \<noteq> view w (prune_key cr)"
  shows "om_DeletionTimestamp (nfd_ObjectMeta cr) \<noteq> None \<and> spc_PruneOnDelete (nfd_Spec cr) \<and>
    view w (prune_key cr) = None \<and>
    (snd r = None \<longrightarrow> stored_as lib admits OJob job_ObjectMeta job_Spec (job_Spec (pruneJobObject cr)) cr
       ''nfd-prune'' (view w' (prune_key cr)))"
proof -
  let ?H = "operatorHelper lib cl s"
  have n: "prune_key cr \<noteq> cr_key cr" "prune_key cr \<notin> set (managed_keys cr)"
    by (auto simp: cr_key_def managed_keys_def prune_key_def)
  show ?thesis
  proof (cases "pass_of (operatorReconciler lib cl s) cr")
    case AddFinalizer
    with Reconcile_AddFinalizer_only [OF run] n changed show ?thesis by metis
  next
    case Apply
    from Apply_frame [OF run Apply n(2,1)]
    have "view w' (prune_key cr) = view w (prune_key cr)" .
    with changed show ?thesis by simp
  next
    case TearDown
    then have del: "om_DeletionTimestamp (nfd_ObjectMeta cr) \<noteq> None" by simp
    note frames = finalizeComponents_frame [OF _ n(2)] removeFinalizer_frame [OF _ n(1)]
    from TearDown run show ?thesis
    proof (cases rule: Reconcile_TearDown)
      case (finalize_failed e)
      with changed show ?thesis by (simp add: frames)
    next
      case (prune_failed w1 d e)
      then have "view w1 (prune_key cr) = view w (prune_key cr)"
        and p: "handlePrune lib ?H cr w1 = ((d, Some e), w')" by (simp_all add: frames)
      with handlePrune_writes [OF p] changed prune_failed del show ?thesis by simp
    next
      case (prune_waiting w1)
      then have "view w1 (prune_key cr) = view w (prune_key cr)"
        and p: "handlePrune lib ?H cr w1 = ((False, None), w')" by (simp_all add: frames)
      with handlePrune_writes [OF p] changed prune_waiting del show ?thesis by simp
    next
      case (released w1 w2 e)
      then have "view w1 (prune_key cr) = view w (prune_key cr)"
        and p: "handlePrune lib ?H cr w1 = ((True, None), w2)"
        and "view w' (prune_key cr) = view w2 (prune_key cr)" by (simp_all add: frames)
      with handlePrune_writes [OF p] changed show ?thesis by auto
    qed
  qed
qed

end

end
