(* ===== verification/Lifecycle.thy ===== *)
theory Lifecycle
  imports Reconcile_Passes
begin

text \<open>
  The operator over time: passes on the stored custom resource, interleaved with what the rest of the
  cluster does. A relation of steps, the runs it allows, and what the passes of a run keep; the theory
  \<open>Orphans\<close> has the invariant that a component never outlives its custom resource.
\<close>

section \<open>One pass on the stored custom resource\<close>

text \<open>
  What controller-runtime does with a request: it reads the object and calls \<^verbatim>\<open>Reconcile\<close>, and does
  nothing when the object is not there.
\<close>

definition pass_at ::
  "('w, 'e, 's) machinery \<Rightarrow> ('w, 'e) client \<Rightarrow> 's \<Rightarrow> ('w \<Rightarrow> cluster_key \<Rightarrow> kobject option) \<Rightarrow>
     string \<Rightarrow> string \<Rightarrow> 'w \<Rightarrow> 'e err \<times> 'w" where
  "pass_at lib cl s view ns nm w =
     (case view w (KNFD, ns, nm) of
        Some (ONFD cr) \<Rightarrow>
          (case Reconcile (operatorReconciler lib cl s) cr w of ((res, err), cr', w') \<Rightarrow> (err, w'))
      | _ \<Rightarrow> (None, w))"

text \<open>The world after \<open>n\<close> passes in a row.\<close>

definition passes ::
  "('w, 'e, 's) machinery \<Rightarrow> ('w, 'e) client \<Rightarrow> 's \<Rightarrow> ('w \<Rightarrow> cluster_key \<Rightarrow> kobject option) \<Rightarrow>
     string \<Rightarrow> string \<Rightarrow> nat \<Rightarrow> 'w \<Rightarrow> 'w" where
  "passes lib cl s view ns nm n w = ((\<lambda>w. snd (pass_at lib cl s view ns nm w)) ^^ n) w"

lemma passes_simps [simp]:
  "passes lib cl s view ns nm 0 w = w"
  "passes lib cl s view ns nm (Suc n) w = snd (pass_at lib cl s view ns nm (passes lib cl s view ns nm n w))"
  by (simp_all add: passes_def)

section \<open>Runs\<close>

text \<open>The keys of all the components, whether they are asked for or not.\<close>

definition component_keys :: "string \<Rightarrow> cluster_key list" where
  "component_keys ns =
     [(KDeployment, ns, ''nfd-master''), (KConfigMap, ns, ''nfd-worker''),
      (KDaemonSet, ns, ''nfd-worker''), (KDaemonSet, ns, ''nfd-topology-updater''),
      (KDeployment, ns, ''nfd-gc'')]"

text \<open>
  What the others may do between two passes: anything to the components but create one, and anything
  to a custom resource that holds the operator's finalizer but take that off or switch the topology
  updater off. In particular they may delete or change components and ask for the deletion of the
  custom resource at any time.
\<close>

definition cluster_moves ::
  "string \<Rightarrow> string \<Rightarrow> (cluster_key \<Rightarrow> kobject option) \<Rightarrow> (cluster_key \<Rightarrow> kobject option) \<Rightarrow> bool" where
  "cluster_moves ns nm v v' \<longleftrightarrow>
     (\<forall>k \<in> set (component_keys ns). gone (v k) \<longrightarrow> gone (v' k)) \<and>
     (\<forall>n. v (KNFD, ns, nm) = Some (ONFD n) \<longrightarrow>
        finalizerLabel \<in> set (om_Finalizers (nfd_ObjectMeta n)) \<longrightarrow>
        (\<exists>m. v' (KNFD, ns, nm) = Some (ONFD m) \<and>
           finalizerLabel \<in> set (om_Finalizers (nfd_ObjectMeta m)) \<and>
           (spc_TopologyUpdater (nfd_Spec n) \<longrightarrow> spc_TopologyUpdater (nfd_Spec m))))"

inductive run ::
  "('w, 'e, 's) machinery \<Rightarrow> ('w, 'e) client \<Rightarrow> 's \<Rightarrow> ('w \<Rightarrow> cluster_key \<Rightarrow> kobject option) \<Rightarrow>
     string \<Rightarrow> string \<Rightarrow> 'w \<Rightarrow> bool"
  for lib cl s view ns nm where
  installed: "\<forall>k \<in> set (component_keys ns). gone (view w k) \<Longrightarrow> run lib cl s view ns nm w"
| passed: "run lib cl s view ns nm w \<Longrightarrow> pass_at lib cl s view ns nm w = (err, w') \<Longrightarrow>
     run lib cl s view ns nm w'"
| moved: "run lib cl s view ns nm w \<Longrightarrow> cluster_moves ns nm (view w) (view w') \<Longrightarrow>
     run lib cl s view ns nm w'"

text \<open>
  The invariant: a component that is not gone belongs to a stored custom resource that still holds
  the finalizer, so that the operator will be asked to remove it; the topology updater besides only
  while it is asked for.
\<close>

definition guarded :: "string \<Rightarrow> string \<Rightarrow> (cluster_key \<Rightarrow> kobject option) \<Rightarrow> bool" where
  "guarded ns nm v \<longleftrightarrow>
     (\<forall>k \<in> set (component_keys ns). gone (v k) \<or>
        (\<exists>n. v (KNFD, ns, nm) = Some (ONFD n) \<and>
           finalizerLabel \<in> set (om_Finalizers (nfd_ObjectMeta n)) \<and>
           (k = (KDaemonSet, ns, ''nfd-topology-updater'') \<longrightarrow> spc_TopologyUpdater (nfd_Spec n))))"

lemma managed_component: "k \<in> set (managed_keys cr) \<Longrightarrow> k \<in> set (component_keys (nfd_Namespace cr))"
  by (auto simp: managed_keys_def component_keys_def split: if_splits)

lemma component_managed:
  "k \<in> set (component_keys (nfd_Namespace cr)) \<Longrightarrow> k \<notin> set (managed_keys cr) \<Longrightarrow>
     k = (KDaemonSet, nfd_Namespace cr, ''nfd-topology-updater'') \<and> \<not> spc_TopologyUpdater (nfd_Spec cr)"
  by (auto simp: managed_keys_def component_keys_def)

lemma component_not_cr: "k \<in> set (component_keys ns) \<Longrightarrow> k \<noteq> cr_key cr \<and> k \<noteq> prune_key cr"
  by (auto simp: component_keys_def cr_key_def prune_key_def)

lemma guarded_gone: "\<forall>k \<in> set (component_keys ns). gone (v k) \<Longrightarrow> guarded ns nm v"
  by (simp add: guarded_def)

lemma guarded_moves:
  assumes "guarded ns nm v" and "cluster_moves ns nm v v'"
  shows "guarded ns nm v'"
  using assms unfolding guarded_def cluster_moves_def by meson

context api_server
begin

text \<open>An applying pass keeps the specification and the finalizers of the custom resource.\<close>

lemma Apply_keeps_cr:
  assumes run: "Reconcile (operatorReconciler lib cl s) cr w = (r, cr', w')"
    and app: "pass_of (operatorReconciler lib cl s) cr = Apply"
    and cr: "view w (cr_key cr) = Some (ONFD n)"
  shows "\<exists>m. view w' (cr_key cr) = Some (ONFD m) \<and> nfd_Spec m = nfd_Spec n \<and>
    om_UID (nfd_ObjectMeta m) = om_UID (nfd_ObjectMeta n) \<and>
    om_DeletionTimestamp (nfd_ObjectMeta m) = om_DeletionTimestamp (nfd_ObjectMeta n) \<and>
    om_Finalizers (nfd_ObjectMeta m) = om_Finalizers (nfd_ObjectMeta n)"
proof -
  let ?H = "operatorHelper lib cl s"
  obtain e1 w1 e2 w2 e3 w3 e4 w4 e5 where
    h: "handleMaster lib ?H cr w = (e1, w1)" "handleWorker lib ?H cr w1 = (e2, w2)"
      "handleTopology lib ?H cr w2 = (e3, w3)" "handleGC lib ?H cr w3 = (e4, w4)"
      "handleStatus ?H cr w4 = (e5, cr', w')"
      "r = (zero_Result, errors_Join [e1, e2, e3, e4, e5])"
    by (rule operator_Apply [OF app run])
  have "view w4 (cr_key cr) = view w (cr_key cr)"
    using handleMaster_frame [OF h(1), of "cr_key cr"] handleWorker_frame [OF h(2), of "cr_key cr"]
      handleTopology_frame [OF h(3), of "cr_key cr"] handleGC_frame [OF h(4), of "cr_key cr"]
    by (simp add: cr_key_def)
  with cr have "view w4 (cr_key cr) = Some (ONFD n)" by simp
  from handleStatus_cr [OF h(5) this] show ?thesis .
qed

section \<open>A failed prune pod\<close>

text \<open>
  Deleting the custom resource never finishes once a pod of the prune job has failed, whatever else
  the job did: every later pass fails and leaves the custom resource and the job as they are.
\<close>

lemma failed_prune_pass:
  assumes cr: "view w (KNFD, ns, nm) = Some (ONFD cr)"
    and del: "om_DeletionTimestamp (nfd_ObjectMeta cr) \<noteq> None"
    and prune: "spc_PruneOnDelete (nfd_Spec cr)"
    and job: "view w (KJob, ns, ''nfd-prune'') = Some (OJob j)" "prune_failed j"
    and pass: "pass_at lib cl s view ns nm w = (e, w')"
  shows "e \<noteq> None \<and> view w' (KNFD, ns, nm) = Some (ONFD cr) \<and>
    view w' (KJob, ns, ''nfd-prune'') = Some (OJob j)"
proof -
  from view_key [OF cr] have key: "nfd_Namespace cr = ns" "nfd_Name cr = nm" by auto
  obtain res e' cr' w2 where run: "Reconcile (operatorReconciler lib cl s) cr w = ((res, e'), cr', w2)"
    by (metis prod.exhaust)
  with pass cr have eq: "e' = e" "w2 = w'" by (auto simp: pass_at_def)
  have tear: "pass_of (operatorReconciler lib cl s) cr = TearDown" using del by simp
  from Reconcile_TearDown_blocked [OF run tear prune _ job(2)] job(1) cr key eq
  show ?thesis by (simp add: prune_key_def cr_key_def)
qed

lemma failed_prune_forever:
  assumes "view w (KNFD, ns, nm) = Some (ONFD cr)"
    and "om_DeletionTimestamp (nfd_ObjectMeta cr) \<noteq> None" and "spc_PruneOnDelete (nfd_Spec cr)"
    and "view w (KJob, ns, ''nfd-prune'') = Some (OJob j)" and "prune_failed j"
  shows "view (passes lib cl s view ns nm n w) (KNFD, ns, nm) = Some (ONFD cr) \<and>
    view (passes lib cl s view ns nm n w) (KJob, ns, ''nfd-prune'') = Some (OJob j) \<and>
    fst (pass_at lib cl s view ns nm (passes lib cl s view ns nm n w)) \<noteq> None"
proof (induction n)
  case 0
  obtain e w' where "pass_at lib cl s view ns nm w = (e, w')" by fastforce
  with failed_prune_pass [OF assms this] assms show ?case by simp
next
  case (Suc n)
  let ?w = "passes lib cl s view ns nm n w"
  obtain e w' where p: "pass_at lib cl s view ns nm ?w = (e, w')" by fastforce
  from Suc failed_prune_pass [OF _ assms(2,3) _ assms(5) p]
  have v: "view w' (KNFD, ns, nm) = Some (ONFD cr)" "view w' (KJob, ns, ''nfd-prune'') = Some (OJob j)"
    by auto
  obtain e2 w2 where "pass_at lib cl s view ns nm w' = (e2, w2)" by fastforce
  with failed_prune_pass [OF v(1) assms(2,3) v(2) assms(5) this] v p show ?case by simp
qed

section \<open>The prune job\<close>

text \<open>Passes leave a prune job that is stored as it is.\<close>

lemma pass_keeps_prune_job:
  assumes "pass_at lib cl s view ns nm w = (e, w')" and "view w (KJob, ns, ''nfd-prune'') = Some x"
  shows "view w' (KJob, ns, ''nfd-prune'') = Some x"
proof (cases "\<exists>cr. view w (KNFD, ns, nm) = Some (ONFD cr)")
  case True
  then obtain cr where cr: "view w (KNFD, ns, nm) = Some (ONFD cr)" by blast
  from view_key [OF cr] have "prune_key cr = (KJob, ns, ''nfd-prune'')" by (simp add: prune_key_def)
  with assms cr show ?thesis
    by (auto simp: pass_at_def split: prod.splits) (metis Reconcile_prune_key option.distinct(1))
next
  case False
  with assms show ?thesis by (auto simp: pass_at_def split: option.splits kobject.splits)
qed

lemma passes_keep_prune_job:
  "view w (KJob, ns, ''nfd-prune'') = Some x \<Longrightarrow>
     view (passes lib cl s view ns nm n w) (KJob, ns, ''nfd-prune'') = Some x"
  by (induction n) (auto intro: pass_keeps_prune_job [OF prod.collapse [symmetric]])

end

end
