(* ===== verification/Calm_Passes.thy ===== *)
theory Calm_Passes
  imports Lifecycle
begin

text \<open>
  Liveness: in a calm cluster whose server accepts what the operator submits (\<open>acceptable_components\<close>,
  \<open>acceptable_prune_job\<close>) every pass of the operator succeeds, unless a pod of the prune job has failed, so that an installation converges in two passes and a deletion, once the prune job is done,
  in one. The laws of \<open>calm_server\<close> say what calm means.
\<close>

lemmas named_defs = named_Deployment_def named_DaemonSet_def named_ConfigMap_def

section \<open>What is asked for\<close>

text \<open>What is asked for depends on the specification and the identity of the custom resource only.\<close>

definition same_request :: "NodeFeatureDiscovery \<Rightarrow> NodeFeatureDiscovery \<Rightarrow> bool" where
  "same_request n cr \<longleftrightarrow> nfd_Spec n = nfd_Spec cr \<and> nfd_Namespace n = nfd_Namespace cr \<and>
     nfd_Name n = nfd_Name cr \<and> om_UID (nfd_ObjectMeta n) = om_UID (nfd_ObjectMeta cr)"

lemma same_request_specs:
  assumes "same_request n cr"
  shows "masterDeploymentSpec n = masterDeploymentSpec cr" "gcDeploymentSpec n = gcDeploymentSpec cr"
    "workerDaemonSetSpec n = workerDaemonSetSpec cr" "topologyDaemonSetSpec n = topologyDaemonSetSpec cr"
proof -
  from assms have spec: "nfd_Spec n = nfd_Spec cr" by (simp add: same_request_def)
  show "masterDeploymentSpec n = masterDeploymentSpec cr" "gcDeploymentSpec n = gcDeploymentSpec cr"
    "workerDaemonSetSpec n = workerDaemonSetSpec cr" "topologyDaemonSetSpec n = topologyDaemonSetSpec cr"
    by (simp_all only: masterDeploymentSpec_def gcDeploymentSpec_def workerDaemonSetSpec_def
        topologyDaemonSetSpec_def dep_getPodsTolerations_def dep_getImagePullPolicy_def
        ds_getImagePullPolicy_def dep_getArgs_def ds_getArgs_def getMasterEnvs_def
        getWorkerEnvs_def getWorkerTolerations_def spec)
qed

lemma same_request_controlled: "same_request n cr \<Longrightarrow> controlled_by n = controlled_by cr"
  by (rule ext) (simp add: same_request_def controlled_by_def)

text \<open>The operator may adopt what is stored under a key: nothing, or an object no one else controls.\<close>

definition adoptable_at ::
  "('w, 'e, 's) machinery \<Rightarrow> NodeFeatureDiscovery \<Rightarrow> (cluster_key \<Rightarrow> kobject option) \<Rightarrow> cluster_key \<Rightarrow> bool" where
  "adoptable_at lib cr v k \<longleftrightarrow> (\<forall>x. v k = Some x \<longrightarrow> adoptable lib cr (obj_meta x))"

definition adoptable_components ::
  "('w, 'e, 's) machinery \<Rightarrow> NodeFeatureDiscovery \<Rightarrow> (cluster_key \<Rightarrow> kobject option) \<Rightarrow> bool" where
  "adoptable_components lib cr v \<longleftrightarrow> (\<forall>k \<in> set (managed_keys cr). adoptable_at lib cr v k)"

text \<open>
  The server takes the object that \<open>f\<close> makes of what is stored, or of the empty object \<open>new\<close>. It is taken
  when the server also takes it in the place of any object it has stored for the same content before: then
  an immutable field, once written, does not stand in the way.
\<close>

definition acceptable_at ::
  "(kobject option \<Rightarrow> kobject \<Rightarrow> bool) \<Rightarrow> ('o \<Rightarrow> kobject) \<Rightarrow> 'o \<Rightarrow> ('o \<Rightarrow> 'e err \<times> 'o) \<Rightarrow>
     kobject option \<Rightarrow> bool" where
  "acceptable_at accepts mk new f x \<longleftrightarrow>
     (\<forall>b. (case x of None \<Rightarrow> b = new | Some y \<Rightarrow> y = mk b) \<longrightarrow> accepts x (mk (snd (f b))))"

definition taken_at ::
  "('w, 'e, 's) machinery \<Rightarrow> (kobject \<Rightarrow> kobject \<Rightarrow> bool) \<Rightarrow> (kobject option \<Rightarrow> kobject \<Rightarrow> bool) \<Rightarrow>
     ('o \<Rightarrow> kobject) \<Rightarrow> ('o \<Rightarrow> ObjectMeta) \<Rightarrow> ('o \<Rightarrow> 'p) \<Rightarrow> 'p \<Rightarrow> NodeFeatureDiscovery \<Rightarrow> string \<Rightarrow> 'o \<Rightarrow>
     ('o \<Rightarrow> 'e err \<times> 'o) \<Rightarrow> kobject option \<Rightarrow> bool" where
  "taken_at lib admits accepts mk meta payload p cr name new f x \<longleftrightarrow>
     acceptable_at accepts mk new f x \<and>
     (\<forall>y. stored_as lib admits mk meta payload p cr name (Some y) \<longrightarrow>
        acceptable_at accepts mk new f (Some y))"

lemma taken_acceptable:
  "taken_at lib admits accepts mk meta payload p cr name new f x \<Longrightarrow> acceptable_at accepts mk new f x"
  by (simp add: taken_at_def)

lemma stored_taken:
  assumes "taken_at lib admits accepts mk meta payload p cr name new f x"
    and "stored_as lib admits mk meta payload p cr name y"
  shows "taken_at lib admits accepts mk meta payload p cr name new f y"
  using assms by (cases y) (simp_all add: taken_at_def stored_as_def)

lemma taken_mix:
  "z = x \<or> z = y \<Longrightarrow> taken_at lib admits accepts mk meta payload p cr name new f x \<Longrightarrow>
     taken_at lib admits accepts mk meta payload p cr name new f y \<Longrightarrow>
     taken_at lib admits accepts mk meta payload p cr name new f z"
  by auto

text \<open>
  The server takes every component the custom resource asks for, whatever its status and the other
  metadata are by then.
\<close>

definition acceptable_components ::
  "('w, 'e, 's) machinery \<Rightarrow> ('w, 'e) client \<Rightarrow> 's \<Rightarrow> (kobject \<Rightarrow> kobject \<Rightarrow> bool) \<Rightarrow>
     (kobject option \<Rightarrow> kobject \<Rightarrow> bool) \<Rightarrow> NodeFeatureDiscovery \<Rightarrow> (cluster_key \<Rightarrow> kobject option) \<Rightarrow> bool" where
  "acceptable_components lib cl s admits accepts cr v \<longleftrightarrow>
     (\<forall>n. same_request n cr \<longrightarrow>
       (let ns = nfd_Namespace cr;
            d = \<lparr>d_client = cl, d_scheme = s\<rparr>; sd = \<lparr>s_client = cl, s_scheme = s\<rparr>;
            c = \<lparr>c_client = cl, c_scheme = s\<rparr>
        in taken_at lib admits accepts ODeployment dep_ObjectMeta dep_Spec (masterDeploymentSpec cr) cr ''nfd-master''
             (named_Deployment ns ''nfd-master'') (SetMasterDeploymentAsDesired lib d n)
             (v (KDeployment, ns, ''nfd-master'')) \<and>
           taken_at lib admits accepts OConfigMap cm_ObjectMeta cm_Data
             [''nfd-worker-conf'' \<mapsto> wcm_ConfigData (spc_WorkerConfig (nfd_Spec cr))] cr ''nfd-worker''
             (named_ConfigMap ns ''nfd-worker'') (SetWorkerConfigMapAsDesired lib c n)
             (v (KConfigMap, ns, ''nfd-worker'')) \<and>
           taken_at lib admits accepts ODaemonSet ds_ObjectMeta ds_Spec (workerDaemonSetSpec cr) cr ''nfd-worker''
             (named_DaemonSet ns ''nfd-worker'') (SetWorkerDaemonsetAsDesired lib sd n)
             (v (KDaemonSet, ns, ''nfd-worker'')) \<and>
           (spc_TopologyUpdater (nfd_Spec cr) \<longrightarrow>
              taken_at lib admits accepts ODaemonSet ds_ObjectMeta ds_Spec (topologyDaemonSetSpec cr) cr
                ''nfd-topology-updater'' (named_DaemonSet ns ''nfd-topology-updater'')
                (SetTopologyDaemonsetAsDesired lib sd n) (v (KDaemonSet, ns, ''nfd-topology-updater''))) \<and>
           taken_at lib admits accepts ODeployment dep_ObjectMeta dep_Spec (gcDeploymentSpec cr) cr ''nfd-gc''
             (named_Deployment ns ''nfd-gc'') (SetGCDeploymentAsDesired lib d n)
             (v (KDeployment, ns, ''nfd-gc''))))"

text \<open>The same of the prune job, where it is asked for.\<close>

definition acceptable_prune_job ::
  "('w, 'e, 's) machinery \<Rightarrow> 's \<Rightarrow> (kobject option \<Rightarrow> kobject \<Rightarrow> bool) \<Rightarrow> NodeFeatureDiscovery \<Rightarrow> bool" where
  "acceptable_prune_job lib s accepts cr \<longleftrightarrow>
     (spc_PruneOnDelete (nfd_Spec cr) \<longrightarrow>
        accepts None (OJob ((pruneJobObject cr)\<lparr>job_ObjectMeta :=
          snd (SetControllerReference lib cr (job_ObjectMeta (pruneJobObject cr)) s)\<rparr>)))"

lemma acceptable_components_cong:
  assumes "\<And>k. k \<in> set (managed_keys cr) \<Longrightarrow> v' k = v k"
  shows "acceptable_components lib cl s admits accepts cr v' \<longleftrightarrow>
    acceptable_components lib cl s admits accepts cr v"
  using assms by (simp add: acceptable_components_def managed_keys_def Let_def cong: conj_cong)

lemma acceptable_components_mix:
  assumes "acceptable_components lib cl s admits accepts cr v" and "acceptable_components lib cl s admits accepts cr u"
    and "\<And>k. k \<in> set (managed_keys cr) \<Longrightarrow> v' k = v k \<or> v' k = u k"
  shows "acceptable_components lib cl s admits accepts cr v'"
proof -
  note acc = assms(1,2) [unfolded acceptable_components_def Let_def, rule_format]
  show ?thesis
    unfolding acceptable_components_def Let_def
    by (intro allI impI conjI; rule taken_mix [OF assms(3)];
        (simp add: managed_keys_def; fail)?; (use acc(1) in \<open>simp; fail\<close>)?; (use acc(2) in \<open>simp; fail\<close>)?)
qed

lemma stored_acceptable:
  assumes "acceptable_components lib cl s admits accepts cr v" and "components_stored lib admits cr v'"
  shows "acceptable_components lib cl s admits accepts cr v'"
  using assms unfolding acceptable_components_def components_stored_def Let_def
  by (blast intro: stored_taken)

text \<open>What the handlers use of it.\<close>

lemma acceptable_componentsD:
  assumes "acceptable_components lib cl s admits accepts cr v"
  shows "acceptable_at accepts ODeployment (named_Deployment (nfd_Namespace cr) ''nfd-master'')
      (SetMasterDeploymentAsDesired lib \<lparr>d_client = cl, d_scheme = s\<rparr> cr)
      (v (KDeployment, nfd_Namespace cr, ''nfd-master''))"
    and "acceptable_at accepts OConfigMap (named_ConfigMap (nfd_Namespace cr) ''nfd-worker'')
      (SetWorkerConfigMapAsDesired lib \<lparr>c_client = cl, c_scheme = s\<rparr> cr)
      (v (KConfigMap, nfd_Namespace cr, ''nfd-worker''))"
    and "acceptable_at accepts ODaemonSet (named_DaemonSet (nfd_Namespace cr) ''nfd-worker'')
      (SetWorkerDaemonsetAsDesired lib \<lparr>s_client = cl, s_scheme = s\<rparr> cr)
      (v (KDaemonSet, nfd_Namespace cr, ''nfd-worker''))"
    and "spc_TopologyUpdater (nfd_Spec cr) \<Longrightarrow>
      acceptable_at accepts ODaemonSet (named_DaemonSet (nfd_Namespace cr) ''nfd-topology-updater'')
      (SetTopologyDaemonsetAsDesired lib \<lparr>s_client = cl, s_scheme = s\<rparr> cr)
      (v (KDaemonSet, nfd_Namespace cr, ''nfd-topology-updater''))"
    and "acceptable_at accepts ODeployment (named_Deployment (nfd_Namespace cr) ''nfd-gc'')
      (SetGCDeploymentAsDesired lib \<lparr>d_client = cl, d_scheme = s\<rparr> cr)
      (v (KDeployment, nfd_Namespace cr, ''nfd-gc''))"
  using assms [unfolded acceptable_components_def Let_def, rule_format, of cr]
  by (auto simp: same_request_def taken_at_def)

lemma adoptable_at_cong:
  "v' k = v k \<Longrightarrow> adoptable_at lib cr v' k = adoptable_at lib cr v k"
  by (simp add: adoptable_at_def)

context calm_server
begin

lemma adoptable_new:
  "om_OwnerReferences om = [] \<Longrightarrow> om_Namespace om = nfd_Namespace cr \<Longrightarrow> adoptable lib cr om"
  by (simp add: adoptable_def GetControllerOf_new)

text \<open>A setter that keeps its contract succeeds on an object that may be adopted.\<close>

lemma setter_succeeds:
  assumes setter: "desired_state lib sc set_desired meta payload desired relabel"
    and adopt: "adoptable lib cr (meta b)"
  shows "fst (set_desired cr b) = None"
    and "om_Name (meta (snd (set_desired cr b))) = om_Name (meta b)"
    and "om_Namespace (meta (snd (set_desired cr b))) = om_Namespace (meta b)"
proof -
  let ?om = "(meta b)\<lparr>om_Labels := relabel (om_Labels (meta b))\<rparr>"
  have "GetControllerOf lib ?om = GetControllerOf lib (meta b)" by (rule GetControllerOf_refs) simp
  with adopt have "adoptable lib cr ?om" by (simp add: adoptable_def)
  then have "fst (SetControllerReference lib cr ?om sc) = None"
    by (rule SetControllerReference_adopts)
  then show ok: "fst (set_desired cr b) = None"
    by (simp add: desired_state.error_from_owner_reference [OF setter])
  then have "set_desired cr b = (None, snd (set_desired cr b))" by (metis prod.collapse)
  from desired_state.set_keeps_identity [OF setter laws this]
  show "om_Name (meta (snd (set_desired cr b))) = om_Name (meta b)"
    "om_Namespace (meta (snd (set_desired cr b))) = om_Namespace (meta b)" by auto
qed

lemma CreateOrPatch_Deployment_succeeds:
  assumes setter: "desired_state lib sc set_desired dep_ObjectMeta payload desired relabel"
    and calm: "calm w" and call: "CreateOrPatch_Deployment lib cl x (set_desired cr) w = (opr, r, w')"
    and new: "om_OwnerReferences (dep_ObjectMeta x) = []"
      "om_Namespace (dep_ObjectMeta x) = nfd_Namespace cr"
    and adopt: "adoptable_at lib cr (view w) (obj_key (ODeployment x))"
    and acc: "acceptable_at accepts ODeployment x (set_desired cr) (view w (obj_key (ODeployment x)))"
  shows "calm w' \<and> r = None"
proof -
  have "fst (set_desired cr b) = None \<and>
      obj_key (ODeployment (snd (set_desired cr b))) = obj_key (ODeployment x) \<and>
      accepts (view w (obj_key (ODeployment x))) (ODeployment (snd (set_desired cr b)))"
    if b: "case view w (obj_key (ODeployment x)) of None \<Rightarrow> b = x | Some z \<Rightarrow> z = ODeployment b" for b
  proof -
    have "adoptable lib cr (dep_ObjectMeta b)"
      using b adopt adoptable_new [OF new] by (auto simp: adoptable_at_def split: option.splits)
    moreover have "obj_key (ODeployment b) = obj_key (ODeployment x)"
      using b by (auto split: option.splits dest!: view_key)
    ultimately show ?thesis using setter_succeeds [OF setter] acc b by (simp add: acceptable_at_def)
  qed
  with calm_CreateOrPatch_Deployment [OF calm call] show ?thesis by blast
qed

lemma CreateOrPatch_DaemonSet_succeeds:
  assumes setter: "desired_state lib sc set_desired ds_ObjectMeta payload desired relabel"
    and calm: "calm w" and call: "CreateOrPatch_DaemonSet lib cl x (set_desired cr) w = (opr, r, w')"
    and new: "om_OwnerReferences (ds_ObjectMeta x) = []"
      "om_Namespace (ds_ObjectMeta x) = nfd_Namespace cr"
    and adopt: "adoptable_at lib cr (view w) (obj_key (ODaemonSet x))"
    and acc: "acceptable_at accepts ODaemonSet x (set_desired cr) (view w (obj_key (ODaemonSet x)))"
  shows "calm w' \<and> r = None"
proof -
  have "fst (set_desired cr b) = None \<and>
      obj_key (ODaemonSet (snd (set_desired cr b))) = obj_key (ODaemonSet x) \<and>
      accepts (view w (obj_key (ODaemonSet x))) (ODaemonSet (snd (set_desired cr b)))"
    if b: "case view w (obj_key (ODaemonSet x)) of None \<Rightarrow> b = x | Some z \<Rightarrow> z = ODaemonSet b" for b
  proof -
    have "adoptable lib cr (ds_ObjectMeta b)"
      using b adopt adoptable_new [OF new] by (auto simp: adoptable_at_def split: option.splits)
    moreover have "obj_key (ODaemonSet b) = obj_key (ODaemonSet x)"
      using b by (auto split: option.splits dest!: view_key)
    ultimately show ?thesis using setter_succeeds [OF setter] acc b by (simp add: acceptable_at_def)
  qed
  with calm_CreateOrPatch_DaemonSet [OF calm call] show ?thesis by blast
qed

lemma CreateOrPatch_ConfigMap_succeeds:
  assumes setter: "desired_state lib sc set_desired cm_ObjectMeta payload desired relabel"
    and calm: "calm w" and call: "CreateOrPatch_ConfigMap lib cl x (set_desired cr) w = (opr, r, w')"
    and new: "om_OwnerReferences (cm_ObjectMeta x) = []"
      "om_Namespace (cm_ObjectMeta x) = nfd_Namespace cr"
    and adopt: "adoptable_at lib cr (view w) (obj_key (OConfigMap x))"
    and acc: "acceptable_at accepts OConfigMap x (set_desired cr) (view w (obj_key (OConfigMap x)))"
  shows "calm w' \<and> r = None"
proof -
  have "fst (set_desired cr b) = None \<and>
      obj_key (OConfigMap (snd (set_desired cr b))) = obj_key (OConfigMap x) \<and>
      accepts (view w (obj_key (OConfigMap x))) (OConfigMap (snd (set_desired cr b)))"
    if b: "case view w (obj_key (OConfigMap x)) of None \<Rightarrow> b = x | Some z \<Rightarrow> z = OConfigMap b" for b
  proof -
    have "adoptable lib cr (cm_ObjectMeta b)"
      using b adopt adoptable_new [OF new] by (auto simp: adoptable_at_def split: option.splits)
    moreover have "obj_key (OConfigMap b) = obj_key (OConfigMap x)"
      using b by (auto split: option.splits dest!: view_key)
    ultimately show ?thesis using setter_succeeds [OF setter] acc b by (simp add: acceptable_at_def)
  qed
  with calm_CreateOrPatch_ConfigMap [OF calm call] show ?thesis by blast
qed

section \<open>The handlers\<close>

lemma handleMaster_succeeds:
  assumes "calm w" and "handleMaster lib (operatorHelper lib cl s) cr w = (r, w')"
    and "adoptable_at lib cr (view w) (KDeployment, nfd_Namespace cr, ''nfd-master'')"
    and "acceptable_at accepts ODeployment (named_Deployment (nfd_Namespace cr) ''nfd-master'')
      (SetMasterDeploymentAsDesired lib \<lparr>d_client = cl, d_scheme = s\<rparr> cr)
      (view w (KDeployment, nfd_Namespace cr, ''nfd-master''))"
  shows "calm w' \<and> r = None"
proof -
  let ?d = "zero_Deployment\<lparr>dep_ObjectMeta :=
    zero_ObjectMeta\<lparr>om_Name := ''nfd-master'', om_Namespace := nfd_Namespace cr\<rparr>\<rparr>"
  obtain opr e w1 where c: "CreateOrPatch_Deployment lib cl ?d
      (SetMasterDeploymentAsDesired lib \<lparr>d_client = cl, d_scheme = s\<rparr> cr) w = (opr, e, w1)"
    by (metis prod.exhaust)
  have "calm w1 \<and> e = None"
    by (rule CreateOrPatch_Deployment_succeeds [OF master.desired_state_axioms assms(1) c])
       (use assms(3,4) in \<open>simp_all add: named_defs zero_defs\<close>)
  with c assms(2) show ?thesis by (simp add: handleMaster_def)
qed

lemma handleGC_succeeds:
  assumes "calm w" and "handleGC lib (operatorHelper lib cl s) cr w = (r, w')"
    and "adoptable_at lib cr (view w) (KDeployment, nfd_Namespace cr, ''nfd-gc'')"
    and "acceptable_at accepts ODeployment (named_Deployment (nfd_Namespace cr) ''nfd-gc'')
      (SetGCDeploymentAsDesired lib \<lparr>d_client = cl, d_scheme = s\<rparr> cr)
      (view w (KDeployment, nfd_Namespace cr, ''nfd-gc''))"
  shows "calm w' \<and> r = None"
proof -
  let ?d = "zero_Deployment\<lparr>dep_ObjectMeta :=
    zero_ObjectMeta\<lparr>om_Name := ''nfd-gc'', om_Namespace := nfd_Namespace cr\<rparr>\<rparr>"
  obtain opr e w1 where c: "CreateOrPatch_Deployment lib cl ?d
      (SetGCDeploymentAsDesired lib \<lparr>d_client = cl, d_scheme = s\<rparr> cr) w = (opr, e, w1)"
    by (metis prod.exhaust)
  have "calm w1 \<and> e = None"
    by (rule CreateOrPatch_Deployment_succeeds [OF gc.desired_state_axioms assms(1) c])
       (use assms(3,4) in \<open>simp_all add: named_defs zero_defs\<close>)
  with c assms(2) show ?thesis by (simp add: handleGC_def)
qed

lemma handleTopology_succeeds:
  assumes "calm w" and "handleTopology lib (operatorHelper lib cl s) cr w = (r, w')"
    and "spc_TopologyUpdater (nfd_Spec cr) \<Longrightarrow>
      adoptable_at lib cr (view w) (KDaemonSet, nfd_Namespace cr, ''nfd-topology-updater'')"
    and "spc_TopologyUpdater (nfd_Spec cr) \<Longrightarrow>
      acceptable_at accepts ODaemonSet (named_DaemonSet (nfd_Namespace cr) ''nfd-topology-updater'')
      (SetTopologyDaemonsetAsDesired lib \<lparr>s_client = cl, s_scheme = s\<rparr> cr)
      (view w (KDaemonSet, nfd_Namespace cr, ''nfd-topology-updater''))"
  shows "calm w' \<and> r = None"
proof (cases "spc_TopologyUpdater (nfd_Spec cr)")
  case True
  let ?d = "zero_DaemonSet\<lparr>ds_ObjectMeta :=
    zero_ObjectMeta\<lparr>om_Name := ''nfd-topology-updater'', om_Namespace := nfd_Namespace cr\<rparr>\<rparr>"
  obtain opr e w1 where c: "CreateOrPatch_DaemonSet lib cl ?d
      (SetTopologyDaemonsetAsDesired lib \<lparr>s_client = cl, s_scheme = s\<rparr> cr) w = (opr, e, w1)"
    by (metis prod.exhaust)
  have "calm w1 \<and> e = None"
    by (rule CreateOrPatch_DaemonSet_succeeds [OF topology.desired_state_axioms assms(1) c])
       (use assms(3,4) True in \<open>simp_all add: named_defs zero_defs\<close>)
  with c assms(2) True show ?thesis by (simp add: handleTopology_def)
next
  case False
  with assms(1,2) show ?thesis by (simp add: handleTopology_disabled)
qed

lemma handleWorker_succeeds:
  assumes "calm w" and "handleWorker lib (operatorHelper lib cl s) cr w = (r, w')"
    and "adoptable_at lib cr (view w) (KConfigMap, nfd_Namespace cr, ''nfd-worker'')"
    and "adoptable_at lib cr (view w) (KDaemonSet, nfd_Namespace cr, ''nfd-worker'')"
    and "acceptable_at accepts OConfigMap (named_ConfigMap (nfd_Namespace cr) ''nfd-worker'')
      (SetWorkerConfigMapAsDesired lib \<lparr>c_client = cl, c_scheme = s\<rparr> cr)
      (view w (KConfigMap, nfd_Namespace cr, ''nfd-worker''))"
    and "acceptable_at accepts ODaemonSet (named_DaemonSet (nfd_Namespace cr) ''nfd-worker'')
      (SetWorkerDaemonsetAsDesired lib \<lparr>s_client = cl, s_scheme = s\<rparr> cr)
      (view w (KDaemonSet, nfd_Namespace cr, ''nfd-worker''))"
  shows "calm w' \<and> r = None"
proof -
  let ?c = "zero_ConfigMap\<lparr>cm_ObjectMeta :=
    zero_ObjectMeta\<lparr>om_Name := ''nfd-worker'', om_Namespace := nfd_Namespace cr\<rparr>\<rparr>"
  let ?d = "zero_DaemonSet\<lparr>ds_ObjectMeta :=
    zero_ObjectMeta\<lparr>om_Name := ''nfd-worker'', om_Namespace := nfd_Namespace cr\<rparr>\<rparr>"
  obtain op1 e1 w1 where c1: "CreateOrPatch_ConfigMap lib cl ?c
      (SetWorkerConfigMapAsDesired lib \<lparr>c_client = cl, c_scheme = s\<rparr> cr) w = (op1, e1, w1)"
    by (metis prod.exhaust)
  have 1: "calm w1 \<and> e1 = None"
    by (rule CreateOrPatch_ConfigMap_succeeds [OF worker_cm.desired_state_axioms assms(1) c1])
       (use assms(3,5) in \<open>simp_all add: named_defs zero_defs\<close>)
  obtain op2 e2 w2 where c2: "CreateOrPatch_DaemonSet lib cl ?d
      (SetWorkerDaemonsetAsDesired lib \<lparr>s_client = cl, s_scheme = s\<rparr> cr) w1 = (op2, e2, w2)"
    by (metis prod.exhaust)
  have "view w1 (KDaemonSet, nfd_Namespace cr, ''nfd-worker'') =
      view w (KDaemonSet, nfd_Namespace cr, ''nfd-worker'')"
    by (rule CreateOrPatch_ConfigMap_frame [OF c1]) simp
  with assms(4,6) have "calm w2 \<and> e2 = None"
    by (intro CreateOrPatch_DaemonSet_succeeds [OF worker.desired_state_axioms conjunct1 [OF 1] c2])
       (simp_all add: named_defs zero_defs adoptable_at_def)
  with c1 c2 1 assms(2) show ?thesis by (simp add: handleWorker_def)
qed

section \<open>Status\<close>

lemma calm_GetDaemonSet:
  "calm w \<Longrightarrow> GetDaemonSet \<lparr>s_client = cl, s_scheme = s\<rparr> ns n w = (r, w') \<Longrightarrow> calm w'"
  by (auto simp: ds_get.get_is_raw split: prod.splits dest: calm_Get_DaemonSet)

lemma calm_GetDeployment:
  "calm w \<Longrightarrow> GetDeployment \<lparr>d_client = cl, d_scheme = s\<rparr> ns n w = (r, w') \<Longrightarrow> calm w'"
  by (auto simp: dep_get.get_is_raw split: prod.splits dest: calm_Get_Deployment)

lemma calm_DaemonSet_source:
  assumes "getDaemonSetNotAvailableConditions lib
     \<lparr>sh_deploymentAPI = da, sh_daemonsetAPI = NewDaemonsetAPI lib cl s\<rparr> ns n r1 r2 r3 w = (r, w')"
    and "calm w"
  shows "calm w'"
  using assms
  by (auto simp: getDaemonSetNotAvailableConditions_def Let_def
      split: prod.splits option.splits if_splits dest: calm_GetDaemonSet calm_time_Now)

lemma calm_Deployment_source:
  assumes "getDeploymentNotAvailableConditions lib
     \<lparr>sh_deploymentAPI = NewDeploymentAPI lib cl s, sh_daemonsetAPI = sa\<rparr> ns n r1 r2 r3 w = (r, w')"
    and "calm w"
  shows "calm w'"
  using assms
  by (auto simp: getDeploymentNotAvailableConditions_def Let_def
      split: prod.splits option.splits if_splits dest: calm_GetDeployment calm_time_Now)

lemma calm_sources:
  assumes "calm w"
  shows "calm (snd (getWorkerNotAvailableConditions lib
      \<lparr>sh_deploymentAPI = da, sh_daemonsetAPI = NewDaemonsetAPI lib cl s\<rparr> cr w))"
    and "calm (snd (getTopologyNotAvailableConditions lib
      \<lparr>sh_deploymentAPI = da, sh_daemonsetAPI = NewDaemonsetAPI lib cl s\<rparr> cr w))"
    and "calm (snd (getMasterNotAvailableConditions lib
      \<lparr>sh_deploymentAPI = NewDeploymentAPI lib cl s, sh_daemonsetAPI = sa\<rparr> cr w))"
    and "calm (snd (getGCNotAvailableConditions lib
      \<lparr>sh_deploymentAPI = NewDeploymentAPI lib cl s, sh_daemonsetAPI = sa\<rparr> cr w))"
  unfolding source_defs
  by (metis calm_DaemonSet_source calm_Deployment_source prod.collapse assms)+

lemma calm_GetConditions:
  assumes "GetConditions lib
    (newStatusHelperAPI lib (NewDeploymentAPI lib cl s) (NewDaemonsetAPI lib cl s)) cr w = (cs, w')"
    and calm: "calm w"
  shows "calm w'"
proof -
  let ?H = "newStatusHelperAPI lib (NewDeploymentAPI lib cl s) (NewDaemonsetAPI lib cl s)"
  obtain a w1 where a: "api_getWorkerNotAvailableConditions ?H cr w = (a, w1)" by fastforce
  obtain b w2 where b: "api_getMasterNotAvailableConditions ?H cr w1 = (b, w2)" by fastforce
  obtain c w3 where c: "api_getGCNotAvailableConditions ?H cr w2 = (c, w3)" by fastforce
  obtain d w4 where d: "api_getTopologyNotAvailableConditions ?H cr w3 = (d, w4)" by fastforce
  have 1: "calm w1" using calm_sources(1) [OF calm, of "NewDeploymentAPI lib cl s" s cr] a by simp
  have 2: "calm w2" using calm_sources(3) [OF 1, of s "NewDaemonsetAPI lib cl s" cr] b by simp
  have 3: "calm w3" using calm_sources(4) [OF 2, of s "NewDaemonsetAPI lib cl s" cr] c by simp
  have 4: "calm w4" using calm_sources(2) [OF 3, of "NewDeploymentAPI lib cl s" s cr] d by simp
  from assms(1) show ?thesis
    using 1 2 3 4 by (auto simp: GetConditions_def a b c d simp del: newStatusHelperAPI_sel
      split: option.splits if_splits prod.splits dest: calm_time_Now)
qed

lemma handleStatus_succeeds:
  assumes calm: "calm w" and h: "handleStatus (operatorHelper lib cl s) cr w = (r, cr', w')"
    and cr: "view w (cr_key cr) \<noteq> None"
  shows "calm w' \<and> r = None"
proof -
  obtain cs w1 where g: "GetConditions lib
      (newStatusHelperAPI lib (NewDeploymentAPI lib cl s) (NewDaemonsetAPI lib cl s)) cr w = (cs, w1)"
    by fastforce
  let ?n = "cr\<lparr>nfd_Status := (nfd_Status cr)\<lparr>sts_Conditions := cs\<rparr>\<rparr>"
  have w1: "calm w1" by (rule calm_GetConditions [OF g calm])
  from h g have "(r, cr', w') = (None, cr, w1) \<or> StatusPatch_NFD cl ?n cr w1 = (r, cr', w')"
    by (auto simp: handleStatus_def Let_def split: if_splits)
  moreover have "view w1 (obj_key (ONFD ?n)) \<noteq> None"
    using GetConditions_view [OF g] cr by (simp add: cr_key_def)
  ultimately show ?thesis using calm_StatusPatch_NFD [OF w1] w1 by blast
qed

text \<open>In a calm cluster the report is Available exactly when the workloads are healthy.\<close>

lemma read_DaemonSet_complete:
  assumes "calm w" and "healthy_DaemonSet (view w) ns n"
  shows "read_health daemonset_health (fst (GetDaemonSet \<lparr>s_client = cl, s_scheme = s\<rparr> ns n w)) = Healthy"
proof -
  obtain r d w1 where g: "Get_DaemonSet cl (ns, n) zero_DaemonSet w = (r, d, w1)"
    by (metis prod.exhaust)
  have "r = None"
    using calm_Get_DaemonSet [OF assms(1) g] Get_DaemonSet_absent [of ns n _ w] g assms(2)
    by (cases r) (auto simp: healthy_DaemonSet_def)
  with Get_DaemonSet_ok [of ns n _ w d w1] g assms(2) show ?thesis
    by (simp add: ds_get.get_is_raw read_health_def healthy_DaemonSet_def)
qed

lemma read_Deployment_complete:
  assumes "calm w" and "healthy_Deployment (view w) ns n"
  shows "read_health deployment_health (fst (GetDeployment \<lparr>d_client = cl, d_scheme = s\<rparr> ns n w)) = Healthy"
proof -
  obtain r d w1 where g: "Get_Deployment cl (ns, n) zero_Deployment w = (r, d, w1)"
    by (metis prod.exhaust)
  have "r = None"
    using calm_Get_Deployment [OF assms(1) g] Get_Deployment_absent [of ns n _ w] g assms(2)
    by (cases r) (auto simp: healthy_Deployment_def)
  with Get_Deployment_ok [of ns n _ w d w1] g assms(2) show ?thesis
    by (simp add: dep_get.get_is_raw read_health_def healthy_Deployment_def)
qed

lemma GetConditions_exact:
  assumes calm: "calm w" and g: "GetConditions lib
    (newStatusHelperAPI lib (NewDeploymentAPI lib cl s) (NewDaemonsetAPI lib cl s)) cr w = (cs, w')"
  shows "report_health cs = Healthy \<longleftrightarrow> workloads_healthy cr (view w)"
proof
  assume "workloads_healthy cr (view w)"
  then have h: "healthy_DaemonSet (view w) (nfd_Namespace cr) ''nfd-worker''"
    "healthy_Deployment (view w) (nfd_Namespace cr) ''nfd-master''"
    "healthy_Deployment (view w) (nfd_Namespace cr) ''nfd-gc''"
    "spc_TopologyUpdater (nfd_Spec cr) \<Longrightarrow>
      healthy_DaemonSet (view w) (nfd_Namespace cr) ''nfd-topology-updater''"
    by (auto simp: workloads_healthy_def)
  let ?da = "NewDeploymentAPI lib cl s" and ?sa = "NewDaemonsetAPI lib cl s"
  let ?H = "newStatusHelperAPI lib ?da ?sa"
  define w1 where "w1 = snd (api_getWorkerNotAvailableConditions ?H cr w)"
  define w2 where "w2 = snd (api_getMasterNotAvailableConditions ?H cr w1)"
  define w3 where "w3 = snd (api_getGCNotAvailableConditions ?H cr w2)"
  note worlds = w1_def w2_def w3_def
  have v: "view w1 = view w" "view w2 = view w" "view w3 = view w"
    by (simp_all add: worlds sources_view)
  have c1: "calm w1" by (simp add: w1_def calm_sources calm)
  have c2: "calm w2" by (simp add: w2_def calm_sources c1)
  have c3: "calm w3" by (simp add: w3_def calm_sources c2)
  have "report_health (fst (GetConditions lib ?H cr w)) = first_unhealthy
    [read_health daemonset_health (fst (api_GetDaemonSet ?sa (nfd_Namespace cr) ''nfd-worker'' w)),
     read_health deployment_health (fst (api_GetDeployment ?da (nfd_Namespace cr) ''nfd-master'' w1)),
     read_health deployment_health (fst (api_GetDeployment ?da (nfd_Namespace cr) ''nfd-gc'' w2)),
     if spc_TopologyUpdater (nfd_Spec cr)
     then read_health daemonset_health
       (fst (api_GetDaemonSet ?sa (nfd_Namespace cr) ''nfd-topology-updater'' w3))
     else Healthy]"
    by (rule conjunct2 [OF built.GetConditions_report [OF w1_def w2_def w3_def]])
  then show "report_health cs = Healthy"
    using read_DaemonSet_complete [OF calm h(1), of s]
      read_Deployment_complete [OF c1 h(2) [folded v(1)], of s]
      read_Deployment_complete [OF c2 h(3) [folded v(2)], of s]
      read_DaemonSet_complete [OF c3 h(4) [folded v(3)], of s]
    by (simp add: g)
qed (rule GetConditions_sound [OF g])

lemma handleStatus_exact:
  assumes calm: "calm w" and h: "handleStatus (operatorHelper lib cl s) cr w = (r, cr', w')"
    and cr: "view w (cr_key cr) = Some (ONFD cr)"
  shows "\<exists>cs m. view w' (cr_key cr) = Some (ONFD m) \<and> report_wellformed cs \<and>
    without_time ` set cs \<subseteq> without_time ` set (sts_Conditions (nfd_Status m)) \<and>
    (report_health cs = Healthy \<longleftrightarrow> workloads_healthy cr (view w))"
proof -
  have "r = None" using handleStatus_succeeds [OF calm h] cr by simp
  from handleStatus_stores [OF h [unfolded this] cr refl] obtain cs w1 m where
    g: "GetConditions lib
      (newStatusHelperAPI lib (NewDeploymentAPI lib cl s) (NewDaemonsetAPI lib cl s)) cr w = (cs, w1)"
    and m: "view w' (cr_key cr) = Some (ONFD m)"
      "without_time ` set cs \<subseteq> without_time ` set (sts_Conditions (nfd_Status m))" by blast
  with GetConditions_exact [OF calm g] GetConditions_wellformed [OF g] show ?thesis by blast
qed

section \<open>The passes\<close>

lemma handlers_succeed:
  assumes calm: "calm w"
    and h: "handleMaster lib (operatorHelper lib cl s) cr w = (e1, w1)"
      "handleWorker lib (operatorHelper lib cl s) cr w1 = (e2, w2)"
      "handleTopology lib (operatorHelper lib cl s) cr w2 = (e3, w3)"
      "handleGC lib (operatorHelper lib cl s) cr w3 = (e4, w4)"
    and adopt: "adoptable_components lib cr (view w)"
    and acc: "acceptable_components lib cl s admits accepts cr (view w)"
  shows "calm w4 \<and> e1 = None \<and> e2 = None \<and> e3 = None \<and> e4 = None"
proof -
  note frames = handleMaster_frame [OF h(1)] handleWorker_frame [OF h(2)]
    handleTopology_frame [OF h(3)] handleGC_frame [OF h(4)]
  note adopt = adopt [unfolded adoptable_components_def managed_keys_def, simplified]
  note acc = acceptable_componentsD [OF acc]
  have 1: "calm w1 \<and> e1 = None"
    by (rule handleMaster_succeeds [OF calm h(1)]) (use adopt acc in simp_all)
  have 2: "calm w2 \<and> e2 = None"
    by (rule handleWorker_succeeds [OF conjunct1 [OF 1] h(2)])
       (use adopt acc in \<open>simp_all add: adoptable_at_def frames\<close>)
  have 3: "calm w3 \<and> e3 = None"
    by (rule handleTopology_succeeds [OF conjunct1 [OF 2] h(3)])
       (use adopt acc in \<open>simp_all add: adoptable_at_def frames\<close>)
  have 4: "calm w4 \<and> e4 = None"
    by (rule handleGC_succeeds [OF conjunct1 [OF 3] h(4)])
       (use adopt acc in \<open>simp_all add: adoptable_at_def frames\<close>)
  from 1 2 3 4 show ?thesis by simp
qed

lemma Apply_succeeds:
  assumes calm: "calm w" and run: "Reconcile (operatorReconciler lib cl s) cr w = (r, cr', w')"
    and app: "pass_of (operatorReconciler lib cl s) cr = Apply"
    and cr: "view w (cr_key cr) = Some (ONFD cr)"
    and adopt: "adoptable_components lib cr (view w)"
    and acc: "acceptable_components lib cl s admits accepts cr (view w)"
  shows "calm w' \<and> r = (zero_Result, None) \<and> components_stored lib admits cr (view w')"
proof -
  let ?H = "operatorHelper lib cl s" and ?ns = "nfd_Namespace cr"
  obtain e1 w1 e2 w2 e3 w3 e4 w4 e5 where
    h: "handleMaster lib ?H cr w = (e1, w1)" "handleWorker lib ?H cr w1 = (e2, w2)"
      "handleTopology lib ?H cr w2 = (e3, w3)" "handleGC lib ?H cr w3 = (e4, w4)"
      "handleStatus ?H cr w4 = (e5, cr', w')"
      "r = (zero_Result, errors_Join [e1, e2, e3, e4, e5])"
    by (rule operator_Apply [OF app run])
  note frames = handleMaster_frame [OF h(1)] handleWorker_frame [OF h(2)]
    handleTopology_frame [OF h(3)] handleGC_frame [OF h(4)]
  note ok = handlers_succeed [OF calm h(1,2,3,4) adopt acc]
  have "view w4 (cr_key cr) = view w (cr_key cr)" by (simp add: cr_key_def frames)
  then have 5: "calm w' \<and> e5 = None"
    using handleStatus_succeeds [OF conjunct1 [OF ok] h(5)] cr by simp
  have r: "r = (zero_Result, None)" using h(6) ok 5 by (simp add: errors_Join_None)
  with run have "components_stored lib admits cr (view w')"
    by (intro Reconcile_Apply_converges [OF _ app]) simp
  with r 5 show ?thesis by simp
qed

lemma Apply_status_exact:
  assumes calm: "calm w" and run: "Reconcile (operatorReconciler lib cl s) cr w = (r, cr', w')"
    and app: "pass_of (operatorReconciler lib cl s) cr = Apply"
    and cr: "view w (cr_key cr) = Some (ONFD cr)"
    and adopt: "adoptable_components lib cr (view w)"
    and acc: "acceptable_components lib cl s admits accepts cr (view w)"
  shows "\<exists>cs m. view w' (cr_key cr) = Some (ONFD m) \<and> report_wellformed cs \<and>
    without_time ` set cs \<subseteq> without_time ` set (sts_Conditions (nfd_Status m)) \<and>
    (report_health cs = Healthy \<longleftrightarrow> workloads_healthy cr (view w'))"
proof -
  let ?H = "operatorHelper lib cl s"
  obtain e1 w1 e2 w2 e3 w3 e4 w4 e5 where
    h: "handleMaster lib ?H cr w = (e1, w1)" "handleWorker lib ?H cr w1 = (e2, w2)"
      "handleTopology lib ?H cr w2 = (e3, w3)" "handleGC lib ?H cr w3 = (e4, w4)"
      "handleStatus ?H cr w4 = (e5, cr', w')"
      "r = (zero_Result, errors_Join [e1, e2, e3, e4, e5])"
    by (rule operator_Apply [OF app run])
  note frames = handleMaster_frame [OF h(1)] handleWorker_frame [OF h(2)]
    handleTopology_frame [OF h(3)] handleGC_frame [OF h(4)]
  have 4: "calm w4" using handlers_succeed [OF calm h(1,2,3,4) adopt acc] by simp
  have "view w4 (cr_key cr) = Some (ONFD cr)" using cr by (simp add: cr_key_def frames)
  moreover have "workloads_healthy cr (view w') = workloads_healthy cr (view w4)"
    by (rule workloads_healthy_cong) (rule handleStatus_frame [OF h(5)])
  ultimately show ?thesis using handleStatus_exact [OF 4 h(5)] by simp
qed

lemma AddFinalizer_succeeds:
  assumes calm: "calm w" and run: "Reconcile (operatorReconciler lib cl s) cr w = (r, cr', w')"
    and add: "pass_of (operatorReconciler lib cl s) cr = AddFinalizer"
    and cr: "view w (cr_key cr) = Some (ONFD cr)"
  shows "calm w' \<and> r = (zero_Result, None)"
proof -
  obtain e where "setFinalizer (operatorHelper lib cl s) cr w = (e, cr', w')" "r = (zero_Result, e)"
    by (rule Reconcile_AddFinalizer [OF add run]) simp
  with calm_Update_NFD [OF calm] cr show ?thesis
    by (auto simp: setFinalizer_def cr_key_def Let_def)
qed

subsection \<open>Tearing down\<close>

lemma calm_DeleteDeployment:
  assumes "calm w" and "DeleteDeployment lib \<lparr>d_client = cl, d_scheme = s\<rparr> ns n w = (r, w')"
  shows "calm w' \<and> r = None"
proof -
  obtain e where e: "Delete_Deployment cl (named_Deployment ns n) w = (e, w')"
    using dep_del.delete_raw [OF assms(2)] by auto
  with calm_Delete_Deployment [OF assms(1) e] assms(2)
    dep_del.delete_ok_iff [OF laws, where d = "\<lparr>d_client = cl, d_scheme = s\<rparr>" and ns = ns and name = n and w = w]
  show ?thesis by (auto split: option.splits)
qed

lemma calm_DeleteDaemonSet:
  assumes "calm w" and "DeleteDaemonSet lib \<lparr>s_client = cl, s_scheme = s\<rparr> ns n w = (r, w')"
  shows "calm w' \<and> r = None"
proof -
  obtain e where e: "Delete_DaemonSet cl (named_DaemonSet ns n) w = (e, w')"
    using ds_del.delete_raw [OF assms(2)] by auto
  with calm_Delete_DaemonSet [OF assms(1) e] assms(2)
    ds_del.delete_ok_iff [OF laws, where d = "\<lparr>s_client = cl, s_scheme = s\<rparr>" and ns = ns and name = n and w = w]
  show ?thesis by (auto split: option.splits)
qed

lemma calm_DeleteConfigMap:
  assumes "calm w" and "DeleteConfigMap lib \<lparr>c_client = cl, c_scheme = s\<rparr> ns n w = (r, w')"
  shows "calm w' \<and> r = None"
proof -
  obtain e where e: "Delete_ConfigMap cl (named_ConfigMap ns n) w = (e, w')"
    using cm_del.delete_raw [OF assms(2)] by auto
  with calm_Delete_ConfigMap [OF assms(1) e] assms(2)
    cm_del.delete_ok_iff [OF laws, where c = "\<lparr>c_client = cl, c_scheme = s\<rparr>" and ns = ns and name = n and w = w]
  show ?thesis by (auto split: option.splits)
qed

lemma finalizeComponents_succeeds:
  assumes calm: "calm w" and fin: "finalizeComponents (operatorHelper lib cl s) cr w = (r, w')"
  shows "calm w' \<and> r = None"
proof -
  let ?ns = "nfd_Namespace cr"
  obtain e1 w1 where 1: "DeleteDaemonSet lib \<lparr>s_client = cl, s_scheme = s\<rparr> ?ns ''nfd-worker'' w = (e1, w1)"
    by fastforce
  note c1 = calm_DeleteDaemonSet [OF calm 1]
  obtain e2 w2 where 2: "DeleteConfigMap lib \<lparr>c_client = cl, c_scheme = s\<rparr> ?ns ''nfd-worker'' w1 = (e2, w2)"
    by fastforce
  note c2 = calm_DeleteConfigMap [OF conjunct1 [OF c1] 2]
  obtain e3 w3 where 3: "(if spc_TopologyUpdater (nfd_Spec cr)
      then DeleteDaemonSet lib \<lparr>s_client = cl, s_scheme = s\<rparr> ?ns ''nfd-topology-updater'' w2
      else (None, w2)) = (e3, w3)"
    by fastforce
  have c3: "calm w3 \<and> e3 = None"
    using 3 c2 calm_DeleteDaemonSet [of w2 s ?ns "''nfd-topology-updater''" e3 w3] by (auto split: if_splits)
  obtain e4 w4 where 4: "DeleteDeployment lib \<lparr>d_client = cl, d_scheme = s\<rparr> ?ns ''nfd-master'' w3 = (e4, w4)"
    by fastforce
  note c4 = calm_DeleteDeployment [OF conjunct1 [OF c3] 4]
  obtain e5 w5 where 5: "DeleteDeployment lib \<lparr>d_client = cl, d_scheme = s\<rparr> ?ns ''nfd-gc'' w4 = (e5, w5)"
    by fastforce
  note c5 = calm_DeleteDeployment [OF conjunct1 [OF c4] 5]
  from fin have "(r, w') = (e5, w5)"
    using c1 c2 c3 c4
    by (simp add: finalizeComponents_def 1 2 4 5 c1 c2 3 [unfolded conjunct2 [OF c3]] cong: if_cong)
  with c5 show ?thesis by simp
qed

text \<open>The outcome of pruning, by the state of the job before the pass.\<close>

lemma handlePrune_calm:
  assumes calm: "calm w" and p: "handlePrune lib (operatorHelper lib cl s) cr w = ((d, e), w')"
  shows "calm w'"
    and "\<not> spc_PruneOnDelete (nfd_Spec cr) \<Longrightarrow> d \<and> e = None"
    and "spc_PruneOnDelete (nfd_Spec cr) \<Longrightarrow> view w (prune_key cr) = None \<Longrightarrow>
      acceptable_prune_job lib s accepts cr \<Longrightarrow> \<not> d \<and> e = None"
    and "spc_PruneOnDelete (nfd_Spec cr) \<Longrightarrow> view w (prune_key cr) = Some (OJob j) \<Longrightarrow>
      (d \<longleftrightarrow> prune_succeeded j) \<and> (e \<noteq> None \<longleftrightarrow> prune_failed j)"
proof -
  obtain gr w1 where g: "GetJob \<lparr>j_client = cl, j_scheme = s\<rparr> (nfd_Namespace cr) ''nfd-prune'' w = (gr, w1)"
    by fastforce
  note gv = GetJob_view [OF g]
  have w1: "calm w1" and found: "gr = Inl x \<Longrightarrow> IsNotFound lib x" for x
    using g calm_Get_Job [OF calm] by (cases gr; auto simp: GetJob_Inl GetJob_Inr IsNotFound_Wrapf)+
  obtain c w2 where c: "CreatePruneJob lib \<lparr>j_client = cl, j_scheme = s\<rparr> cr w1 = (c, w2)" by fastforce
  have "om_OwnerReferences (job_ObjectMeta (pruneJobObject cr)) = []"
    by (simp add: pruneJobObject_def zero_defs)
  then have "fst (SetControllerReference lib cr (job_ObjectMeta (pruneJobObject cr)) s) = None"
    by (intro SetControllerReference_adopts adoptable_new) simp_all
  then obtain om where om: "SetControllerReference lib cr (job_ObjectMeta (pruneJobObject cr)) s = (None, om)"
    by (metis prod.collapse)
  let ?j = "(pruneJobObject cr)\<lparr>job_ObjectMeta := om\<rparr>"
  have key: "obj_key (OJob ?j) = prune_key cr"
    using SetControllerReference_ok [OF om] by (auto simp: prune_key_def)
  have create: "Create_Job cl ?j w1 = (c, w2)" using c by (simp add: CreatePruneJob_def om)
  have w2: "calm w2"
    and created: "view w1 (prune_key cr) = None \<Longrightarrow> accepts None (OJob ?j) \<Longrightarrow> c = None"
    using calm_Create_Job [OF w1 create, unfolded key] by simp_all
  show "calm w'"
    using p calm w1 w2 by (auto simp: handlePrune_def g c split: if_splits sum.splits option.splits)
  show "\<not> spc_PruneOnDelete (nfd_Spec cr) \<Longrightarrow> d \<and> e = None"
    using p by (simp add: handlePrune_def)
  show "\<not> d \<and> e = None" if "spc_PruneOnDelete (nfd_Spec cr)" "view w (prune_key cr) = None"
    "acceptable_prune_job lib s accepts cr"
    using p that(1,2) that(3) [unfolded acceptable_prune_job_def om snd_conv] found created GetJob_stored [of s "nfd_Namespace cr" "''nfd-prune''" w _ w1] g gv
    by (cases gr) (auto simp: handlePrune_def prune_key_def c)
  show "(d \<longleftrightarrow> prune_succeeded j) \<and> (e \<noteq> None \<longleftrightarrow> prune_failed j)"
    if pr: "spc_PruneOnDelete (nfd_Spec cr)" and job: "view w (prune_key cr) = Some (OJob j)"
  proof (cases gr)
    case (Inl x)
    with GetJob_absent [OF g [unfolded Inl]] found job show ?thesis by (simp add: prune_key_def)
  next
    case (Inr j')
    with GetJob_stored [OF g [unfolded Inr]] job have "j' = j" by (simp add: prune_key_def)
    with Inr g p pr show ?thesis
      by (auto simp: handlePrune_def prune_succeeded_def prune_failed_def split: if_splits)
  qed
qed

lemma removeFinalizer_succeeds:
  assumes "calm w" and "removeFinalizer lib (operatorHelper lib cl s) cr w = (e, cr', w')"
    and "view w (cr_key cr) = Some (ONFD cr)"
  shows "calm w' \<and> e = None"
  using assms calm_Update_NFD [OF assms(1)]
  by (auto simp: removeFinalizer_def RemoveFinalizer_eq cr_key_def Let_def split: if_splits)

end

text \<open>
  The custom resource has been let go: the operator's finalizer is off it, and it is absent when that
  was the last one.
\<close>

definition released :: "NodeFeatureDiscovery \<Rightarrow> (cluster_key \<Rightarrow> kobject option) \<Rightarrow> bool" where
  "released cr v \<longleftrightarrow>
     (let rest = removeAll finalizerLabel (om_Finalizers (nfd_ObjectMeta cr))
      in finalizers_of (v (cr_key cr)) = rest \<and>
         (finalizerLabel \<in> set (om_Finalizers (nfd_ObjectMeta cr)) \<longrightarrow> rest = [] \<longrightarrow>
            v (cr_key cr) = None))"

text \<open>What a tear-down pass must have done, by the prune job it found.\<close>

definition teardown_outcome ::
  "('w, 'e, 's) machinery \<Rightarrow> (kobject \<Rightarrow> kobject \<Rightarrow> bool) \<Rightarrow> NodeFeatureDiscovery \<Rightarrow>
     (cluster_key \<Rightarrow> kobject option) \<Rightarrow> (cluster_key \<Rightarrow> kobject option) \<Rightarrow> 'e err \<Rightarrow> bool" where
  "teardown_outcome lib admits cr v v' e \<longleftrightarrow>
     (if \<not> spc_PruneOnDelete (nfd_Spec cr) then e = None \<and> released cr v'
      else case v (prune_key cr) of
        None \<Rightarrow> e = None \<and> v' (cr_key cr) = v (cr_key cr) \<and>
          stored_as lib admits OJob job_ObjectMeta job_Spec (job_Spec (pruneJobObject cr)) cr
            ''nfd-prune'' (v' (prune_key cr))
      | Some (OJob j) \<Rightarrow>
          v' (prune_key cr) = v (prune_key cr) \<and>
          (if prune_failed j then e \<noteq> None \<and> v' (cr_key cr) = v (cr_key cr)
           else if prune_succeeded j then e = None \<and> released cr v'
           else e = None \<and> v' (cr_key cr) = v (cr_key cr))
      | Some _ \<Rightarrow> False)"

context calm_server
begin

lemma prune_key_job: "view w (prune_key cr) = Some x \<Longrightarrow> \<exists>j. x = OJob j"
  using view_key [of w "prune_key cr" x] by (cases x) (simp_all add: prune_key_def)

text \<open>The end of such a pass, from the state in which the components have been deleted.\<close>

lemma prune_done_releases:
  assumes calm: "calm w1" and del: "om_DeletionTimestamp (nfd_ObjectMeta cr) \<noteq> None"
    and cr: "view w1 (cr_key cr) = Some (ONFD cr)"
    and p: "handlePrune lib (operatorHelper lib cl s) cr w1 = ((True, None), w2)"
    and rm: "removeFinalizer lib (operatorHelper lib cl s) cr w2 = (e3, cr3, w3)"
  shows "calm w3 \<and> e3 = None \<and> teardown_outcome lib admits cr (view w1) (view w3) None"
proof -
  have ne: "cr_key cr \<noteq> prune_key cr" by (simp add: cr_key_def prune_key_def)
  have cr2: "view w2 (cr_key cr) = Some (ONFD cr)" using handlePrune_frame [OF p ne] cr by simp
  have w3: "calm w3" "e3 = None"
    using removeFinalizer_succeeds [OF _ rm cr2] handlePrune_calm(1) [OF calm p] by auto
  have "released cr (view w3)"
    using removeFinalizer_ok [OF rm [unfolded w3(2)] del cr2] by (simp add: released_def Let_def)
  moreover have "view w3 (prune_key cr) = view w1 (prune_key cr)"
    using removeFinalizer_frame [OF rm, of "prune_key cr"] ne handlePrune_done [of s cr w1 w2] p by simp
  moreover have "\<exists>j. view w1 (prune_key cr) = Some (OJob j) \<and> prune_succeeded j \<and> \<not> prune_failed j"
    if "spc_PruneOnDelete (nfd_Spec cr)"
    using handlePrune_done [of s cr w1 w2] p that by simp
  ultimately show ?thesis using w3 by (auto simp: teardown_outcome_def)
qed

lemma prune_pending_waits:
  assumes calm: "calm w1" and p: "handlePrune lib (operatorHelper lib cl s) cr w1 = ((d, e2), w2)"
    and pending: "\<not> (d \<and> e2 = None)" and e: "e = None \<longleftrightarrow> e2 = None"
    and acc: "acceptable_prune_job lib s accepts cr"
  shows "teardown_outcome lib admits cr (view w1) (view w2) e"
proof -
  note pc = handlePrune_calm [OF calm p]
  have pr: "spc_PruneOnDelete (nfd_Spec cr)" using pending pc(2) by blast
  have crv: "view w2 (cr_key cr) = view w1 (cr_key cr)"
    by (rule handlePrune_frame [OF p]) (simp add: cr_key_def prune_key_def)
  show ?thesis
  proof (cases "view w1 (prune_key cr)")
    case None
    with pc(3) [OF pr _ acc] have "\<not> d" "e2 = None" by simp_all
    with handlePrune_waiting [of s cr w1 w2] p None crv e pr show ?thesis
      by (auto simp: teardown_outcome_def)
  next
    case (Some x)
    then obtain j where j: "view w1 (prune_key cr) = Some (OJob j)" using prune_key_job by blast
    have "view w2 = view w1" using handlePrune_existing [OF p] j by simp
    with pc(4) [OF pr, of j] j pending crv e pr show ?thesis by (auto simp: teardown_outcome_def)
  qed
qed

lemma TearDown_completes:
  assumes calm: "calm w" and run: "Reconcile (operatorReconciler lib cl s) cr w = ((res, e), cr', w')"
    and del: "om_DeletionTimestamp (nfd_ObjectMeta cr) \<noteq> None"
    and cr: "view w (cr_key cr) = Some (ONFD cr)"
  shows "calm w'" and "\<And>k. k \<in> set (managed_keys cr) \<Longrightarrow> gone (view w' k)"
    and "acceptable_prune_job lib s accepts cr \<Longrightarrow> teardown_outcome lib admits cr (view w) (view w') e"
proof -
  let ?H = "operatorHelper lib cl s"
  have ncr: "cr_key cr \<notin> set (managed_keys cr)" "prune_key cr \<notin> set (managed_keys cr)"
    by (auto simp: cr_key_def managed_keys_def prune_key_def)
  obtain e1 w1 where f: "finalizeComponents ?H cr w = (e1, w1)" by fastforce
  have w1: "calm w1" and e1: "e1 = None" using finalizeComponents_succeeds [OF calm f] by auto
  note f = f [unfolded e1]
  have v1: "view w1 (cr_key cr) = view w (cr_key cr)" "view w1 (prune_key cr) = view w (prune_key cr)"
    using finalizeComponents_frame [OF f] ncr by auto
  have outcome: "teardown_outcome lib admits cr (view w1) v x = teardown_outcome lib admits cr (view w) v x"
    for v x unfolding teardown_outcome_def v1 by (rule refl)
  obtain d e2 w2 where p: "handlePrune lib ?H cr w1 = ((d, e2), w2)" by (metis prod.exhaust)
  have gone2: "gone (view w2 k)" if "k \<in> set (managed_keys cr)" for k
    using finalizeComponents_ok [OF f] that handlePrune_frame [OF p] ncr(2) by metis
  have "calm w' \<and> (\<forall>k \<in> set (managed_keys cr). gone (view w' k)) \<and>
    (acceptable_prune_job lib s accepts cr \<longrightarrow> teardown_outcome lib admits cr (view w) (view w') e)"
  proof (cases "d \<and> e2 = None")
    case True
    obtain e3 cr3 w3 where rm: "removeFinalizer lib ?H cr w2 = (e3, cr3, w3)" by (metis prod.exhaust)
    have rel: "calm w3" "e3 = None" "teardown_outcome lib admits cr (view w1) (view w3) None"
      using prune_done_releases [OF w1 del _ _ rm] p True v1(1) cr by auto
    moreover from run del f p True rm rel(2) have "e = None" "w' = w3"
      by (auto simp: Reconcile_def Let_def)
    moreover have "gone (view w3 k)" if "k \<in> set (managed_keys cr)" for k
      using removeFinalizer_frame [OF rm, of k] that ncr(1) gone2 [OF that] by metis
    ultimately show ?thesis by (simp add: outcome)
  next
    case False
    with run del f p have out: "e = None \<longleftrightarrow> e2 = None" "w' = w2"
      by (auto simp: Reconcile_def Let_def split: option.splits if_splits)
    with prune_pending_waits [OF w1 p False out(1)] handlePrune_calm(1) [OF w1 p] gone2
    show ?thesis by (simp add: outcome)
  qed
  then show "calm w'" "\<And>k. k \<in> set (managed_keys cr) \<Longrightarrow> gone (view w' k)"
    "acceptable_prune_job lib s accepts cr \<Longrightarrow> teardown_outcome lib admits cr (view w) (view w') e"
    by blast+
qed

end

section \<open>Installing\<close>

lemma same_request_stored:
  assumes "same_request n cr"
  shows "components_stored lib admits n v \<longleftrightarrow> components_stored lib admits cr v"
  using assms same_request_specs [OF assms] same_request_controlled [OF assms]
  unfolding components_stored_def stored_as_def by (simp add: same_request_def)

lemma same_request_adoptable:
  assumes "same_request n cr"
  shows "adoptable_components lib n v \<longleftrightarrow> adoptable_components lib cr v"
  using assms same_request_controlled [OF assms]
  by (simp add: adoptable_components_def adoptable_at_def adoptable_def managed_keys_def
      same_request_def cong: option.case_cong)

lemma same_request_taken:
  assumes "same_request n cr"
  shows "taken_at lib admits accepts mk meta payload p n = taken_at lib admits accepts mk meta payload p cr"
  using assms same_request_controlled [OF assms]
  by (intro ext) (simp add: taken_at_def stored_as_def same_request_def)

lemma same_request_acceptable:
  assumes "same_request n cr"
  shows "acceptable_components lib cl s admits accepts n v \<longleftrightarrow> acceptable_components lib cl s admits accepts cr v"
proof -
  have eq: "nfd_Spec n = nfd_Spec cr" "nfd_Namespace n = nfd_Namespace cr"
    "\<And>m. same_request m n \<longleftrightarrow> same_request m cr"
    using assms by (auto simp: same_request_def)
  then show ?thesis
    unfolding acceptable_components_def same_request_taken [OF assms]
    by (simp only: eq same_request_specs [OF assms])
qed

context calm_server
begin

lemma stored_adoptable:
  assumes st: "stored_as lib admits mk meta payload p cr name (view w k)"
    and mk: "\<And>ob. obj_meta (mk ob) = meta ob"
  shows "adoptable_at lib cr (view w) k"
proof -
  from st obtain ob y r where y: "view w k = Some y" "admits (mk ob) y"
    "om_Namespace (meta ob) = nfd_Namespace cr" "GetControllerOf lib (meta ob) = Some r"
    "controlled_by cr r"
    unfolding stored_as_def by blast
  from admits_meta [OF y(2)] obtain u v where
    m: "obj_meta y = (meta ob)\<lparr>om_UID := u, om_ResourceVersion := v\<rparr>" by (auto simp: mk)
  then have "GetControllerOf lib (obj_meta y) = GetControllerOf lib (meta ob)"
    by (intro GetControllerOf_refs) simp
  with y m show ?thesis by (simp add: adoptable_at_def adoptable_def)
qed

lemma components_stored_adoptable:
  "components_stored lib admits cr (view w) \<Longrightarrow> adoptable_components lib cr (view w)"
  by (auto simp: components_stored_def adoptable_components_def managed_keys_def
      intro: stored_adoptable)

text \<open>One pass on a live custom resource that may own its components.\<close>

lemma pass_installs:
  assumes calm: "calm w" and cr: "view w (KNFD, ns, nm) = Some (ONFD cr)"
    and live: "om_DeletionTimestamp (nfd_ObjectMeta cr) = None"
    and adopt: "adoptable_components lib cr (view w)"
    and acc: "acceptable_components lib cl s admits accepts cr (view w)"
    and pass: "pass_at lib cl s view ns nm w = (e, w')"
  shows "calm w' \<and> e = None \<and> adoptable_components lib cr (view w') \<and>
    acceptable_components lib cl s admits accepts cr (view w') \<and>
    (\<exists>n. view w' (KNFD, ns, nm) = Some (ONFD n) \<and> same_request n cr \<and>
       om_DeletionTimestamp (nfd_ObjectMeta n) = None \<and>
       finalizerLabel \<in> set (om_Finalizers (nfd_ObjectMeta n))) \<and>
    (finalizerLabel \<in> set (om_Finalizers (nfd_ObjectMeta cr)) \<longrightarrow>
       components_stored lib admits cr (view w'))"
proof -
  from view_key [OF cr] have key: "nfd_Namespace cr = ns" "nfd_Name cr = nm" by auto
  have crk: "view w (cr_key cr) = Some (ONFD cr)" using cr by (simp add: cr_key_def key)
  obtain res e' cr' w2 where run: "Reconcile (operatorReconciler lib cl s) cr w = ((res, e'), cr', w2)"
    by (metis prod.exhaust)
  with pass cr have [simp]: "e' = e" "w2 = w'" by (auto simp: pass_at_def)
  note run = run [simplified]
  have same: "same_request n cr"
    if "view w' (cr_key cr) = Some (ONFD n)" "nfd_Spec n = nfd_Spec cr"
      "om_UID (nfd_ObjectMeta n) = om_UID (nfd_ObjectMeta cr)" for n
    using view_key [OF that(1)] that(2,3) by (auto simp: same_request_def cr_key_def)
  show ?thesis
  proof (cases "finalizerLabel \<in> set (om_Finalizers (nfd_ObjectMeta cr))")
    case True
    with live have app: "pass_of (operatorReconciler lib cl s) cr = Apply"
      by (simp add: pass_of_def hasFinalizer_def ContainsFinalizer_iff)
    have ok: "calm w'" "e = None" "components_stored lib admits cr (view w')"
      using Apply_succeeds [OF calm run app crk adopt acc] by auto
    moreover obtain n where "view w' (cr_key cr) = Some (ONFD n)" "nfd_Spec n = nfd_Spec cr"
      "om_UID (nfd_ObjectMeta n) = om_UID (nfd_ObjectMeta cr)"
      "om_DeletionTimestamp (nfd_ObjectMeta n) = None"
      "om_Finalizers (nfd_ObjectMeta n) = om_Finalizers (nfd_ObjectMeta cr)"
      using Apply_keeps_cr [OF run app crk] live by auto
    ultimately show ?thesis
      using same True components_stored_adoptable stored_acceptable [OF acc] by (auto simp: cr_key_def key)
  next
    case False
    with live have add: "pass_of (operatorReconciler lib cl s) cr = AddFinalizer"
      by (simp add: pass_of_def hasFinalizer_def ContainsFinalizer_iff)
    have ok: "calm w'" "e = None" using AddFinalizer_succeeds [OF calm run add crk] by auto
    note run = run [unfolded ok(2)]
    obtain n where n: "view w' (cr_key cr) = Some (ONFD n)" "nfd_Spec n = nfd_Spec cr"
      "om_UID (nfd_ObjectMeta n) = om_UID (nfd_ObjectMeta cr)"
      "pass_of (operatorReconciler lib cl s) n = Apply"
      using Reconcile_AddFinalizer_ok [OF run add] by blast
    have kept: "view w' k = view w k" if "k \<in> set (managed_keys cr)" for k
      using Reconcile_AddFinalizer_only [OF run add] managed_component [OF that] component_not_cr by metis
    then have "adoptable_components lib cr (view w')"
      using adopt by (simp add: adoptable_components_def adoptable_at_def)
    moreover have "acceptable_components lib cl s admits accepts cr (view w')"
      by (rule iffD2 [OF acceptable_components_cong acc]) (rule kept)
    ultimately show ?thesis
      using ok n same False
      by (auto simp: cr_key_def key pass_of_def hasFinalizer_def ContainsFinalizer_iff split: if_splits)
  qed
qed

lemma two_passes_install:
  assumes calm: "calm w" and cr: "view w (KNFD, ns, nm) = Some (ONFD cr)"
    and live: "om_DeletionTimestamp (nfd_ObjectMeta cr) = None"
    and adopt: "adoptable_components lib cr (view w)"
    and acc: "acceptable_components lib cl s admits accepts cr (view w)"
    and 1: "pass_at lib cl s view ns nm w = (e1, w1)"
    and 2: "pass_at lib cl s view ns nm w1 = (e2, w2)"
  shows "e1 = None \<and> e2 = None \<and> calm w2 \<and> components_stored lib admits cr (view w2)"
proof -
  from pass_installs [OF calm cr live adopt acc 1] obtain n where
    n: "calm w1" "e1 = None" "view w1 (KNFD, ns, nm) = Some (ONFD n)" "same_request n cr"
      "om_DeletionTimestamp (nfd_ObjectMeta n) = None"
      "finalizerLabel \<in> set (om_Finalizers (nfd_ObjectMeta n))" "adoptable_components lib cr (view w1)"
      "acceptable_components lib cl s admits accepts cr (view w1)"
    by blast
  then have "adoptable_components lib n (view w1)" "acceptable_components lib cl s admits accepts n (view w1)"
    by (simp_all add: same_request_adoptable same_request_acceptable)
  from pass_installs [OF n(1,3,5) this 2] n show ?thesis by (simp add: same_request_stored)
qed

text \<open>From then on every pass succeeds and nothing is lost.\<close>

lemma passes_installed:
  assumes calm: "calm w" and cr: "view w (KNFD, ns, nm) = Some (ONFD cr)"
    and live: "om_DeletionTimestamp (nfd_ObjectMeta cr) = None"
    and adopt: "adoptable_components lib cr (view w)"
    and acc: "acceptable_components lib cl s admits accepts cr (view w)"
  shows "calm (passes lib cl s view ns nm n w) \<and>
    adoptable_components lib cr (view (passes lib cl s view ns nm n w)) \<and>
    acceptable_components lib cl s admits accepts cr (view (passes lib cl s view ns nm n w)) \<and>
    (2 \<le> n \<longrightarrow> components_stored lib admits cr (view (passes lib cl s view ns nm n w))) \<and>
    (\<exists>m. view (passes lib cl s view ns nm n w) (KNFD, ns, nm) = Some (ONFD m) \<and> same_request m cr \<and>
       om_DeletionTimestamp (nfd_ObjectMeta m) = None \<and>
       (0 < n \<longrightarrow> finalizerLabel \<in> set (om_Finalizers (nfd_ObjectMeta m))))"
proof (induction n)
  case 0
  with assms show ?case by (auto simp: same_request_def)
next
  case (Suc n)
  let ?w = "passes lib cl s view ns nm n w"
  obtain e w' where pass: "pass_at lib cl s view ns nm ?w = (e, w')" by fastforce
  from Suc.IH obtain m where m: "calm ?w" "view ?w (KNFD, ns, nm) = Some (ONFD m)" "same_request m cr"
    "om_DeletionTimestamp (nfd_ObjectMeta m) = None" "adoptable_components lib m (view ?w)"
    "acceptable_components lib cl s admits accepts m (view ?w)"
    "0 < n \<longrightarrow> finalizerLabel \<in> set (om_Finalizers (nfd_ObjectMeta m))"
    by (auto simp: same_request_adoptable same_request_acceptable)
  from pass_installs [OF m(1,2,4,5,6) pass] obtain m' where
    m': "calm w'" "adoptable_components lib m (view w')" "acceptable_components lib cl s admits accepts m (view w')"
      "view w' (KNFD, ns, nm) = Some (ONFD m')"
      "same_request m' m" "om_DeletionTimestamp (nfd_ObjectMeta m') = None"
      "finalizerLabel \<in> set (om_Finalizers (nfd_ObjectMeta m'))"
      "0 < n \<longrightarrow> components_stored lib admits m (view w')"
    using m(7) by blast
  then have "same_request m' cr" using m(3) by (simp add: same_request_def)
  with m' m(3) pass show ?case
    by (auto simp: same_request_adoptable same_request_acceptable same_request_stored)
qed

lemma passes_succeed:
  assumes "calm w" and "view w (KNFD, ns, nm) = Some (ONFD cr)"
    and "om_DeletionTimestamp (nfd_ObjectMeta cr) = None"
    and "adoptable_components lib cr (view w)"
    and "acceptable_components lib cl s admits accepts cr (view w)"
  shows "fst (pass_at lib cl s view ns nm (passes lib cl s view ns nm n w)) = None"
proof -
  let ?w = "passes lib cl s view ns nm n w"
  obtain e w' where pass: "pass_at lib cl s view ns nm ?w = (e, w')" by fastforce
  from passes_installed [OF assms, of n] obtain m where "calm ?w" "view ?w (KNFD, ns, nm) = Some (ONFD m)"
    "om_DeletionTimestamp (nfd_ObjectMeta m) = None" "adoptable_components lib m (view ?w)"
    "acceptable_components lib cl s admits accepts m (view ?w)"
    by (auto simp: same_request_adoptable same_request_acceptable)
  from pass_installs [OF this pass] pass show ?thesis by simp
qed

end

end
