(* ===== verification/Quiescence.thy ===== *)
theory Quiescence
  imports Calm_Passes
begin

text \<open>
  Reconciliation comes to rest: once a pass has succeeded in a calm cluster, the passes that follow find
  what they would write and write nothing, so they do not wake the operator again. The laws are those of
  \<open>settled_server\<close>; the three steps are the components, the status and the pass.
\<close>

section \<open>The components\<close>

text \<open>The object stored as \<open>x\<close> is the one the setter would write over it.\<close>

definition settled_as ::
  "(kobject \<Rightarrow> kobject \<Rightarrow> bool) \<Rightarrow> ('o \<Rightarrow> kobject) \<Rightarrow> ('o \<Rightarrow> 'e err \<times> 'o) \<Rightarrow> kobject option \<Rightarrow> bool" where
  "settled_as admits mk f x \<longleftrightarrow>
     (\<exists>b d. x = Some (mk b) \<and> f b = (None, d) \<and> admits (mk d) (mk b))"

definition settled_components ::
  "('w, 'e, 's) machinery \<Rightarrow> ('w, 'e) client \<Rightarrow> 's \<Rightarrow> (kobject \<Rightarrow> kobject \<Rightarrow> bool) \<Rightarrow>
     NodeFeatureDiscovery \<Rightarrow> (cluster_key \<Rightarrow> kobject option) \<Rightarrow> bool" where
  "settled_components lib cl s admits cr v \<longleftrightarrow>
     (let ns = nfd_Namespace cr;
          d = \<lparr>d_client = cl, d_scheme = s\<rparr>; sd = \<lparr>s_client = cl, s_scheme = s\<rparr>;
          c = \<lparr>c_client = cl, c_scheme = s\<rparr>
      in settled_as admits ODeployment (SetMasterDeploymentAsDesired lib d cr) (v (KDeployment, ns, ''nfd-master'')) \<and>
         settled_as admits OConfigMap (SetWorkerConfigMapAsDesired lib c cr) (v (KConfigMap, ns, ''nfd-worker'')) \<and>
         settled_as admits ODaemonSet (SetWorkerDaemonsetAsDesired lib sd cr) (v (KDaemonSet, ns, ''nfd-worker'')) \<and>
         (spc_TopologyUpdater (nfd_Spec cr) \<longrightarrow>
            settled_as admits ODaemonSet (SetTopologyDaemonsetAsDesired lib sd cr)
              (v (KDaemonSet, ns, ''nfd-topology-updater''))) \<and>
         settled_as admits ODeployment (SetGCDeploymentAsDesired lib d cr) (v (KDeployment, ns, ''nfd-gc'')))"

context settled_server
begin

text \<open>What a setter has written and the server has stored is settled.\<close>

lemma setter_settles:
  assumes setter: "exact_setter lib sc set_desired meta payload desired relabel upd"
    and set: "set_desired cr b = (None, d)" and adm: "admits (mk d) (mk y)"
    and mk: "\<And>ob. obj_meta (mk ob) = meta ob"
    and again: "admits (mk (upd (meta y) (payload d) y)) (mk y)"
  shows "settled_as admits mk (set_desired cr) (Some (mk y))"
proof -
  from admits_meta [OF adm] obtain u v where
    m: "meta y = (meta d)\<lparr>om_UID := u, om_ResourceVersion := v\<rparr>" by (auto simp: mk)
  have "set_desired cr y = (None, upd (meta y) (payload d) y)"
    by (rule exact_setter.set_again [OF setter set m _ laws])
       (rule SetControllerReference_again, assumption, simp_all add: m)
  with again show ?thesis by (auto simp: settled_as_def)
qed

lemma CreateOrPatch_Deployment_settles:
  assumes "exact_setter lib sc set_desired dep_ObjectMeta dep_Spec desired relabel
      (\<lambda>m p x. x\<lparr>dep_ObjectMeta := m, dep_Spec := p\<rparr>)"
    and "CreateOrPatch_Deployment lib cl x (set_desired cr) w = (op, None, w')"
  shows "settled_as admits ODeployment (set_desired cr) (view w' (obj_key (ODeployment x)))"
proof -
  from CreateOrPatch_Deployment_ok [OF assms(2)] obtain b d y where
    y: "set_desired cr b = (None, d)" "admits (ODeployment d) y"
      "view w' (obj_key (ODeployment x)) = Some y" by blast
  then obtain z where z: "y = ODeployment z" using view_key [OF y(3)] by (cases y) auto
  show ?thesis
    unfolding y(3) z
    by (rule setter_settles [OF assms(1) y(1) y(2) [unfolded z]])
       (use admits_again_Deployment [OF y(2) [unfolded z]] in simp_all)
qed

lemma CreateOrPatch_DaemonSet_settles:
  assumes "exact_setter lib sc set_desired ds_ObjectMeta ds_Spec desired relabel
      (\<lambda>m p x. x\<lparr>ds_ObjectMeta := m, ds_Spec := p\<rparr>)"
    and "CreateOrPatch_DaemonSet lib cl x (set_desired cr) w = (op, None, w')"
  shows "settled_as admits ODaemonSet (set_desired cr) (view w' (obj_key (ODaemonSet x)))"
proof -
  from CreateOrPatch_DaemonSet_ok [OF assms(2)] obtain b d y where
    y: "set_desired cr b = (None, d)" "admits (ODaemonSet d) y"
      "view w' (obj_key (ODaemonSet x)) = Some y" by blast
  then obtain z where z: "y = ODaemonSet z" using view_key [OF y(3)] by (cases y) auto
  show ?thesis
    unfolding y(3) z
    by (rule setter_settles [OF assms(1) y(1) y(2) [unfolded z]])
       (use admits_again_DaemonSet [OF y(2) [unfolded z]] in simp_all)
qed

lemma CreateOrPatch_ConfigMap_settles:
  assumes "exact_setter lib sc set_desired cm_ObjectMeta cm_Data desired relabel
      (\<lambda>m p x. x\<lparr>cm_ObjectMeta := m, cm_Data := p\<rparr>)"
    and "CreateOrPatch_ConfigMap lib cl x (set_desired cr) w = (op, None, w')"
  shows "settled_as admits OConfigMap (set_desired cr) (view w' (obj_key (OConfigMap x)))"
proof -
  from CreateOrPatch_ConfigMap_ok [OF assms(2)] obtain b d y where
    y: "set_desired cr b = (None, d)" "admits (OConfigMap d) y"
      "view w' (obj_key (OConfigMap x)) = Some y" by blast
  then obtain z where z: "y = OConfigMap z" using view_key [OF y(3)] by (cases y) auto
  show ?thesis
    unfolding y(3) z
    by (rule setter_settles [OF assms(1) y(1) y(2) [unfolded z]])
       (use admits_again_ConfigMap [OF y(2) [unfolded z]] in simp_all)
qed

text \<open>What is settled is not written again.\<close>

lemma CreateOrPatch_settled:
  "calm w \<Longrightarrow> settled_as admits ODeployment f (view w (obj_key (ODeployment d))) \<Longrightarrow>
     CreateOrPatch_Deployment lib cl d f w = (op, r, w') \<Longrightarrow> view w' = view w"
  "calm w \<Longrightarrow> settled_as admits ODaemonSet g (view w (obj_key (ODaemonSet x))) \<Longrightarrow>
     CreateOrPatch_DaemonSet lib cl x g w = (op, r, w') \<Longrightarrow> view w' = view w"
  "calm w \<Longrightarrow> settled_as admits OConfigMap h (view w (obj_key (OConfigMap c))) \<Longrightarrow>
     CreateOrPatch_ConfigMap lib cl c h w = (op, r, w') \<Longrightarrow> view w' = view w"
  unfolding settled_as_def
  by (elim exE conjE, rule CreateOrPatch_Deployment_same, assumption+)
    (elim exE conjE, rule CreateOrPatch_DaemonSet_same, assumption+,
     elim exE conjE, rule CreateOrPatch_ConfigMap_same, assumption+)

section \<open>The handlers\<close>

lemma handleMaster_settled:
  assumes "handleMaster lib (operatorHelper lib cl s) cr w = (r, w')"
  shows "r = None \<Longrightarrow> settled_as admits ODeployment
      (SetMasterDeploymentAsDesired lib \<lparr>d_client = cl, d_scheme = s\<rparr> cr)
      (view w' (KDeployment, nfd_Namespace cr, ''nfd-master''))"
    and "calm w \<Longrightarrow> settled_as admits ODeployment
      (SetMasterDeploymentAsDesired lib \<lparr>d_client = cl, d_scheme = s\<rparr> cr)
      (view w (KDeployment, nfd_Namespace cr, ''nfd-master'')) \<Longrightarrow> view w' = view w"
proof -
  let ?d = "zero_Deployment\<lparr>dep_ObjectMeta :=
    zero_ObjectMeta\<lparr>om_Name := ''nfd-master'', om_Namespace := nfd_Namespace cr\<rparr>\<rparr>"
  obtain opr e w1 where c: "CreateOrPatch_Deployment lib cl ?d
      (SetMasterDeploymentAsDesired lib \<lparr>d_client = cl, d_scheme = s\<rparr> cr) w = (opr, e, w1)"
    by (metis prod.exhaust)
  from c assms have [simp]: "w1 = w'" "r = None \<longleftrightarrow> e = None"
    by (auto simp: handleMaster_def split: option.splits)
  show "r = None \<Longrightarrow> settled_as admits ODeployment
      (SetMasterDeploymentAsDesired lib \<lparr>d_client = cl, d_scheme = s\<rparr> cr)
      (view w' (KDeployment, nfd_Namespace cr, ''nfd-master''))"
    using CreateOrPatch_Deployment_settles [OF master.exact_setter_axioms, of ?d, simplified] c by simp
  show "calm w \<Longrightarrow> settled_as admits ODeployment
      (SetMasterDeploymentAsDesired lib \<lparr>d_client = cl, d_scheme = s\<rparr> cr)
      (view w (KDeployment, nfd_Namespace cr, ''nfd-master'')) \<Longrightarrow> view w' = view w"
    using CreateOrPatch_settled(1) [OF _ _ c] by simp
qed

lemma handleGC_settled:
  assumes "handleGC lib (operatorHelper lib cl s) cr w = (r, w')"
  shows "r = None \<Longrightarrow> settled_as admits ODeployment
      (SetGCDeploymentAsDesired lib \<lparr>d_client = cl, d_scheme = s\<rparr> cr)
      (view w' (KDeployment, nfd_Namespace cr, ''nfd-gc''))"
    and "calm w \<Longrightarrow> settled_as admits ODeployment
      (SetGCDeploymentAsDesired lib \<lparr>d_client = cl, d_scheme = s\<rparr> cr)
      (view w (KDeployment, nfd_Namespace cr, ''nfd-gc'')) \<Longrightarrow> view w' = view w"
proof -
  let ?d = "zero_Deployment\<lparr>dep_ObjectMeta :=
    zero_ObjectMeta\<lparr>om_Name := ''nfd-gc'', om_Namespace := nfd_Namespace cr\<rparr>\<rparr>"
  obtain opr e w1 where c: "CreateOrPatch_Deployment lib cl ?d
      (SetGCDeploymentAsDesired lib \<lparr>d_client = cl, d_scheme = s\<rparr> cr) w = (opr, e, w1)"
    by (metis prod.exhaust)
  from c assms have [simp]: "w1 = w'" "r = None \<longleftrightarrow> e = None"
    by (auto simp: handleGC_def split: option.splits)
  show "r = None \<Longrightarrow> settled_as admits ODeployment
      (SetGCDeploymentAsDesired lib \<lparr>d_client = cl, d_scheme = s\<rparr> cr)
      (view w' (KDeployment, nfd_Namespace cr, ''nfd-gc''))"
    using CreateOrPatch_Deployment_settles [OF gc.exact_setter_axioms, of ?d, simplified] c by simp
  show "calm w \<Longrightarrow> settled_as admits ODeployment
      (SetGCDeploymentAsDesired lib \<lparr>d_client = cl, d_scheme = s\<rparr> cr)
      (view w (KDeployment, nfd_Namespace cr, ''nfd-gc'')) \<Longrightarrow> view w' = view w"
    using CreateOrPatch_settled(1) [OF _ _ c] by simp
qed

lemma handleTopology_settled:
  assumes "handleTopology lib (operatorHelper lib cl s) cr w = (r, w')"
  shows "r = None \<Longrightarrow> spc_TopologyUpdater (nfd_Spec cr) \<Longrightarrow> settled_as admits ODaemonSet
      (SetTopologyDaemonsetAsDesired lib \<lparr>s_client = cl, s_scheme = s\<rparr> cr)
      (view w' (KDaemonSet, nfd_Namespace cr, ''nfd-topology-updater''))"
    and "calm w \<Longrightarrow> (spc_TopologyUpdater (nfd_Spec cr) \<Longrightarrow> settled_as admits ODaemonSet
      (SetTopologyDaemonsetAsDesired lib \<lparr>s_client = cl, s_scheme = s\<rparr> cr)
      (view w (KDaemonSet, nfd_Namespace cr, ''nfd-topology-updater''))) \<Longrightarrow> view w' = view w"
proof -
  let ?d = "zero_DaemonSet\<lparr>ds_ObjectMeta :=
    zero_ObjectMeta\<lparr>om_Name := ''nfd-topology-updater'', om_Namespace := nfd_Namespace cr\<rparr>\<rparr>"
  obtain opr e w1 where c: "CreateOrPatch_DaemonSet lib cl ?d
      (SetTopologyDaemonsetAsDesired lib \<lparr>s_client = cl, s_scheme = s\<rparr> cr) w = (opr, e, w1)"
    by (metis prod.exhaust)
  from c assms have on: "w1 = w'" "r = None \<longleftrightarrow> e = None" if "spc_TopologyUpdater (nfd_Spec cr)"
    using that by (auto simp: handleTopology_def split: option.splits)
  show "r = None \<Longrightarrow> spc_TopologyUpdater (nfd_Spec cr) \<Longrightarrow> settled_as admits ODaemonSet
      (SetTopologyDaemonsetAsDesired lib \<lparr>s_client = cl, s_scheme = s\<rparr> cr)
      (view w' (KDaemonSet, nfd_Namespace cr, ''nfd-topology-updater''))"
    using CreateOrPatch_DaemonSet_settles [OF topology.exact_setter_axioms, of ?d, simplified] c on by simp
  show "view w' = view w" if "calm w" "spc_TopologyUpdater (nfd_Spec cr) \<Longrightarrow> settled_as admits ODaemonSet
      (SetTopologyDaemonsetAsDesired lib \<lparr>s_client = cl, s_scheme = s\<rparr> cr)
      (view w (KDaemonSet, nfd_Namespace cr, ''nfd-topology-updater''))"
  proof (cases "spc_TopologyUpdater (nfd_Spec cr)")
    case True
    with CreateOrPatch_settled(2) [OF that(1) _ c] that(2) on show ?thesis by simp
  next
    case False
    with assms show ?thesis by (simp add: handleTopology_disabled)
  qed
qed

lemma handleWorker_settled:
  assumes "handleWorker lib (operatorHelper lib cl s) cr w = (r, w')"
  shows "r = None \<Longrightarrow> settled_as admits OConfigMap
      (SetWorkerConfigMapAsDesired lib \<lparr>c_client = cl, c_scheme = s\<rparr> cr)
      (view w' (KConfigMap, nfd_Namespace cr, ''nfd-worker''))"
    and "r = None \<Longrightarrow> settled_as admits ODaemonSet
      (SetWorkerDaemonsetAsDesired lib \<lparr>s_client = cl, s_scheme = s\<rparr> cr)
      (view w' (KDaemonSet, nfd_Namespace cr, ''nfd-worker''))"
    and "calm w \<Longrightarrow> settled_as admits OConfigMap
        (SetWorkerConfigMapAsDesired lib \<lparr>c_client = cl, c_scheme = s\<rparr> cr)
        (view w (KConfigMap, nfd_Namespace cr, ''nfd-worker'')) \<Longrightarrow>
      settled_as admits ODaemonSet
        (SetWorkerDaemonsetAsDesired lib \<lparr>s_client = cl, s_scheme = s\<rparr> cr)
        (view w (KDaemonSet, nfd_Namespace cr, ''nfd-worker'')) \<Longrightarrow> view w' = view w"
proof -
  let ?c = "zero_ConfigMap\<lparr>cm_ObjectMeta :=
    zero_ObjectMeta\<lparr>om_Name := ''nfd-worker'', om_Namespace := nfd_Namespace cr\<rparr>\<rparr>"
  let ?d = "zero_DaemonSet\<lparr>ds_ObjectMeta :=
    zero_ObjectMeta\<lparr>om_Name := ''nfd-worker'', om_Namespace := nfd_Namespace cr\<rparr>\<rparr>"
  let ?SC = "SetWorkerConfigMapAsDesired lib \<lparr>c_client = cl, c_scheme = s\<rparr> cr"
  let ?SD = "SetWorkerDaemonsetAsDesired lib \<lparr>s_client = cl, s_scheme = s\<rparr> cr"
  obtain op1 e1 w1 where c1: "CreateOrPatch_ConfigMap lib cl ?c ?SC w = (op1, e1, w1)"
    by (metis prod.exhaust)
  obtain op2 e2 w2 where c2: "CreateOrPatch_DaemonSet lib cl ?d ?SD w1 = (op2, e2, w2)"
    by (metis prod.exhaust)
  have r: "r = None \<longleftrightarrow> e1 = None \<and> e2 = None" "w' = (if e1 = None then w2 else w1)"
    using assms c1 c2 by (auto simp: handleWorker_def split: option.splits)
  have cm: "view w2 (KConfigMap, nfd_Namespace cr, ''nfd-worker'') =
      view w1 (KConfigMap, nfd_Namespace cr, ''nfd-worker'')"
    by (rule CreateOrPatch_DaemonSet_frame [OF c2]) simp
  show "r = None \<Longrightarrow> settled_as admits OConfigMap ?SC
      (view w' (KConfigMap, nfd_Namespace cr, ''nfd-worker''))"
    using CreateOrPatch_ConfigMap_settles [OF worker_cm.exact_setter_axioms, of ?c, simplified] c1 r cm by simp
  show "r = None \<Longrightarrow> settled_as admits ODaemonSet ?SD
      (view w' (KDaemonSet, nfd_Namespace cr, ''nfd-worker''))"
    using CreateOrPatch_DaemonSet_settles [OF worker.exact_setter_axioms, of ?d, simplified] c2 r by simp
  show "view w' = view w" if calm: "calm w"
    and cm: "settled_as admits OConfigMap ?SC (view w (KConfigMap, nfd_Namespace cr, ''nfd-worker''))"
    and ds: "settled_as admits ODaemonSet ?SD (view w (KDaemonSet, nfd_Namespace cr, ''nfd-worker''))"
  proof -
    have v1: "view w1 = view w" using CreateOrPatch_settled(3) [OF calm _ c1] cm by simp
    have "calm w1" using calm_CreateOrPatch_ConfigMap [OF calm c1] by blast
    then have "view w2 = view w1" using CreateOrPatch_settled(2) [OF _ _ c2] ds v1 by simp
    with v1 r show ?thesis by simp
  qed
qed

end

section \<open>The status\<close>

text \<open>Of a new report the comparison looks at everything but the timestamps.\<close>

lemma AreConditionsEqual_cong:
  "map without_time new = map without_time new' \<Longrightarrow>
     AreConditionsEqual lib prev new = AreConditionsEqual lib prev new'"
proof (induction new arbitrary: new')
  case (Cons c new)
  then obtain c' rest where new': "new' = c' # rest" "without_time c = without_time c'"
    "map without_time new = map without_time rest" by (cases new') auto
  then have "AreConditionsEqual lib prev new = AreConditionsEqual lib prev rest" by (intro Cons.IH)
  with new' show ?case by (simp add: without_time_eq split: option.split)
qed simp

lemma condition_lists_timeless:
  "map without_time (getAvailableConditions t) = map without_time (getAvailableConditions t')"
  "map without_time (getDegradedConditions r m t) = map without_time (getDegradedConditions r m t')"
  "map without_time (getProgressingConditions r m t) = map without_time (getProgressingConditions r m t')"
  by (simp_all add: condition_list_defs without_time_def)

abbreviation untimed :: "Condition list option \<Rightarrow> Condition list option" where
  "untimed \<equiv> map_option (map without_time)"

context calm_server
begin

text \<open>In a calm world a stored workload is read as it is stored, so that the report depends on it only.\<close>

lemma calm_read:
  assumes "calm w"
  shows "view w (KDaemonSet, ns, n) = Some (ODaemonSet d) \<Longrightarrow>
      fst (GetDaemonSet \<lparr>s_client = cl, s_scheme = s\<rparr> ns n w) = (d, None)"
    and "view w (KDeployment, ns, n) = Some (ODeployment d') \<Longrightarrow>
      fst (GetDeployment \<lparr>d_client = cl, d_scheme = s\<rparr> ns n w) = (d', None)"
proof -
  show "fst (GetDaemonSet \<lparr>s_client = cl, s_scheme = s\<rparr> ns n w) = (d, None)"
    if v: "view w (KDaemonSet, ns, n) = Some (ODaemonSet d)"
  proof -
    obtain r x w1 where g: "Get_DaemonSet cl (ns, n) zero_DaemonSet w = (r, x, w1)" by (metis prod.exhaust)
    have "r = None"
      using calm_Get_DaemonSet [OF assms g] Get_DaemonSet_absent [of ns n _ w] g v by (cases r) auto
    with Get_DaemonSet_ok [of ns n _ w x w1] g v show ?thesis by (simp add: ds_get.get_is_raw)
  qed
  show "fst (GetDeployment \<lparr>d_client = cl, d_scheme = s\<rparr> ns n w) = (d', None)"
    if v: "view w (KDeployment, ns, n) = Some (ODeployment d')"
  proof -
    obtain r x w1 where g: "Get_Deployment cl (ns, n) zero_Deployment w = (r, x, w1)" by (metis prod.exhaust)
    have "r = None"
      using calm_Get_Deployment [OF assms g] Get_Deployment_absent [of ns n _ w] g v by (cases r) auto
    with Get_Deployment_ok [of ns n _ w x w1] g v show ?thesis by (simp add: dep_get.get_is_raw)
  qed
qed

lemma DaemonSet_source_timeless:
  assumes "calm w" and "calm u"
    and "view u (KDaemonSet, ns, n) = view w (KDaemonSet, ns, n) \<and> view w (KDaemonSet, ns, n) \<noteq> None"
  shows "untimed (fst (getDaemonSetNotAvailableConditions lib
      \<lparr>sh_deploymentAPI = da, sh_daemonsetAPI = NewDaemonsetAPI lib cl s\<rparr> ns n r1 r2 r3 w)) =
    untimed (fst (getDaemonSetNotAvailableConditions lib
      \<lparr>sh_deploymentAPI = da, sh_daemonsetAPI = NewDaemonsetAPI lib cl s\<rparr> ns n r1 r2 r3 u))"
proof -
  from assms(3) obtain x where x: "view w (KDaemonSet, ns, n) = Some x" "view u (KDaemonSet, ns, n) = Some x" by auto
  from view_key [OF x(1)] obtain d where d: "x = ODaemonSet d" by (cases x) auto
  obtain w1 where w1: "GetDaemonSet \<lparr>s_client = cl, s_scheme = s\<rparr> ns n w = ((d, None), w1)"
    using calm_read(1) [OF assms(1) x(1) [unfolded d]] by (metis prod.collapse)
  obtain u1 where u1: "GetDaemonSet \<lparr>s_client = cl, s_scheme = s\<rparr> ns n u = ((d, None), u1)"
    using calm_read(1) [OF assms(2) x(2) [unfolded d]] by (metis prod.collapse)
  obtain t w2 where t: "time_Now lib w1 = (t, w2)" by fastforce
  obtain t' u2 where t': "time_Now lib u1 = (t', u2)" by fastforce
  show ?thesis
    by (simp add: getDaemonSetNotAvailableConditions_def w1 u1 t t' Let_def split: prod.split)
      (metis condition_lists_timeless)
qed

lemma Deployment_source_timeless:
  assumes "calm w" and "calm u"
    and "view u (KDeployment, ns, n) = view w (KDeployment, ns, n) \<and> view w (KDeployment, ns, n) \<noteq> None"
  shows "untimed (fst (getDeploymentNotAvailableConditions lib
      \<lparr>sh_deploymentAPI = NewDeploymentAPI lib cl s, sh_daemonsetAPI = sa\<rparr> ns n r1 r2 r3 w)) =
    untimed (fst (getDeploymentNotAvailableConditions lib
      \<lparr>sh_deploymentAPI = NewDeploymentAPI lib cl s, sh_daemonsetAPI = sa\<rparr> ns n r1 r2 r3 u))"
proof -
  from assms(3) obtain x where x: "view w (KDeployment, ns, n) = Some x" "view u (KDeployment, ns, n) = Some x" by auto
  from view_key [OF x(1)] obtain d where d: "x = ODeployment d" by (cases x) auto
  obtain w1 where w1: "GetDeployment \<lparr>d_client = cl, d_scheme = s\<rparr> ns n w = ((d, None), w1)"
    using calm_read(2) [OF assms(1) x(1) [unfolded d]] by (metis prod.collapse)
  obtain u1 where u1: "GetDeployment \<lparr>d_client = cl, d_scheme = s\<rparr> ns n u = ((d, None), u1)"
    using calm_read(2) [OF assms(2) x(2) [unfolded d]] by (metis prod.collapse)
  obtain t w2 where t: "time_Now lib w1 = (t, w2)" by fastforce
  obtain t' u2 where t': "time_Now lib u1 = (t', u2)" by fastforce
  show ?thesis
    by (simp add: getDeploymentNotAvailableConditions_def w1 u1 t t' Let_def split: prod.split)
      (metis condition_lists_timeless)
qed

lemma sources_timeless:
  assumes "calm w" and "calm u" and "\<And>k. k \<in> set (managed_keys cr) \<Longrightarrow> view u k = view w k \<and> view w k \<noteq> None"
  shows "untimed (fst (getWorkerNotAvailableConditions lib
      \<lparr>sh_deploymentAPI = da, sh_daemonsetAPI = NewDaemonsetAPI lib cl s\<rparr> cr u)) =
    untimed (fst (getWorkerNotAvailableConditions lib
      \<lparr>sh_deploymentAPI = da, sh_daemonsetAPI = NewDaemonsetAPI lib cl s\<rparr> cr w))"
    and "untimed (fst (getMasterNotAvailableConditions lib
      \<lparr>sh_deploymentAPI = NewDeploymentAPI lib cl s, sh_daemonsetAPI = sa\<rparr> cr u)) =
    untimed (fst (getMasterNotAvailableConditions lib
      \<lparr>sh_deploymentAPI = NewDeploymentAPI lib cl s, sh_daemonsetAPI = sa\<rparr> cr w))"
    and "untimed (fst (getGCNotAvailableConditions lib
      \<lparr>sh_deploymentAPI = NewDeploymentAPI lib cl s, sh_daemonsetAPI = sa\<rparr> cr u)) =
    untimed (fst (getGCNotAvailableConditions lib
      \<lparr>sh_deploymentAPI = NewDeploymentAPI lib cl s, sh_daemonsetAPI = sa\<rparr> cr w))"
    and "spc_TopologyUpdater (nfd_Spec cr) \<Longrightarrow> untimed (fst (getTopologyNotAvailableConditions lib
      \<lparr>sh_deploymentAPI = da, sh_daemonsetAPI = NewDaemonsetAPI lib cl s\<rparr> cr u)) =
    untimed (fst (getTopologyNotAvailableConditions lib
      \<lparr>sh_deploymentAPI = da, sh_daemonsetAPI = NewDaemonsetAPI lib cl s\<rparr> cr w))"
proof -
  show "untimed (fst (getWorkerNotAvailableConditions lib
      \<lparr>sh_deploymentAPI = da, sh_daemonsetAPI = NewDaemonsetAPI lib cl s\<rparr> cr u)) =
    untimed (fst (getWorkerNotAvailableConditions lib
      \<lparr>sh_deploymentAPI = da, sh_daemonsetAPI = NewDaemonsetAPI lib cl s\<rparr> cr w))"
    unfolding source_defs
    by (rule DaemonSet_source_timeless [OF assms(2,1)]) (use assms(3) in \<open>auto simp: managed_keys_def\<close>)
  show "untimed (fst (getMasterNotAvailableConditions lib
      \<lparr>sh_deploymentAPI = NewDeploymentAPI lib cl s, sh_daemonsetAPI = sa\<rparr> cr u)) =
    untimed (fst (getMasterNotAvailableConditions lib
      \<lparr>sh_deploymentAPI = NewDeploymentAPI lib cl s, sh_daemonsetAPI = sa\<rparr> cr w))"
    unfolding source_defs
    by (rule Deployment_source_timeless [OF assms(2,1)]) (use assms(3) in \<open>auto simp: managed_keys_def\<close>)
  show "untimed (fst (getGCNotAvailableConditions lib
      \<lparr>sh_deploymentAPI = NewDeploymentAPI lib cl s, sh_daemonsetAPI = sa\<rparr> cr u)) =
    untimed (fst (getGCNotAvailableConditions lib
      \<lparr>sh_deploymentAPI = NewDeploymentAPI lib cl s, sh_daemonsetAPI = sa\<rparr> cr w))"
    unfolding source_defs
    by (rule Deployment_source_timeless [OF assms(2,1)]) (use assms(3) in \<open>auto simp: managed_keys_def\<close>)
  show "untimed (fst (getTopologyNotAvailableConditions lib
      \<lparr>sh_deploymentAPI = da, sh_daemonsetAPI = NewDaemonsetAPI lib cl s\<rparr> cr u)) =
    untimed (fst (getTopologyNotAvailableConditions lib
      \<lparr>sh_deploymentAPI = da, sh_daemonsetAPI = NewDaemonsetAPI lib cl s\<rparr> cr w))"
    if "spc_TopologyUpdater (nfd_Spec cr)"
    unfolding source_defs
    by (rule DaemonSet_source_timeless [OF assms(2,1)]) (use assms(3) that in \<open>auto simp: managed_keys_def\<close>)
qed

end

text \<open>The report up to the timestamps, from the four readings.\<close>

lemma GetConditions_untimed:
  assumes w1: "w1 = snd (api_getWorkerNotAvailableConditions helper cr w)"
    and w2: "w2 = snd (api_getMasterNotAvailableConditions helper cr w1)"
    and w3: "w3 = snd (api_getGCNotAvailableConditions helper cr w2)"
  shows "map without_time (fst (GetConditions lib helper cr w)) =
    (case untimed (fst (api_getWorkerNotAvailableConditions helper cr w)) of Some cs \<Rightarrow> cs | None \<Rightarrow>
     case untimed (fst (api_getMasterNotAvailableConditions helper cr w1)) of Some cs \<Rightarrow> cs | None \<Rightarrow>
     case untimed (fst (api_getGCNotAvailableConditions helper cr w2)) of Some cs \<Rightarrow> cs | None \<Rightarrow>
     case (if spc_TopologyUpdater (nfd_Spec cr)
           then untimed (fst (api_getTopologyNotAvailableConditions helper cr w3)) else None)
     of Some cs \<Rightarrow> cs | None \<Rightarrow> map without_time (getAvailableConditions 0))"
proof -
  obtain a where a: "api_getWorkerNotAvailableConditions helper cr w = (a, w1)"
    using w1 by (metis prod.collapse)
  obtain b where b: "api_getMasterNotAvailableConditions helper cr w1 = (b, w2)"
    using w2 by (metis prod.collapse)
  obtain c where c: "api_getGCNotAvailableConditions helper cr w2 = (c, w3)"
    using w3 by (metis prod.collapse)
  show ?thesis
    by (simp add: GetConditions_def a b c Let_def split: option.split prod.split)
      (auto intro: condition_lists_timeless(1))
qed

context calm_server
begin

text \<open>Two worlds that hold the same workloads give the same report, up to the timestamps.\<close>

lemma GetConditions_timeless:
  assumes calm: "calm w" "calm u"
    and same: "\<And>k. k \<in> set (managed_keys cr) \<Longrightarrow> view u k = view w k \<and> view w k \<noteq> None"
  shows "map without_time (fst (GetConditions lib
      (newStatusHelperAPI lib (NewDeploymentAPI lib cl s) (NewDaemonsetAPI lib cl s)) cr u)) =
    map without_time (fst (GetConditions lib
      (newStatusHelperAPI lib (NewDeploymentAPI lib cl s) (NewDaemonsetAPI lib cl s)) cr w))"
proof -
  let ?H = "newStatusHelperAPI lib (NewDeploymentAPI lib cl s) (NewDaemonsetAPI lib cl s)"
  define w1 where "w1 = snd (api_getWorkerNotAvailableConditions ?H cr w)"
  define w2 where "w2 = snd (api_getMasterNotAvailableConditions ?H cr w1)"
  define w3 where "w3 = snd (api_getGCNotAvailableConditions ?H cr w2)"
  define u1 where "u1 = snd (api_getWorkerNotAvailableConditions ?H cr u)"
  define u2 where "u2 = snd (api_getMasterNotAvailableConditions ?H cr u1)"
  define u3 where "u3 = snd (api_getGCNotAvailableConditions ?H cr u2)"
  note worlds = w1_def w2_def w3_def u1_def u2_def u3_def
  have v: "view w1 = view w" "view w2 = view w" "view w3 = view w"
    "view u1 = view u" "view u2 = view u" "view u3 = view u"
    by (simp_all add: worlds sources_view)
  have c1: "calm w1" "calm u1" by (simp_all add: w1_def u1_def calm_sources calm)
  have c2: "calm w2" "calm u2" by (simp_all add: w2_def u2_def calm_sources c1)
  have c3: "calm w3" "calm u3" by (simp_all add: w3_def u3_def calm_sources c2)
  note eq = sources_timeless(1) [OF calm same, where da = "NewDeploymentAPI lib cl s" and s = s]
    sources_timeless(2) [OF c1 same [folded v(1,4)], where sa = "NewDaemonsetAPI lib cl s" and s = s]
    sources_timeless(3) [OF c2 same [folded v(2,5)], where sa = "NewDaemonsetAPI lib cl s" and s = s]
    sources_timeless(4) [OF c3 same [folded v(3,6)], where da = "NewDeploymentAPI lib cl s" and s = s]
  show ?thesis
    unfolding GetConditions_untimed [OF w1_def w2_def w3_def] GetConditions_untimed [OF u1_def u2_def u3_def]
    using eq by (simp cong: option.case_cong)
qed

lemma GetConditions_request:
  assumes "same_request n cr"
  shows "GetConditions lib (newStatusHelperAPI lib da sa) n = GetConditions lib (newStatusHelperAPI lib da sa) cr"
proof -
  let ?sh = "\<lparr>sh_deploymentAPI = da, sh_daemonsetAPI = sa\<rparr>"
  have "getWorkerNotAvailableConditions lib ?sh n = getWorkerNotAvailableConditions lib ?sh cr"
    "getMasterNotAvailableConditions lib ?sh n = getMasterNotAvailableConditions lib ?sh cr"
    "getGCNotAvailableConditions lib ?sh n = getGCNotAvailableConditions lib ?sh cr"
    "getTopologyNotAvailableConditions lib ?sh n = getTopologyNotAvailableConditions lib ?sh cr"
    "nfd_Spec n = nfd_Spec cr"
    using assms by (simp_all add: same_request_def source_defs)
  then show ?thesis by (intro ext) (simp only: GetConditions_def newStatusHelperAPI_sel)
qed

end

text \<open>The stored conditions say what would be reported of the workloads in \<open>v\<close>.\<close>

definition reported ::
  "('w, 'e, 's) machinery \<Rightarrow> ('w, 'e) client \<Rightarrow> 's \<Rightarrow> ('w \<Rightarrow> cluster_key \<Rightarrow> kobject option) \<Rightarrow>
     ('w \<Rightarrow> bool) \<Rightarrow> NodeFeatureDiscovery \<Rightarrow> (cluster_key \<Rightarrow> kobject option) \<Rightarrow> bool" where
  "reported lib cl s view calm cr v \<longleftrightarrow>
     (\<forall>u. calm u \<longrightarrow> (\<forall>k \<in> set (managed_keys cr). view u k = v k) \<longrightarrow>
        AreConditionsEqual lib (sts_Conditions (nfd_Status cr))
          (fst (GetConditions lib
             (newStatusHelperAPI lib (NewDeploymentAPI lib cl s) (NewDaemonsetAPI lib cl s)) cr u)))"

context calm_server
begin

lemma handleStatus_reported:
  assumes calm: "calm w" and h: "handleStatus (operatorHelper lib cl s) cr w = (None, cr', w')"
    and cr: "view w (cr_key cr) = Some (ONFD cr)"
    and stored: "\<And>k. k \<in> set (managed_keys cr) \<Longrightarrow> view w k \<noteq> None"
    and n: "view w' (cr_key cr) = Some (ONFD n)" "same_request n cr"
  shows "reported lib cl s view calm n (view w')"
proof -
  let ?H = "newStatusHelperAPI lib (NewDeploymentAPI lib cl s) (NewDaemonsetAPI lib cl s)"
  obtain cs w1 where g: "GetConditions lib ?H cr w = (cs, w1)" by fastforce
  note wf = GetConditions_wellformed [OF g]
  have eq: "AreConditionsEqual lib (sts_Conditions (nfd_Status n)) cs"
  proof (cases "AreConditionsEqual lib (sts_Conditions (nfd_Status cr)) cs")
    case True
    with h g have "w' = w1" by (simp add: handleStatus_def)
    with n(1) GetConditions_view [OF g] cr True show ?thesis by simp
  next
    case False
    let ?n = "cr\<lparr>nfd_Status := (nfd_Status cr)\<lparr>sts_Conditions := cs\<rparr>\<rparr>"
    from h g False have p: "StatusPatch_NFD cl ?n cr w1 = (None, cr', w')"
      by (simp add: handleStatus_def Let_def)
    from False have "sts_Conditions (nfd_Status cr) \<noteq> cs"
      using AreConditionsEqual_reports [OF laws wf wf] by auto
    with StatusPatch_NFD_ok [OF p] n(1) obtain n0 where
      "admits (ONFD (n0\<lparr>nfd_Status := (nfd_Status n0)\<lparr>sts_Conditions := cs\<rparr>\<rparr>)) (ONFD n)"
      by (auto simp: cr_key_def)
    then have "sts_Conditions (nfd_Status n) = cs" using admits_cr by fastforce
    then show ?thesis using AreConditionsEqual_reports [OF laws wf wf] by simp
  qed
  have keys: "managed_keys n = managed_keys cr"
    using n(2) by (simp add: managed_keys_def same_request_def)
  show ?thesis
    unfolding reported_def GetConditions_request [OF n(2)] keys
  proof (intro allI impI)
    fix u assume u: "calm u" and same: "\<forall>k \<in> set (managed_keys cr). view u k = view w' k"
    have "view u k = view w k \<and> view w k \<noteq> None" if k: "k \<in> set (managed_keys cr)" for k
      using same k stored [OF k] handleStatus_frame [OF h, of k] component_not_cr [OF managed_component [OF k]]
      by simp
    then have "map without_time (fst (GetConditions lib ?H cr u)) = map without_time (fst (GetConditions lib ?H cr w))"
      by (rule GetConditions_timeless [OF calm u])
    from AreConditionsEqual_cong [OF this, of lib "sts_Conditions (nfd_Status n)"] eq g
    show "AreConditionsEqual lib (sts_Conditions (nfd_Status n)) (fst (GetConditions lib ?H cr u))" by simp
  qed
qed

lemma handleStatus_settled:
  assumes calm: "calm w" and h: "handleStatus (operatorHelper lib cl s) cr w = (r, cr', w')"
    and rep: "reported lib cl s view calm cr (view w)"
  shows "view w' = view w"
proof -
  let ?H = "newStatusHelperAPI lib (NewDeploymentAPI lib cl s) (NewDaemonsetAPI lib cl s)"
  obtain cs w1 where g: "GetConditions lib ?H cr w = (cs, w1)" by fastforce
  have "AreConditionsEqual lib (sts_Conditions (nfd_Status cr)) cs"
    using rep [unfolded reported_def, rule_format, OF calm] g by simp
  with h g GetConditions_view [OF g] show ?thesis by (simp add: handleStatus_def)
qed

end

section \<open>The pass\<close>

context settled_server
begin

lemma settled_request:
  assumes "same_request n cr"
  shows "settled_components lib cl s admits n v \<longleftrightarrow> settled_components lib cl s admits cr v"
proof -
  have ref: "SetControllerReference lib n = SetControllerReference lib cr"
    using assms by (intro SetControllerReference_owner) (simp_all add: same_request_def)
  note specs = same_request_specs [OF assms]
  have "spc_WorkerConfig (nfd_Spec n) = spc_WorkerConfig (nfd_Spec cr)"
    "spc_TopologyUpdater (nfd_Spec n) = spc_TopologyUpdater (nfd_Spec cr)"
    "nfd_Namespace n = nfd_Namespace cr"
    using assms by (simp_all add: same_request_def)
  then show ?thesis
    unfolding settled_components_def
    by (simp add: master.set_cong [OF ref specs(1)] gc.set_cong [OF ref specs(2)]
        worker.set_cong [OF ref specs(3)] topology.set_cong [OF ref specs(4)] worker_cm.set_cong [OF ref])
qed

lemma Apply_settles:
  assumes calm: "calm w" and run: "Reconcile (operatorReconciler lib cl s) cr w = (r, cr', w')"
    and app: "pass_of (operatorReconciler lib cl s) cr = Apply"
    and cr: "view w (cr_key cr) = Some (ONFD cr)"
    and adopt: "adoptable_components lib cr (view w)"
    and acc: "acceptable_components lib cl s admits accepts cr (view w)"
    and n: "view w' (cr_key cr) = Some (ONFD n)" "same_request n cr"
  shows "settled_components lib cl s admits n (view w') \<and> reported lib cl s view calm n (view w')"
proof -
  let ?H = "operatorHelper lib cl s"
  obtain e1 w1 e2 w2 e3 w3 e4 w4 e5 where
    h: "handleMaster lib ?H cr w = (e1, w1)" "handleWorker lib ?H cr w1 = (e2, w2)"
      "handleTopology lib ?H cr w2 = (e3, w3)" "handleGC lib ?H cr w3 = (e4, w4)"
      "handleStatus ?H cr w4 = (e5, cr', w')"
      "r = (zero_Result, errors_Join [e1, e2, e3, e4, e5])"
    by (rule operator_Apply [OF app run])
  note frames = handleMaster_frame [OF h(1)] handleWorker_frame [OF h(2)]
    handleTopology_frame [OF h(3)] handleGC_frame [OF h(4)] handleStatus_frame [OF h(5)]
  note ok = handlers_succeed [OF calm h(1,2,3,4) adopt acc]
  have e5: "e5 = None"
    using Apply_succeeds [OF calm run app cr adopt acc] h(6) by (simp add: errors_Join_None)
  note settled = handleMaster_settled(1) [OF h(1)] handleWorker_settled(1,2) [OF h(2)]
    handleTopology_settled(1) [OF h(3)] handleGC_settled(1) [OF h(4)]
  have sc: "settled_components lib cl s admits cr (view w4)"
    using settled ok by (simp add: settled_components_def Let_def frames)
  then have "settled_components lib cl s admits cr (view w')"
    by (simp add: settled_components_def Let_def frames cr_key_def)
  moreover have "view w4 k \<noteq> None" if "k \<in> set (managed_keys cr)" for k
    using sc that by (auto simp: settled_components_def Let_def managed_keys_def settled_as_def split: if_splits)
  moreover have "view w4 (cr_key cr) = Some (ONFD cr)" using cr by (simp add: cr_key_def frames)
  ultimately show ?thesis
    using handleStatus_reported [OF conjunct1 [OF ok] h(5) [unfolded e5]] n by (simp add: settled_request)
qed

lemma settled_pass:
  assumes calm: "calm w" and cr: "view w (KNFD, ns, nm) = Some (ONFD cr)"
    and live: "om_DeletionTimestamp (nfd_ObjectMeta cr) = None"
    and fin: "finalizerLabel \<in> set (om_Finalizers (nfd_ObjectMeta cr))"
    and adopt: "adoptable_components lib cr (view w)"
    and acc: "acceptable_components lib cl s admits accepts cr (view w)"
    and settled: "settled_components lib cl s admits cr (view w)"
    and rep: "reported lib cl s view calm cr (view w)"
  shows "view (snd (pass_at lib cl s view ns nm w)) = view w"
proof -
  let ?H = "operatorHelper lib cl s"
  obtain r cr' w' where run: "Reconcile (operatorReconciler lib cl s) cr w = (r, cr', w')"
    by (metis prod.exhaust)
  have app: "pass_of (operatorReconciler lib cl s) cr = Apply" using live fin by (simp add: pass_of_Apply)
  obtain e1 w1 e2 w2 e3 w3 e4 w4 e5 where
    h: "handleMaster lib ?H cr w = (e1, w1)" "handleWorker lib ?H cr w1 = (e2, w2)"
      "handleTopology lib ?H cr w2 = (e3, w3)" "handleGC lib ?H cr w3 = (e4, w4)"
      "handleStatus ?H cr w4 = (e5, cr', w')"
      "r = (zero_Result, errors_Join [e1, e2, e3, e4, e5])"
    by (rule operator_Apply [OF app run])
  note st = settled [unfolded settled_components_def Let_def]
  note ad = adopt [unfolded adoptable_components_def managed_keys_def, simplified] acceptable_componentsD [OF acc]
  have 1: "view w1 = view w" "calm w1"
    using handleMaster_settled(2) [OF h(1) calm] handleMaster_succeeds [OF calm h(1)] st ad by simp_all
  have 2: "view w2 = view w" "calm w2"
    using handleWorker_settled(3) [OF h(2) 1(2)] handleWorker_succeeds [OF 1(2) h(2)] st ad 1(1) by simp_all
  have 3: "view w3 = view w" "calm w3"
    using handleTopology_settled(2) [OF h(3) 2(2)] handleTopology_succeeds [OF 2(2) h(3)] st ad 2(1) by simp_all
  have 4: "view w4 = view w" "calm w4"
    using handleGC_settled(2) [OF h(4) 3(2)] handleGC_succeeds [OF 3(2) h(4)] st ad 3(1) by simp_all
  have "view w' = view w"
    using handleStatus_settled [OF 4(2) h(5)] rep 4(1) by simp
  with cr run show ?thesis by (simp add: pass_at_def split: prod.split)
qed

lemma passes_settle:
  assumes calm: "calm w" and cr: "view w (KNFD, ns, nm) = Some (ONFD cr)"
    and live: "om_DeletionTimestamp (nfd_ObjectMeta cr) = None"
    and adopt: "adoptable_components lib cr (view w)"
    and acc: "acceptable_components lib cl s admits accepts cr (view w)"
  shows "view (passes lib cl s view ns nm (Suc (Suc n)) w) = view (passes lib cl s view ns nm 2 w)"
proof -
  let ?P = "\<lambda>n. passes lib cl s view ns nm n w"
  note inst = passes_installed [OF assms]
  obtain m where m: "view (?P 1) (KNFD, ns, nm) = Some (ONFD m)" "same_request m cr"
    "om_DeletionTimestamp (nfd_ObjectMeta m) = None"
    "finalizerLabel \<in> set (om_Finalizers (nfd_ObjectMeta m))"
    using inst [of 1] by auto
  obtain k where k: "view (?P 2) (KNFD, ns, nm) = Some (ONFD k)" "same_request k cr"
    "om_DeletionTimestamp (nfd_ObjectMeta k) = None"
    "finalizerLabel \<in> set (om_Finalizers (nfd_ObjectMeta k))"
    using inst [of 2] by auto
  have ad: "adoptable_components lib x (view (?P i))" "acceptable_components lib cl s admits accepts x (view (?P i))"
    if "same_request x cr" for x i
    using inst [of i] that by (simp_all add: same_request_adoptable same_request_acceptable)
  from view_key [OF m(1)] have key: "cr_key m = (KNFD, ns, nm)" by (simp add: cr_key_def)
  obtain r cr' w' where run: "Reconcile (operatorReconciler lib cl s) m (?P 1) = (r, cr', w')"
    by (metis prod.exhaust)
  then have w': "w' = ?P 2" using m(1) by (simp add: numeral_2_eq_2 pass_at_def split: prod.splits)
  have "same_request k m" using k(2) m(2) by (simp add: same_request_def)
  then have st: "settled_components lib cl s admits k (view (?P 2)) \<and>
      reported lib cl s view calm k (view (?P 2))"
    using Apply_settles [OF _ run, of k] m k(1) ad [OF m(2), of 1] inst [of 1]
    by (simp add: pass_of_Apply key w')
  show ?thesis
  proof (induction n)
    case 0
    then show ?case by (simp add: numeral_2_eq_2)
  next
    case (Suc n)
    let ?w = "?P (Suc (Suc n))"
    have "view (snd (pass_at lib cl s view ns nm ?w)) = view ?w"
      by (rule settled_pass [of _ _ _ k])
         (use inst [of "Suc (Suc n)"] k st ad [OF k(2), of "Suc (Suc n)"] in
           \<open>simp_all add: Suc.IH del: passes_simps(2)\<close>)
    with Suc.IH show ?case by simp
  qed
qed

end

end
