(* ===== verification/Phases.thy ===== *)
theory Phases
  imports Lifecycle
begin

text \<open>
  The life of a custom resource as the operator drives it: an abstract state machine of four phases,
  which every pass of the operator refines, whatever it reports; and what of the custom resource no pass
  changes.
\<close>

datatype phase = Absent | Fresh | Managed | Deleting

text \<open>The phase, by the stored custom resource.\<close>

definition phase_of :: "kobject option \<Rightarrow> phase" where
  "phase_of x =
     (case x of
        None \<Rightarrow> Absent
      | Some y \<Rightarrow>
          (if om_DeletionTimestamp (obj_meta y) \<noteq> None then Deleting
           else if finalizerLabel \<in> set (om_Finalizers (obj_meta y)) then Managed
           else Fresh))"

text \<open>
  What one pass may do: keep the phase, put the finalizer on a fresh custom resource, or take the
  last finalizer off one that is being deleted.
\<close>

inductive phase_step :: "phase \<Rightarrow> phase \<Rightarrow> bool" where
  keep: "phase_step p p"
| manage: "phase_step Fresh Managed"
| release: "phase_step Deleting Absent"

inductive_simps phase_step_simps [simp]:
  "phase_step Absent q" "phase_step Fresh q" "phase_step Managed q" "phase_step Deleting q"

code_pred phase_step .

text \<open>The phases in the order in which the operator goes through them.\<close>

fun phase_rank :: "phase \<Rightarrow> nat" where
  "phase_rank Fresh = 0"
| "phase_rank Managed = 1"
| "phase_rank Deleting = 2"
| "phase_rank Absent = 3"

lemma phase_rank_inject: "phase_rank p = phase_rank q \<Longrightarrow> p = q"
  by (cases p; cases q) simp_all

instantiation phase :: linorder
begin

definition less_eq_phase :: "phase \<Rightarrow> phase \<Rightarrow> bool" where
  "p \<le> q \<longleftrightarrow> phase_rank p \<le> phase_rank q"

definition less_phase :: "phase \<Rightarrow> phase \<Rightarrow> bool" where
  "p < q \<longleftrightarrow> phase_rank p < phase_rank q"

instance
  by standard (auto simp: less_eq_phase_def less_phase_def dest: phase_rank_inject)

end

lemma phase_step_forward: "phase_step p q \<Longrightarrow> p \<le> q"
  by (induction rule: phase_step.induct) (simp_all add: less_eq_phase_def)

lemma phase_of_updated:
  assumes "updated_cr n x"
  shows "phase_of x =
    (if om_DeletionTimestamp (nfd_ObjectMeta n) \<noteq> None
     then (if om_Finalizers (nfd_ObjectMeta n) = [] then Absent else Deleting)
     else if finalizerLabel \<in> set (om_Finalizers (nfd_ObjectMeta n)) then Managed else Fresh)"
  using assms by (auto simp: updated_cr_def phase_of_def split: if_splits)

context api_server
begin

lemma setFinalizer_phase:
  assumes "setFinalizer (operatorHelper lib cl s) cr w = (e, cr', w')"
    and "om_DeletionTimestamp (nfd_ObjectMeta cr) = None"
  shows "view w' (cr_key cr) = view w (cr_key cr) \<or> phase_of (view w' (cr_key cr)) = Managed"
  using assms Update_NFD_outcome [of _ w e cr' w']
  by (fastforce simp: setFinalizer_def cr_key_def Let_def phase_of_updated)

lemma removeFinalizer_phase:
  assumes "removeFinalizer lib (operatorHelper lib cl s) cr w = (e, cr', w')"
    and "om_DeletionTimestamp (nfd_ObjectMeta cr) \<noteq> None"
  shows "view w' (cr_key cr) = view w (cr_key cr) \<or> phase_of (view w' (cr_key cr)) \<in> {Deleting, Absent}"
  using assms Update_NFD_outcome [of _ w e cr' w']
  by (fastforce simp: removeFinalizer_def RemoveFinalizer_eq cr_key_def Let_def phase_of_updated
      split: if_splits)

lemma TearDown_phase:
  assumes run: "Reconcile (operatorReconciler lib cl s) cr w = (r, cr', w')"
    and tear: "pass_of (operatorReconciler lib cl s) cr = TearDown"
  shows "view w' (cr_key cr) = view w (cr_key cr) \<or> phase_of (view w' (cr_key cr)) \<in> {Deleting, Absent}"
proof -
  have n: "cr_key cr \<notin> set (managed_keys cr)" "cr_key cr \<noteq> prune_key cr"
    by (auto simp: cr_key_def managed_keys_def prune_key_def)
  from tear have del: "om_DeletionTimestamp (nfd_ObjectMeta cr) \<noteq> None" by simp
  note frames = finalizeComponents_frame [OF _ n(1)] handlePrune_frame [OF _ n(2)]
  from tear run show ?thesis
  proof (cases rule: Reconcile_TearDown)
    case (released w1 w2 e)
    then have "view w2 (cr_key cr) = view w (cr_key cr)" by (simp add: frames)
    with removeFinalizer_phase [of s cr w2 e cr' w'] released del show ?thesis by simp
  qed (simp_all add: frames)
qed

lemma pass_phase:
  assumes pass: "pass_at lib cl s view ns nm w = (e, w')"
  shows "phase_step (phase_of (view w (KNFD, ns, nm))) (phase_of (view w' (KNFD, ns, nm)))"
proof (cases "\<exists>cr. view w (KNFD, ns, nm) = Some (ONFD cr)")
  case True
  then obtain cr where cr: "view w (KNFD, ns, nm) = Some (ONFD cr)" by blast
  from view_key [OF cr] have key: "(KNFD, ns, nm) = cr_key cr" by (auto simp: cr_key_def)
  obtain r cr' w2 where "Reconcile (operatorReconciler lib cl s) cr w = (r, cr', w2)"
    by (metis prod.exhaust)
  with pass cr have run: "Reconcile (operatorReconciler lib cl s) cr w = (r, cr', w')"
    by (auto simp: pass_at_def split: prod.splits)
  note cr = cr [unfolded key]
  show ?thesis
  proof (cases "pass_of (operatorReconciler lib cl s) cr")
    case TearDown
    then have "phase_of (view w (cr_key cr)) = Deleting" using cr by (simp add: phase_of_def)
    with TearDown_phase [OF run TearDown] show ?thesis by (auto simp: key)
  next
    case AddFinalizer
    then have p: "phase_of (view w (cr_key cr)) = Fresh" "om_DeletionTimestamp (nfd_ObjectMeta cr) = None"
      using cr by (auto simp: phase_of_def pass_of_def hasFinalizer_def ContainsFinalizer_iff split: if_splits)
    obtain e' where "setFinalizer (operatorHelper lib cl s) cr w = (e', cr', w')"
      by (rule Reconcile_AddFinalizer [OF AddFinalizer run]) simp
    from setFinalizer_phase [OF this p(2)] p(1) show ?thesis by (auto simp: key)
  next
    case Apply
    obtain m where "view w' (cr_key cr) = Some (ONFD m)"
      "om_DeletionTimestamp (nfd_ObjectMeta m) = om_DeletionTimestamp (nfd_ObjectMeta cr)"
      "om_Finalizers (nfd_ObjectMeta m) = om_Finalizers (nfd_ObjectMeta cr)"
      using Apply_keeps_cr [OF run Apply cr] by blast
    with cr have "phase_of (view w' (cr_key cr)) = phase_of (view w (cr_key cr))"
      by (simp add: phase_of_def)
    then show ?thesis by (simp add: key keep)
  qed
next
  case False
  with pass have "w' = w" by (auto simp: pass_at_def split: option.splits kobject.splits)
  then show ?thesis by (simp add: keep)
qed

text \<open>Passes alone never take the custom resource back to an earlier phase.\<close>

lemma passes_phase_mono:
  "mono (\<lambda>n. phase_of (view (passes lib cl s view ns nm n w) (KNFD, ns, nm)))"
  unfolding mono_iff_le_Suc
  by (auto intro!: phase_step_forward pass_phase [where s = s, OF prod.collapse [symmetric]])

end

section \<open>What belongs to the user\<close>

text \<open>
  What is stored is still what the user asked for: the same specification, identity, deletion mark and
  finalizers but for the operator's own; nothing is stored only when the custom resource was being deleted
  and no one else's finalizer was on it.
\<close>

definition preserved :: "NodeFeatureDiscovery \<Rightarrow> kobject option \<Rightarrow> bool" where
  "preserved cr x \<longleftrightarrow>
     (case x of
        None \<Rightarrow> om_DeletionTimestamp (nfd_ObjectMeta cr) \<noteq> None \<and>
          removeAll finalizerLabel (om_Finalizers (nfd_ObjectMeta cr)) = []
      | Some y \<Rightarrow> \<exists>m. y = ONFD m \<and> nfd_Spec m = nfd_Spec cr \<and>
          om_UID (nfd_ObjectMeta m) = om_UID (nfd_ObjectMeta cr) \<and>
          om_DeletionTimestamp (nfd_ObjectMeta m) = om_DeletionTimestamp (nfd_ObjectMeta cr) \<and>
          removeAll finalizerLabel (om_Finalizers (nfd_ObjectMeta m)) =
            removeAll finalizerLabel (om_Finalizers (nfd_ObjectMeta cr)))"

lemma preserved_refl [simp]: "preserved cr (Some (ONFD cr))"
  by (simp add: preserved_def)

lemma preserved_trans: "preserved cr (Some (ONFD m)) \<Longrightarrow> preserved m x \<Longrightarrow> preserved cr x"
  by (auto simp: preserved_def split: option.splits)

lemma updated_preserved:
  assumes "updated_cr n x" and "preserved cr (Some (ONFD n))"
  shows "preserved cr x"
  using assms by (auto simp: updated_cr_def preserved_def split: if_splits)

context api_server
begin

lemma setFinalizer_preserves:
  assumes "setFinalizer (operatorHelper lib cl s) cr w = (e, cr', w')"
  shows "view w' (cr_key cr) = view w (cr_key cr) \<or> preserved cr (view w' (cr_key cr))"
proof -
  let ?n = "cr\<lparr>nfd_ObjectMeta := (nfd_ObjectMeta cr)\<lparr>om_Finalizers :=
    om_Finalizers (nfd_ObjectMeta cr) @ [finalizerLabel]\<rparr>\<rparr>"
  from assms have "Update_NFD cl ?n w = (e, cr', w')" by (simp add: setFinalizer_def Let_def)
  from Update_NFD_outcome [OF this] show ?thesis
    using updated_preserved [of ?n _ cr] by (auto simp: cr_key_def preserved_def)
qed

lemma removeFinalizer_preserves:
  assumes "removeFinalizer lib (operatorHelper lib cl s) cr w = (e, cr', w')"
  shows "view w' (cr_key cr) = view w (cr_key cr) \<or> preserved cr (view w' (cr_key cr))"
proof -
  let ?n = "cr\<lparr>nfd_ObjectMeta := (nfd_ObjectMeta cr)\<lparr>om_Finalizers :=
    removeAll finalizerLabel (om_Finalizers (nfd_ObjectMeta cr))\<rparr>\<rparr>"
  from assms have "Update_NFD cl ?n w = (e, cr', w') \<or> w' = w"
    by (auto simp: removeFinalizer_def RemoveFinalizer_eq Let_def split: if_splits)
  then show ?thesis
    using updated_preserved [of ?n _ cr] Update_NFD_outcome [of ?n w e cr' w']
    by (auto simp: cr_key_def preserved_def)
qed

lemma Reconcile_preserves:
  assumes run: "Reconcile (operatorReconciler lib cl s) cr w = (r, cr', w')"
    and cr: "view w (cr_key cr) = Some (ONFD cr)"
  shows "preserved cr (view w' (cr_key cr))"
proof (cases "pass_of (operatorReconciler lib cl s) cr")
  case TearDown
  have n: "cr_key cr \<notin> set (managed_keys cr)" "cr_key cr \<noteq> prune_key cr"
    by (auto simp: cr_key_def managed_keys_def prune_key_def)
  note frames = finalizeComponents_frame [OF _ n(1)] handlePrune_frame [OF _ n(2)]
  from TearDown run show ?thesis
  proof (cases rule: Reconcile_TearDown)
    case (released w1 w2 e)
    then have "view w2 (cr_key cr) = Some (ONFD cr)" using cr by (simp add: frames)
    with removeFinalizer_preserves [of s cr w2 e cr' w'] released show ?thesis by auto
  qed (simp_all add: frames cr)
next
  case AddFinalizer
  obtain e' where "setFinalizer (operatorHelper lib cl s) cr w = (e', cr', w')"
    by (rule Reconcile_AddFinalizer [OF AddFinalizer run]) simp
  from setFinalizer_preserves [OF this] cr show ?thesis by auto
next
  case Apply
  from Apply_keeps_cr [OF run Apply cr] show ?thesis by (auto simp: preserved_def)
qed

lemma passes_preserve:
  assumes cr: "view w (KNFD, ns, nm) = Some (ONFD cr)"
  shows "preserved cr (view (passes lib cl s view ns nm n w) (KNFD, ns, nm))"
proof (induction n)
  case (Suc n)
  let ?w = "passes lib cl s view ns nm n w"
  show ?case
  proof (cases "view ?w (KNFD, ns, nm)")
    case None
    with Suc.IH show ?thesis by (simp add: pass_at_def)
  next
    case (Some x)
    with Suc.IH obtain m where m: "view ?w (KNFD, ns, nm) = Some (ONFD m)" by (auto simp: preserved_def)
    from view_key [OF m] have key: "cr_key m = (KNFD, ns, nm)" by (simp add: cr_key_def)
    obtain r cr' w' where run: "Reconcile (operatorReconciler lib cl s) m ?w = (r, cr', w')"
      by (metis prod.exhaust)
    from Reconcile_preserves [OF run] m key Suc.IH preserved_trans run show ?thesis
      by (simp add: pass_at_def split: prod.split)
  qed
qed (simp add: cr)

end

end
