(* ===== verification/Shared_Steps.thy ===== *)
theory Shared_Steps
  imports Main
begin

text \<open>
  Steps on a shared store, in the manner of rely and guarantee: writes of one's own, each at one key and
  with a guarantee on the state it meets, among moves of others in a relation \<open>rely\<close>. Nothing here is
  about the operator.
\<close>

section \<open>Own writes among the moves of others\<close>

text \<open>One write at the key \<open>k\<close>, related by \<open>q\<close> to what it found there, with moves of others around it.\<close>

definition interleaved ::
  "(('k \<Rightarrow> 'x) \<Rightarrow> ('k \<Rightarrow> 'x) \<Rightarrow> bool) \<Rightarrow> 'k \<Rightarrow> ('x \<Rightarrow> 'x \<Rightarrow> bool) \<Rightarrow> ('k \<Rightarrow> 'x) \<Rightarrow> ('k \<Rightarrow> 'x) \<Rightarrow> bool" where
  "interleaved rely k q v v' \<longleftrightarrow>
     (\<exists>b x. rely v b \<and> q (b k) x \<and> rely (b(k := x)) v')"

text \<open>Any number of own writes that keep the guarantee \<open>g\<close>, with moves of others in between.\<close>

inductive shared_steps ::
  "(('k \<Rightarrow> 'x) \<Rightarrow> ('k \<Rightarrow> 'x) \<Rightarrow> bool) \<Rightarrow> (('k \<Rightarrow> 'x) \<Rightarrow> 'k \<Rightarrow> 'x \<Rightarrow> bool) \<Rightarrow> ('k \<Rightarrow> 'x) \<Rightarrow> ('k \<Rightarrow> 'x) \<Rightarrow> bool"
  for rely g where
  start: "shared_steps rely g v v"
| other: "shared_steps rely g v b \<Longrightarrow> rely b c \<Longrightarrow> shared_steps rely g v c"
| own: "shared_steps rely g v b \<Longrightarrow> g b k x \<Longrightarrow> shared_steps rely g v (b(k := x))"

lemma shared_steps_trans:
  "shared_steps rely g b c \<Longrightarrow> shared_steps rely g a b \<Longrightarrow> shared_steps rely g a c"
proof (induction rule: shared_steps.induct)
  case (other v b c)
  then show ?case by (intro shared_steps.other [of rely g a b c]) simp_all
next
  case (own v b k x)
  then show ?case by (intro shared_steps.own) simp_all
qed

lemma shared_steps_rely: "rely v v' \<Longrightarrow> shared_steps rely g v v'"
  by (rule shared_steps.other [of rely g v v]) (rule shared_steps.start)

lemma shared_steps_mono:
  assumes "shared_steps rely g v v'" and "\<And>b k x. g b k x \<Longrightarrow> g' b k x"
  shows "shared_steps rely g' v v'"
  using assms(1)
proof (induction rule: shared_steps.induct)
  case (start v)
  then show ?case by (rule shared_steps.start)
next
  case (other v b c)
  then show ?case by (intro shared_steps.other [of rely g' v b c]) simp_all
next
  case (own v b k x)
  then show ?case by (intro shared_steps.own) (simp_all add: assms(2))
qed

text \<open>What is stable under the moves of others and kept by the own writes holds at the end.\<close>

lemma shared_steps_keep:
  assumes "shared_steps rely g v v'" and "p v"
    and "\<And>b c. p b \<Longrightarrow> rely b c \<Longrightarrow> p c" and "\<And>b k x. p b \<Longrightarrow> g b k x \<Longrightarrow> p (b(k := x))"
  shows "p v'"
  using assms
proof (induction rule: shared_steps.induct)
  case (other v b c)
  then show ?case using assms(3) [of b c] by simp
next
  case (own v b k x)
  then show ?case using assms(4) [of b k x] by simp
qed

text \<open>A write after a state with a stable property meets a state with that property.\<close>

lemma interleaved_steps:
  assumes "interleaved rely k q v v'" and "p v" and "\<And>b c. p b \<Longrightarrow> rely b c \<Longrightarrow> p c"
    and "\<And>b x. p b \<Longrightarrow> q (b k) x \<Longrightarrow> g b k x"
  shows "shared_steps rely g v v'"
proof -
  from assms(1) obtain b x where b: "rely v b" "q (b k) x" "rely (b(k := x)) v'"
    unfolding interleaved_def by (elim exE conjE) (rule that)
  have "g b k x" by (rule assms(4) [OF assms(3) [OF assms(2) b(1)] b(2)])
  then have "shared_steps rely g v (b(k := x))"
    by (intro shared_steps.own shared_steps_rely b(1))
  then show ?thesis by (rule shared_steps.other) (rule b(3))
qed

lemma interleaved_mono:
  assumes "interleaved rely k q v v'" and "\<And>x y. q x y \<Longrightarrow> q' x y"
  shows "interleaved rely k q' v v'"
  using assms unfolding interleaved_def by meson

lemma interleaved_keep:
  assumes "interleaved rely k q v v'" and "p v" and "\<And>b c. p b \<Longrightarrow> rely b c \<Longrightarrow> p c"
    and "\<And>b x. p b \<Longrightarrow> q (b k) x \<Longrightarrow> p (b(k := x))"
  shows "p v'"
proof -
  from assms(1) obtain b x where b: "rely v b" "q (b k) x" "rely (b(k := x)) v'"
    unfolding interleaved_def by (elim exE conjE) (rule that)
  have "p b" by (rule assms(3) [OF assms(2) b(1)])
  from assms(4) [OF this b(2)] have "p (b(k := x))" .
  from assms(3) [OF this b(3)] show ?thesis .
qed

end
