(* ===== verification/Interference.thy ===== *)
theory Interference
  imports Lifecycle Shared_Steps
begin

text \<open>
  Passes while others write to the same cluster. The world may move between any two calls of a pass, by
  steps of a relation \<open>rely\<close>; what a pass itself does is stated write by write, as a guarantee that holds
  in the very state each write meets. The locale \<open>shared_server\<close> has the laws of such a server, and
  \<open>api_server\<close> is the case in which nobody else moves.
\<close>

section \<open>The server\<close>

text \<open>What a delete request does to the object it names.\<close>

definition deleted :: "('w, 'e, 's) machinery \<Rightarrow> 'e err \<Rightarrow> kobject option \<Rightarrow> kobject option \<Rightarrow> bool" where
  "deleted lib r x y \<longleftrightarrow>
     (gone x \<longrightarrow> gone y) \<and> ((case r of None \<Rightarrow> True | Some e \<Rightarrow> IsNotFound lib e) \<longrightarrow> gone y)"

text \<open>A write to the custom resource that leaves everything but its status as it was.\<close>

definition status_only :: "kobject option \<Rightarrow> kobject option \<Rightarrow> bool" where
  "status_only x y \<longleftrightarrow>
     (\<forall>n. x = Some (ONFD n) \<longrightarrow>
        (\<exists>m. y = Some (ONFD m) \<and> nfd_Spec m = nfd_Spec n \<and>
           om_UID (nfd_ObjectMeta m) = om_UID (nfd_ObjectMeta n) \<and>
           om_DeletionTimestamp (nfd_ObjectMeta m) = om_DeletionTimestamp (nfd_ObjectMeta n) \<and>
           om_Finalizers (nfd_ObjectMeta m) = om_Finalizers (nfd_ObjectMeta n)))"

locale shared_server = machinery_laws lib
  for lib :: "('w, 'e, 's) machinery" +
  fixes cl :: "('w, 'e) client"
    and view :: "'w \<Rightarrow> cluster_key \<Rightarrow> kobject option"
    and rely :: "(cluster_key \<Rightarrow> kobject option) \<Rightarrow> (cluster_key \<Rightarrow> kobject option) \<Rightarrow> bool"
  assumes rely_refl: "rely v v"
    and rely_trans: "rely u v \<Longrightarrow> rely v v' \<Longrightarrow> rely u v'"
    and time_Now_shared: "time_Now lib w = (t, w') \<Longrightarrow> rely (view w) (view w')"
    and Get_Deployment_shared: "Get_Deployment cl ky d w = (r, d', w') \<Longrightarrow> rely (view w) (view w')"
    and Get_DaemonSet_shared: "Get_DaemonSet cl ky x w = (r, x', w') \<Longrightarrow> rely (view w) (view w')"
    and Get_Job_shared: "Get_Job cl ky j w = (r, j', w') \<Longrightarrow> rely (view w) (view w')"
    and Delete_Deployment_shared:
      "Delete_Deployment cl d w = (r, w') \<Longrightarrow>
         interleaved rely (obj_key (ODeployment d)) (deleted lib r) (view w) (view w')"
    and Delete_DaemonSet_shared:
      "Delete_DaemonSet cl x w = (r, w') \<Longrightarrow>
         interleaved rely (obj_key (ODaemonSet x)) (deleted lib r) (view w) (view w')"
    and Delete_ConfigMap_shared:
      "Delete_ConfigMap cl c w = (r, w') \<Longrightarrow>
         interleaved rely (obj_key (OConfigMap c)) (deleted lib r) (view w) (view w')"
    and Create_Job_shared:
      "Create_Job cl j w = (r, w') \<Longrightarrow>
         interleaved rely (obj_key (OJob j)) (\<lambda>_ _. True) (view w) (view w')"
    and Update_NFD_shared:
      "Update_NFD cl n w = (r, n', w') \<Longrightarrow>
         interleaved rely (obj_key (ONFD n)) (\<lambda>x y. y = x \<and> r \<noteq> None \<or> updated_cr n y) (view w) (view w')"
    and StatusPatch_NFD_shared:
      "StatusPatch_NFD cl n base w = (r, n', w') \<Longrightarrow>
         interleaved rely (obj_key (ONFD n)) status_only (view w) (view w')"
    and CreateOrPatch_Deployment_shared:
      "CreateOrPatch_Deployment lib cl d f w = (op, r, w') \<Longrightarrow>
         interleaved rely (obj_key (ODeployment d)) (\<lambda>_ _. True) (view w) (view w')"
    and CreateOrPatch_DaemonSet_shared:
      "CreateOrPatch_DaemonSet lib cl x g w = (op, r, w') \<Longrightarrow>
         interleaved rely (obj_key (ODaemonSet x)) (\<lambda>_ _. True) (view w) (view w')"
    and CreateOrPatch_ConfigMap_shared:
      "CreateOrPatch_ConfigMap lib cl c h w = (op, r, w') \<Longrightarrow>
         interleaved rely (obj_key (OConfigMap c)) (\<lambda>_ _. True) (view w) (view w')"

section \<open>The guarantee of a pass\<close>

text \<open>
  What a pass for the custom resource \<open>cr\<close>, as it was read, may write, by the state \<open>b\<close> in which the
  write takes place: \<open>x\<close> is stored under \<open>k\<close>.
\<close>

definition all_gone :: "NodeFeatureDiscovery \<Rightarrow> (cluster_key \<Rightarrow> kobject option) \<Rightarrow> bool" where
  "all_gone cr v \<longleftrightarrow> list_all (\<lambda>k. gone (v k)) (managed_keys cr)"

text \<open>The others do not bring a component to life.\<close>

definition no_revival ::
  "((cluster_key \<Rightarrow> kobject option) \<Rightarrow> (cluster_key \<Rightarrow> kobject option) \<Rightarrow> bool) \<Rightarrow> NodeFeatureDiscovery \<Rightarrow> bool" where
  "no_revival rely cr \<longleftrightarrow>
     (\<forall>b c. rely b c \<longrightarrow> (\<forall>k \<in> set (managed_keys cr). gone (b k) \<longrightarrow> gone (c k)))"

text \<open>A write that only removes components.\<close>

definition removal ::
  "NodeFeatureDiscovery \<Rightarrow> (cluster_key \<Rightarrow> kobject option) \<Rightarrow> cluster_key \<Rightarrow> kobject option \<Rightarrow> bool" where
  "removal cr b k x \<longleftrightarrow> k \<in> set (managed_keys cr) \<and> (gone (b k) \<longrightarrow> gone x)"

definition with_finalizer :: "NodeFeatureDiscovery \<Rightarrow> NodeFeatureDiscovery" where
  "with_finalizer cr = cr\<lparr>nfd_ObjectMeta := (nfd_ObjectMeta cr)\<lparr>om_Finalizers :=
     om_Finalizers (nfd_ObjectMeta cr) @ [finalizerLabel]\<rparr>\<rparr>"

definition without_finalizer :: "NodeFeatureDiscovery \<Rightarrow> NodeFeatureDiscovery" where
  "without_finalizer cr = cr\<lparr>nfd_ObjectMeta := (nfd_ObjectMeta cr)\<lparr>om_Finalizers :=
     removeAll finalizerLabel (om_Finalizers (nfd_ObjectMeta cr))\<rparr>\<rparr>"

fun pass_writes ::
  "pass \<Rightarrow> NodeFeatureDiscovery \<Rightarrow> (cluster_key \<Rightarrow> kobject option) \<Rightarrow> cluster_key \<Rightarrow> kobject option \<Rightarrow> bool" where
  "pass_writes AddFinalizer cr b k x \<longleftrightarrow>
     k = cr_key cr \<and> (x = b k \<or> updated_cr (with_finalizer cr) x)"
| "pass_writes Apply cr b k x \<longleftrightarrow>
     k \<in> set (managed_keys cr) \<or> k = cr_key cr \<and> status_only (b k) x"
| "pass_writes TearDown cr b k x \<longleftrightarrow>
     removal cr b k x \<or>
     k = prune_key cr \<and> spc_PruneOnDelete (nfd_Spec cr) \<and> all_gone cr b \<or>
     k = cr_key cr \<and> all_gone cr b \<and> (x = b k \<or> updated_cr (without_finalizer cr) x)"

text \<open>Removing writes that, when no error is reported, leave nothing of the objects \<open>K\<close>.\<close>

definition clears ::
  "((cluster_key \<Rightarrow> kobject option) \<Rightarrow> (cluster_key \<Rightarrow> kobject option) \<Rightarrow> bool) \<Rightarrow> NodeFeatureDiscovery \<Rightarrow>
     cluster_key set \<Rightarrow> 'e err \<Rightarrow> (cluster_key \<Rightarrow> kobject option) \<Rightarrow> (cluster_key \<Rightarrow> kobject option) \<Rightarrow> bool" where
  "clears rely cr K r v v' \<longleftrightarrow>
     shared_steps rely (removal cr) v v' \<and>
     (r = None \<longrightarrow> no_revival rely cr \<longrightarrow> (\<forall>k \<in> K. gone (v' k)))"

lemma removal_keeps_gone:
  assumes "shared_steps rely (removal cr) v v'" and "gone (v k)"
    and "no_revival rely cr" and "k \<in> set (managed_keys cr)"
  shows "gone (v' k)"
  by (rule shared_steps_keep [OF assms(1), where p = "\<lambda>v. gone (v k)"])
     (use assms(2-4) in \<open>auto simp: removal_def no_revival_def\<close>)

text \<open>A step that stops at its first error, followed by another.\<close>

lemma clears_seq:
  assumes 1: "clears rely cr K e v u" and 2: "clears rely cr L r u v'" and K: "K \<subseteq> set (managed_keys cr)"
  shows "clears rely cr (K \<union> L) (if e = None then r else e) v (if e = None then v' else u)"
proof (cases e)
  case None
  with 1 2 have steps: "shared_steps rely (removal cr) v u" "shared_steps rely (removal cr) u v'"
    and gone: "r = None \<Longrightarrow> no_revival rely cr \<Longrightarrow> (\<forall>k \<in> K. gone (u k)) \<and> (\<forall>k \<in> L. gone (v' k))"
    by (auto simp: clears_def)
  from gone removal_keeps_gone [OF steps(2)] K have
    "r = None \<Longrightarrow> no_revival rely cr \<Longrightarrow> \<forall>k \<in> K \<union> L. gone (v' k)" by blast
  with None shared_steps_trans [OF steps(2,1)] show ?thesis by (simp add: clears_def)
next
  case (Some x)
  with 1 show ?thesis by (simp add: clears_def)
qed

context shared_server
begin

lemma laws: "machinery_laws lib"
  by unfold_locales

text \<open>A handler that makes one write at \<open>k\<close>, whatever it writes there.\<close>

lemma any_write:
  assumes "interleaved rely k q (view w) (view w')" and "\<And>b x. g b k x"
  shows "shared_steps rely g (view w) (view w')"
  by (rule interleaved_steps [OF assms(1), of "\<lambda>_. True"]) (simp_all add: assms(2))

lemma handleMaster_steps:
  assumes "handleMaster lib (operatorHelper lib cl s) cr w = (r, w')"
    and "\<And>b x. g b (KDeployment, nfd_Namespace cr, ''nfd-master'') x"
  shows "shared_steps rely g (view w) (view w')"
proof -
  let ?d = "zero_Deployment\<lparr>dep_ObjectMeta :=
    zero_ObjectMeta\<lparr>om_Name := ''nfd-master'', om_Namespace := nfd_Namespace cr\<rparr>\<rparr>"
  obtain opr e w1 where c: "CreateOrPatch_Deployment lib cl ?d
      (SetMasterDeploymentAsDesired lib \<lparr>d_client = cl, d_scheme = s\<rparr> cr) w = (opr, e, w1)"
    by (metis prod.exhaust)
  with assms(1) have "w1 = w'" by (auto simp: handleMaster_def split: option.splits)
  then have "interleaved rely (KDeployment, nfd_Namespace cr, ''nfd-master'') (\<lambda>_ _. True) (view w) (view w')"
    using CreateOrPatch_Deployment_shared [OF c] by simp
  then show ?thesis by (rule any_write) (rule assms(2))
qed

lemma handleGC_steps:
  assumes "handleGC lib (operatorHelper lib cl s) cr w = (r, w')"
    and "\<And>b x. g b (KDeployment, nfd_Namespace cr, ''nfd-gc'') x"
  shows "shared_steps rely g (view w) (view w')"
proof -
  let ?d = "zero_Deployment\<lparr>dep_ObjectMeta :=
    zero_ObjectMeta\<lparr>om_Name := ''nfd-gc'', om_Namespace := nfd_Namespace cr\<rparr>\<rparr>"
  obtain opr e w1 where c: "CreateOrPatch_Deployment lib cl ?d
      (SetGCDeploymentAsDesired lib \<lparr>d_client = cl, d_scheme = s\<rparr> cr) w = (opr, e, w1)"
    by (metis prod.exhaust)
  with assms(1) have "w1 = w'" by (auto simp: handleGC_def split: option.splits)
  then have "interleaved rely (KDeployment, nfd_Namespace cr, ''nfd-gc'') (\<lambda>_ _. True) (view w) (view w')"
    using CreateOrPatch_Deployment_shared [OF c] by simp
  then show ?thesis by (rule any_write) (rule assms(2))
qed

lemma handleTopology_steps:
  assumes "handleTopology lib (operatorHelper lib cl s) cr w = (r, w')"
    and "\<And>b x. spc_TopologyUpdater (nfd_Spec cr) \<Longrightarrow> g b (KDaemonSet, nfd_Namespace cr, ''nfd-topology-updater'') x"
  shows "shared_steps rely g (view w) (view w')"
proof (cases "spc_TopologyUpdater (nfd_Spec cr)")
  case True
  let ?d = "zero_DaemonSet\<lparr>ds_ObjectMeta :=
    zero_ObjectMeta\<lparr>om_Name := ''nfd-topology-updater'', om_Namespace := nfd_Namespace cr\<rparr>\<rparr>"
  obtain opr e w1 where c: "CreateOrPatch_DaemonSet lib cl ?d
      (SetTopologyDaemonsetAsDesired lib \<lparr>s_client = cl, s_scheme = s\<rparr> cr) w = (opr, e, w1)"
    by (metis prod.exhaust)
  with assms(1) True have "w1 = w'" by (auto simp: handleTopology_def split: option.splits)
  then have "interleaved rely (KDaemonSet, nfd_Namespace cr, ''nfd-topology-updater'') (\<lambda>_ _. True)
      (view w) (view w')"
    using CreateOrPatch_DaemonSet_shared [OF c] by simp
  then show ?thesis by (rule any_write) (rule assms(2) [OF True])
next
  case False
  with assms(1) have "w' = w" by (simp add: handleTopology_def)
  then show ?thesis by (simp add: shared_steps.start)
qed

lemma handleWorker_steps:
  assumes "handleWorker lib (operatorHelper lib cl s) cr w = (r, w')"
    and "\<And>b x. g b (KConfigMap, nfd_Namespace cr, ''nfd-worker'') x"
    and "\<And>b x. g b (KDaemonSet, nfd_Namespace cr, ''nfd-worker'') x"
  shows "shared_steps rely g (view w) (view w')"
proof -
  let ?c = "zero_ConfigMap\<lparr>cm_ObjectMeta :=
    zero_ObjectMeta\<lparr>om_Name := ''nfd-worker'', om_Namespace := nfd_Namespace cr\<rparr>\<rparr>"
  let ?d = "zero_DaemonSet\<lparr>ds_ObjectMeta :=
    zero_ObjectMeta\<lparr>om_Name := ''nfd-worker'', om_Namespace := nfd_Namespace cr\<rparr>\<rparr>"
  obtain op1 e1 w1 where c1: "CreateOrPatch_ConfigMap lib cl ?c
      (SetWorkerConfigMapAsDesired lib \<lparr>c_client = cl, c_scheme = s\<rparr> cr) w = (op1, e1, w1)"
    by (metis prod.exhaust)
  obtain op2 e2 w2 where c2: "CreateOrPatch_DaemonSet lib cl ?d
      (SetWorkerDaemonsetAsDesired lib \<lparr>s_client = cl, s_scheme = s\<rparr> cr) w1 = (op2, e2, w2)"
    by (metis prod.exhaust)
  have i: "interleaved rely (KConfigMap, nfd_Namespace cr, ''nfd-worker'') (\<lambda>_ _. True) (view w) (view w1)"
    "interleaved rely (KDaemonSet, nfd_Namespace cr, ''nfd-worker'') (\<lambda>_ _. True) (view w1) (view w2)"
    using CreateOrPatch_ConfigMap_shared [OF c1] CreateOrPatch_DaemonSet_shared [OF c2] by simp_all
  have 1: "shared_steps rely g (view w) (view w1)" by (rule any_write [OF i(1)]) (rule assms(2))
  have 2: "shared_steps rely g (view w1) (view w2)" by (rule any_write [OF i(2)]) (rule assms(3))
  from assms(1) c1 c2 have "w' = w1 \<or> w' = w2"
    by (auto simp: handleWorker_def split: option.splits)
  with 1 shared_steps_trans [OF 2 1] show ?thesis by blast
qed

section \<open>Reading\<close>

lemma GetDaemonSet_rely:
  "GetDaemonSet \<lparr>s_client = cl, s_scheme = s\<rparr> ns n w = (r, w') \<Longrightarrow> rely (view w) (view w')"
  by (auto simp: ds_get.get_is_raw split: prod.splits dest: Get_DaemonSet_shared)

lemma GetDeployment_rely:
  "GetDeployment \<lparr>d_client = cl, d_scheme = s\<rparr> ns n w = (r, w') \<Longrightarrow> rely (view w) (view w')"
  by (auto simp: dep_get.get_is_raw split: prod.splits dest: Get_Deployment_shared)

lemma DaemonSet_source_rely:
  assumes "getDaemonSetNotAvailableConditions lib
     \<lparr>sh_deploymentAPI = da, sh_daemonsetAPI = NewDaemonsetAPI lib cl s\<rparr> ns n r1 r2 r3 w = (r, w')"
  shows "rely (view w) (view w')"
proof -
  obtain d e w1 where g: "GetDaemonSet \<lparr>s_client = cl, s_scheme = s\<rparr> ns n w = ((d, e), w1)"
    by (metis prod.exhaust)
  obtain t w2 where t: "time_Now lib w1 = (t, w2)" by fastforce
  from assms g t have "w' = w1 \<or> w' = w2"
    by (auto simp: getDaemonSetNotAvailableConditions_def Let_def split: prod.splits option.splits if_splits)
  with GetDaemonSet_rely [OF g] time_Now_shared [OF t] rely_trans show ?thesis by metis
qed

lemma Deployment_source_rely:
  assumes "getDeploymentNotAvailableConditions lib
     \<lparr>sh_deploymentAPI = NewDeploymentAPI lib cl s, sh_daemonsetAPI = sa\<rparr> ns n r1 r2 r3 w = (r, w')"
  shows "rely (view w) (view w')"
proof -
  obtain d e w1 where g: "GetDeployment \<lparr>d_client = cl, d_scheme = s\<rparr> ns n w = ((d, e), w1)"
    by (metis prod.exhaust)
  obtain t w2 where t: "time_Now lib w1 = (t, w2)" by fastforce
  from assms g t have "w' = w1 \<or> w' = w2"
    by (auto simp: getDeploymentNotAvailableConditions_def Let_def split: prod.splits option.splits if_splits)
  with GetDeployment_rely [OF g] time_Now_shared [OF t] rely_trans show ?thesis by metis
qed

lemma GetConditions_rely:
  assumes "GetConditions lib
    (newStatusHelperAPI lib (NewDeploymentAPI lib cl s) (NewDaemonsetAPI lib cl s)) cr w = (cs, w')"
  shows "rely (view w) (view w')"
proof -
  let ?sh = "\<lparr>sh_deploymentAPI = NewDeploymentAPI lib cl s, sh_daemonsetAPI = NewDaemonsetAPI lib cl s\<rparr>"
  obtain a w1 where a: "getWorkerNotAvailableConditions lib ?sh cr w = (a, w1)" by fastforce
  obtain b w2 where b: "getMasterNotAvailableConditions lib ?sh cr w1 = (b, w2)" by fastforce
  obtain c w3 where c: "getGCNotAvailableConditions lib ?sh cr w2 = (c, w3)" by fastforce
  obtain d w4 where d: "getTopologyNotAvailableConditions lib ?sh cr w3 = (d, w4)" by fastforce
  obtain t3 w5 where t3: "time_Now lib w3 = (t3, w5)" by fastforce
  obtain t4 w6 where t4: "time_Now lib w4 = (t4, w6)" by fastforce
  have 1: "rely (view w) (view w1)" "rely (view w1) (view w2)" "rely (view w2) (view w3)"
    "rely (view w3) (view w4)"
    using a b c d unfolding source_defs by (blast dest: DaemonSet_source_rely Deployment_source_rely)+
  have 2: "rely (view w) (view w2)" by (rule rely_trans [OF 1(1,2)])
  have 3: "rely (view w) (view w3)" by (rule rely_trans [OF 2 1(3)])
  have 4: "rely (view w) (view w4)" by (rule rely_trans [OF 3 1(4)])
  from assms have "w' \<in> {w1, w2, w3, w4, w5, w6}"
    by (auto simp: GetConditions_def a b c d t3 t4 Let_def split: option.splits if_splits)
  with 1 2 3 4 rely_trans [OF 3 time_Now_shared [OF t3]] rely_trans [OF 4 time_Now_shared [OF t4]]
  show ?thesis by auto
qed

lemma handleStatus_steps:
  assumes h: "handleStatus (operatorHelper lib cl s) cr w = (r, cr', w')"
    and g: "\<And>b x. status_only (b (cr_key cr)) x \<Longrightarrow> g b (cr_key cr) x"
  shows "shared_steps rely g (view w) (view w')"
proof -
  obtain cs w1 where c: "GetConditions lib
      (newStatusHelperAPI lib (NewDeploymentAPI lib cl s) (NewDaemonsetAPI lib cl s)) cr w = (cs, w1)"
    by fastforce
  let ?n = "cr\<lparr>nfd_Status := (nfd_Status cr)\<lparr>sts_Conditions := cs\<rparr>\<rparr>"
  have 1: "shared_steps rely g (view w) (view w1)"
    by (rule shared_steps_rely) (rule GetConditions_rely [OF c])
  from h c have "(r, cr', w') = (None, cr, w1) \<or> StatusPatch_NFD cl ?n cr w1 = (r, cr', w')"
    by (auto simp: handleStatus_def Let_def split: if_splits)
  then show ?thesis
  proof
    assume "StatusPatch_NFD cl ?n cr w1 = (r, cr', w')"
    from StatusPatch_NFD_shared [OF this]
    have "interleaved rely (cr_key cr) status_only (view w1) (view w')" by (simp add: cr_key_def)
    then have "shared_steps rely g (view w1) (view w')"
      by (rule interleaved_steps [where p = "\<lambda>_. True"]) (use g in simp_all)
    from shared_steps_trans [OF this 1] show ?thesis .
  qed (use 1 in simp)
qed

section \<open>Deleting\<close>

lemma DeleteDeployment_shared:
  assumes "DeleteDeployment lib \<lparr>d_client = cl, d_scheme = s\<rparr> ns n w = (r, w')"
  shows "interleaved rely (KDeployment, ns, n) (\<lambda>x y. (gone x \<longrightarrow> gone y) \<and> (r = None \<longrightarrow> gone y)) (view w) (view w')"
proof -
  obtain e where e: "Delete_Deployment cl (named_Deployment ns n) w = (e, w')"
    using dep_del.delete_raw [OF assms] by auto
  have "deleted lib e x y \<Longrightarrow> (gone x \<longrightarrow> gone y) \<and> (r = None \<longrightarrow> gone y)" for x y
    using assms e dep_del.delete_ok_iff [OF laws, where d = "\<lparr>d_client = cl, d_scheme = s\<rparr>" and ns = ns and name = n and w = w]
    by (simp add: deleted_def)
  from interleaved_mono [OF Delete_Deployment_shared [OF e] this] show ?thesis by simp
qed

lemma DeleteDaemonSet_shared:
  assumes "DeleteDaemonSet lib \<lparr>s_client = cl, s_scheme = s\<rparr> ns n w = (r, w')"
  shows "interleaved rely (KDaemonSet, ns, n) (\<lambda>x y. (gone x \<longrightarrow> gone y) \<and> (r = None \<longrightarrow> gone y)) (view w) (view w')"
proof -
  obtain e where e: "Delete_DaemonSet cl (named_DaemonSet ns n) w = (e, w')"
    using ds_del.delete_raw [OF assms] by auto
  have "deleted lib e x y \<Longrightarrow> (gone x \<longrightarrow> gone y) \<and> (r = None \<longrightarrow> gone y)" for x y
    using assms e ds_del.delete_ok_iff [OF laws, where d = "\<lparr>s_client = cl, s_scheme = s\<rparr>" and ns = ns and name = n and w = w]
    by (simp add: deleted_def)
  from interleaved_mono [OF Delete_DaemonSet_shared [OF e] this] show ?thesis by simp
qed

lemma DeleteConfigMap_shared:
  assumes "DeleteConfigMap lib \<lparr>c_client = cl, c_scheme = s\<rparr> ns n w = (r, w')"
  shows "interleaved rely (KConfigMap, ns, n) (\<lambda>x y. (gone x \<longrightarrow> gone y) \<and> (r = None \<longrightarrow> gone y)) (view w) (view w')"
proof -
  obtain e where e: "Delete_ConfigMap cl (named_ConfigMap ns n) w = (e, w')"
    using cm_del.delete_raw [OF assms] by auto
  have "deleted lib e x y \<Longrightarrow> (gone x \<longrightarrow> gone y) \<and> (r = None \<longrightarrow> gone y)" for x y
    using assms e cm_del.delete_ok_iff [OF laws, where c = "\<lparr>c_client = cl, c_scheme = s\<rparr>" and ns = ns and name = n and w = w]
    by (simp add: deleted_def)
  from interleaved_mono [OF Delete_ConfigMap_shared [OF e] this] show ?thesis by simp
qed

text \<open>One deletion.\<close>

lemma deletion_clears:
  assumes i: "interleaved rely k (\<lambda>x y. (gone x \<longrightarrow> gone y) \<and> (r = None \<longrightarrow> gone y)) v v'"
    and k: "k \<in> set (managed_keys cr)"
  shows "clears rely cr {k} r v v'"
proof -
  have "shared_steps rely (removal cr) v v'"
    by (rule interleaved_steps [OF i, where p = "\<lambda>_. True"]) (simp_all add: removal_def k)
  moreover have "gone (v' k)" if none: "r = None" and alone: "no_revival rely cr"
  proof -
    from i obtain b x where b: "gone x" "rely (b(k := x)) v'"
      by (auto simp: interleaved_def none)
    with alone k show ?thesis by (auto simp: no_revival_def dest: spec [of _ "b(k := x)"])
  qed
  ultimately show ?thesis by (simp add: clears_def)
qed

lemmas delete_clears =
  deletion_clears [OF DeleteDaemonSet_shared] deletion_clears [OF DeleteConfigMap_shared]
  deletion_clears [OF DeleteDeployment_shared]

lemma finalizeComponents_clears:
  assumes fin: "finalizeComponents (operatorHelper lib cl s) cr w = (r, w')"
  shows "clears rely cr (set (managed_keys cr)) r (view w) (view w')"
proof -
  let ?ns = "nfd_Namespace cr" and ?topo = "spc_TopologyUpdater (nfd_Spec cr)"
  let ?C = "\<lambda>K r a b. clears rely cr K r (view a) (view b)"
  obtain e1 w1 where 1: "DeleteDaemonSet lib \<lparr>s_client = cl, s_scheme = s\<rparr> ?ns ''nfd-worker'' w = (e1, w1)"
    by fastforce
  obtain e2 w2 where 2: "DeleteConfigMap lib \<lparr>c_client = cl, c_scheme = s\<rparr> ?ns ''nfd-worker'' w1 = (e2, w2)"
    by fastforce
  obtain e3 w3 where 3: "(if ?topo
      then DeleteDaemonSet lib \<lparr>s_client = cl, s_scheme = s\<rparr> ?ns ''nfd-topology-updater'' w2
      else (None, w2)) = (e3, w3)"
    by fastforce
  obtain e4 w4 where 4: "DeleteDeployment lib \<lparr>d_client = cl, d_scheme = s\<rparr> ?ns ''nfd-master'' w3 = (e4, w4)"
    by fastforce
  obtain e5 w5 where 5: "DeleteDeployment lib \<lparr>d_client = cl, d_scheme = s\<rparr> ?ns ''nfd-gc'' w4 = (e5, w5)"
    by fastforce
  let ?T = "if ?topo then {(KDaemonSet, ?ns, ''nfd-topology-updater'')} else {}"
  have c1: "?C {(KDaemonSet, ?ns, ''nfd-worker'')} e1 w w1"
    by (rule delete_clears(1) [OF 1]) (simp add: managed_keys_def)
  have c2: "?C {(KConfigMap, ?ns, ''nfd-worker'')} e2 w1 w2"
    by (rule delete_clears(2) [OF 2]) (simp add: managed_keys_def)
  have c3: "?C ?T e3 w2 w3"
    using 3 delete_clears(1) [of s ?ns "''nfd-topology-updater''" w2 e3 w3 cr]
    by (cases ?topo) (auto simp: managed_keys_def clears_def shared_steps.start)
  have c4: "?C {(KDeployment, ?ns, ''nfd-master'')} e4 w3 w4"
    by (rule delete_clears(3) [OF 4]) (simp add: managed_keys_def)
  have c5: "?C {(KDeployment, ?ns, ''nfd-gc'')} e5 w4 w5"
    by (rule delete_clears(3) [OF 5]) (simp add: managed_keys_def)
  have keys: "set (managed_keys cr) = {(KDaemonSet, ?ns, ''nfd-worker'')} \<union> ({(KConfigMap, ?ns, ''nfd-worker'')} \<union>
      (?T \<union> ({(KDeployment, ?ns, ''nfd-master'')} \<union> {(KDeployment, ?ns, ''nfd-gc'')})))"
    by (auto simp: managed_keys_def)
  have r: "w' = (if e1 \<noteq> None then w1 else if e2 \<noteq> None then w2 else if e3 \<noteq> None then w3
      else if e4 \<noteq> None then w4 else w5)"
    "r = None \<longleftrightarrow> e1 = None \<and> e2 = None \<and> e3 = None \<and> e4 = None \<and> e5 = None"
    using fin by (auto simp: finalizeComponents_def Let_def 1 2 3 4 5 split: option.splits cong: if_cong)
  have K: "{(KDaemonSet, ?ns, ''nfd-worker'')} \<subseteq> set (managed_keys cr)"
    "{(KConfigMap, ?ns, ''nfd-worker'')} \<subseteq> set (managed_keys cr)" "?T \<subseteq> set (managed_keys cr)"
    "{(KDeployment, ?ns, ''nfd-master'')} \<subseteq> set (managed_keys cr)"
    by (auto simp: managed_keys_def)
  note all = clears_seq [OF c1 clears_seq [OF c2 clears_seq [OF c3 clears_seq [OF c4 c5 K(4)] K(3)] K(2)] K(1),
    folded keys]
  from r(1) have "view w' = (if e1 = None then if e2 = None then if e3 = None then if e4 = None
      then view w5 else view w4 else view w3 else view w2 else view w1)" by auto
  with all r(2) show ?thesis by (auto simp: clears_def split: if_splits)
qed

section \<open>Pruning and the finalizer\<close>

lemma handlePrune_shared:
  assumes h: "handlePrune lib (operatorHelper lib cl s) cr w = (r, w')"
    and p: "p (view w)" "\<And>b c. p b \<Longrightarrow> rely b c \<Longrightarrow> p c"
    and g: "\<And>b x. spc_PruneOnDelete (nfd_Spec cr) \<Longrightarrow> p b \<Longrightarrow> g b (prune_key cr) x"
  shows "shared_steps rely g (view w) (view w')"
proof -
  obtain gr w1 where j: "GetJob \<lparr>j_client = cl, j_scheme = s\<rparr> (nfd_Namespace cr) ''nfd-prune'' w = (gr, w1)"
    by fastforce
  obtain c w2 where c: "CreatePruneJob lib \<lparr>j_client = cl, j_scheme = s\<rparr> cr w1 = (c, w2)" by fastforce
  obtain e om where sc: "SetControllerReference lib cr (job_ObjectMeta (pruneJobObject cr)) s = (e, om)"
    by fastforce
  have 1: "rely (view w) (view w1)"
    using j by (cases gr; auto simp: GetJob_Inl GetJob_Inr dest: Get_Job_shared)
  have p1: "p (view w1)" by (rule p(2) [OF p(1) 1])
  have 2: "shared_steps rely g (view w1) (view w2)" if pr: "spc_PruneOnDelete (nfd_Spec cr)"
  proof (cases e)
    case None
    from SetControllerReference_ok [OF sc [unfolded None]]
    have key: "obj_key (OJob ((pruneJobObject cr)\<lparr>job_ObjectMeta := om\<rparr>)) = prune_key cr"
      by (auto simp: prune_key_def)
    have "Create_Job cl ((pruneJobObject cr)\<lparr>job_ObjectMeta := om\<rparr>) w1 = (c, w2)"
      using c by (simp add: CreatePruneJob_def sc None)
    from Create_Job_shared [OF this, unfolded key] show ?thesis
      by (rule interleaved_steps [where p = p]) (use p1 p(2) g [OF pr] in auto)
  next
    case (Some x)
    with c have "w2 = w1" by (simp add: CreatePruneJob_def sc)
    then show ?thesis by (simp add: shared_steps.start)
  qed
  have s1: "shared_steps rely g (view w) (view w1)" by (rule shared_steps_rely) (rule 1)
  from h j c have "w' = w \<or> spc_PruneOnDelete (nfd_Spec cr) \<and> (w' = w1 \<or> w' = w2)"
    by (auto simp: handlePrune_def Let_def split: if_splits sum.splits option.splits)
  with s1 shared_steps_trans [OF 2 s1] show ?thesis by (auto intro: shared_steps.start)
qed

lemma setFinalizer_shared:
  assumes "setFinalizer (operatorHelper lib cl s) cr w = (r, cr', w')"
  shows "interleaved rely (cr_key cr) (\<lambda>x y. y = x \<or> updated_cr (with_finalizer cr) y) (view w) (view w')"
proof -
  have "Update_NFD cl (with_finalizer cr) w = (r, cr', w')"
    using assms by (simp add: setFinalizer_def with_finalizer_def)
  moreover have "obj_key (ONFD (with_finalizer cr)) = cr_key cr" by (simp add: cr_key_def with_finalizer_def)
  ultimately show ?thesis using interleaved_mono [OF Update_NFD_shared] by fastforce
qed

lemma removeFinalizer_shared:
  assumes "removeFinalizer lib (operatorHelper lib cl s) cr w = (r, cr', w')"
  shows "interleaved rely (cr_key cr) (\<lambda>x y. y = x \<or> updated_cr (without_finalizer cr) y) (view w) (view w')"
proof (cases "finalizerLabel \<in> set (om_Finalizers (nfd_ObjectMeta cr))")
  case True
  then have "Update_NFD cl (without_finalizer cr) w = (r, cr', w')"
    using assms by (simp add: removeFinalizer_def RemoveFinalizer_eq without_finalizer_def)
  moreover have "obj_key (ONFD (without_finalizer cr)) = cr_key cr" by (simp add: cr_key_def without_finalizer_def)
  ultimately show ?thesis using interleaved_mono [OF Update_NFD_shared] by fastforce
next
  case False
  with assms have "w' = w" by (simp add: removeFinalizer_def RemoveFinalizer_eq)
  then show ?thesis
    unfolding interleaved_def
    by (intro exI [of _ "view w"] exI [of _ "view w (cr_key cr)"]) (simp add: rely_refl)
qed

section \<open>The pass\<close>

lemma all_gone_stable:
  assumes "all_gone cr b" and "rely b c"
    and "\<And>k. k \<in> set (managed_keys cr) \<Longrightarrow> gone (b k) \<Longrightarrow> gone (c k)"
  shows "all_gone cr c"
  using assms by (auto simp: all_gone_def list_all_iff)

lemma AddFinalizer_keeps_guarantee:
  assumes run: "Reconcile (operatorReconciler lib cl s) cr w = (r, cr', w')"
    and add: "pass_of (operatorReconciler lib cl s) cr = AddFinalizer"
  shows "shared_steps rely (pass_writes AddFinalizer cr) (view w) (view w')"
proof -
  obtain e where "setFinalizer (operatorHelper lib cl s) cr w = (e, cr', w')"
    by (rule Reconcile_AddFinalizer [OF add run]) simp
  from setFinalizer_shared [OF this] show ?thesis
    by (rule interleaved_steps [where p = "\<lambda>_. True"]) auto
qed

lemma Apply_keeps_guarantee:
  assumes run: "Reconcile (operatorReconciler lib cl s) cr w = (r, cr', w')"
    and app: "pass_of (operatorReconciler lib cl s) cr = Apply"
  shows "shared_steps rely (pass_writes Apply cr) (view w) (view w')"
proof -
  let ?H = "operatorHelper lib cl s" and ?g = "pass_writes Apply cr"
  obtain e1 w1 e2 w2 e3 w3 e4 w4 e5 where
    h: "handleMaster lib ?H cr w = (e1, w1)" "handleWorker lib ?H cr w1 = (e2, w2)"
      "handleTopology lib ?H cr w2 = (e3, w3)" "handleGC lib ?H cr w3 = (e4, w4)"
      "handleStatus ?H cr w4 = (e5, cr', w')"
      "r = (zero_Result, errors_Join [e1, e2, e3, e4, e5])"
    by (rule operator_Apply [OF app run])
  have 1: "shared_steps rely ?g (view w) (view w1)"
    by (rule handleMaster_steps [OF h(1)]) (simp add: managed_keys_def)
  have 2: "shared_steps rely ?g (view w1) (view w2)"
    by (rule handleWorker_steps [OF h(2)]) (simp_all add: managed_keys_def)
  have 3: "shared_steps rely ?g (view w2) (view w3)"
    by (rule handleTopology_steps [OF h(3)]) (simp add: managed_keys_def)
  have 4: "shared_steps rely ?g (view w3) (view w4)"
    by (rule handleGC_steps [OF h(4)]) (simp add: managed_keys_def)
  have 5: "shared_steps rely ?g (view w4) (view w')"
    by (rule handleStatus_steps [OF h(5)]) simp
  show ?thesis
    by (rule shared_steps_trans [OF 5 shared_steps_trans [OF 4 shared_steps_trans
          [OF 3 shared_steps_trans [OF 2 1]]]])
qed

lemma TearDown_keeps_guarantee:
  assumes run: "Reconcile (operatorReconciler lib cl s) cr w = (r, cr', w')"
    and tear: "pass_of (operatorReconciler lib cl s) cr = TearDown"
    and alone: "no_revival rely cr"
  shows "shared_steps rely (pass_writes TearDown cr) (view w) (view w')"
proof -
  let ?H = "operatorHelper lib cl s" and ?g = "pass_writes TearDown cr"
  have fin: "shared_steps rely ?g (view u) (view u')" if "finalizeComponents ?H cr u = (e, u')" for u e u'
    using finalizeComponents_clears [OF that] by (auto simp: clears_def intro: shared_steps_mono)
  have stable: "all_gone cr c" if "all_gone cr b" "rely b c" for b c
    by (rule all_gone_stable [OF that]) (use alone that(2) in \<open>auto simp: no_revival_def\<close>)
  have fin': "all_gone cr (view u')" if "finalizeComponents ?H cr u = (None, u')" for u u'
    using finalizeComponents_clears [OF that] alone by (simp add: clears_def all_gone_def list_all_iff)
  have prune: "shared_steps rely ?g (view u) (view u')"
    if "all_gone cr (view u)" "handlePrune lib ?H cr u = (d, u')" for u d u'
    by (rule handlePrune_shared [OF that(2), of "all_gone cr"]) (use that(1) stable in auto)
  have prune': "all_gone cr (view u')"
    if "all_gone cr (view u)" "handlePrune lib ?H cr u = (d, u')" for u d u'
  proof (rule shared_steps_keep [OF prune [OF that], of "all_gone cr"])
    fix b k x assume "all_gone cr b" "?g b k x"
    then show "all_gone cr (b(k := x))"
      by (auto simp: all_gone_def list_all_iff removal_def managed_keys_def prune_key_def cr_key_def split: if_splits)
  qed (use that(1) stable in auto)
  show ?thesis
  proof (cases rule: Reconcile_TearDown [OF tear run, unfolded operatorReconciler_sel])
    case (1 e)
    then show ?thesis by (blast intro: fin)
  next
    case (2 w1 d e)
    from shared_steps_trans [OF prune [OF fin' [OF 2(1)] 2(2)] fin [OF 2(1)]] show ?thesis .
  next
    case (3 w1)
    from shared_steps_trans [OF prune [OF fin' [OF 3(1)] 3(2)] fin [OF 3(1)]] show ?thesis .
  next
    case (4 w1 w2 e)
    have "shared_steps rely ?g (view w2) (view w')"
      by (rule interleaved_steps [OF removeFinalizer_shared [OF 4(3)], of "all_gone cr"])
         (use prune' [OF fin' [OF 4(1)] 4(2)] stable in auto)
    from shared_steps_trans [OF this shared_steps_trans [OF prune [OF fin' [OF 4(1)] 4(2)] fin [OF 4(1)]]]
    show ?thesis .
  qed
qed

lemma Reconcile_keeps_guarantee:
  assumes run: "Reconcile (operatorReconciler lib cl s) cr w = (r, cr', w')"
    and alone: "no_revival rely cr"
  shows "shared_steps rely (pass_writes (pass_of (operatorReconciler lib cl s) cr) cr) (view w) (view w')"
proof (cases "pass_of (operatorReconciler lib cl s) cr")
  case TearDown
  show ?thesis unfolding TearDown by (rule TearDown_keeps_guarantee [OF run TearDown alone])
next
  case AddFinalizer
  show ?thesis unfolding AddFinalizer by (rule AddFinalizer_keeps_guarantee [OF run AddFinalizer])
next
  case Apply
  show ?thesis unfolding Apply by (rule Apply_keeps_guarantee [OF run Apply])
qed

text \<open>Outside its footprint only the others change anything.\<close>

lemma Reconcile_shared_frame:
  assumes run: "Reconcile (operatorReconciler lib cl s) cr w = (r, cr', w')"
    and alone: "no_revival rely cr" and k: "k \<notin> set (footprint cr)"
    and still: "\<And>b c. rely b c \<Longrightarrow> c k = b k"
  shows "view w' k = view w k"
proof (rule shared_steps_keep [OF Reconcile_keeps_guarantee [OF run alone], of "\<lambda>v. v k = view w k"])
  fix b j x assume "b k = view w k" "pass_writes (pass_of (operatorReconciler lib cl s) cr) cr b j x"
  then show "(b(j := x)) k = view w k"
    using k by (cases "pass_of (operatorReconciler lib cl s) cr")
      (auto simp: footprint_def removal_def simp del: pass_of_operator)
next
  fix b c assume "b k = view w k" "rely b c"
  with still [of b c] show "c k = view w k" by simp
qed simp

end

end
