(* ===== verification/Orphans.thy ===== *)
theory Orphans
  imports Interference
begin

text \<open>
  The invariant of the life cycle, that no component outlives its custom resource unguarded, with others
  writing to the cluster between any two calls of a pass. It follows from the guarantee of a pass. The
  server that one operator has to itself is an instance.
\<close>

section \<open>No component is orphaned\<close>

text \<open>
  The others move as in \<^const>\<open>cluster_moves\<close>, now at any time: between two passes and between two calls
  of one.
\<close>

locale operated_server = shared_server lib cl view "cluster_moves ns nm"
  for lib :: "('w, 'e, 's) machinery" and cl view and ns nm :: string +
  assumes view_key: "view w k = Some x \<Longrightarrow> obj_key x = k"

lemma no_revival_moves: "no_revival (cluster_moves (nfd_Namespace cr) nm) cr"
  by (auto simp: no_revival_def cluster_moves_def dest: managed_component)

text \<open>The custom resource holds the finalizer, and asks for the topology updater if \<open>cr\<close> does.\<close>

definition anchored :: "string \<Rightarrow> string \<Rightarrow> NodeFeatureDiscovery \<Rightarrow> (cluster_key \<Rightarrow> kobject option) \<Rightarrow> bool" where
  "anchored ns nm cr v \<longleftrightarrow>
     (\<exists>n. v (KNFD, ns, nm) = Some (ONFD n) \<and>
        finalizerLabel \<in> set (om_Finalizers (nfd_ObjectMeta n)) \<and>
        (spc_TopologyUpdater (nfd_Spec cr) \<longrightarrow> spc_TopologyUpdater (nfd_Spec n)))"

context operated_server
begin

lemma anchored_moves: "anchored ns nm cr b \<Longrightarrow> cluster_moves ns nm b c \<Longrightarrow> anchored ns nm cr c"
proof -
  assume "anchored ns nm cr b" and moves: "cluster_moves ns nm b c"
  then obtain n where n: "b (KNFD, ns, nm) = Some (ONFD n)"
    "finalizerLabel \<in> set (om_Finalizers (nfd_ObjectMeta n))"
    "spc_TopologyUpdater (nfd_Spec cr) \<longrightarrow> spc_TopologyUpdater (nfd_Spec n)"
    unfolding anchored_def by (elim exE conjE) (rule that)
  with conjunct2 [OF moves [unfolded cluster_moves_def], rule_format, OF n(1,2)]
  show "anchored ns nm cr c" unfolding anchored_def by (elim exE conjE) (rule exI, intro conjI, assumption+, simp)
qed

text \<open>A write that brings nothing to life keeps the invariant.\<close>

lemma guarded_write:
  assumes "guarded ns nm b" and "k \<noteq> (KNFD, ns, nm)" and "gone (b k) \<longrightarrow> gone x"
  shows "guarded ns nm (b(k := x))"
  unfolding guarded_def
proof
  fix j assume "j \<in> set (component_keys ns)"
  with assms(1) have "gone (b j) \<or> (\<exists>n. b (KNFD, ns, nm) = Some (ONFD n) \<and>
      finalizerLabel \<in> set (om_Finalizers (nfd_ObjectMeta n)) \<and>
      (j = (KDaemonSet, ns, ''nfd-topology-updater'') \<longrightarrow> spc_TopologyUpdater (nfd_Spec n)))"
    by (simp add: guarded_def)
  then show "gone ((b(k := x)) j) \<or> (\<exists>n. (b(k := x)) (KNFD, ns, nm) = Some (ONFD n) \<and>
      finalizerLabel \<in> set (om_Finalizers (nfd_ObjectMeta n)) \<and>
      (j = (KDaemonSet, ns, ''nfd-topology-updater'') \<longrightarrow> spc_TopologyUpdater (nfd_Spec n)))"
    using assms(2,3) by (cases "j = k"; cases "gone (b k)") simp_all
qed

lemma component_write_guarded:
  assumes inv: "guarded ns nm b" and anchor: "anchored ns nm cr b" and k: "k \<in> set (managed_keys cr)"
    and ns: "nfd_Namespace cr = ns"
  shows "guarded ns nm (b(k := x))"
  unfolding guarded_def
proof
  fix j assume j: "j \<in> set (component_keys ns)"
  from anchor obtain n where n: "b (KNFD, ns, nm) = Some (ONFD n)"
    "finalizerLabel \<in> set (om_Finalizers (nfd_ObjectMeta n))"
    "spc_TopologyUpdater (nfd_Spec cr) \<longrightarrow> spc_TopologyUpdater (nfd_Spec n)"
    unfolding anchored_def by (elim exE conjE) (rule that)
  from k have "k \<noteq> (KNFD, ns, nm)"
    and topo: "k = (KDaemonSet, ns, ''nfd-topology-updater'') \<longrightarrow> spc_TopologyUpdater (nfd_Spec cr)"
    by (auto simp: managed_keys_def ns split: if_splits)
  moreover have "gone (b j) \<or> (j = (KDaemonSet, ns, ''nfd-topology-updater'') \<longrightarrow> spc_TopologyUpdater (nfd_Spec n))"
    using inv j n(1) by (auto simp: guarded_def)
  ultimately show "gone ((b(k := x)) j) \<or> (\<exists>n. (b(k := x)) (KNFD, ns, nm) = Some (ONFD n) \<and>
      finalizerLabel \<in> set (om_Finalizers (nfd_ObjectMeta n)) \<and>
      (j = (KDaemonSet, ns, ''nfd-topology-updater'') \<longrightarrow> spc_TopologyUpdater (nfd_Spec n)))"
    using n by (cases "j = k") auto
qed

lemma pass_guarded_Apply:
  assumes "shared_steps (cluster_moves ns nm) (pass_writes Apply cr) v v'"
    and cr: "v (KNFD, ns, nm) = Some (ONFD cr)" "cr_key cr = (KNFD, ns, nm)"
    and fin: "finalizerLabel \<in> set (om_Finalizers (nfd_ObjectMeta cr))"
    and inv: "guarded ns nm v"
  shows "guarded ns nm v'"
proof -
  have ns: "nfd_Namespace cr = ns" using cr(2) by (simp add: cr_key_def)
  have "guarded ns nm v' \<and> anchored ns nm cr v'"
  proof (rule shared_steps_keep [OF assms(1), of "\<lambda>v. guarded ns nm v \<and> anchored ns nm cr v"])
    show "guarded ns nm v \<and> anchored ns nm cr v" using inv cr fin by (simp add: anchored_def)
    show "guarded ns nm c \<and> anchored ns nm cr c" if "guarded ns nm b \<and> anchored ns nm cr b" "cluster_moves ns nm b c" for b c
      using that guarded_moves anchored_moves by blast
    fix b k x assume b: "guarded ns nm b \<and> anchored ns nm cr b" and "pass_writes Apply cr b k x"
    then consider "k \<in> set (managed_keys cr)" | "k = cr_key cr" "status_only (b k) x" by auto
    then show "guarded ns nm (b(k := x)) \<and> anchored ns nm cr (b(k := x))"
    proof cases
      case 1
      with b show ?thesis
        using component_write_guarded [of b cr k x, OF _ _ 1 ns] managed_component [OF 1]
        by (auto simp: anchored_def ns component_keys_def)
    next
      case 2
      with b show ?thesis
        by (auto simp: guarded_def anchored_def status_only_def cr(2) component_keys_def)
    qed
  qed
  then show ?thesis ..
qed

lemma pass_guarded_TearDown:
  assumes "shared_steps (cluster_moves ns nm) (pass_writes TearDown cr) v v'"
    and cr: "v (KNFD, ns, nm) = Some (ONFD cr)" "cr_key cr = (KNFD, ns, nm)"
    and inv: "guarded ns nm v"
  shows "guarded ns nm v'"
proof -
  let ?topo = "(KDaemonSet, ns, ''nfd-topology-updater'')"
  have ns: "nfd_Namespace cr = ns" using cr(2) by (simp add: cr_key_def)
  let ?p = "\<lambda>v. guarded ns nm v \<and> (spc_TopologyUpdater (nfd_Spec cr) \<or> gone (v ?topo))"
  have "?p v'"
  proof (rule shared_steps_keep [OF assms(1), of ?p])
    show "?p v" using inv cr by (auto simp: guarded_def component_keys_def)
    fix b c assume b: "?p b" and moves: "cluster_moves ns nm b c"
    have "guarded ns nm c" using guarded_moves [OF _ moves] b by simp
    moreover have "gone (b ?topo) \<Longrightarrow> gone (c ?topo)"
      using moves by (simp add: cluster_moves_def component_keys_def)
    ultimately show "?p c" using b by blast
  next
    fix b k x assume b: "?p b" and "pass_writes TearDown cr b k x"
    then consider "removal cr b k x" | "k = prune_key cr" | "k = cr_key cr" "all_gone cr b" by auto
    then show "?p (b(k := x))"
    proof cases
      case 1
      then have k: "k \<noteq> (KNFD, ns, nm)" "gone (b k) \<longrightarrow> gone x"
        by (auto simp: removal_def managed_keys_def split: if_splits)
      with b show ?thesis by (cases "k = ?topo") (auto simp: guarded_write)
    next
      case 2
      then have k: "k \<notin> set (component_keys ns)" "k \<noteq> ?topo" "k \<noteq> (KNFD, ns, nm)"
        by (auto simp: prune_key_def component_keys_def)
      then have "guarded ns nm (b(k := x)) = guarded ns nm b" by (auto simp: guarded_def)
      with b k(2) show ?thesis by simp
    next
      case 3
      then have "\<forall>j \<in> set (component_keys ns). gone (b j)"
        using b by (auto simp: all_gone_def managed_keys_def component_keys_def ns split: if_splits)
      with 3 show ?thesis
        by (intro conjI guarded_gone) (auto simp: cr(2) component_keys_def)
    qed
  qed
  then show ?thesis ..
qed

lemma pass_guarded_AddFinalizer:
  assumes "shared_steps (cluster_moves ns nm) (pass_writes AddFinalizer cr) v v'"
    and cr: "v (KNFD, ns, nm) = Some (ONFD cr)" "cr_key cr = (KNFD, ns, nm)"
    and fin: "finalizerLabel \<notin> set (om_Finalizers (nfd_ObjectMeta cr))"
    and inv: "guarded ns nm v"
  shows "guarded ns nm v'"
proof (rule guarded_gone, rule shared_steps_keep [OF assms(1), of "\<lambda>v. \<forall>k \<in> set (component_keys ns). gone (v k)"])
  show "\<forall>k \<in> set (component_keys ns). gone (v k)" using inv cr fin by (auto simp: guarded_def)
  show "\<forall>k \<in> set (component_keys ns). gone (c k)"
    if "\<forall>k \<in> set (component_keys ns). gone (b k)" "cluster_moves ns nm b c" for b c
    using that by (simp add: cluster_moves_def)
  show "\<forall>j \<in> set (component_keys ns). gone ((b(k := x)) j)"
    if "\<forall>j \<in> set (component_keys ns). gone (b j)" "pass_writes AddFinalizer cr b k x" for b k x
    using that by (auto simp: cr(2) component_keys_def)
qed

lemma pass_guarded:
  assumes pass: "pass_at lib cl s view ns nm w = (err, w')" and inv: "guarded ns nm (view w)"
  shows "guarded ns nm (view w')"
proof (cases "\<exists>cr. view w (KNFD, ns, nm) = Some (ONFD cr)")
  case True
  then obtain cr where cr: "view w (KNFD, ns, nm) = Some (ONFD cr)" by blast
  obtain r cr' w2 where run: "Reconcile (operatorReconciler lib cl s) cr w = (r, cr', w2)"
    by (metis prod.exhaust)
  with pass cr have "w2 = w'" by (simp add: pass_at_def split: prod.splits)
  note run = run [unfolded this]
  from view_key [OF cr] have key: "nfd_Namespace cr = ns" "cr_key cr = (KNFD, ns, nm)"
    by (auto simp: cr_key_def)
  have "no_revival (cluster_moves ns nm) cr" using no_revival_moves [of cr nm] by (simp add: key)
  note steps = Reconcile_keeps_guarantee [OF run this]
  have fin: "hasFinalizer lib cr \<longleftrightarrow> finalizerLabel \<in> set (om_Finalizers (nfd_ObjectMeta cr))"
    by (simp add: hasFinalizer_def ContainsFinalizer_iff)
  show ?thesis
  proof (cases "pass_of (operatorReconciler lib cl s) cr")
    case TearDown
    show ?thesis by (rule pass_guarded_TearDown [OF steps [unfolded TearDown] cr key(2) inv])
  next
    case AddFinalizer
    then have "finalizerLabel \<notin> set (om_Finalizers (nfd_ObjectMeta cr))"
      by (auto simp: pass_of_def fin split: if_splits)
    then show ?thesis by (rule pass_guarded_AddFinalizer [OF steps [unfolded AddFinalizer] cr key(2) _ inv])
  next
    case Apply
    then have "finalizerLabel \<in> set (om_Finalizers (nfd_ObjectMeta cr))"
      by (auto simp: pass_of_def fin split: if_splits)
    then show ?thesis by (rule pass_guarded_Apply [OF steps [unfolded Apply] cr key(2) _ inv])
  qed
next
  case False
  with pass have "w' = w" by (auto simp: pass_at_def split: option.splits kobject.splits)
  with inv show ?thesis by simp
qed

lemma run_guarded: "run lib cl s view ns nm w \<Longrightarrow> guarded ns nm (view w)"
proof (induction rule: run.induct)
  case (installed w)
  then show ?case by (rule guarded_gone)
next
  case (passed w err w')
  then show ?case using pass_guarded by blast
next
  case (moved w w')
  then show ?case using guarded_moves by blast
qed

end

section \<open>Nobody else writes\<close>

text \<open>A server that one operator has to itself is a shared one on which the others never move.\<close>

lemma interleaved_alone:
  assumes "\<And>v. rely v v" and "\<And>j. j \<noteq> k \<Longrightarrow> v' j = v j" and "q (v k) (v' k)"
  shows "interleaved rely k q v v'"
proof -
  have "v(k := v' k) = v'" using assms(2) by auto
  then show ?thesis
    unfolding interleaved_def using assms(1,3) by (intro exI [of _ v] exI [of _ "v' k"]) simp
qed

lemma cluster_moves_refl: "cluster_moves ns nm v v"
  by (simp add: cluster_moves_def)

lemma cluster_moves_trans:
  assumes "cluster_moves ns nm u v" and "cluster_moves ns nm v v'"
  shows "cluster_moves ns nm u v'"
  unfolding cluster_moves_def
proof (intro conjI ballI allI impI)
  fix k assume "k \<in> set (component_keys ns)" "gone (u k)"
  with assms show "gone (v' k)" by (simp add: cluster_moves_def)
next
  fix n assume n: "u (KNFD, ns, nm) = Some (ONFD n)" "finalizerLabel \<in> set (om_Finalizers (nfd_ObjectMeta n))"
  obtain m where m: "v (KNFD, ns, nm) = Some (ONFD m)" "finalizerLabel \<in> set (om_Finalizers (nfd_ObjectMeta m))"
    "spc_TopologyUpdater (nfd_Spec n) \<longrightarrow> spc_TopologyUpdater (nfd_Spec m)"
    using conjunct2 [OF assms(1) [unfolded cluster_moves_def], rule_format, OF n] by (elim exE conjE) (rule that)
  obtain l where "v' (KNFD, ns, nm) = Some (ONFD l)" "finalizerLabel \<in> set (om_Finalizers (nfd_ObjectMeta l))"
    "spc_TopologyUpdater (nfd_Spec m) \<longrightarrow> spc_TopologyUpdater (nfd_Spec l)"
    using conjunct2 [OF assms(2) [unfolded cluster_moves_def], rule_format, OF m(1,2)] by (elim exE conjE) (rule that)
  with m(3) show "\<exists>l. v' (KNFD, ns, nm) = Some (ONFD l) \<and> finalizerLabel \<in> set (om_Finalizers (nfd_ObjectMeta l)) \<and>
      (spc_TopologyUpdater (nfd_Spec n) \<longrightarrow> spc_TopologyUpdater (nfd_Spec l))" by blast
qed

context api_server
begin

lemma deletes_alone:
  "Delete_Deployment cl d w = (r, w') \<Longrightarrow>
     deleted lib r (view w (obj_key (ODeployment d))) (view w' (obj_key (ODeployment d)))"
  "Delete_DaemonSet cl x w = (r, w') \<Longrightarrow>
     deleted lib r (view w (obj_key (ODaemonSet x))) (view w' (obj_key (ODaemonSet x)))"
  "Delete_ConfigMap cl c w = (r, w') \<Longrightarrow>
     deleted lib r (view w (obj_key (OConfigMap c))) (view w' (obj_key (OConfigMap c)))"
  unfolding deleted_def
  by (cases r; use Delete_Deployment_ok Delete_Deployment_absent Delete_Deployment_stays_gone
      Delete_DaemonSet_ok Delete_DaemonSet_absent Delete_DaemonSet_stays_gone
      Delete_ConfigMap_ok Delete_ConfigMap_absent Delete_ConfigMap_stays_gone in fastforce)+

end

sublocale api_server \<subseteq> operated: operated_server lib cl view ns nm for ns nm
proof
  show "cluster_moves ns nm v v" for v by (rule cluster_moves_refl)
  show "cluster_moves ns nm u v'" if "cluster_moves ns nm u v" "cluster_moves ns nm v v'" for u v v'
    using that by (rule cluster_moves_trans)
  fix w w'
  show "cluster_moves ns nm (view w) (view w')" if "time_Now lib w = (t, w')" for t
    using time_Now_view [OF that] by (simp add: cluster_moves_refl)
  show "cluster_moves ns nm (view w) (view w')" if "Get_Deployment cl ky d w = (r, d', w')" for ky d r d'
    using Get_Deployment_view [OF that] by (simp add: cluster_moves_refl)
  show "cluster_moves ns nm (view w) (view w')" if "Get_DaemonSet cl ky d w = (r, d', w')" for ky d r d'
    using Get_DaemonSet_view [OF that] by (simp add: cluster_moves_refl)
  show "cluster_moves ns nm (view w) (view w')" if "Get_Job cl ky d w = (r, d', w')" for ky d r d'
    using Get_Job_view [OF that] by (simp add: cluster_moves_refl)
  show "interleaved (cluster_moves ns nm) (obj_key (ODeployment d)) (deleted lib r) (view w) (view w')"
    if "Delete_Deployment cl d w = (r, w')" for d r
    by (rule interleaved_alone) (simp_all del: obj_key_simps add: cluster_moves_refl Delete_Deployment_frame [OF that] deletes_alone(1) [OF that])
  show "interleaved (cluster_moves ns nm) (obj_key (ODaemonSet d)) (deleted lib r) (view w) (view w')"
    if "Delete_DaemonSet cl d w = (r, w')" for d r
    by (rule interleaved_alone) (simp_all del: obj_key_simps add: cluster_moves_refl Delete_DaemonSet_frame [OF that] deletes_alone(2) [OF that])
  show "interleaved (cluster_moves ns nm) (obj_key (OConfigMap d)) (deleted lib r) (view w) (view w')"
    if "Delete_ConfigMap cl d w = (r, w')" for d r
    by (rule interleaved_alone) (simp_all del: obj_key_simps add: cluster_moves_refl Delete_ConfigMap_frame [OF that] deletes_alone(3) [OF that])
  show "interleaved (cluster_moves ns nm) (obj_key (OJob j)) (\<lambda>_ _. True) (view w) (view w')"
    if "Create_Job cl j w = (r, w')" for j r
    by (rule interleaved_alone) (simp_all del: obj_key_simps add: cluster_moves_refl Create_Job_frame [OF that])
  show "interleaved (cluster_moves ns nm) (obj_key (ONFD n)) (\<lambda>x y. y = x \<and> r \<noteq> None \<or> updated_cr n y) (view w) (view w')"
    if "Update_NFD cl n w = (r, n', w')" for n r n'
  proof (rule interleaved_alone)
    show "view w' (obj_key (ONFD n)) = view w (obj_key (ONFD n)) \<and> r \<noteq> None \<or>
        updated_cr n (view w' (obj_key (ONFD n)))"
      using that Update_NFD_stored [of n w n' w'] Update_NFD_failed [of n w _ n' w'] by (cases r) blast+
  qed (simp_all del: obj_key_simps add: cluster_moves_refl Update_NFD_frame [OF that])
  show "interleaved (cluster_moves ns nm) (obj_key (ONFD n)) status_only (view w) (view w')"
    if "StatusPatch_NFD cl n base w = (r, n', w')" for n base r n'
  proof (rule interleaved_alone)
    show "status_only (view w (obj_key (ONFD n))) (view w' (obj_key (ONFD n)))"
      unfolding status_only_def using StatusPatch_NFD_status_only [OF that] by blast
  qed (simp_all del: obj_key_simps add: cluster_moves_refl StatusPatch_NFD_frame [OF that])
  show "interleaved (cluster_moves ns nm) (obj_key (ODeployment d)) (\<lambda>_ _. True) (view w) (view w')"
    if "CreateOrPatch_Deployment lib cl d f w = (op, r, w')" for d f op r
    by (rule interleaved_alone) (simp_all del: obj_key_simps add: cluster_moves_refl CreateOrPatch_Deployment_frame [OF that])
  show "interleaved (cluster_moves ns nm) (obj_key (ODaemonSet d)) (\<lambda>_ _. True) (view w) (view w')"
    if "CreateOrPatch_DaemonSet lib cl d f w = (op, r, w')" for d f op r
    by (rule interleaved_alone) (simp_all del: obj_key_simps add: cluster_moves_refl CreateOrPatch_DaemonSet_frame [OF that])
  show "interleaved (cluster_moves ns nm) (obj_key (OConfigMap d)) (\<lambda>_ _. True) (view w) (view w')"
    if "CreateOrPatch_ConfigMap lib cl d f w = (op, r, w')" for d f op r
    by (rule interleaved_alone) (simp_all del: obj_key_simps add: cluster_moves_refl CreateOrPatch_ConfigMap_frame [OF that])
  show "obj_key x = k" if "view w k = Some x" for k x using that by (rule view_key)
qed

context api_server
begin

lemma operated_by_one: "operated_server lib cl view ns nm"
  by (rule operated.operated_server_axioms)

end

end
