(* ===== verification/Memory_Cluster.thy ===== *)
theory Memory_Cluster
  imports Cluster_Api
begin

text \<open>
  A cluster held in memory: a store, a clock and a set of objects whose requests fail. It is not
  translated from the repository. It shows that the laws of the locales of \<open>Cluster_Api\<close> can hold
  together, and it is the concrete world in which the theorems about the operator are exercised.
  It fills in defaults and a resource version when it stores an object, keeps an object with
  finalizers until they are removed, refuses to adopt an object that another owner controls, refuses a
  workload with a container that has no image, and does not let the selector of a workload change.
\<close>

datatype mem_error = NotFound | AlreadyExists | AlreadyOwned | Unavailable | Invalid

record mem =
  mem_store :: "cluster_key \<rightharpoonup> kobject"
  mem_clock :: int
  mem_down :: "cluster_key \<Rightarrow> bool"

definition empty_mem :: mem where
  "empty_mem = \<lparr>mem_store = Map.empty, mem_clock = 0, mem_down = (\<lambda>_. False)\<rparr>"

text \<open>An object stored under a key other than its own does not count.\<close>

definition mem_view :: "mem \<Rightarrow> cluster_key \<Rightarrow> kobject option" where
  "mem_view w k =
     (case mem_store w k of None \<Rightarrow> None | Some x \<Rightarrow> if obj_key x = k then Some x else None)"

definition mem_put :: "kobject \<Rightarrow> mem \<Rightarrow> mem" where
  "mem_put x w = w\<lparr>mem_store := (mem_store w)(obj_key x \<mapsto> x)\<rparr>"

definition mem_drop :: "cluster_key \<Rightarrow> mem \<Rightarrow> mem" where
  "mem_drop k w = w\<lparr>mem_store := (mem_store w)(k := None)\<rparr>"

fun with_meta :: "(ObjectMeta \<Rightarrow> ObjectMeta) \<Rightarrow> kobject \<Rightarrow> kobject" where
  "with_meta f (ODeployment d) = ODeployment (d\<lparr>dep_ObjectMeta := f (dep_ObjectMeta d)\<rparr>)"
| "with_meta f (ODaemonSet s) = ODaemonSet (s\<lparr>ds_ObjectMeta := f (ds_ObjectMeta s)\<rparr>)"
| "with_meta f (OConfigMap c) = OConfigMap (c\<lparr>cm_ObjectMeta := f (cm_ObjectMeta c)\<rparr>)"
| "with_meta f (OJob j) = OJob (j\<lparr>job_ObjectMeta := f (job_ObjectMeta j)\<rparr>)"
| "with_meta f (ONFD n) = ONFD (n\<lparr>nfd_ObjectMeta := f (nfd_ObjectMeta n)\<rparr>)"

fun defaulted :: "kobject \<Rightarrow> kobject" where
  "defaulted (ODeployment d) =
     ODeployment (d\<lparr>dep_Spec := (dep_Spec d)\<lparr>dps_RevisionHistoryLimit := Some 10\<rparr>\<rparr>)"
| "defaulted (OJob j) = OJob (j\<lparr>job_Spec := (job_Spec j)\<lparr>jsp_BackoffLimit := Some 6\<rparr>\<rparr>)"
| "defaulted x = x"

definition admitted :: "kobject \<Rightarrow> kobject" where
  "admitted x = with_meta (\<lambda>m. m\<lparr>om_ResourceVersion := ''1''\<rparr>) (defaulted x)"

definition mem_admits :: "kobject \<Rightarrow> kobject \<Rightarrow> bool" where
  "mem_admits x y \<longleftrightarrow> y = admitted x"

fun images_given :: "kobject \<Rightarrow> bool" where
  "images_given (ODeployment d) =
     list_all (\<lambda>c. ctr_Image c \<noteq> []) (pod_Containers (pts_Spec (dps_Template (dep_Spec d))))"
| "images_given (ODaemonSet s) =
     list_all (\<lambda>c. ctr_Image c \<noteq> []) (pod_Containers (pts_Spec (dss_Template (ds_Spec s))))"
| "images_given (OJob j) =
     list_all (\<lambda>c. ctr_Image c \<noteq> []) (pod_Containers (pts_Spec (jsp_Template (job_Spec j))))"
| "images_given _ = True"

fun selector_kept :: "kobject option \<Rightarrow> kobject \<Rightarrow> bool" where
  "selector_kept (Some (ODeployment a)) (ODeployment b) = (dps_Selector (dep_Spec a) = dps_Selector (dep_Spec b))"
| "selector_kept (Some (ODaemonSet a)) (ODaemonSet b) = (dss_Selector (ds_Spec a) = dss_Selector (ds_Spec b))"
| "selector_kept _ _ = True"

definition mem_accepts :: "kobject option \<Rightarrow> kobject \<Rightarrow> bool" where
  "mem_accepts x y \<longleftrightarrow> images_given y \<and> selector_kept x y"

lemma obj_meta_with_meta [simp]: "obj_meta (with_meta f x) = f (obj_meta x)"
  by (cases x) simp_all

lemma obj_kind_with_meta [simp]: "obj_kind (with_meta f x) = obj_kind x"
  by (cases x) simp_all

lemma defaulted_same [simp]: "obj_meta (defaulted x) = obj_meta x" "obj_kind (defaulted x) = obj_kind x"
  by (cases x; simp)+

lemma obj_key_admitted [simp]: "obj_key (admitted x) = obj_key x"
  by (simp add: obj_key_def admitted_def)

lemma mem_view_put [simp]: "mem_view (mem_put x w) = (mem_view w)(obj_key x \<mapsto> x)"
  by (auto simp: mem_view_def mem_put_def)

lemma mem_view_drop [simp]: "mem_view (mem_drop k w) = (mem_view w)(k := None)"
  by (auto simp: mem_view_def mem_drop_def)

lemma mem_view_key: "mem_view w k = Some x \<Longrightarrow> obj_key x = k"
  by (auto simp: mem_view_def split: option.splits if_splits)

section \<open>The client\<close>

definition mem_delete :: "cluster_key \<Rightarrow> mem \<Rightarrow> mem_error err \<times> mem" where
  "mem_delete k w =
     (if mem_down w k then (Some (External Unavailable), w)
      else case mem_view w k of
             None \<Rightarrow> (Some (External NotFound), w)
           | Some x \<Rightarrow>
               if om_Finalizers (obj_meta x) = [] then (None, mem_drop k w)
               else (None, mem_put (with_meta (\<lambda>m. m\<lparr>om_DeletionTimestamp := Some (mem_clock w)\<rparr>) x) w))"

definition mem_create :: "kobject \<Rightarrow> mem \<Rightarrow> mem_error err \<times> mem" where
  "mem_create x w =
     (if mem_down w (obj_key x) then (Some (External Unavailable), w)
      else if mem_view w (obj_key x) \<noteq> None then (Some (External AlreadyExists), w)
      else if \<not> mem_accepts None x then (Some (External Invalid), w)
      else (None, mem_put (admitted x) w))"

definition mem_update_cr ::
  "NodeFeatureDiscovery \<Rightarrow> mem \<Rightarrow> mem_error err \<times> NodeFeatureDiscovery \<times> mem" where
  "mem_update_cr n w =
     (let k = obj_key (ONFD n)
      in if mem_down w k then (Some (External Unavailable), n, w)
         else case mem_view w k of
                Some (ONFD n0) \<Rightarrow>
                  if om_DeletionTimestamp (nfd_ObjectMeta n) \<noteq> None \<and> om_Finalizers (nfd_ObjectMeta n) = []
                  then (None, n, mem_drop k w)
                  else (None, n, mem_put (admitted (ONFD (n\<lparr>nfd_Status := nfd_Status n0\<rparr>))) w)
              | _ \<Rightarrow> (Some (External NotFound), n, w))"

definition mem_patch_status ::
  "NodeFeatureDiscovery \<Rightarrow> NodeFeatureDiscovery \<Rightarrow> mem \<Rightarrow> mem_error err \<times> NodeFeatureDiscovery \<times> mem" where
  "mem_patch_status n base w =
     (let k = obj_key (ONFD n)
      in if mem_down w k then (Some (External Unavailable), n, w)
         else case mem_view w k of
                Some (ONFD n0) \<Rightarrow>
                  (None, n, mem_put (admitted (ONFD (n0\<lparr>nfd_Status := (nfd_Status n0)\<lparr>sts_Conditions :=
                     sts_Conditions (nfd_Status n)\<rparr>\<rparr>))) w)
              | _ \<Rightarrow> (Some (External NotFound), n, w))"

fun as_Deployment :: "kobject \<Rightarrow> Deployment option" where
  "as_Deployment (ODeployment d) = Some d" | "as_Deployment _ = None"

fun as_DaemonSet :: "kobject \<Rightarrow> DaemonSet option" where
  "as_DaemonSet (ODaemonSet s) = Some s" | "as_DaemonSet _ = None"

fun as_ConfigMap :: "kobject \<Rightarrow> ConfigMap option" where
  "as_ConfigMap (OConfigMap c) = Some c" | "as_ConfigMap _ = None"

fun as_Job :: "kobject \<Rightarrow> Job option" where
  "as_Job (OJob j) = Some j" | "as_Job _ = None"

definition mem_get ::
  "(kobject \<Rightarrow> 'o option) \<Rightarrow> cluster_key \<Rightarrow> 'o \<Rightarrow> mem \<Rightarrow> mem_error err \<times> 'o \<times> mem" where
  "mem_get as k x w =
     (if mem_down w k then (Some (External Unavailable), x, w)
      else case Option.bind (mem_view w k) as of
             None \<Rightarrow> (Some (External NotFound), x, w)
           | Some y \<Rightarrow> (None, y, w))"

definition mem_client :: "(mem, mem_error) client" where
  "mem_client =
     \<lparr>Get_Deployment = (\<lambda>(ns, n). mem_get as_Deployment (KDeployment, ns, n)),
      Get_DaemonSet = (\<lambda>(ns, n). mem_get as_DaemonSet (KDaemonSet, ns, n)),
      Get_Job = (\<lambda>(ns, n). mem_get as_Job (KJob, ns, n)),
      Delete_Deployment = (\<lambda>d. mem_delete (obj_key (ODeployment d))),
      Delete_DaemonSet = (\<lambda>s. mem_delete (obj_key (ODaemonSet s))),
      Delete_ConfigMap = (\<lambda>c. mem_delete (obj_key (OConfigMap c))),
      Create_Job = (\<lambda>j. mem_create (OJob j)),
      Update_NFD = mem_update_cr,
      StatusPatch_NFD = mem_patch_status\<rparr>"

section \<open>The libraries\<close>

definition mem_create_or_patch ::
  "('o \<Rightarrow> kobject) \<Rightarrow> (kobject \<Rightarrow> 'o option) \<Rightarrow> 'o \<Rightarrow> ('o \<Rightarrow> mem_error err \<times> 'o) \<Rightarrow> mem \<Rightarrow>
     string \<times> mem_error err \<times> mem" where
  "mem_create_or_patch mk as x f w =
     (let k = obj_key (mk x)
      in if mem_down w k then (''unchanged'', Some (External Unavailable), w)
         else case Option.bind (mem_view w k) as of
                None \<Rightarrow>
                  (case f x of
                     (Some e, _) \<Rightarrow> (''unchanged'', Some e, w)
                   | (None, y) \<Rightarrow>
                       if obj_key (mk y) \<noteq> k
                       then (''unchanged'', Some (Errorf ''MutateFn cannot mutate object name''), w)
                       else if \<not> mem_accepts None (mk y) then (''unchanged'', Some (External Invalid), w)
                       else (''created'', None, mem_put (admitted (mk y)) w))
              | Some b \<Rightarrow>
                  (case f b of
                     (Some e, _) \<Rightarrow> (''unchanged'', Some e, w)
                   | (None, y) \<Rightarrow>
                       if obj_key (mk y) \<noteq> k
                       then (''unchanged'', Some (Errorf ''MutateFn cannot mutate object name''), w)
                       else if \<not> mem_accepts (Some (mk b)) (mk y) then (''unchanged'', Some (External Invalid), w)
                       else (''updated'', None, mem_put (admitted (mk y)) w)))"

primrec mem_IsNotFound :: "mem_error goerror \<Rightarrow> bool" where
  "mem_IsNotFound (External e) = (e = NotFound)"
| "mem_IsNotFound (Errorf m) = False"
| "mem_IsNotFound (Wrapf m e) = mem_IsNotFound e"
| "mem_IsNotFound (JoinError es) = list_ex id (map mem_IsNotFound es)"

fun mem_error_text :: "mem_error \<Rightarrow> string" where
  "mem_error_text NotFound = ''not found''"
| "mem_error_text AlreadyExists = ''already exists''"
| "mem_error_text AlreadyOwned = ''already owned by another controller''"
| "mem_error_text Unavailable = ''unavailable''"
| "mem_error_text Invalid = ''invalid''"

definition is_controller :: "OwnerReference \<Rightarrow> bool" where
  "is_controller r \<longleftrightarrow> or_Controller r = Some True"

definition mem_SetControllerReference ::
  "NodeFeatureDiscovery \<Rightarrow> ObjectMeta \<Rightarrow> unit \<Rightarrow> mem_error err \<times> ObjectMeta" where
  "mem_SetControllerReference owner om scheme =
     (let uid = om_UID (nfd_ObjectMeta owner);
          ref = \<lparr>or_APIVersion = ''nfd.kubernetes.io/v1'', or_Kind = nfd_kind, or_Name = nfd_Name owner,
                 or_UID = uid, or_Controller = Some True, or_BlockOwnerDeletion = Some True\<rparr>
      in if om_Namespace om \<noteq> nfd_Namespace owner \<or>
            (case List.find is_controller (om_OwnerReferences om) of
               None \<Rightarrow> False | Some r \<Rightarrow> or_UID r \<noteq> uid)
         then (Some (External AlreadyOwned), om)
         else (None, om\<lparr>om_OwnerReferences :=
                 ref # filter (\<lambda>r. or_UID r \<noteq> uid) (om_OwnerReferences om)\<rparr>))"

definition mem_lib :: "(mem, mem_error, unit) machinery" where
  "mem_lib =
     \<lparr>CreateOrPatch_Deployment = (\<lambda>_. mem_create_or_patch ODeployment as_Deployment),
      CreateOrPatch_DaemonSet = (\<lambda>_. mem_create_or_patch ODaemonSet as_DaemonSet),
      CreateOrPatch_ConfigMap = (\<lambda>_. mem_create_or_patch OConfigMap as_ConfigMap),
      SetControllerReference = mem_SetControllerReference,
      ContainsFinalizer = (\<lambda>om f. f \<in> set (om_Finalizers om)),
      RemoveFinalizer = (\<lambda>om f. (f \<in> set (om_Finalizers om),
        om\<lparr>om_Finalizers := removeAll f (om_Finalizers om)\<rparr>)),
      IsNotFound = mem_IsNotFound,
      IgnoreNotFound = (\<lambda>e. case e of None \<Rightarrow> None | Some x \<Rightarrow> if mem_IsNotFound x then None else Some x),
      FindStatusCondition = (\<lambda>cs t. List.find (\<lambda>c. cond_Type c = t) cs),
      GetControllerOf = (\<lambda>om. List.find is_controller (om_OwnerReferences om)),
      external_text = mem_error_text,
      time_Now = (\<lambda>w. (mem_clock w, w\<lparr>mem_clock := mem_clock w + 1\<rparr>))\<rparr>"

section \<open>The laws hold\<close>

lemma mem_SetControllerReference_ok:
  assumes "mem_SetControllerReference owner om sc = (None, om')"
  shows "\<exists>refs r. om' = om\<lparr>om_OwnerReferences := refs\<rparr> \<and>
    List.find is_controller (om_OwnerReferences om') = Some r \<and> controlled_by owner r"
  using assms
  by (auto simp: mem_SetControllerReference_def Let_def controlled_by_def is_controller_def
      split: if_splits)

lemma mem_SetControllerReference_adopts:
  assumes "om_Namespace om = nfd_Namespace owner"
    and "case List.find is_controller (om_OwnerReferences om) of None \<Rightarrow> True
      | Some r \<Rightarrow> controlled_by owner r"
  shows "fst (mem_SetControllerReference owner om sc) = None"
  using assms
  by (auto simp: mem_SetControllerReference_def Let_def controlled_by_def split: option.splits)

lemma find_controller_None: "List.find (\<lambda>c. cond_Type c = t) cs = None \<longleftrightarrow> (\<forall>c \<in> set cs. cond_Type c \<noteq> t)"
  by (auto simp: find_None_iff)

lemma mem_get_view: "mem_get as k x w = (r, y, w') \<Longrightarrow> w' = w"
  by (auto simp: mem_get_def split: if_splits option.splits)

lemma mem_get_ok: "mem_get as k x w = (None, y, w') \<Longrightarrow> Option.bind (mem_view w k) as = Some y"
  by (auto simp: mem_get_def split: if_splits option.splits)

lemma mem_get_absent:
  "mem_get as k x w = (Some e, y, w') \<Longrightarrow> mem_IsNotFound e \<Longrightarrow> Option.bind (mem_view w k) as = None"
  by (auto simp: mem_get_def split: if_splits option.splits)

text \<open>An object under the key of its kind has the form of its kind.\<close>

lemma as_kind:
  "mem_view w (KDeployment, ns, n) = Some x \<Longrightarrow> \<exists>d. x = ODeployment d"
  "mem_view w (KDaemonSet, ns, n) = Some x \<Longrightarrow> \<exists>s. x = ODaemonSet s"
  "mem_view w (KConfigMap, ns, n) = Some x \<Longrightarrow> \<exists>c. x = OConfigMap c"
  "mem_view w (KJob, ns, n) = Some x \<Longrightarrow> \<exists>j. x = OJob j"
  "mem_view w (KNFD, ns, n) = Some x \<Longrightarrow> \<exists>m. x = ONFD m"
  by (cases x; auto dest!: mem_view_key)+

lemma as_Some:
  "as_Deployment x = Some d \<longleftrightarrow> x = ODeployment d"
  "as_DaemonSet x = Some s \<longleftrightarrow> x = ODaemonSet s"
  "as_ConfigMap x = Some c \<longleftrightarrow> x = OConfigMap c"
  "as_Job x = Some j \<longleftrightarrow> x = OJob j"
  by (cases x; auto)+

lemma mem_get_kind:
  "Option.bind (mem_view w (KDeployment, ns, n)) as_Deployment = Some d \<longleftrightarrow>
     mem_view w (KDeployment, ns, n) = Some (ODeployment d)"
  "Option.bind (mem_view w (KDaemonSet, ns, n)) as_DaemonSet = Some s \<longleftrightarrow>
     mem_view w (KDaemonSet, ns, n) = Some (ODaemonSet s)"
  "Option.bind (mem_view w (KConfigMap, ns, n)) as_ConfigMap = Some c \<longleftrightarrow>
     mem_view w (KConfigMap, ns, n) = Some (OConfigMap c)"
  "Option.bind (mem_view w (KJob, ns, n)) as_Job = Some j \<longleftrightarrow>
     mem_view w (KJob, ns, n) = Some (OJob j)"
  by (auto simp: bind_eq_Some_conv as_Some)

lemma mem_get_kind_None:
  "Option.bind (mem_view w (KDeployment, ns, n)) as_Deployment = None \<longleftrightarrow>
     mem_view w (KDeployment, ns, n) = None"
  "Option.bind (mem_view w (KDaemonSet, ns, n)) as_DaemonSet = None \<longleftrightarrow>
     mem_view w (KDaemonSet, ns, n) = None"
  "Option.bind (mem_view w (KConfigMap, ns, n)) as_ConfigMap = None \<longleftrightarrow>
     mem_view w (KConfigMap, ns, n) = None"
  "Option.bind (mem_view w (KJob, ns, n)) as_Job = None \<longleftrightarrow>
     mem_view w (KJob, ns, n) = None"
  by (cases "mem_view w (KDeployment, ns, n)"; cases "mem_view w (KDaemonSet, ns, n)";
      cases "mem_view w (KConfigMap, ns, n)"; cases "mem_view w (KJob, ns, n)"; auto dest: as_kind)+

lemma mem_delete_ok: "mem_delete k w = (None, w') \<Longrightarrow> gone (mem_view w' k)"
  using mem_view_key [of w k]
  by (auto simp: mem_delete_def gone_def obj_key_def split: if_splits option.splits)

lemma mem_delete_absent:
  "mem_delete k w = (Some e, w') \<Longrightarrow> mem_IsNotFound e \<Longrightarrow> mem_view w' k = None"
  by (auto simp: mem_delete_def split: if_splits option.splits)

lemma mem_delete_frame:
  assumes "mem_delete k w = (r, w')" and "k' \<noteq> k"
  shows "mem_view w' k' = mem_view w k'"
proof -
  have "obj_key (with_meta f x) = obj_key x"
    if "mem_view w k = Some x" "f = om_DeletionTimestamp_update u" for f u x
    using that by (simp add: obj_key_def)
  with assms show ?thesis
    using mem_view_key [of w k] by (auto simp: mem_delete_def split: if_splits option.splits)
qed

lemma mem_delete_stays_gone:
  assumes "mem_delete k w = (r, w')" and "gone (mem_view w k)"
  shows "gone (mem_view w' k)"
  using assms mem_view_key [of w k]
  by (auto simp: mem_delete_def gone_def obj_key_def split: if_splits option.splits)

text \<open>One lemma for the three create-or-patch calls.\<close>

lemma mem_create_or_patch_ok:
  assumes call: "mem_create_or_patch mk as x f w = (op, None, w')"
    and as: "\<And>b. Option.bind (mem_view w (obj_key (mk x))) as = Some b \<longleftrightarrow>
      mem_view w (obj_key (mk x)) = Some (mk b)"
    and absent: "Option.bind (mem_view w (obj_key (mk x))) as = None \<longleftrightarrow>
      mem_view w (obj_key (mk x)) = None"
  shows "\<exists>b y z. (case mem_view w (obj_key (mk x)) of None \<Rightarrow> b = x | Some v \<Rightarrow> v = mk b) \<and>
    f b = (None, y) \<and> mem_admits (mk y) z \<and> mem_view w' (obj_key (mk x)) = Some z"
proof (cases "Option.bind (mem_view w (obj_key (mk x))) as")
  case None
  with absent have v: "mem_view w (obj_key (mk x)) = None" by blast
  from call None show ?thesis
    by (simp add: v mem_create_or_patch_def Let_def mem_admits_def
        split: if_splits prod.splits option.splits) force
next
  case (Some b)
  with as have v: "mem_view w (obj_key (mk x)) = Some (mk b)" by blast
  from call Some show ?thesis
    by (simp add: v mem_create_or_patch_def Let_def mem_admits_def
        split: if_splits prod.splits option.splits) force
qed

lemma mem_create_or_patch_frame:
  "mem_create_or_patch mk as x f w = (op, r, w') \<Longrightarrow> k \<noteq> obj_key (mk x) \<Longrightarrow>
     mem_view w' k = mem_view w k"
  by (auto simp: mem_create_or_patch_def Let_def split: if_splits prod.splits option.splits)

lemma mem_create_frame:
  "mem_create x w = (r, w') \<Longrightarrow> k \<noteq> obj_key x \<Longrightarrow> mem_view w' k = mem_view w k"
  by (auto simp: mem_create_def split: if_splits)

lemma mem_create_ok:
  "mem_create x w = (None, w') \<Longrightarrow> mem_view w' = (mem_view w)(obj_key x \<mapsto> admitted x)"
  by (auto simp: mem_create_def split: if_splits)

lemma mem_update_cr_frame:
  "mem_update_cr n w = (r, n', w') \<Longrightarrow> k \<noteq> obj_key (ONFD n) \<Longrightarrow> mem_view w' k = mem_view w k"
  by (auto simp: mem_update_cr_def Let_def split: if_splits option.splits kobject.splits)

lemma mem_update_cr_ok:
  "mem_update_cr n w = (None, n', w') \<Longrightarrow> updated_cr n (mem_view w' (obj_key (ONFD n)))"
  by (auto simp: mem_update_cr_def Let_def admitted_def updated_cr_def
      split: if_splits option.splits kobject.splits)

lemma mem_update_cr_failed:
  "mem_update_cr n w = (Some e, n', w') \<Longrightarrow> mem_view w' k = mem_view w k"
  by (auto simp: mem_update_cr_def Let_def split: if_splits option.splits kobject.splits)

lemma mem_patch_status_frame:
  assumes "mem_patch_status n base w = (r, n', w')" and "k \<noteq> obj_key (ONFD n)"
  shows "mem_view w' k = mem_view w k"
  using assms mem_view_key [of w "obj_key (ONFD n)"]
  by (auto simp: mem_patch_status_def Let_def split: if_splits option.splits kobject.splits)

lemma mem_patch_status_only:
  assumes "mem_patch_status n base w = (r, n', w')"
    and "mem_view w (obj_key (ONFD n)) = Some (ONFD n0)"
  shows "\<exists>m. mem_view w' (obj_key (ONFD n)) = Some (ONFD m) \<and> nfd_Spec m = nfd_Spec n0 \<and>
    om_UID (nfd_ObjectMeta m) = om_UID (nfd_ObjectMeta n0) \<and>
    om_DeletionTimestamp (nfd_ObjectMeta m) = om_DeletionTimestamp (nfd_ObjectMeta n0) \<and>
    om_Finalizers (nfd_ObjectMeta m) = om_Finalizers (nfd_ObjectMeta n0)"
  using assms mem_view_key [OF assms(2)]
  by (auto simp: mem_patch_status_def Let_def admitted_def split: if_splits)

lemma mem_patch_status_ok:
  assumes "mem_patch_status n base w = (None, n', w')"
  shows "\<exists>n0 y. mem_view w (obj_key (ONFD n)) = Some (ONFD n0) \<and>
    mem_admits (ONFD (n0\<lparr>nfd_Status := (nfd_Status n0)\<lparr>sts_Conditions :=
      sts_Conditions (nfd_Status n)\<rparr>\<rparr>)) y \<and> mem_view w' (obj_key (ONFD n)) = Some y"
  using assms mem_view_key [of w "obj_key (ONFD n)"]
  by (auto simp: mem_patch_status_def Let_def mem_admits_def
      split: if_splits option.splits kobject.splits)

lemmas mem_client_sel = mem_client_def client.simps prod.case
lemmas mem_lib_sel = mem_lib_def machinery.simps

interpretation mem: machinery_laws mem_lib
proof
  show "\<And>owner om s om'. SetControllerReference mem_lib owner om s = (None, om') \<Longrightarrow>
      \<exists>refs r. om' = om\<lparr>om_OwnerReferences := refs\<rparr> \<and> GetControllerOf mem_lib om' = Some r \<and>
        controlled_by owner r"
    unfolding mem_lib_sel by (rule mem_SetControllerReference_ok)
qed (auto simp: mem_lib_sel find_controller_None find_Some_iff split: option.splits)

lemma mem_admits_facts:
  "mem_admits x y \<Longrightarrow> obj_key y = obj_key x"
  "mem_admits x y \<Longrightarrow>
     \<exists>u v. obj_meta y = (obj_meta x)\<lparr>om_UID := u, om_ResourceVersion := v\<rparr>"
  "mem_admits (OConfigMap c) (OConfigMap c') \<Longrightarrow> cm_Data c' = cm_Data c"
  "mem_admits (ONFD n) (ONFD n') \<Longrightarrow> nfd_Spec n' = nfd_Spec n \<and> nfd_Status n' = nfd_Status n"
  by (simp_all add: mem_admits_def admitted_def obj_key_def)
    (rule exI [of _ "om_UID (obj_meta x)"], rule exI [of _ "''1''"], simp)

interpretation mem: api_server mem_lib mem_client mem_view mem_admits
proof
  show "mem_view w' = mem_view w" if "time_Now mem_lib w = (t, w')" for w t w'
    using that by (auto simp: mem_lib_sel mem_view_def)
next
  show "mem_view w' k = mem_view w k"
    if "Create_Job mem_client j w = (r, w')" "k \<noteq> obj_key (OJob j)" for j w r w' k
    using that by (simp add: mem_client_sel mem_create_frame)
next
  show "\<exists>n0 y. mem_view w (obj_key (ONFD n)) = Some (ONFD n0) \<and>
      mem_admits (ONFD (n0\<lparr>nfd_Status := (nfd_Status n0)\<lparr>sts_Conditions :=
        sts_Conditions (nfd_Status n)\<rparr>\<rparr>)) y \<and> mem_view w' (obj_key (ONFD n)) = Some y"
    if "StatusPatch_NFD mem_client n base w = (None, n', w')" for n base w n' w'
    using that by (simp only: mem_client_sel) (rule mem_patch_status_ok)
next
  fix d :: Deployment and f op w w'
  assume call: "CreateOrPatch_Deployment mem_lib mem_client d f w = (op, None, w')"
  then show "\<exists>b d' y. (case mem_view w (obj_key (ODeployment d)) of None \<Rightarrow> b = d
      | Some x \<Rightarrow> x = ODeployment b) \<and> f b = (None, d') \<and> mem_admits (ODeployment d') y \<and>
      mem_view w' (obj_key (ODeployment d)) = Some y"
    using mem_create_or_patch_ok [of ODeployment as_Deployment d f w op w']
    by (simp add: mem_lib_sel mem_get_kind mem_get_kind_None)
next
  fix s :: DaemonSet and g op w w'
  assume call: "CreateOrPatch_DaemonSet mem_lib mem_client s g w = (op, None, w')"
  then show "\<exists>b s' y. (case mem_view w (obj_key (ODaemonSet s)) of None \<Rightarrow> b = s
      | Some x \<Rightarrow> x = ODaemonSet b) \<and> g b = (None, s') \<and> mem_admits (ODaemonSet s') y \<and>
      mem_view w' (obj_key (ODaemonSet s)) = Some y"
    using mem_create_or_patch_ok [of ODaemonSet as_DaemonSet s g w op w']
    by (simp add: mem_lib_sel mem_get_kind mem_get_kind_None)
next
  fix c :: ConfigMap and h op w w'
  assume call: "CreateOrPatch_ConfigMap mem_lib mem_client c h w = (op, None, w')"
  then show "\<exists>b c' y. (case mem_view w (obj_key (OConfigMap c)) of None \<Rightarrow> b = c
      | Some x \<Rightarrow> x = OConfigMap b) \<and> h b = (None, c') \<and> mem_admits (OConfigMap c') y \<and>
      mem_view w' (obj_key (OConfigMap c)) = Some y"
    using mem_create_or_patch_ok [of OConfigMap as_ConfigMap c h w op w']
    by (simp add: mem_lib_sel mem_get_kind mem_get_kind_None)
qed (auto simp only: mem_lib_sel mem_client_sel mem_view_key mem_admits_facts mem_admits_def
      mem_get_kind mem_get_kind_None
      intro: mem_delete_ok mem_delete_absent mem_delete_stays_gone mem_patch_status_only mem_delete_frame mem_create_ok mem_create_or_patch_frame
        mem_update_cr_frame mem_patch_status_frame
      dest: mem_get_view mem_get_ok mem_get_absent mem_update_cr_ok mem_update_cr_failed)

section \<open>A cluster without faults\<close>

definition mem_calm :: "mem \<Rightarrow> bool" where
  "mem_calm w \<longleftrightarrow> mem_down w = (\<lambda>_. False)"

lemma mem_down_put [simp]: "mem_down (mem_put x w) = mem_down w" "mem_down (mem_drop k w) = mem_down w"
  by (simp_all add: mem_put_def mem_drop_def)

lemma mem_calm_get:
  "mem_calm w \<Longrightarrow> mem_get as k x w = (r, y, w') \<Longrightarrow>
     mem_calm w' \<and> (\<forall>e. r = Some e \<longrightarrow> mem_IsNotFound e)"
  by (auto simp: mem_calm_def mem_get_def split: option.splits)

lemma mem_calm_delete:
  "mem_calm w \<Longrightarrow> mem_delete k w = (r, w') \<Longrightarrow>
     mem_calm w' \<and> (\<forall>e. r = Some e \<longrightarrow> mem_IsNotFound e)"
  by (auto simp: mem_calm_def mem_delete_def split: option.splits if_splits)

lemma mem_calm_create:
  "mem_calm w \<Longrightarrow> mem_create x w = (r, w') \<Longrightarrow>
     mem_calm w' \<and> (mem_view w (obj_key x) = None \<longrightarrow> mem_accepts None x \<longrightarrow> r = None)"
  by (auto simp: mem_calm_def mem_create_def split: if_splits)

lemma mem_calm_update:
  assumes "mem_calm w" and "mem_update_cr n w = (r, n', w')"
  shows "mem_calm w' \<and> (\<forall>n0. mem_view w (obj_key (ONFD n)) = Some (ONFD n0) \<longrightarrow>
    om_ResourceVersion (nfd_ObjectMeta n) = om_ResourceVersion (nfd_ObjectMeta n0) \<longrightarrow> r = None)"
  using assms by (auto simp: mem_calm_def mem_update_cr_def Let_def
      split: if_splits option.splits kobject.splits)

lemma mem_calm_patch:
  assumes "mem_calm w" and "mem_patch_status n base w = (r, n', w')"
  shows "mem_calm w' \<and> (mem_view w (obj_key (ONFD n)) \<noteq> None \<longrightarrow> r = None)"
proof (cases "mem_view w (obj_key (ONFD n))")
  case None
  with assms show ?thesis by (auto simp: mem_calm_def mem_patch_status_def)
next
  case (Some x)
  then have "mem_view w (KNFD, nfd_Namespace n, nfd_Name n) = Some x" by simp
  then obtain m where "x = ONFD m" using as_kind(5) by blast
  with Some assms show ?thesis by (auto simp: mem_calm_def mem_patch_status_def)
qed

lemma mem_calm_create_or_patch:
  assumes calm: "mem_calm w" and call: "mem_create_or_patch mk as x f w = (op, r, w')"
    and as: "\<And>b. Option.bind (mem_view w (obj_key (mk x))) as = Some b \<longleftrightarrow>
      mem_view w (obj_key (mk x)) = Some (mk b)"
    and absent: "Option.bind (mem_view w (obj_key (mk x))) as = None \<longleftrightarrow>
      mem_view w (obj_key (mk x)) = None"
  shows "mem_calm w' \<and> ((\<forall>b. (case mem_view w (obj_key (mk x)) of None \<Rightarrow> b = x | Some y \<Rightarrow> y = mk b) \<longrightarrow>
    fst (f b) = None \<and> obj_key (mk (snd (f b))) = obj_key (mk x) \<and>
    mem_accepts (mem_view w (obj_key (mk x))) (mk (snd (f b)))) \<longrightarrow> r = None)"
proof (cases "Option.bind (mem_view w (obj_key (mk x))) as")
  case None
  with absent have v: "mem_view w (obj_key (mk x)) = None" by blast
  from call calm None show ?thesis
    by (cases "f x") (auto simp: v mem_calm_def mem_create_or_patch_def Let_def split: option.splits if_splits)
next
  case (Some b)
  with as have v: "mem_view w (obj_key (mk x)) = Some (mk b)" by blast
  from call calm Some show ?thesis
    by (cases "f b") (auto simp: v mem_calm_def mem_create_or_patch_def Let_def split: option.splits if_splits)
qed

interpretation mem: calm_server mem_lib mem_client mem_view mem_admits mem_accepts mem_calm
proof
  show "fst (SetControllerReference mem_lib owner om s) = None"
    if "adoptable mem_lib owner om" for owner om s
    using that unfolding adoptable_def mem_lib_sel
    by (intro mem_SetControllerReference_adopts) simp_all
next
  show "GetControllerOf mem_lib om = None" if "om_OwnerReferences om = []" for om
    using that by (simp add: mem_lib_sel)
next
  show "mem_calm w'" if "mem_calm w" "time_Now mem_lib w = (t, w')" for w t w'
    using that by (auto simp: mem_lib_sel mem_calm_def)
next
  show "mem_calm w' \<and> (mem_view w (obj_key (OJob j)) = None \<longrightarrow> mem_accepts None (OJob j) \<longrightarrow> r = None)"
    if "mem_calm w" "Create_Job mem_client j w = (r, w')" for w j r w'
    using that by (simp add: mem_client_sel mem_calm_create)
next
  fix w n r n' w' assume "mem_calm w" "Update_NFD mem_client n w = (r, n', w')"
  then show "mem_calm w' \<and> (\<forall>n0. mem_view w (obj_key (ONFD n)) = Some (ONFD n0) \<longrightarrow>
      om_ResourceVersion (nfd_ObjectMeta n) = om_ResourceVersion (nfd_ObjectMeta n0) \<longrightarrow> r = None)"
    unfolding mem_client_sel by (rule mem_calm_update)
next
  show "mem_calm w' \<and> (mem_view w (obj_key (ONFD n)) \<noteq> None \<longrightarrow> r = None)"
    if "mem_calm w" "StatusPatch_NFD mem_client n base w = (r, n', w')" for w n base r n' w'
    using that unfolding mem_client_sel by (rule mem_calm_patch)
next
  fix d :: Deployment and f op r w w'
  assume "mem_calm w" "CreateOrPatch_Deployment mem_lib mem_client d f w = (op, r, w')"
  then show "mem_calm w' \<and> ((\<forall>b. (case mem_view w (obj_key (ODeployment d)) of None \<Rightarrow> b = d
      | Some x \<Rightarrow> x = ODeployment b) \<longrightarrow> fst (f b) = None \<and>
      obj_key (ODeployment (snd (f b))) = obj_key (ODeployment d) \<and>
      mem_accepts (mem_view w (obj_key (ODeployment d))) (ODeployment (snd (f b)))) \<longrightarrow> r = None)"
    unfolding mem_lib_sel
    by (rule mem_calm_create_or_patch) (simp_all add: mem_get_kind mem_get_kind_None)
next
  fix d :: DaemonSet and f op r w w'
  assume "mem_calm w" "CreateOrPatch_DaemonSet mem_lib mem_client d f w = (op, r, w')"
  then show "mem_calm w' \<and> ((\<forall>b. (case mem_view w (obj_key (ODaemonSet d)) of None \<Rightarrow> b = d
      | Some x \<Rightarrow> x = ODaemonSet b) \<longrightarrow> fst (f b) = None \<and>
      obj_key (ODaemonSet (snd (f b))) = obj_key (ODaemonSet d) \<and>
      mem_accepts (mem_view w (obj_key (ODaemonSet d))) (ODaemonSet (snd (f b)))) \<longrightarrow> r = None)"
    unfolding mem_lib_sel
    by (rule mem_calm_create_or_patch) (simp_all add: mem_get_kind mem_get_kind_None)
next
  fix d :: ConfigMap and f op r w w'
  assume "mem_calm w" "CreateOrPatch_ConfigMap mem_lib mem_client d f w = (op, r, w')"
  then show "mem_calm w' \<and> ((\<forall>b. (case mem_view w (obj_key (OConfigMap d)) of None \<Rightarrow> b = d
      | Some x \<Rightarrow> x = OConfigMap b) \<longrightarrow> fst (f b) = None \<and>
      obj_key (OConfigMap (snd (f b))) = obj_key (OConfigMap d) \<and>
      mem_accepts (mem_view w (obj_key (OConfigMap d))) (OConfigMap (snd (f b)))) \<longrightarrow> r = None)"
    unfolding mem_lib_sel
    by (rule mem_calm_create_or_patch) (simp_all add: mem_get_kind mem_get_kind_None)
qed (auto simp only: mem_lib_sel mem_client_sel split: prod.splits
      dest: mem_calm_get mem_calm_delete)

section \<open>A cluster that comes to rest\<close>

lemma mem_SetControllerReference_again:
  assumes "mem_SetControllerReference owner om sc = (None, om')"
    and "om_OwnerReferences om'' = om_OwnerReferences om'" and "om_Namespace om'' = om_Namespace om'"
  shows "mem_SetControllerReference owner om'' sc = (None, om'')"
  using assms
  by (cases om'') (auto simp: mem_SetControllerReference_def Let_def is_controller_def split: if_splits)

lemma mem_create_or_patch_same:
  assumes calm: "mem_calm w" and b: "mem_view w (obj_key (mk x)) = Some (mk b)"
    and as: "Option.bind (mem_view w (obj_key (mk x))) as = Some b"
    and f: "f b = (None, y)" "mem_admits (mk y) (mk b)"
    and call: "mem_create_or_patch mk as x f w = (op, r, w')"
  shows "mem_view w' = mem_view w"
proof -
  from f(2) have adm: "admitted (mk y) = mk b" by (simp add: mem_admits_def)
  then have "obj_key (mk y) = obj_key (mk b)" by (metis obj_key_admitted)
  also have "\<dots> = obj_key (mk x)" by (rule mem_view_key [OF b])
  finally have key: "obj_key (mk y) = obj_key (mk x)" .
  with calm as f(1) call have "w' = w \<or> w' = mem_put (mk b) w"
    by (auto simp: mem_calm_def mem_create_or_patch_def adm split: if_splits)
  with b mem_view_key [OF b] show ?thesis by (auto simp: fun_upd_idem)
qed

lemma mem_admits_again:
  "mem_admits (ODeployment d) (ODeployment y) \<Longrightarrow>
     mem_admits (ODeployment (y\<lparr>dep_Spec := dep_Spec d\<rparr>)) (ODeployment y)"
  "mem_admits (ODaemonSet s) (ODaemonSet y') \<Longrightarrow>
     mem_admits (ODaemonSet (y'\<lparr>ds_Spec := ds_Spec s\<rparr>)) (ODaemonSet y')"
  "mem_admits (OConfigMap c) (OConfigMap y'') \<Longrightarrow>
     mem_admits (OConfigMap (y''\<lparr>cm_Data := cm_Data c\<rparr>)) (OConfigMap y'')"
  by (simp_all add: mem_admits_def admitted_def)

interpretation mem: settled_server mem_lib mem_client mem_view mem_admits mem_accepts mem_calm
proof
  show "SetControllerReference mem_lib n = SetControllerReference mem_lib cr"
    if "nfd_Namespace n = nfd_Namespace cr" "nfd_Name n = nfd_Name cr"
      "om_UID (nfd_ObjectMeta n) = om_UID (nfd_ObjectMeta cr)" for n cr
    unfolding mem_lib_sel by (intro ext) (simp only: mem_SetControllerReference_def that)
next
  show "SetControllerReference mem_lib owner om'' s = (None, om'')"
    if "SetControllerReference mem_lib owner om s = (None, om')"
      "om_OwnerReferences om'' = om_OwnerReferences om'" "om_Namespace om'' = om_Namespace om'"
    for owner om s om' om''
    using that unfolding mem_lib_sel by (rule mem_SetControllerReference_again)
next
  fix d b :: Deployment and f d' op r w w'
  assume "mem_calm w" and b: "mem_view w (obj_key (ODeployment d)) = Some (ODeployment b)"
    and "f b = (None, d')" "mem_admits (ODeployment d') (ODeployment b)"
    and "CreateOrPatch_Deployment mem_lib mem_client d f w = (op, r, w')"
  then show "mem_view w' = mem_view w"
    unfolding mem_lib_sel by (intro mem_create_or_patch_same [where mk = ODeployment]) (simp_all add: mem_get_kind)
next
  fix d b :: DaemonSet and f d' op r w w'
  assume "mem_calm w" and b: "mem_view w (obj_key (ODaemonSet d)) = Some (ODaemonSet b)"
    and "f b = (None, d')" "mem_admits (ODaemonSet d') (ODaemonSet b)"
    and "CreateOrPatch_DaemonSet mem_lib mem_client d f w = (op, r, w')"
  then show "mem_view w' = mem_view w"
    unfolding mem_lib_sel by (intro mem_create_or_patch_same [where mk = ODaemonSet]) (simp_all add: mem_get_kind)
next
  fix d b :: ConfigMap and f d' op r w w'
  assume "mem_calm w" and b: "mem_view w (obj_key (OConfigMap d)) = Some (OConfigMap b)"
    and "f b = (None, d')" "mem_admits (OConfigMap d') (OConfigMap b)"
    and "CreateOrPatch_ConfigMap mem_lib mem_client d f w = (op, r, w')"
  then show "mem_view w' = mem_view w"
    unfolding mem_lib_sel by (intro mem_create_or_patch_same [where mk = OConfigMap]) (simp_all add: mem_get_kind)
qed (rule mem_admits_again; assumption)+

section \<open>A cluster with several owners\<close>

lemma mem_create_or_patch_refused:
  assumes "Option.bind (mem_view w (obj_key (mk x))) as = Some b" and "fst (f b) \<noteq> None"
    and "mem_create_or_patch mk as x f w = (op, r, w')"
  shows "r \<noteq> None \<and> mem_view w' = mem_view w"
  using assms by (cases "f b") (auto simp: mem_create_or_patch_def Let_def split: if_splits option.splits)

interpretation mem: contested_server mem_lib mem_client mem_view mem_admits mem_accepts mem_calm
proof
  show "fst (SetControllerReference mem_lib owner om s) \<noteq> None"
    if "GetControllerOf mem_lib om = Some r" "or_UID r \<noteq> om_UID (nfd_ObjectMeta owner)" for om r owner s
    using that by (simp add: mem_lib_sel mem_SetControllerReference_def Let_def)
next
  fix d b :: Deployment and f op r w w'
  assume "mem_view w (obj_key (ODeployment d)) = Some (ODeployment b)" "fst (f b) \<noteq> None"
    and "CreateOrPatch_Deployment mem_lib mem_client d f w = (op, r, w')"
  then show "r \<noteq> None \<and> mem_view w' = mem_view w"
    unfolding mem_lib_sel by (intro mem_create_or_patch_refused [where mk = ODeployment]) simp_all
next
  fix d b :: DaemonSet and f op r w w'
  assume "mem_view w (obj_key (ODaemonSet d)) = Some (ODaemonSet b)" "fst (f b) \<noteq> None"
    and "CreateOrPatch_DaemonSet mem_lib mem_client d f w = (op, r, w')"
  then show "r \<noteq> None \<and> mem_view w' = mem_view w"
    unfolding mem_lib_sel by (intro mem_create_or_patch_refused [where mk = ODaemonSet]) simp_all
next
  fix d b :: ConfigMap and f op r w w'
  assume "mem_view w (obj_key (OConfigMap d)) = Some (OConfigMap b)" "fst (f b) \<noteq> None"
    and "CreateOrPatch_ConfigMap mem_lib mem_client d f w = (op, r, w')"
  then show "r \<noteq> None \<and> mem_view w' = mem_view w"
    unfolding mem_lib_sel by (intro mem_create_or_patch_refused [where mk = OConfigMap]) simp_all
qed

end
