(* ===== verification/Shared_Memory.thy ===== *)
theory Shared_Memory
  imports Orphans Memory_Cluster
begin

text \<open>
  The cluster in memory with others at work: a script of their actions, one of which happens before each
  call. It is not translated from the repository. It shows that the laws of \<open>shared_server\<close> can hold with
  others that really move, and the theorems on interference are exercised on it.
\<close>

text \<open>
  The actions: nothing, asking for the deletion of the custom resource, removing an object, writing over
  an object that is there, and switching the topology updater on.
\<close>

datatype other_action =
    Wait
  | AskDeletion
  | Remove cluster_key
  | Overwrite kobject
  | EnableTopology

fun other_act :: "string \<Rightarrow> string \<Rightarrow> other_action \<Rightarrow> mem \<Rightarrow> mem" where
  "other_act ns nm Wait m = m"
| "other_act ns nm AskDeletion m =
     (case mem_view m (KNFD, ns, nm) of
        Some (ONFD n) \<Rightarrow>
          mem_put (ONFD (n\<lparr>nfd_ObjectMeta := (nfd_ObjectMeta n)\<lparr>om_DeletionTimestamp := Some (mem_clock m)\<rparr>\<rparr>)) m
      | _ \<Rightarrow> m)"
| "other_act ns nm (Remove k) m = (if k = (KNFD, ns, nm) then m else mem_drop k m)"
| "other_act ns nm (Overwrite x) m =
     (if obj_key x = (KNFD, ns, nm) \<or> gone (mem_view m (obj_key x)) then m else mem_put x m)"
| "other_act ns nm EnableTopology m =
     (case mem_view m (KNFD, ns, nm) of
        Some (ONFD n) \<Rightarrow> mem_put (ONFD (n\<lparr>nfd_Spec := (nfd_Spec n)\<lparr>spc_TopologyUpdater := True\<rparr>\<rparr>)) m
      | _ \<Rightarrow> m)"

lemma component_not_custom_resource: "k \<in> set (component_keys ns) \<Longrightarrow> k \<noteq> (KNFD, ns, nm)"
  by (auto simp: component_keys_def)

lemma other_act_moves: "cluster_moves ns nm (mem_view m) (mem_view (other_act ns nm a m))"
proof -
  have key: "obj_key (ONFD n) = (KNFD, ns, nm)" if "mem_view m (KNFD, ns, nm) = Some (ONFD n)" for n
    by (rule mem_view_key [OF that])
  show ?thesis
  proof (cases a)
    case AskDeletion
    with key show ?thesis
      by (auto simp: cluster_moves_def component_not_custom_resource split: option.split kobject.split)
  next
    case (Remove k)
    then show ?thesis by (auto simp: cluster_moves_def)
  next
    case (Overwrite x)
    then show ?thesis by (auto simp: cluster_moves_def)
  next
    case EnableTopology
    with key show ?thesis
      by (auto simp: cluster_moves_def component_not_custom_resource split: option.split kobject.split)
  qed (simp add: cluster_moves_refl)
qed

section \<open>The client\<close>

type_synonym shared_mem = "mem \<times> other_action list"

definition shared_view :: "shared_mem \<Rightarrow> cluster_key \<Rightarrow> kobject option" where
  "shared_view w = mem_view (fst w)"

fun others :: "string \<Rightarrow> string \<Rightarrow> shared_mem \<Rightarrow> shared_mem" where
  "others ns nm (m, []) = (m, [])"
| "others ns nm (m, a # script) = (other_act ns nm a m, script)"

lemma others_moves: "cluster_moves ns nm (shared_view w) (shared_view (others ns nm w))"
  by (cases "(ns, nm, w)" rule: others.cases) (simp_all add: shared_view_def cluster_moves_refl other_act_moves)

text \<open>A call on the memory after an action of the others.\<close>

definition after2 :: "string \<Rightarrow> string \<Rightarrow> (mem \<Rightarrow> 'r \<times> mem) \<Rightarrow> shared_mem \<Rightarrow> 'r \<times> shared_mem" where
  "after2 ns nm f w = (let (m, script) = others ns nm w; (r, m') = f m in (r, m', script))"

definition after3 :: "string \<Rightarrow> string \<Rightarrow> (mem \<Rightarrow> 'r \<times> 'x \<times> mem) \<Rightarrow> shared_mem \<Rightarrow> 'r \<times> 'x \<times> shared_mem" where
  "after3 ns nm f w = (let (m, script) = others ns nm w; (r, x, m') = f m in (r, x, m', script))"

lemma after2_E:
  assumes "after2 ns nm f w = (r, w')"
  obtains m m' where "cluster_moves ns nm (shared_view w) (mem_view m)" "f m = (r, m')" "shared_view w' = mem_view m'"
  using assms others_moves [of ns nm w]
  by (auto simp: after2_def shared_view_def split: prod.splits)

lemma after3_E:
  assumes "after3 ns nm f w = (r, x, w')"
  obtains m m' where "cluster_moves ns nm (shared_view w) (mem_view m)" "f m = (r, x, m')" "shared_view w' = mem_view m'"
  using assms others_moves [of ns nm w]
  by (auto simp: after3_def shared_view_def split: prod.splits)

definition shared_client :: "string \<Rightarrow> string \<Rightarrow> (shared_mem, mem_error) client" where
  "shared_client ns nm =
     \<lparr>Get_Deployment = (\<lambda>ky d. after3 ns nm (Get_Deployment mem_client ky d)),
      Get_DaemonSet = (\<lambda>ky d. after3 ns nm (Get_DaemonSet mem_client ky d)),
      Get_Job = (\<lambda>ky d. after3 ns nm (Get_Job mem_client ky d)),
      Delete_Deployment = (\<lambda>d. after2 ns nm (Delete_Deployment mem_client d)),
      Delete_DaemonSet = (\<lambda>d. after2 ns nm (Delete_DaemonSet mem_client d)),
      Delete_ConfigMap = (\<lambda>d. after2 ns nm (Delete_ConfigMap mem_client d)),
      Create_Job = (\<lambda>j. after2 ns nm (Create_Job mem_client j)),
      Update_NFD = (\<lambda>n. after3 ns nm (Update_NFD mem_client n)),
      StatusPatch_NFD = (\<lambda>n base. after3 ns nm (StatusPatch_NFD mem_client n base))\<rparr>"

definition shared_lib :: "string \<Rightarrow> string \<Rightarrow> (shared_mem, mem_error, unit) machinery" where
  "shared_lib ns nm =
     \<lparr>CreateOrPatch_Deployment = (\<lambda>_ d f. after3 ns nm (CreateOrPatch_Deployment mem_lib mem_client d f)),
      CreateOrPatch_DaemonSet = (\<lambda>_ d f. after3 ns nm (CreateOrPatch_DaemonSet mem_lib mem_client d f)),
      CreateOrPatch_ConfigMap = (\<lambda>_ c f. after3 ns nm (CreateOrPatch_ConfigMap mem_lib mem_client c f)),
      SetControllerReference = SetControllerReference mem_lib,
      ContainsFinalizer = ContainsFinalizer mem_lib,
      RemoveFinalizer = RemoveFinalizer mem_lib,
      IsNotFound = IsNotFound mem_lib,
      IgnoreNotFound = IgnoreNotFound mem_lib,
      FindStatusCondition = FindStatusCondition mem_lib,
      GetControllerOf = GetControllerOf mem_lib,
      external_text = external_text mem_lib,
      time_Now = after2 ns nm (time_Now mem_lib)\<rparr>"

lemmas shared_client_sel = shared_client_def client.simps
lemmas shared_lib_sel = shared_lib_def machinery.simps

section \<open>The laws hold\<close>

lemma interleaved_after:
  "cluster_moves ns nm u v \<Longrightarrow> interleaved (cluster_moves ns nm) k q v v' \<Longrightarrow>
     interleaved (cluster_moves ns nm) k q u v'"
  unfolding interleaved_def using cluster_moves_trans by blast

lemma deleted_shared_lib: "deleted (shared_lib ns nm) r = deleted mem_lib r"
  by (intro ext) (simp add: deleted_def shared_lib_sel split: option.split)

interpretation alone: operated_server mem_lib mem_client mem_view ns nm for ns nm
  by (rule api_server.operated_by_one [OF mem.api_server_axioms])

interpretation shared: machinery_laws "shared_lib ns nm" for ns nm
  using mem.machinery_laws_axioms unfolding machinery_laws_def shared_lib_sel .

interpretation shared: operated_server "shared_lib ns nm" "shared_client ns nm" shared_view ns nm for ns nm
proof
  show "cluster_moves ns nm v v" for v by (rule cluster_moves_refl)
  show "cluster_moves ns nm u v'" if "cluster_moves ns nm u v" "cluster_moves ns nm v v'" for u v v'
    using that by (rule cluster_moves_trans)
  fix w w' :: shared_mem
  show "cluster_moves ns nm (shared_view w) (shared_view w')" if "time_Now (shared_lib ns nm) w = (t, w')" for t
    using that unfolding shared_lib_sel
    by (elim after2_E) (simp only:, rule cluster_moves_trans, assumption, erule alone.time_Now_shared)
  show "cluster_moves ns nm (shared_view w) (shared_view w')"
    if "Get_Deployment (shared_client ns nm) ky d w = (r, d', w')" for ky d r d'
    using that unfolding shared_client_sel
    by (elim after3_E) (simp only:, rule cluster_moves_trans, assumption, erule alone.Get_Deployment_shared)
  show "cluster_moves ns nm (shared_view w) (shared_view w')"
    if "Get_DaemonSet (shared_client ns nm) ky d w = (r, d', w')" for ky d r d'
    using that unfolding shared_client_sel
    by (elim after3_E) (simp only:, rule cluster_moves_trans, assumption, erule alone.Get_DaemonSet_shared)
  show "cluster_moves ns nm (shared_view w) (shared_view w')"
    if "Get_Job (shared_client ns nm) ky d w = (r, d', w')" for ky d r d'
    using that unfolding shared_client_sel
    by (elim after3_E) (simp only:, rule cluster_moves_trans, assumption, erule alone.Get_Job_shared)
  show "interleaved (cluster_moves ns nm) (obj_key (ODeployment d)) (deleted (shared_lib ns nm) r)
      (shared_view w) (shared_view w')" if "Delete_Deployment (shared_client ns nm) d w = (r, w')" for d r
    using that unfolding shared_client_sel deleted_shared_lib
    by (elim after2_E) (simp only:, rule interleaved_after, assumption, erule alone.Delete_Deployment_shared)
  show "interleaved (cluster_moves ns nm) (obj_key (ODaemonSet d)) (deleted (shared_lib ns nm) r)
      (shared_view w) (shared_view w')" if "Delete_DaemonSet (shared_client ns nm) d w = (r, w')" for d r
    using that unfolding shared_client_sel deleted_shared_lib
    by (elim after2_E) (simp only:, rule interleaved_after, assumption, erule alone.Delete_DaemonSet_shared)
  show "interleaved (cluster_moves ns nm) (obj_key (OConfigMap d)) (deleted (shared_lib ns nm) r)
      (shared_view w) (shared_view w')" if "Delete_ConfigMap (shared_client ns nm) d w = (r, w')" for d r
    using that unfolding shared_client_sel deleted_shared_lib
    by (elim after2_E) (simp only:, rule interleaved_after, assumption, erule alone.Delete_ConfigMap_shared)
  show "interleaved (cluster_moves ns nm) (obj_key (OJob j)) (\<lambda>_ _. True) (shared_view w) (shared_view w')"
    if "Create_Job (shared_client ns nm) j w = (r, w')" for j r
    using that unfolding shared_client_sel
    by (elim after2_E) (simp only:, rule interleaved_after, assumption, erule alone.Create_Job_shared)
  show "interleaved (cluster_moves ns nm) (obj_key (ONFD n)) (\<lambda>x y. y = x \<and> r \<noteq> None \<or> updated_cr n y)
      (shared_view w) (shared_view w')" if "Update_NFD (shared_client ns nm) n w = (r, n', w')" for n r n'
    using that unfolding shared_client_sel
    by (elim after3_E) (simp only:, rule interleaved_after, assumption, erule alone.Update_NFD_shared)
  show "interleaved (cluster_moves ns nm) (obj_key (ONFD n)) status_only (shared_view w) (shared_view w')"
    if "StatusPatch_NFD (shared_client ns nm) n base w = (r, n', w')" for n base r n'
    using that unfolding shared_client_sel
    by (elim after3_E) (simp only:, rule interleaved_after, assumption, erule alone.StatusPatch_NFD_shared)
  show "interleaved (cluster_moves ns nm) (obj_key (ODeployment d)) (\<lambda>_ _. True) (shared_view w) (shared_view w')"
    if "CreateOrPatch_Deployment (shared_lib ns nm) (shared_client ns nm) d f w = (op, r, w')" for d f op r
    using that unfolding shared_lib_sel
    by (elim after3_E) (simp only:, rule interleaved_after, assumption, erule alone.CreateOrPatch_Deployment_shared)
  show "interleaved (cluster_moves ns nm) (obj_key (ODaemonSet d)) (\<lambda>_ _. True) (shared_view w) (shared_view w')"
    if "CreateOrPatch_DaemonSet (shared_lib ns nm) (shared_client ns nm) d f w = (op, r, w')" for d f op r
    using that unfolding shared_lib_sel
    by (elim after3_E) (simp only:, rule interleaved_after, assumption, erule alone.CreateOrPatch_DaemonSet_shared)
  show "interleaved (cluster_moves ns nm) (obj_key (OConfigMap d)) (\<lambda>_ _. True) (shared_view w) (shared_view w')"
    if "CreateOrPatch_ConfigMap (shared_lib ns nm) (shared_client ns nm) d f w = (op, r, w')" for d f op r
    using that unfolding shared_lib_sel
    by (elim after3_E) (simp only:, rule interleaved_after, assumption, erule alone.CreateOrPatch_ConfigMap_shared)
  show "obj_key x = k" if "shared_view w k = Some x" for k x
    using that by (simp add: shared_view_def mem_view_key)
qed

end
