(* ===== verification/Scheme_Setup.thy ===== *)
theory Scheme_Setup
  imports Go_Prelude
begin

text \<open>
  The scheme, which tells the client and the owner references which Go type is which kind of the API:
  \<^verbatim>\<open>api/v1/groupversion_info.go\<close>, the \<^verbatim>\<open>init\<close> functions of \<^verbatim>\<open>api/v1\<close> and of \<^verbatim>\<open>main\<close>, and
  \<^verbatim>\<open>internal/test/scheme.go\<close>. Schemes, builders and the registration of the built-in kinds belong to
  the libraries and are a parameter. \<open>Operator_Main\<close> starts from the scheme built here.
\<close>

record GroupVersion =
  gv_Group :: string
  gv_Version :: string

text \<open>A builder holds a group version and the types registered with it, here by name.\<close>

record Builder =
  sb_GroupVersion :: GroupVersion
  sb_types :: "string list"

record ('s, 'e) scheme_library =
  NewScheme :: 's
  clientgo_AddToScheme :: "'s \<Rightarrow> 'e err \<times> 's"
  Builder_Register :: "Builder \<Rightarrow> string list \<Rightarrow> Builder"
  Builder_AddToScheme :: "Builder \<Rightarrow> 's \<Rightarrow> 'e err \<times> 's"

section \<open>The API group\<close>

definition api_GroupVersion :: GroupVersion where
  "api_GroupVersion = \<lparr>gv_Group = ''nfd.kubernetes.io'', gv_Version = ''v1''\<rparr>"

text \<open>The package variable as it is declared, and as the package's \<^verbatim>\<open>init\<close> leaves it.\<close>

definition SchemeBuilder :: Builder where
  "SchemeBuilder = \<lparr>sb_GroupVersion = api_GroupVersion, sb_types = []\<rparr>"

definition api_init :: "('s, 'e) scheme_library \<Rightarrow> Builder" where
  "api_init lib = Builder_Register lib SchemeBuilder [''NodeFeatureDiscovery'', ''NodeFeatureDiscoveryList'']"

text \<open>A method value: the builder is the one the variable points to, with what has been registered.\<close>

definition api_AddToScheme :: "('s, 'e) scheme_library \<Rightarrow> 's \<Rightarrow> 'e err \<times> 's" where
  "api_AddToScheme lib = Builder_AddToScheme lib (api_init lib)"

section \<open>The scheme of the operator and of the tests\<close>

text \<open>\<^verbatim>\<open>utilruntime.Must\<close> panics on an error, which is \<^const>\<open>None\<close>.\<close>

definition scheme_init :: "('s, 'e) scheme_library \<Rightarrow> 's option" where
  "scheme_init lib =
     (let (err, scheme) = clientgo_AddToScheme lib (NewScheme lib)
      in case err of Some e \<Rightarrow> None | None \<Rightarrow>
     (let (err, scheme) = api_AddToScheme lib scheme
      in case err of Some e \<Rightarrow> None | None \<Rightarrow> Some scheme))"

fun add_all :: "('s \<Rightarrow> 'e err \<times> 's) list \<Rightarrow> 's \<Rightarrow> 'e goerror + 's" where
  "add_all [] s = Inr s"
| "add_all (f # funcs) s =
     (case f s of (Some err, s) \<Rightarrow> Inl err | (None, s) \<Rightarrow> add_all funcs s)"

definition TestScheme :: "('s, 'e) scheme_library \<Rightarrow> 'e goerror + 's" where
  "TestScheme lib = add_all [clientgo_AddToScheme lib, api_AddToScheme lib] (NewScheme lib)"

text \<open>The tests run on the very scheme the operator runs on, and fail exactly when it panics.\<close>

lemma TestScheme_is_operator_scheme: "TestScheme lib = Inr s \<longleftrightarrow> scheme_init lib = Some s"
  by (simp add: TestScheme_def scheme_init_def Let_def split: prod.split option.split)

end
