(* ===== verification/Operator_Main.thy ===== *)
theory Operator_Main
  imports Reconciler_Facts Scheme_Setup
begin

text \<open>
  The package \<^verbatim>\<open>main\<close>: the command line, the watched namespace, and the start of the manager with the
  exit codes. The standard package \<^verbatim>\<open>flag\<close> is modelled as far as \<^verbatim>\<open>FlagSet.Parse\<close> with
  \<^verbatim>\<open>flag.ExitOnError\<close> goes for boolean and string flags; the controller-runtime manager is a parameter.
  The scheme is the one the \<^verbatim>\<open>init\<close> function of \<open>Scheme_Setup\<close> leaves. Logging is left out.
\<close>

section \<open>The flag package\<close>

text \<open>\<^verbatim>\<open>strconv.ParseBool\<close>, used for boolean flags with a value.\<close>

definition ParseBool :: "string \<Rightarrow> bool option" where
  "ParseBool s =
     (if s \<in> {''1'', ''t'', ''T'', ''TRUE'', ''true'', ''True''} then Some True
      else if s \<in> {''0'', ''f'', ''F'', ''FALSE'', ''false'', ''False''} then Some False
      else None)"

text \<open>A flag: its name, and how its value changes the variables of type \<open>'a\<close> it is bound to.\<close>

datatype 'a flag =
    BoolFlag (flag_name: string) "bool \<Rightarrow> 'a \<Rightarrow> 'a"
  | StringFlag (flag_name: string) "string \<Rightarrow> 'a \<Rightarrow> 'a"

text \<open>How parsing ends: with the variables and the remaining arguments, or the process exits.\<close>

datatype 'a parsed = Parsed 'a "string list" | Exits nat

text \<open>The name before the first \<^verbatim>\<open>=\<close> that is not in front, and the value after it.\<close>

fun cut_value :: "string \<Rightarrow> string \<times> string option" where
  "cut_value [] = ([], None)"
| "cut_value (c # cs) =
     (if CHR ''='' \<in> set cs
      then (c # takeWhile (\<lambda>x. x \<noteq> CHR ''='') cs, Some (tl (dropWhile (\<lambda>x. x \<noteq> CHR ''='') cs)))
      else (c # cs, None))"

text \<open>The text after one or two dashes, or nothing when the argument is not a flag.\<close>

definition flag_text :: "string \<Rightarrow> string option" where
  "flag_text s =
     (if length s < 2 \<or> hd s \<noteq> CHR ''-'' then None
      else if s ! 1 = CHR ''-'' then Some (drop 2 s) else Some (drop 1 s))"

fun Parse :: "'a flag list \<Rightarrow> 'a \<Rightarrow> string list \<Rightarrow> 'a parsed" where
  "Parse fs v [] = Parsed v []"
| "Parse fs v (s # rest) =
     (case flag_text s of
        None \<Rightarrow> Parsed v (s # rest)
      | Some text \<Rightarrow>
          (if s = ''--'' then Parsed v rest
           else if text = [] \<or> hd text = CHR ''-'' \<or> hd text = CHR ''='' then Exits 2
           else
             (let (name, val) = cut_value text
              in case List.find (\<lambda>f. flag_name f = name) fs of
                   None \<Rightarrow> if name = ''help'' \<or> name = ''h'' then Exits 0 else Exits 2
                 | Some (BoolFlag _ set_flag) \<Rightarrow>
                     (case val of
                        None \<Rightarrow> Parse fs (set_flag True v) rest
                      | Some b \<Rightarrow>
                          (case ParseBool b of
                             None \<Rightarrow> Exits 2
                           | Some b \<Rightarrow> Parse fs (set_flag b v) rest))
                 | Some (StringFlag _ set_flag) \<Rightarrow>
                     (case val of
                        Some x \<Rightarrow> Parse fs (set_flag x v) rest
                      | None \<Rightarrow>
                          (case rest of
                             [] \<Rightarrow> Exits 2
                           | x # rest' \<Rightarrow> Parse fs (set_flag x v) rest')))))"

section \<open>Arguments and environment\<close>

record operatorArgs =
  metricsAddr :: string
  enableLeaderElection :: bool
  probeAddr :: string

text \<open>The variables the flag set of \<^verbatim>\<open>main\<close> is bound to: \<^verbatim>\<open>printVersion\<close> and the operator's arguments.\<close>

record main_vars =
  printVersion :: bool
  op_args :: operatorArgs

definition initFlags :: "operatorArgs \<times> main_vars flag list" where
  "initFlags =
     (\<lparr>metricsAddr = '':8080'', enableLeaderElection = False, probeAddr = '':8081''\<rparr>,
      [StringFlag ''metrics-bind-address'' (\<lambda>s v. v\<lparr>op_args := (op_args v)\<lparr>metricsAddr := s\<rparr>\<rparr>),
       StringFlag ''health-probe-bind-address'' (\<lambda>s v. v\<lparr>op_args := (op_args v)\<lparr>probeAddr := s\<rparr>\<rparr>),
       BoolFlag ''leader-elect'' (\<lambda>b v. v\<lparr>op_args := (op_args v)\<lparr>enableLeaderElection := b\<rparr>\<rparr>)])"

text \<open>The flags \<^verbatim>\<open>main\<close> defines, and the variables before parsing.\<close>

definition main_flags :: "main_vars flag list" where
  "main_flags = BoolFlag ''version'' (\<lambda>b v. v\<lparr>printVersion := b\<rparr>) # snd initFlags"

definition main_init :: main_vars where
  "main_init = \<lparr>printVersion = False, op_args = fst initFlags\<rparr>"

definition watchNamespaceEnvVar :: string where
  "watchNamespaceEnvVar = ''WATCH_NAMESPACE''"

definition getWatchNamespace :: "(string \<rightharpoonup> string) \<Rightarrow> 'e goerror + string" where
  "getWatchNamespace env =
     (case env watchNamespaceEnvVar of
        None \<Rightarrow> Inl (Errorf (''environment variable '' @ watchNamespaceEnvVar @ '' is not defined''))
      | Some value \<Rightarrow> Inr value)"

section \<open>The manager\<close>

record 's ManagerOptions =
  mo_Scheme :: 's
  mo_MetricsBindAddress :: string
  mo_WebhookPort :: int
  mo_HealthProbeBindAddress :: string
  mo_LeaderElection :: bool
  mo_LeaderElectionID :: string
  mo_DefaultNamespaces :: "string list"  \<comment> \<open>the keys of the map, each with the zero configuration\<close>

text \<open>A watch: the kind, whether its events are for the object or for its owner, and the filter.\<close>

datatype watch_mode = For | Owns

type_synonym watch = "kind \<times> watch_mode \<times> (event \<Rightarrow> bool)"

text \<open>
  The methods of \<^verbatim>\<open>ctrl.Manager\<close> that are used; \<open>mgr_Complete\<close> stands for the controller builder's
  \<^verbatim>\<open>Complete\<close>, which takes the watches and the reconciler.
\<close>

record ('w, 'e, 's) manager =
  mgr_GetClient :: "('w, 'e) client"
  mgr_GetScheme :: 's
  mgr_Complete :: "watch list \<Rightarrow> ('w, 'e) helperAPI \<Rightarrow> 'w \<Rightarrow> 'e err \<times> 'w"
  mgr_AddHealthzCheck :: "string \<Rightarrow> 'w \<Rightarrow> 'e err \<times> 'w"
  mgr_AddReadyzCheck :: "string \<Rightarrow> 'w \<Rightarrow> 'e err \<times> 'w"
  mgr_Start :: "'w \<Rightarrow> 'e err \<times> 'w"

definition operatorWatches :: "('w, 'e, 's) machinery \<Rightarrow> watch list" where
  "operatorWatches lib =
     (let p = getPredicates lib
      in [(KNFD, For, \<lambda>_. True), (KDeployment, Owns, p), (KDaemonSet, Owns, p), (KConfigMap, Owns, p),
          (KJob, Owns, p)])"

definition SetupWithManager ::
  "('w, 'e, 's) machinery \<Rightarrow> ('w, 'e) helperAPI \<Rightarrow> ('w, 'e, 's) manager \<Rightarrow> 'w \<Rightarrow> 'e err \<times> 'w" where
  "SetupWithManager lib r mgr w = mgr_Complete mgr (operatorWatches lib) r w"

section \<open>main\<close>

definition managerOptions :: "'s \<Rightarrow> operatorArgs \<Rightarrow> string \<Rightarrow> 's ManagerOptions" where
  "managerOptions scheme args watchNamespace =
     \<lparr>mo_Scheme = scheme, mo_MetricsBindAddress = metricsAddr args, mo_WebhookPort = 9443,
      mo_HealthProbeBindAddress = probeAddr args, mo_LeaderElection = enableLeaderElection args,
      mo_LeaderElectionID = ''39f5e5c3.nodefeaturediscoveries.nfd.kubernetes.io'',
      mo_DefaultNamespaces = [watchNamespace]\<rparr>"

text \<open>
  The exit code of the process and the world it leaves; \<open>argv\<close> is \<^verbatim>\<open>os.Args[1:]\<close>. The manager is made
  by \<open>NewManager\<close>, a parameter, as are its methods; when \<^verbatim>\<open>Start\<close> returns without an error \<^verbatim>\<open>main\<close>
  returns, and the process exits with 0.
\<close>

definition main ::
  "('w, 'e, 's) machinery \<Rightarrow> 's \<Rightarrow>
     ('s ManagerOptions \<Rightarrow> 'w \<Rightarrow> ('e goerror + ('w, 'e, 's) manager) \<times> 'w) \<Rightarrow>
     string list \<Rightarrow> (string \<rightharpoonup> string) \<Rightarrow> 'w \<Rightarrow> nat \<times> 'w" where
  "main lib scheme NewManager argv env w =
     (case Parse main_flags main_init argv of
        Exits code \<Rightarrow> (code, w)
      | Parsed vars rest \<Rightarrow>
     (if length rest > 0 then (2, w)
      else if printVersion vars then (0, w)
      else case getWatchNamespace env :: 'e goerror + string of
        Inl err \<Rightarrow> (1, w)
      | Inr watchNamespace \<Rightarrow>
     (let (made, w) = NewManager (managerOptions scheme (op_args vars) watchNamespace) w
      in case made of
        Inl err \<Rightarrow> (1, w)
      | Inr mgr \<Rightarrow>
     (let r = operatorReconciler lib (mgr_GetClient mgr) (mgr_GetScheme mgr);
          (err, w) = SetupWithManager lib r mgr w
      in if err \<noteq> None then (1, w) else
     (let (err, w) = mgr_AddHealthzCheck mgr ''health'' w
      in if err \<noteq> None then (1, w) else
     (let (err, w) = mgr_AddReadyzCheck mgr ''check'' w
      in if err \<noteq> None then (1, w) else
     (let (err, w) = mgr_Start mgr w
      in if err \<noteq> None then (1, w) else (0, w))))))))"

text \<open>
  The process: the \<^verbatim>\<open>init\<close> functions fill in the package variable \<^verbatim>\<open>scheme\<close>, then \<^verbatim>\<open>main\<close> runs. A panic
  in \<^verbatim>\<open>init\<close> ends the process with exit code 2.
\<close>

definition operator_process ::
  "('s, 'e) scheme_library \<Rightarrow> ('w, 'e, 's) machinery \<Rightarrow>
     ('s ManagerOptions \<Rightarrow> 'w \<Rightarrow> ('e goerror + ('w, 'e, 's) manager) \<times> 'w) \<Rightarrow>
     string list \<Rightarrow> (string \<rightharpoonup> string) \<Rightarrow> 'w \<Rightarrow> nat \<times> 'w" where
  "operator_process slib lib NewManager argv env w =
     (case scheme_init slib of
        None \<Rightarrow> (2, w)
      | Some scheme \<Rightarrow> main lib scheme NewManager argv env w)"

section \<open>Facts\<close>

text \<open>Writing the arguments as a command line, the inverse of parsing.\<close>

definition render_args :: "operatorArgs \<Rightarrow> string list" where
  "render_args a =
     [''--metrics-bind-address='' @ metricsAddr a, ''--health-probe-bind-address='' @ probeAddr a,
      ''--leader-elect='' @ (if enableLeaderElection a then ''true'' else ''false'')]"

lemmas parse_defs = main_flags_def main_init_def initFlags_def flag_text_def ParseBool_def

lemma Parse_render: "Parse main_flags main_init (render_args a) = Parsed \<lparr>printVersion = False, op_args = a\<rparr> []"
  by (cases a) (simp add: render_args_def parse_defs numeral_eq_Suc)

text \<open>
  C31: the command line round trip. Any addresses and election setting, written as flags, are parsed back
  to the same arguments, with nothing left over and the version not asked for.
\<close>

theorem command_line_round_trip:
  "Parse main_flags main_init (render_args a) = Parsed \<lparr>printVersion = False, op_args = a\<rparr> []"
  by (rule Parse_render)

text \<open>
  C32: the operator does not run without a namespace to watch. With the environment variable
  \<^verbatim>\<open>WATCH_NAMESPACE\<close> unset, the process ends without touching anything, whatever the command line, and
  with exit code 1 when the command line asks it to run.
\<close>

theorem unset_namespace_stops_operator:
  assumes "env ''WATCH_NAMESPACE'' = None"
  shows "snd (main lib scheme NewManager argv env w) = w \<and>
    fst (main lib scheme NewManager (render_args a) env w) = 1"
  using assms
  by (simp add: main_def Parse_render getWatchNamespace_def watchNamespaceEnvVar_def split: parsed.split)

theorem unset_namespace_stops_operator_witness:
  "\<forall>lib s. main lib s (\<lambda>_ w. (Inl (Errorf ''no cluster''), w + 1))
     (render_args \<lparr>metricsAddr = '':0'', enableLeaderElection = True, probeAddr = '':1''\<rparr>) Map.empty (7 :: nat) =
   (1, 7)"
proof (intro allI)
  fix lib :: "(nat, 'e, 's) machinery" and s
  let ?a = "\<lparr>metricsAddr = '':0'', enableLeaderElection = True, probeAddr = '':1''\<rparr>"
  show "main lib s (\<lambda>_ w. (Inl (Errorf ''no cluster''), w + 1)) (render_args ?a) Map.empty (7 :: nat) = (1, 7)"
    using unset_namespace_stops_operator [of Map.empty lib s "\<lambda>_ w. (Inl (Errorf ''no cluster''), w + 1)"
        "render_args ?a" "7 :: nat" ?a]
    by (simp add: prod_eq_iff)
qed

text \<open>
  C33: an unknown flag stops the process. A first argument with the syntax of a flag whose name is none
  of the operator's four flags and does not ask for help ends the process with exit code 2, before
  anything else happens; so do the logging flags, which \<^verbatim>\<open>main\<close> adds to another flag set than the one
  it parses.
\<close>

theorem unknown_flag_exits:
  assumes "flag_text s = Some body" and "s \<noteq> ''--''"
    and "body \<noteq> []" and "hd body \<noteq> CHR ''-''" and "hd body \<noteq> CHR ''=''"
    and "fst (cut_value body) \<notin>
      {''version'', ''metrics-bind-address'', ''health-probe-bind-address'', ''leader-elect'', ''help'', ''h''}"
  shows "main lib scheme NewManager (s # rest) env w = (2, w)"
proof -
  have "List.find (\<lambda>f. flag_name f = fst (cut_value body)) main_flags = None"
    using assms(6) by (auto simp: main_flags_def initFlags_def)
  with assms show ?thesis
    by (simp add: main_def split: prod.split) (auto split: prod.split)
qed

text \<open>The verbosity flag of the logging package.\<close>

theorem unknown_flag_exits_witness:
  "\<forall>lib scheme NewManager w. main lib scheme NewManager [''-v=4''] (Map.empty(''WATCH_NAMESPACE'' \<mapsto> ''nfd'')) w = (2, w)"
  by (intro allI unknown_flag_exits [where body = "''v=4''"]) (simp_all add: flag_text_def)

text \<open>
  Everything a pass may write is watched: the kind of every object in the footprint of a custom
  resource is among the kinds the controller is set up to watch, the components and the prune job
  through their owner.
\<close>

theorem footprint_watched:
  "set (map fst (footprint cr)) \<subseteq> set (map fst (operatorWatches lib)) \<and>
   list_all (\<lambda>(kind, mode, filter).
      mode = (if kind = KNFD then For else Owns) \<and>
      filter = (if kind = KNFD then (\<lambda>_. True) else getPredicates lib)) (operatorWatches lib)"
  by (auto simp: operatorWatches_def footprint_def managed_keys_def cr_key_def prune_key_def Let_def)

end
