(* ===== verification/Deep_Copy.thy ===== *)
theory Deep_Copy
  imports Go_Prelude
begin

text \<open>
  Deep copies over an explicit memory, as the generated code of \<^verbatim>\<open>api/v1/zz_generated.deepcopy.go\<close>
  makes them: the statements every generated function consists of, and the contract they keep.

  The memory is a list of arrays, an address an index of it. A slice is nil or the address of its
  array, a pointer is nil or the address of a variable, which is an array of one.
\<close>

section \<open>Memory\<close>

type_synonym slice = "nat option"

type_synonym pointer = "nat option"

definition alloc :: "'h \<Rightarrow> 'h list \<Rightarrow> nat \<times> 'h list" where
  "alloc c h = (length h, h @ [c])"

section \<open>Copying a slice\<close>

text \<open>
  The loop \<^verbatim>\<open>for i := range *in { (*in)[i].DeepCopyInto(&(*out)[i]) }\<close>: the array at \<open>out\<close> is filled
  from index \<open>i\<close> on with copies of the given elements.
\<close>

fun fill ::
  "('h \<Rightarrow> 'a list) \<Rightarrow> ('a list \<Rightarrow> 'h) \<Rightarrow> ('a \<Rightarrow> 'h list \<Rightarrow> 'a \<times> 'h list) \<Rightarrow> nat \<Rightarrow> 'a list \<Rightarrow> nat \<Rightarrow>
     'h list \<Rightarrow> 'h list" where
  "fill get mk copy out [] i h = h"
| "fill get mk copy out (x # xs) i h =
     (let (y, h) = copy x h;
          h = h[out := mk ((get (h ! out))[i := y])]
      in fill get mk copy out xs (Suc i) h)"

text \<open>\<^verbatim>\<open>if in.F != nil { ... *out = make([]T, len(*in)); for ... }\<close>; \<open>zero\<close> is the zero value of the type.\<close>

definition copy_slice ::
  "('h \<Rightarrow> 'a list) \<Rightarrow> ('a list \<Rightarrow> 'h) \<Rightarrow> 'a \<Rightarrow> ('a \<Rightarrow> 'h list \<Rightarrow> 'a \<times> 'h list) \<Rightarrow> slice \<Rightarrow> 'h list \<Rightarrow>
     slice \<times> 'h list" where
  "copy_slice get mk zero copy s h =
     (case s of
        None \<Rightarrow> (None, h)
      | Some a \<Rightarrow>
          (let xs = get (h ! a);
               (out, h) = alloc (mk (replicate (length xs) zero)) h
           in (Some out, fill get mk copy out xs 0 h)))"

text \<open>The built-in \<^verbatim>\<open>copy\<close>: as many elements as both slices have.\<close>

definition go_copy :: "'a list \<Rightarrow> 'a list \<Rightarrow> 'a list" where
  "go_copy dst src = take (length dst) src @ drop (length src) dst"

section \<open>The contract of a deep copy\<close>

definition grows :: "'h list \<Rightarrow> 'h list \<Rightarrow> bool" where
  "grows h h' \<longleftrightarrow> length h \<le> length h' \<and> (\<forall>a < length h. h' ! a = h ! a)"

lemma grows_refl [simp]: "grows h h"
  by (simp add: grows_def)

lemma grows_trans: "grows h h' \<Longrightarrow> grows h' h'' \<Longrightarrow> grows h h''"
  by (simp add: grows_def)

lemma grows_take: "grows h h' \<Longrightarrow> take (length h) h' = h"
  by (rule nth_equalityI) (simp_all add: grows_def)

lemma grows_length: "grows h h' \<Longrightarrow> length h \<le> length h'"
  by (simp add: grows_def)

text \<open>
  \<open>val h x\<close> is the value that \<open>x\<close> stands for in the memory \<open>h\<close>, and \<open>reach h x\<close> the addresses it
  depends on. A copy leaves everything that was there as it was, has the same value and depends on new
  arrays only.
\<close>

locale deep_copier =
  fixes copy :: "'a \<Rightarrow> 'h list \<Rightarrow> 'a \<times> 'h list"
    and val :: "'h list \<Rightarrow> 'a \<Rightarrow> 'b"
    and reach :: "'h list \<Rightarrow> 'a \<Rightarrow> nat set"
  assumes local: "\<forall>a \<in> reach h x. h' ! a = h ! a \<Longrightarrow> val h' x = val h x \<and> reach h' x = reach h x"
    and copy: "reach h x \<subseteq> {..<length h} \<Longrightarrow> copy x h = (y, h') \<Longrightarrow>
      grows h h' \<and> val h' y = val h x \<and> reach h' y \<subseteq> {length h..<length h'}"
begin

lemma old_persists:
  assumes "reach h x \<subseteq> {..<length h}" and "grows h h'"
  shows "val h' x = val h x" "reach h' x = reach h x"
  using assms local [of h x h'] by (auto simp: grows_def)

lemma new_persists:
  assumes "reach h x \<subseteq> {n..<length h}" and "grows h h'"
  shows "val h' x = val h x" "reach h' x = reach h x"
  using assms local [of h x h'] by (auto simp: grows_def subset_eq)

text \<open>What the contract is for: writing through the copy does not change the original.\<close>

lemma copy_independent:
  assumes x: "reach h x \<subseteq> {..<length h}" and c: "copy x h = (y, h')"
    and a: "a \<in> reach h' y"
  shows "val (h'[a := c]) x = val h x"
proof -
  from copy [OF x c] have g: "grows h h'" and r: "reach h' y \<subseteq> {length h..<length h'}" by auto
  with a have "length h \<le> a" by auto
  with x g have "\<forall>b \<in> reach h x. h'[a := c] ! b = h ! b"
    by (auto simp: grows_def nth_list_update)
  from local [OF this] show ?thesis by simp
qed

text \<open>Nor does writing to anything that was there before change the copy.\<close>

lemma original_independent:
  assumes x: "reach h x \<subseteq> {..<length h}" and c: "copy x h = (y, h')" and a: "a < length h"
  shows "val (h'[a := c]) y = val h x"
proof -
  from copy [OF x c] have r: "reach h' y \<subseteq> {length h..<length h'}" and v: "val h' y = val h x" by auto
  with a have "\<forall>b \<in> reach h' y. h'[a := c] ! b = h' ! b" by (auto simp: nth_list_update)
  from local [OF this] v show ?thesis by simp
qed

end

section \<open>Slices keep the contract\<close>

text \<open>The value of a slice tells a nil slice, which is \<open>None\<close>, from an empty one.\<close>

definition slice_val ::
  "('h \<Rightarrow> 'a list) \<Rightarrow> ('h list \<Rightarrow> 'a \<Rightarrow> 'b) \<Rightarrow> 'h list \<Rightarrow> slice \<Rightarrow> 'b list option" where
  "slice_val get val h s = map_option (\<lambda>a. map (val h) (get (h ! a))) s"

lemma slice_val_nil [simp]: "slice_val get val h s = None \<longleftrightarrow> s = None"
  by (simp add: slice_val_def)

fun elems :: "'b list option \<Rightarrow> 'b list" where
  "elems None = []"
| "elems (Some xs) = xs"

definition slice_reach :: "('h \<Rightarrow> 'a list) \<Rightarrow> ('h list \<Rightarrow> 'a \<Rightarrow> nat set) \<Rightarrow> 'h list \<Rightarrow> slice \<Rightarrow> nat set" where
  "slice_reach get reach h s =
     (case s of None \<Rightarrow> {} | Some a \<Rightarrow> insert a (\<Union>x \<in> set (get (h ! a)). reach h x))"

context deep_copier
begin

lemma fill_copies:
  assumes "\<forall>x \<in> set xs. reach h x \<subseteq> {..<out}" and "out < length h"
    and "\<And>xs. get (mk xs) = xs" and "length (get (h ! out)) = i + length xs"
  shows "\<exists>zs. length h \<le> length (fill get mk copy out xs i h) \<and>
    (\<forall>a < length h. a \<noteq> out \<longrightarrow> fill get mk copy out xs i h ! a = h ! a) \<and>
    get (fill get mk copy out xs i h ! out) = take i (get (h ! out)) @ zs \<and>
    list_all2 (\<lambda>z x. val (fill get mk copy out xs i h) z = val h x \<and>
      reach (fill get mk copy out xs i h) z \<subseteq> {length h..<length (fill get mk copy out xs i h)}) zs xs"
  using assms
proof (induction xs arbitrary: i h)
  case Nil
  then show ?case by (intro exI [of _ "[]"]) simp
next
  case (Cons x xs)
  obtain y h1 where y: "copy x h = (y, h1)" by fastforce
  have "reach h x \<subseteq> {..<length h}" using Cons.prems(1,2) by (auto simp: subset_eq)
  from copy [OF this y] have g: "grows h h1" and vy: "val h1 y = val h x"
    and ry: "reach h1 y \<subseteq> {length h..<length h1}" by auto
  define h2 where "h2 = h1[out := mk ((get (h1 ! out))[i := y])]"
  define h3 where "h3 = fill get mk copy out xs (Suc i) h2"
  have step: "fill get mk copy out (x # xs) i h = h3" by (simp add: y h2_def h3_def)
  have len: "length h2 = length h1" "length h \<le> length h1" "out < length h1"
    using g Cons.prems(2) by (simp_all add: h2_def grows_def)
  have same: "h2 ! a = h ! a" if "a < length h" "a \<noteq> out" for a
    using that g by (simp add: h2_def grows_def)
  have arr: "get (h2 ! out) = (get (h ! out))[i := y]"
    using g len Cons.prems(2,3) by (simp add: h2_def grows_def)
  have old: "reach h2 x' = reach h x' \<and> val h2 x' = val h x'" if "x' \<in> set xs" for x'
  proof -
    have "\<forall>a \<in> reach h x'. h2 ! a = h ! a"
    proof
      fix a assume "a \<in> reach h x'"
      then have "a < out" using Cons.prems(1) that by auto
      then show "h2 ! a = h ! a" using same Cons.prems(2) by simp
    qed
    from local [OF this] show ?thesis by simp
  qed
  have "\<exists>zs. length h2 \<le> length h3 \<and> (\<forall>a < length h2. a \<noteq> out \<longrightarrow> h3 ! a = h2 ! a) \<and>
    get (h3 ! out) = take (Suc i) (get (h2 ! out)) @ zs \<and>
    list_all2 (\<lambda>z x. val h3 z = val h2 x \<and> reach h3 z \<subseteq> {length h2..<length h3}) zs xs"
    unfolding h3_def
    by (rule Cons.IH) (use Cons.prems old len arr in \<open>auto simp: subset_eq\<close>)
  then obtain zs where zs: "length h2 \<le> length h3" "\<forall>a < length h2. a \<noteq> out \<longrightarrow> h3 ! a = h2 ! a"
    "get (h3 ! out) = take (Suc i) (get (h2 ! out)) @ zs"
    "list_all2 (\<lambda>z x. val h3 z = val h2 x \<and> reach h3 z \<subseteq> {length h2..<length h3}) zs xs" by blast
  have "\<forall>a \<in> reach h1 y. h3 ! a = h1 ! a"
    using ry zs(2) len Cons.prems(2) by (auto simp: h2_def subset_eq)
  from local [OF this] have y3: "val h3 y = val h x" "reach h3 y \<subseteq> {length h..<length h3}"
    using vy ry zs(1) len by (auto simp: subset_eq)
  have "list_all2 (\<lambda>z x. val h3 z = val h x \<and> reach h3 z \<subseteq> {length h..<length h3}) zs xs"
    by (rule list.rel_mono_strong [OF zs(4)]) (use old len in \<open>auto simp: subset_eq\<close>)
  moreover have "take (Suc i) (get (h2 ! out)) = take i (get (h ! out)) @ [y]"
    using arr Cons.prems(4) by (simp add: take_Suc_conv_app_nth)
  ultimately show ?case
    unfolding step using zs(1,2,3) y3 len same by (intro exI [of _ "y # zs"]) auto
qed

lemma slice_deep_copier:
  assumes get: "\<And>xs. get (mk xs) = xs"
  shows "deep_copier (copy_slice get mk zero copy) (slice_val get val) (slice_reach get reach)"
proof
  fix h h' and s :: slice
  assume "\<forall>a \<in> slice_reach get reach h s. h' ! a = h ! a"
  then show "slice_val get val h' s = slice_val get val h s \<and>
      slice_reach get reach h' s = slice_reach get reach h s"
    using local [of h _ h'] by (cases s) (auto simp: slice_val_def slice_reach_def)
next
  fix h h' and s t :: slice
  assume r: "slice_reach get reach h s \<subseteq> {..<length h}"
    and c: "copy_slice get mk zero copy s h = (t, h')"
  show "grows h h' \<and> slice_val get val h' t = slice_val get val h s \<and>
      slice_reach get reach h' t \<subseteq> {length h..<length h'}"
  proof (cases s)
    case None
    with c show ?thesis by (auto simp: copy_slice_def slice_val_def slice_reach_def)
  next
    case (Some a)
    let ?xs = "get (h ! a)"
    let ?h1 = "h @ [mk (replicate (length ?xs) zero)]"
    from c Some have t: "t = Some (length h)" and h': "h' = fill get mk copy (length h) ?xs 0 ?h1"
      by (auto simp: copy_slice_def alloc_def Let_def)
    from r Some have el: "reach h x \<subseteq> {..<length h}" if "x \<in> set ?xs" for x
      using that by (auto simp: slice_reach_def)
    have el1: "val ?h1 x = val h x \<and> reach ?h1 x = reach h x" if "x \<in> set ?xs" for x
      using old_persists [OF el [OF that], of ?h1] by (simp add: grows_def nth_append)
    have "\<exists>zs. length ?h1 \<le> length h' \<and> (\<forall>a < length ?h1. a \<noteq> length h \<longrightarrow> h' ! a = ?h1 ! a) \<and>
        get (h' ! length h) = take 0 (get (?h1 ! length h)) @ zs \<and>
        list_all2 (\<lambda>z x. val h' z = val ?h1 x \<and> reach h' z \<subseteq> {length ?h1..<length h'}) zs ?xs"
      unfolding h' by (rule fill_copies) (use el el1 get in auto)
    then obtain zs where zs: "length ?h1 \<le> length h'"
      "\<forall>a < length ?h1. a \<noteq> length h \<longrightarrow> h' ! a = ?h1 ! a" "get (h' ! length h) = zs"
      "list_all2 (\<lambda>z x. val h' z = val ?h1 x \<and> reach h' z \<subseteq> {length ?h1..<length h'}) zs ?xs"
      by auto
    have "map (val h') zs = map (val h) ?xs"
      using zs(4) el1 by (auto simp: list_all2_conv_all_nth intro: nth_equalityI)
    moreover have "reach h' z \<subseteq> {length h..<length h'}" if "z \<in> set zs" for z
      using zs(4) that by (fastforce simp: list_all2_conv_all_nth in_set_conv_nth)
    moreover have "grows h h'" using zs(1,2) by (auto simp: grows_def nth_append)
    ultimately show ?thesis
      using zs(1,3) by (auto simp: t Some slice_val_def slice_reach_def)
  qed
qed

end

section \<open>Pointers\<close>

text \<open>
  The generated \<^verbatim>\<open>DeepCopy\<close> methods: \<^verbatim>\<open>if in == nil { return nil }; out := new(T); in.DeepCopyInto(out);
  return out\<close>.
\<close>

definition new_copy ::
  "('h \<Rightarrow> 'a list) \<Rightarrow> ('a list \<Rightarrow> 'h) \<Rightarrow> 'a \<Rightarrow> ('a \<Rightarrow> 'h list \<Rightarrow> 'a \<times> 'h list) \<Rightarrow> pointer \<Rightarrow> 'h list \<Rightarrow>
     pointer \<times> 'h list" where
  "new_copy get mk zero copy p h =
     (case p of
        None \<Rightarrow> (None, h)
      | Some a \<Rightarrow>
          (let (out, h) = alloc (mk [zero]) h;
               (y, h) = copy (hd (get (h ! a))) h
           in (Some out, h[out := mk ((get (h ! out))[0 := y])])))"

definition pointer_val :: "('h \<Rightarrow> 'a list) \<Rightarrow> ('h list \<Rightarrow> 'a \<Rightarrow> 'b) \<Rightarrow> 'h list \<Rightarrow> pointer \<Rightarrow> 'b option" where
  "pointer_val get val h p = map_option (\<lambda>a. val h (hd (get (h ! a)))) p"

definition pointer_reach :: "('h \<Rightarrow> 'a list) \<Rightarrow> ('h list \<Rightarrow> 'a \<Rightarrow> nat set) \<Rightarrow> 'h list \<Rightarrow> pointer \<Rightarrow> nat set" where
  "pointer_reach get reach h p = (case p of None \<Rightarrow> {} | Some a \<Rightarrow> insert a (reach h (hd (get (h ! a)))))"

context deep_copier
begin

text \<open>A copy made after others and before more: the step of a proof about a struct of several fields.\<close>

lemma field_copy:
  assumes "reach h0 x \<subseteq> {..<length h0}" and "grows h0 h" and "copy x h = (y, h')"
  shows "grows h h' \<and> grows h0 h' \<and> (\<forall>h''. grows h' h'' \<longrightarrow>
    val h'' y = val h0 x \<and> reach h'' y \<subseteq> {length h0..<length h''})"
proof -
  have x: "reach h x = reach h0 x" "val h x = val h0 x" using old_persists [OF assms(1,2)] by auto
  with assms(1,2) have "reach h x \<subseteq> {..<length h}" by (auto dest!: grows_length)
  from copy [OF this assms(3)] have g: "grows h h'" and v: "val h' y = val h x"
    and r: "reach h' y \<subseteq> {length h..<length h'}" by auto
  have "val h'' y = val h0 x \<and> reach h'' y \<subseteq> {length h0..<length h''}" if "grows h' h''" for h''
    using new_persists [OF r that] v x r grows_length [OF that] grows_length [OF assms(2)]
    by (auto simp: subset_eq)
  with g grows_trans [OF assms(2) g] show ?thesis by blast
qed

lemma new_copy_deep_copier:
  assumes get: "\<And>xs. get (mk xs) = xs"
  shows "deep_copier (new_copy get mk zero copy) (pointer_val get val) (pointer_reach get reach)"
proof
  fix h h' and p :: pointer
  assume "\<forall>a \<in> pointer_reach get reach h p. h' ! a = h ! a"
  then show "pointer_val get val h' p = pointer_val get val h p \<and>
      pointer_reach get reach h' p = pointer_reach get reach h p"
    using local [of h _ h'] by (cases p) (auto simp: pointer_val_def pointer_reach_def)
next
  fix h h' and p q :: pointer
  assume r: "pointer_reach get reach h p \<subseteq> {..<length h}"
    and c: "new_copy get mk zero copy p h = (q, h')"
  show "grows h h' \<and> pointer_val get val h' q = pointer_val get val h p \<and>
      pointer_reach get reach h' q \<subseteq> {length h..<length h'}"
  proof (cases p)
    case None
    with c show ?thesis by (auto simp: new_copy_def pointer_val_def pointer_reach_def)
  next
    case (Some a)
    let ?h1 = "h @ [mk [zero]]"
    obtain y h2 where y: "copy (hd (get (h ! a))) ?h1 = (y, h2)" by fastforce
    have a: "a < length h" "reach h (hd (get (h ! a))) \<subseteq> {..<length h}"
      using r Some by (auto simp: pointer_reach_def)
    have g1: "grows h ?h1" by (simp add: grows_def nth_append)
    have x: "reach ?h1 (hd (get (h ! a))) = reach h (hd (get (h ! a)))"
      "val ?h1 (hd (get (h ! a))) = val h (hd (get (h ! a)))"
      using old_persists [OF a(2) g1] by auto
    then have "reach ?h1 (hd (get (h ! a))) \<subseteq> {..<length ?h1}" using a(2) by auto
    from copy [OF this y] x have g: "grows ?h1 h2" and v: "val h2 y = val h (hd (get (h ! a)))"
      and ry: "reach h2 y \<subseteq> {length ?h1..<length h2}" by auto
    let ?h3 = "h2[length h := mk [y]]"
    have out: "get (h2 ! length h) = [zero]" using g get by (simp add: grows_def)
    have q: "q = Some (length h)" "h' = ?h3"
      using c Some y out a by (auto simp: new_copy_def alloc_def Let_def nth_append)
    have len: "length h < length h2" using g by (simp add: grows_def)
    have "\<forall>b \<in> reach h2 y. ?h3 ! b = h2 ! b" using ry by (auto simp: nth_list_update)
    from local [OF this] v ry have "val ?h3 y = val h (hd (get (h ! a)))"
      "reach ?h3 y \<subseteq> {length h..<length ?h3}" by auto
    moreover have "grows h ?h3" using g by (auto simp: grows_def nth_append nth_list_update)
    ultimately show ?thesis
      using len get by (simp add: q Some pointer_val_def pointer_reach_def)
  qed
qed

end

text \<open>\<^verbatim>\<open>*out = *in\<close> is a deep copy of a struct that refers to nothing.\<close>

definition assign :: "'a \<Rightarrow> 'h list \<Rightarrow> 'a \<times> 'h list" where
  "assign x h = (x, h)"

interpretation assigned: deep_copier assign "\<lambda>_ x. x" "\<lambda>_ _. {}"
  by unfold_locales (auto simp: assign_def)

section \<open>Structs\<close>

text \<open>Two copies, one after the other.\<close>

definition copy_both ::
  "('a \<Rightarrow> 'h list \<Rightarrow> 'a \<times> 'h list) \<Rightarrow> ('b \<Rightarrow> 'h list \<Rightarrow> 'b \<times> 'h list) \<Rightarrow> 'a \<times> 'b \<Rightarrow> 'h list \<Rightarrow>
     ('a \<times> 'b) \<times> 'h list" where
  "copy_both c d z h = (let (a, h) = c (fst z) h; (b, h) = d (snd z) h in ((a, b), h))"

definition both_val :: "('h \<Rightarrow> 'a \<Rightarrow> 'x) \<Rightarrow> ('h \<Rightarrow> 'b \<Rightarrow> 'y) \<Rightarrow> 'h \<Rightarrow> 'a \<times> 'b \<Rightarrow> 'x \<times> 'y" where
  "both_val v w h z = (v h (fst z), w h (snd z))"

definition both_reach :: "('h \<Rightarrow> 'a \<Rightarrow> nat set) \<Rightarrow> ('h \<Rightarrow> 'b \<Rightarrow> nat set) \<Rightarrow> 'h \<Rightarrow> 'a \<times> 'b \<Rightarrow> nat set" where
  "both_reach r q h z = r h (fst z) \<union> q h (snd z)"

lemmas both_defs = copy_both_def both_val_def both_reach_def

lemma both_deep_copier:
  fixes v :: "'h list \<Rightarrow> 'a \<Rightarrow> 'x" and w :: "'h list \<Rightarrow> 'b \<Rightarrow> 'y"
  assumes c: "deep_copier c v r" and d: "deep_copier d w q"
  shows "deep_copier (copy_both c d) (both_val v w) (both_reach r q)"
proof
  fix h h' and z :: "'a \<times> 'b"
  assume "\<forall>a \<in> both_reach r q h z. h' ! a = h ! a"
  then show "both_val v w h' z = both_val v w h z \<and> both_reach r q h' z = both_reach r q h z"
    using deep_copier.local [OF c, of h "fst z" h'] deep_copier.local [OF d, of h "snd z" h']
    by (simp add: both_defs ball_Un)
next
  fix h h' and z z' :: "'a \<times> 'b"
  assume bound: "both_reach r q h z \<subseteq> {..<length h}" and copy: "copy_both c d z h = (z', h')"
  obtain a h1 where 1: "c (fst z) h = (a, h1)" by fastforce
  obtain b h2 where 2: "d (snd z) h1 = (b, h2)" by fastforce
  have z': "z' = (a, b)" "h' = h2" using copy by (auto simp: copy_both_def 1 2)
  have f1: "grows h h1 \<and> grows h h1 \<and> (\<forall>h''. grows h1 h'' \<longrightarrow>
      v h'' a = v h (fst z) \<and> r h'' a \<subseteq> {length h..<length h''})"
    by (rule deep_copier.field_copy [OF c _ grows_refl 1]) (use bound in \<open>auto simp: both_reach_def\<close>)
  have f2: "grows h1 h2 \<and> grows h h2 \<and> (\<forall>h''. grows h2 h'' \<longrightarrow>
      w h'' b = w h (snd z) \<and> q h'' b \<subseteq> {length h..<length h''})"
    by (rule deep_copier.field_copy [OF d _ _ 2]) (use bound f1 in \<open>auto simp: both_reach_def\<close>)
  from f1 f2 show "grows h h' \<and> both_val v w h' z' = both_val v w h z \<and>
      both_reach r q h' z' \<subseteq> {length h..<length h'}"
    by (simp add: z' both_val_def both_reach_def)
qed

text \<open>
  A struct whose references are read by \<open>get\<close> and assigned by \<open>put\<close>, and whose value is a function \<open>F\<close>
  of its other fields and the values of the references.
\<close>

lemma struct_deep_copier:
  assumes c: "deep_copier c v r"
    and get: "\<And>a x. get (put a x) = a" and F: "\<And>a x b. F (put a x) b = F x b"
    and copy: "\<And>x h. copy x h = (let (a, h') = c (get x) h in (put a x, h'))"
    and val: "\<And>h x. val h x = F x (v h (get x))" and reach: "\<And>h x. reach h x = r h (get x)"
  shows "deep_copier copy val reach"
proof
  fix h h' x
  assume "\<forall>a \<in> reach h x. h' ! a = h ! a"
  then show "val h' x = val h x \<and> reach h' x = reach h x"
    using deep_copier.local [OF c, of h "get x" h'] by (simp add: val reach)
next
  fix h h' x y
  assume "reach h x \<subseteq> {..<length h}" and "copy x h = (y, h')"
  then show "grows h h' \<and> val h' y = val h x \<and> reach h' y \<subseteq> {length h..<length h'}"
    using deep_copier.copy [OF c, of h "get x" "fst (c (get x) h)" "snd (c (get x) h)"]
    by (auto simp: copy val reach get F split: prod.splits)
qed

text \<open>A plain part with one reference beside it, the shape of many small structs.\<close>

definition beside :: "('a \<Rightarrow> 'h list \<Rightarrow> 'a \<times> 'h list) \<Rightarrow> 'x \<times> 'a \<Rightarrow> 'h list \<Rightarrow> ('x \<times> 'a) \<times> 'h list" where
  "beside c x h = (let (a, h) = c (snd x) h in ((fst x, a), h))"

definition beside_val :: "('x \<Rightarrow> 'b \<Rightarrow> 'y) \<Rightarrow> ('h \<Rightarrow> 'a \<Rightarrow> 'b) \<Rightarrow> 'h \<Rightarrow> 'x \<times> 'a \<Rightarrow> 'y" where
  "beside_val F v h x = F (fst x) (v h (snd x))"

definition beside_reach :: "('h \<Rightarrow> 'a \<Rightarrow> nat set) \<Rightarrow> 'h \<Rightarrow> 'x \<times> 'a \<Rightarrow> nat set" where
  "beside_reach r h x = r h (snd x)"

lemma beside_deep_copier:
  "deep_copier c v r \<Longrightarrow> deep_copier (beside c) (beside_val F v) (beside_reach r)"
  by (rule struct_deep_copier [where get = snd and put = "\<lambda>a x. (fst x, a)" and F = "\<lambda>x. F (fst x)"])
     (auto simp: beside_def beside_val_def beside_reach_def split: prod.splits)

end
