(* ===== verification/Api_Deep_Copy.thy ===== *)
theory Api_Deep_Copy
  imports Deep_Copy Api_V1
begin

text \<open>
  The generated deep copies of \<^verbatim>\<open>api/v1/zz_generated.deepcopy.go\<close>. The rest of the development treats
  custom resources as values; here their slices are references to arrays, and the deep copies are shown
  to refine the identity on those values and to share nothing with the original.

  Tolerations, environment variables, conditions and metadata are of other packages: their types are
  type variables, their \<^verbatim>\<open>DeepCopyInto\<close> functions are parameters (\<open>kube_copies\<close>), which promise the
  contract \<open>deep_copier\<close>.
\<close>

section \<open>The structs in memory\<close>

record hOperandSpec =
  hopr_Image :: string
  hopr_ImagePullPolicy :: string
  hopr_ServicePort :: int
  hopr_WorkerTolerations :: slice
  hopr_MasterTolerations :: slice
  hopr_WorkerEnvs :: slice
  hopr_MasterEnvs :: slice

record hNodeFeatureDiscoverySpec =
  hspc_Operand :: hOperandSpec
  hspc_TopologyUpdater :: bool
  hspc_Instance :: string
  hspc_ExtraLabelNs :: slice
  hspc_ResourceLabels :: slice
  hspc_LabelWhiteList :: string
  hspc_WorkerConfig :: WorkerConfigMap
  hspc_PruneOnDelete :: bool
  hspc_EnableTaints :: bool

record hNodeFeatureDiscoveryStatus =
  hsts_Conditions :: slice

type_synonym TypeMeta = "string \<times> string"

text \<open>\<open>'m\<close> is the metadata of an object, \<open>'l\<close> that of a list.\<close>

record 'm hNodeFeatureDiscovery =
  hnfd_TypeMeta :: TypeMeta
  hnfd_ObjectMeta :: 'm
  hnfd_Spec :: hNodeFeatureDiscoverySpec
  hnfd_Status :: hNodeFeatureDiscoveryStatus

record 'l hNodeFeatureDiscoveryList =
  hlst_TypeMeta :: TypeMeta
  hlst_ListMeta :: 'l
  hlst_Items :: slice

text \<open>
  An array, by its element type: strings, tolerations \<open>'t\<close>, environment variables \<open>'v\<close>, conditions
  \<open>'c\<close>, the structs of the package, and what the values of the other packages refer to.
\<close>

datatype ('t, 'v, 'c, 'm, 'l, 'o) cell =
    Strings "string list"
  | Tolerations "'t list"
  | Envs "'v list"
  | Conds "'c list"
  | ConfigMaps "WorkerConfigMap list"
  | Operands "hOperandSpec list"
  | Specs "hNodeFeatureDiscoverySpec list"
  | Statuses "hNodeFeatureDiscoveryStatus list"
  | Nfds "'m hNodeFeatureDiscovery list"
  | Lists "'l hNodeFeatureDiscoveryList list"
  | Foreign 'o

type_synonym ('t, 'v, 'c, 'm, 'l, 'o) memory = "('t, 'v, 'c, 'm, 'l, 'o) cell list"

fun strings_of :: "('t, 'v, 'c, 'm, 'l, 'o) cell \<Rightarrow> string list" where
  "strings_of (Strings xs) = xs" | "strings_of _ = []"

fun tolerations_of :: "('t, 'v, 'c, 'm, 'l, 'o) cell \<Rightarrow> 't list" where
  "tolerations_of (Tolerations xs) = xs" | "tolerations_of _ = []"

fun envs_of :: "('t, 'v, 'c, 'm, 'l, 'o) cell \<Rightarrow> 'v list" where
  "envs_of (Envs xs) = xs" | "envs_of _ = []"

fun conds_of :: "('t, 'v, 'c, 'm, 'l, 'o) cell \<Rightarrow> 'c list" where
  "conds_of (Conds xs) = xs" | "conds_of _ = []"

fun configmaps_of :: "('t, 'v, 'c, 'm, 'l, 'o) cell \<Rightarrow> WorkerConfigMap list" where
  "configmaps_of (ConfigMaps xs) = xs" | "configmaps_of _ = []"

fun operands_of :: "('t, 'v, 'c, 'm, 'l, 'o) cell \<Rightarrow> hOperandSpec list" where
  "operands_of (Operands xs) = xs" | "operands_of _ = []"

fun specs_of :: "('t, 'v, 'c, 'm, 'l, 'o) cell \<Rightarrow> hNodeFeatureDiscoverySpec list" where
  "specs_of (Specs xs) = xs" | "specs_of _ = []"

fun statuses_of :: "('t, 'v, 'c, 'm, 'l, 'o) cell \<Rightarrow> hNodeFeatureDiscoveryStatus list" where
  "statuses_of (Statuses xs) = xs" | "statuses_of _ = []"

fun nfds_of :: "('t, 'v, 'c, 'm, 'l, 'o) cell \<Rightarrow> 'm hNodeFeatureDiscovery list" where
  "nfds_of (Nfds xs) = xs" | "nfds_of _ = []"

fun lists_of :: "('t, 'v, 'c, 'm, 'l, 'o) cell \<Rightarrow> 'l hNodeFeatureDiscoveryList list" where
  "lists_of (Lists xs) = xs" | "lists_of _ = []"

section \<open>The generated functions\<close>

text \<open>
  A \<^verbatim>\<open>DeepCopyInto\<close> starts with \<^verbatim>\<open>*out = *in\<close>, so it is a function from \<^verbatim>\<open>*in\<close> to the new \<^verbatim>\<open>*out\<close>.
  The copies of the other packages, with the zero values of their types:
\<close>

type_synonym ('a, 'h) copier = "'a \<Rightarrow> 'h list \<Rightarrow> 'a \<times> 'h list"

record ('t, 'v, 'c, 'm, 'l, 'o) kube_copies =
  Toleration_DeepCopyInto :: "('t, ('t, 'v, 'c, 'm, 'l, 'o) cell) copier"
  EnvVar_DeepCopyInto :: "('v, ('t, 'v, 'c, 'm, 'l, 'o) cell) copier"
  Condition_DeepCopyInto :: "('c, ('t, 'v, 'c, 'm, 'l, 'o) cell) copier"
  ObjectMeta_DeepCopyInto :: "('m, ('t, 'v, 'c, 'm, 'l, 'o) cell) copier"
  ListMeta_DeepCopyInto :: "('l, ('t, 'v, 'c, 'm, 'l, 'o) cell) copier"
  new_Toleration :: 't
  new_EnvVar :: 'v
  new_Condition :: 'c
  new_ObjectMeta :: 'm
  new_ListMeta :: 'l

text \<open>\<^verbatim>\<open>if in.F != nil { ...; *out = make([]string, len(*in)); copy(*out, *in) }\<close>\<close>

definition copy_strings ::
  "slice \<Rightarrow> ('t, 'v, 'c, 'm, 'l, 'o) memory \<Rightarrow> slice \<times> ('t, 'v, 'c, 'm, 'l, 'o) memory" where
  "copy_strings s h =
     (case s of
        None \<Rightarrow> (None, h)
      | Some a \<Rightarrow>
          (let xs = strings_of (h ! a);
               (out, h) = alloc (Strings (replicate (length xs) [])) h
           in (Some out, h[out := Strings (go_copy (strings_of (h ! out)) xs)])))"

definition ConfigMap_DeepCopyInto :: "(WorkerConfigMap, ('t, 'v, 'c, 'm, 'l, 'o) cell) copier" where
  "ConfigMap_DeepCopyInto = assign"

definition OperandSpec_DeepCopyInto ::
  "('t, 'v, 'c, 'm, 'l, 'o) kube_copies \<Rightarrow> (hOperandSpec, ('t, 'v, 'c, 'm, 'l, 'o) cell) copier" where
  "OperandSpec_DeepCopyInto k x h =
     (let out = x;
          (s, h) = copy_slice tolerations_of Tolerations (new_Toleration k) (Toleration_DeepCopyInto k)
                     (hopr_WorkerTolerations x) h;
          out = out\<lparr>hopr_WorkerTolerations := s\<rparr>;
          (s, h) = copy_slice tolerations_of Tolerations (new_Toleration k) (Toleration_DeepCopyInto k)
                     (hopr_MasterTolerations x) h;
          out = out\<lparr>hopr_MasterTolerations := s\<rparr>;
          (s, h) = copy_slice envs_of Envs (new_EnvVar k) (EnvVar_DeepCopyInto k) (hopr_WorkerEnvs x) h;
          out = out\<lparr>hopr_WorkerEnvs := s\<rparr>;
          (s, h) = copy_slice envs_of Envs (new_EnvVar k) (EnvVar_DeepCopyInto k) (hopr_MasterEnvs x) h
      in (out\<lparr>hopr_MasterEnvs := s\<rparr>, h))"

definition NodeFeatureDiscoverySpec_DeepCopyInto ::
  "('t, 'v, 'c, 'm, 'l, 'o) kube_copies \<Rightarrow>
     (hNodeFeatureDiscoverySpec, ('t, 'v, 'c, 'm, 'l, 'o) cell) copier" where
  "NodeFeatureDiscoverySpec_DeepCopyInto k x h =
     (let out = x;
          (operand, h) = OperandSpec_DeepCopyInto k (hspc_Operand x) h;
          out = out\<lparr>hspc_Operand := operand\<rparr>;
          (s, h) = copy_strings (hspc_ExtraLabelNs x) h;
          out = out\<lparr>hspc_ExtraLabelNs := s\<rparr>;
          (s, h) = copy_strings (hspc_ResourceLabels x) h;
          out = out\<lparr>hspc_ResourceLabels := s\<rparr>
      in (out\<lparr>hspc_WorkerConfig := hspc_WorkerConfig x\<rparr>, h))"

definition NodeFeatureDiscoveryStatus_DeepCopyInto ::
  "('t, 'v, 'c, 'm, 'l, 'o) kube_copies \<Rightarrow>
     (hNodeFeatureDiscoveryStatus, ('t, 'v, 'c, 'm, 'l, 'o) cell) copier" where
  "NodeFeatureDiscoveryStatus_DeepCopyInto k x h =
     (let out = x;
          (s, h) = copy_slice conds_of Conds (new_Condition k) (Condition_DeepCopyInto k) (hsts_Conditions x) h
      in (out\<lparr>hsts_Conditions := s\<rparr>, h))"

definition NodeFeatureDiscovery_DeepCopyInto ::
  "('t, 'v, 'c, 'm, 'l, 'o) kube_copies \<Rightarrow>
     ('m hNodeFeatureDiscovery, ('t, 'v, 'c, 'm, 'l, 'o) cell) copier" where
  "NodeFeatureDiscovery_DeepCopyInto k x h =
     (let out = x;
          out = out\<lparr>hnfd_TypeMeta := hnfd_TypeMeta x\<rparr>;
          (meta, h) = ObjectMeta_DeepCopyInto k (hnfd_ObjectMeta x) h;
          out = out\<lparr>hnfd_ObjectMeta := meta\<rparr>;
          (spec, h) = NodeFeatureDiscoverySpec_DeepCopyInto k (hnfd_Spec x) h;
          out = out\<lparr>hnfd_Spec := spec\<rparr>;
          (status, h) = NodeFeatureDiscoveryStatus_DeepCopyInto k (hnfd_Status x) h
      in (out\<lparr>hnfd_Status := status\<rparr>, h))"

text \<open>The zero values, of \<^verbatim>\<open>new\<close> and \<^verbatim>\<open>make\<close>.\<close>

definition new_OperandSpec :: hOperandSpec where
  "new_OperandSpec = \<lparr>hopr_Image = [], hopr_ImagePullPolicy = [], hopr_ServicePort = 0,
     hopr_WorkerTolerations = None, hopr_MasterTolerations = None, hopr_WorkerEnvs = None,
     hopr_MasterEnvs = None\<rparr>"

definition new_Spec :: hNodeFeatureDiscoverySpec where
  "new_Spec = \<lparr>hspc_Operand = new_OperandSpec, hspc_TopologyUpdater = False, hspc_Instance = [],
     hspc_ExtraLabelNs = None, hspc_ResourceLabels = None, hspc_LabelWhiteList = [],
     hspc_WorkerConfig = \<lparr>wcm_ConfigData = []\<rparr>, hspc_PruneOnDelete = False, hspc_EnableTaints = False\<rparr>"

definition new_Status :: hNodeFeatureDiscoveryStatus where
  "new_Status = \<lparr>hsts_Conditions = None\<rparr>"

definition new_Nfd :: "('t, 'v, 'c, 'm, 'l, 'o) kube_copies \<Rightarrow> 'm hNodeFeatureDiscovery" where
  "new_Nfd k = \<lparr>hnfd_TypeMeta = ([], []), hnfd_ObjectMeta = new_ObjectMeta k, hnfd_Spec = new_Spec,
     hnfd_Status = new_Status\<rparr>"

definition new_List :: "('t, 'v, 'c, 'm, 'l, 'o) kube_copies \<Rightarrow> 'l hNodeFeatureDiscoveryList" where
  "new_List k = \<lparr>hlst_TypeMeta = ([], []), hlst_ListMeta = new_ListMeta k, hlst_Items = None\<rparr>"

definition NodeFeatureDiscoveryList_DeepCopyInto ::
  "('t, 'v, 'c, 'm, 'l, 'o) kube_copies \<Rightarrow>
     ('l hNodeFeatureDiscoveryList, ('t, 'v, 'c, 'm, 'l, 'o) cell) copier" where
  "NodeFeatureDiscoveryList_DeepCopyInto k x h =
     (let out = x;
          out = out\<lparr>hlst_TypeMeta := hlst_TypeMeta x\<rparr>;
          (meta, h) = ListMeta_DeepCopyInto k (hlst_ListMeta x) h;
          out = out\<lparr>hlst_ListMeta := meta\<rparr>;
          (s, h) = copy_slice nfds_of Nfds (new_Nfd k) (NodeFeatureDiscovery_DeepCopyInto k) (hlst_Items x) h
      in (out\<lparr>hlst_Items := s\<rparr>, h))"

text \<open>The \<^verbatim>\<open>DeepCopy\<close> methods take and return a pointer.\<close>

definition ConfigMap_DeepCopy :: "(pointer, ('t, 'v, 'c, 'm, 'l, 'o) cell) copier" where
  "ConfigMap_DeepCopy = new_copy configmaps_of ConfigMaps \<lparr>wcm_ConfigData = []\<rparr> ConfigMap_DeepCopyInto"

definition OperandSpec_DeepCopy :: "('t, 'v, 'c, 'm, 'l, 'o) kube_copies \<Rightarrow> (pointer, ('t, 'v, 'c, 'm, 'l, 'o) cell) copier" where
  "OperandSpec_DeepCopy k = new_copy operands_of Operands new_OperandSpec (OperandSpec_DeepCopyInto k)"

definition NodeFeatureDiscoverySpec_DeepCopy :: "('t, 'v, 'c, 'm, 'l, 'o) kube_copies \<Rightarrow> (pointer, ('t, 'v, 'c, 'm, 'l, 'o) cell) copier" where
  "NodeFeatureDiscoverySpec_DeepCopy k = new_copy specs_of Specs new_Spec (NodeFeatureDiscoverySpec_DeepCopyInto k)"

definition NodeFeatureDiscoveryStatus_DeepCopy :: "('t, 'v, 'c, 'm, 'l, 'o) kube_copies \<Rightarrow> (pointer, ('t, 'v, 'c, 'm, 'l, 'o) cell) copier" where
  "NodeFeatureDiscoveryStatus_DeepCopy k = new_copy statuses_of Statuses new_Status (NodeFeatureDiscoveryStatus_DeepCopyInto k)"

definition NodeFeatureDiscovery_DeepCopy :: "('t, 'v, 'c, 'm, 'l, 'o) kube_copies \<Rightarrow> (pointer, ('t, 'v, 'c, 'm, 'l, 'o) cell) copier" where
  "NodeFeatureDiscovery_DeepCopy k = new_copy nfds_of Nfds (new_Nfd k) (NodeFeatureDiscovery_DeepCopyInto k)"

definition NodeFeatureDiscoveryList_DeepCopy :: "('t, 'v, 'c, 'm, 'l, 'o) kube_copies \<Rightarrow> (pointer, ('t, 'v, 'c, 'm, 'l, 'o) cell) copier" where
  "NodeFeatureDiscoveryList_DeepCopy k = new_copy lists_of Lists (new_List k) (NodeFeatureDiscoveryList_DeepCopyInto k)"

text \<open>
  \<^verbatim>\<open>DeepCopyObject\<close> returns an interface value, which is nil only when it holds no pointer at all: the
  test for nil avoids an interface that holds a nil pointer.
\<close>

datatype runtime_Object = NilObject | NfdObject pointer | NfdListObject pointer

definition NodeFeatureDiscovery_DeepCopyObject ::
  "('t, 'v, 'c, 'm, 'l, 'o) kube_copies \<Rightarrow> pointer \<Rightarrow> ('t, 'v, 'c, 'm, 'l, 'o) memory \<Rightarrow>
     runtime_Object \<times> ('t, 'v, 'c, 'm, 'l, 'o) memory" where
  "NodeFeatureDiscovery_DeepCopyObject k p h =
     (let (c, h) = NodeFeatureDiscovery_DeepCopy k p h
      in if c \<noteq> None then (NfdObject c, h) else (NilObject, h))"

definition NodeFeatureDiscoveryList_DeepCopyObject ::
  "('t, 'v, 'c, 'm, 'l, 'o) kube_copies \<Rightarrow> pointer \<Rightarrow> ('t, 'v, 'c, 'm, 'l, 'o) memory \<Rightarrow>
     runtime_Object \<times> ('t, 'v, 'c, 'm, 'l, 'o) memory" where
  "NodeFeatureDiscoveryList_DeepCopyObject k p h =
     (let (c, h) = NodeFeatureDiscoveryList_DeepCopy k p h
      in if c \<noteq> None then (NfdListObject c, h) else (NilObject, h))"

section \<open>The values in memory\<close>

text \<open>
  The abstraction to the values of \<open>Api_V1\<close>, and the addresses a struct depends on. The values of
  \<open>Api_V1\<close> do not tell a nil slice from an empty one, which the generated code does: beside the value of
  a struct stands the list of which of its slices are nil. The views of the values of the other packages
  are parameters again.
\<close>

record ('t, 'v, 'c, 'm, 'l, 'o, 'n) kube_views =
  val_Toleration :: "('t, 'v, 'c, 'm, 'l, 'o) memory \<Rightarrow> 't \<Rightarrow> Toleration"
  val_EnvVar :: "('t, 'v, 'c, 'm, 'l, 'o) memory \<Rightarrow> 'v \<Rightarrow> EnvVar"
  val_Condition :: "('t, 'v, 'c, 'm, 'l, 'o) memory \<Rightarrow> 'c \<Rightarrow> Condition"
  val_ObjectMeta :: "('t, 'v, 'c, 'm, 'l, 'o) memory \<Rightarrow> 'm \<Rightarrow> ObjectMeta"
  val_ListMeta :: "('t, 'v, 'c, 'm, 'l, 'o) memory \<Rightarrow> 'l \<Rightarrow> 'n"
  reach_Toleration :: "('t, 'v, 'c, 'm, 'l, 'o) memory \<Rightarrow> 't \<Rightarrow> nat set"
  reach_EnvVar :: "('t, 'v, 'c, 'm, 'l, 'o) memory \<Rightarrow> 'v \<Rightarrow> nat set"
  reach_Condition :: "('t, 'v, 'c, 'm, 'l, 'o) memory \<Rightarrow> 'c \<Rightarrow> nat set"
  reach_ObjectMeta :: "('t, 'v, 'c, 'm, 'l, 'o) memory \<Rightarrow> 'm \<Rightarrow> nat set"
  reach_ListMeta :: "('t, 'v, 'c, 'm, 'l, 'o) memory \<Rightarrow> 'l \<Rightarrow> nat set"

definition operand_val ::
  "('t, 'v, 'c, 'm, 'l, 'o, 'n) kube_views \<Rightarrow> ('t, 'v, 'c, 'm, 'l, 'o) memory \<Rightarrow> hOperandSpec \<Rightarrow>
     OperandSpec \<times> bool list" where
  "operand_val V h x = (\<lparr>opr_Image = hopr_Image x, opr_ImagePullPolicy = hopr_ImagePullPolicy x,
     opr_ServicePort = hopr_ServicePort x,
     opr_WorkerTolerations = elems (slice_val tolerations_of (val_Toleration V) h (hopr_WorkerTolerations x)),
     opr_MasterTolerations = elems (slice_val tolerations_of (val_Toleration V) h (hopr_MasterTolerations x)),
     opr_WorkerEnvs = elems (slice_val envs_of (val_EnvVar V) h (hopr_WorkerEnvs x)),
     opr_MasterEnvs = elems (slice_val envs_of (val_EnvVar V) h (hopr_MasterEnvs x))\<rparr>,
     [hopr_WorkerTolerations x = None, hopr_MasterTolerations x = None, hopr_WorkerEnvs x = None,
      hopr_MasterEnvs x = None])"

definition operand_reach ::
  "('t, 'v, 'c, 'm, 'l, 'o, 'n) kube_views \<Rightarrow> ('t, 'v, 'c, 'm, 'l, 'o) memory \<Rightarrow> hOperandSpec \<Rightarrow> nat set" where
  "operand_reach V h x =
     slice_reach tolerations_of (reach_Toleration V) h (hopr_WorkerTolerations x) \<union>
     slice_reach tolerations_of (reach_Toleration V) h (hopr_MasterTolerations x) \<union>
     slice_reach envs_of (reach_EnvVar V) h (hopr_WorkerEnvs x) \<union>
     slice_reach envs_of (reach_EnvVar V) h (hopr_MasterEnvs x)"

abbreviation strings_val :: "('t, 'v, 'c, 'm, 'l, 'o) memory \<Rightarrow> slice \<Rightarrow> string list option" where
  "strings_val \<equiv> slice_val strings_of (\<lambda>_ x. x)"

abbreviation strings_reach :: "('t, 'v, 'c, 'm, 'l, 'o) memory \<Rightarrow> slice \<Rightarrow> nat set" where
  "strings_reach \<equiv> slice_reach strings_of (\<lambda>_ _. {})"

definition spec_val ::
  "('t, 'v, 'c, 'm, 'l, 'o, 'n) kube_views \<Rightarrow> ('t, 'v, 'c, 'm, 'l, 'o) memory \<Rightarrow> hNodeFeatureDiscoverySpec \<Rightarrow>
     NodeFeatureDiscoverySpec \<times> bool list" where
  "spec_val V h x = (\<lparr>spc_Operand = fst (operand_val V h (hspc_Operand x)),
     spc_TopologyUpdater = hspc_TopologyUpdater x, spc_Instance = hspc_Instance x,
     spc_ExtraLabelNs = elems (strings_val h (hspc_ExtraLabelNs x)),
     spc_ResourceLabels = elems (strings_val h (hspc_ResourceLabels x)),
     spc_LabelWhiteList = hspc_LabelWhiteList x, spc_WorkerConfig = hspc_WorkerConfig x,
     spc_PruneOnDelete = hspc_PruneOnDelete x, spc_EnableTaints = hspc_EnableTaints x\<rparr>,
     snd (operand_val V h (hspc_Operand x)) @ [hspc_ExtraLabelNs x = None, hspc_ResourceLabels x = None])"

definition spec_reach ::
  "('t, 'v, 'c, 'm, 'l, 'o, 'n) kube_views \<Rightarrow> ('t, 'v, 'c, 'm, 'l, 'o) memory \<Rightarrow> hNodeFeatureDiscoverySpec \<Rightarrow>
     nat set" where
  "spec_reach V h x = operand_reach V h (hspc_Operand x) \<union> strings_reach h (hspc_ExtraLabelNs x) \<union>
     strings_reach h (hspc_ResourceLabels x)"

definition status_val ::
  "('t, 'v, 'c, 'm, 'l, 'o, 'n) kube_views \<Rightarrow> ('t, 'v, 'c, 'm, 'l, 'o) memory \<Rightarrow> hNodeFeatureDiscoveryStatus \<Rightarrow>
     NodeFeatureDiscoveryStatus \<times> bool list" where
  "status_val V h x =
     (\<lparr>sts_Conditions = elems (slice_val conds_of (val_Condition V) h (hsts_Conditions x))\<rparr>,
      [hsts_Conditions x = None])"

definition status_reach ::
  "('t, 'v, 'c, 'm, 'l, 'o, 'n) kube_views \<Rightarrow> ('t, 'v, 'c, 'm, 'l, 'o) memory \<Rightarrow> hNodeFeatureDiscoveryStatus \<Rightarrow>
     nat set" where
  "status_reach V h x = slice_reach conds_of (reach_Condition V) h (hsts_Conditions x)"

definition nfd_val ::
  "('t, 'v, 'c, 'm, 'l, 'o, 'n) kube_views \<Rightarrow> ('t, 'v, 'c, 'm, 'l, 'o) memory \<Rightarrow> 'm hNodeFeatureDiscovery \<Rightarrow>
     TypeMeta \<times> NodeFeatureDiscovery \<times> bool list" where
  "nfd_val V h x = (hnfd_TypeMeta x,
     \<lparr>nfd_ObjectMeta = val_ObjectMeta V h (hnfd_ObjectMeta x), nfd_Spec = fst (spec_val V h (hnfd_Spec x)),
      nfd_Status = fst (status_val V h (hnfd_Status x))\<rparr>,
     snd (spec_val V h (hnfd_Spec x)) @ snd (status_val V h (hnfd_Status x)))"

definition nfd_reach ::
  "('t, 'v, 'c, 'm, 'l, 'o, 'n) kube_views \<Rightarrow> ('t, 'v, 'c, 'm, 'l, 'o) memory \<Rightarrow> 'm hNodeFeatureDiscovery \<Rightarrow>
     nat set" where
  "nfd_reach V h x = reach_ObjectMeta V h (hnfd_ObjectMeta x) \<union> spec_reach V h (hnfd_Spec x) \<union>
     status_reach V h (hnfd_Status x)"

definition list_val ::
  "('t, 'v, 'c, 'm, 'l, 'o, 'n) kube_views \<Rightarrow> ('t, 'v, 'c, 'm, 'l, 'o) memory \<Rightarrow> 'l hNodeFeatureDiscoveryList \<Rightarrow>
     TypeMeta \<times> 'n \<times> (TypeMeta \<times> NodeFeatureDiscovery \<times> bool list) list option" where
  "list_val V h x =
     (hlst_TypeMeta x, val_ListMeta V h (hlst_ListMeta x), slice_val nfds_of (nfd_val V) h (hlst_Items x))"

definition list_reach ::
  "('t, 'v, 'c, 'm, 'l, 'o, 'n) kube_views \<Rightarrow> ('t, 'v, 'c, 'm, 'l, 'o) memory \<Rightarrow> 'l hNodeFeatureDiscoveryList \<Rightarrow>
     nat set" where
  "list_reach V h x =
     reach_ListMeta V h (hlst_ListMeta x) \<union> slice_reach nfds_of (nfd_reach V) h (hlst_Items x)"

section \<open>Every generated copy keeps the contract\<close>

interpretation strings: deep_copier copy_strings strings_val strings_reach
proof
  fix h h' :: "('t, 'v, 'c, 'm, 'l, 'o) memory" and s t :: slice
  assume r: "slice_reach strings_of (\<lambda>_ _. {}) h s \<subseteq> {..<length h}"
    and c: "copy_strings s h = (t, h')"
  show "grows h h' \<and> slice_val strings_of (\<lambda>_ x. x) h' t = slice_val strings_of (\<lambda>_ x. x) h s \<and>
      slice_reach strings_of (\<lambda>_ _. {}) h' t \<subseteq> {length h..<length h'}"
    using c r
    by (auto simp: copy_strings_def alloc_def go_copy_def grows_def slice_val_def slice_reach_def
        nth_append nth_list_update Let_def split: option.splits)
qed (auto simp: slice_val_def slice_reach_def split: option.splits)

locale kube_contract =
  fixes k :: "('t, 'v, 'c, 'm, 'l, 'o) kube_copies" and V :: "('t, 'v, 'c, 'm, 'l, 'o, 'n) kube_views"
  assumes toleration: "deep_copier (Toleration_DeepCopyInto k) (val_Toleration V) (reach_Toleration V)"
    and env: "deep_copier (EnvVar_DeepCopyInto k) (val_EnvVar V) (reach_EnvVar V)"
    and condition: "deep_copier (Condition_DeepCopyInto k) (val_Condition V) (reach_Condition V)"
    and object_meta: "deep_copier (ObjectMeta_DeepCopyInto k) (val_ObjectMeta V) (reach_ObjectMeta V)"
    and list_meta: "deep_copier (ListMeta_DeepCopyInto k) (val_ListMeta V) (reach_ListMeta V)"
begin

lemma tolerations: "deep_copier (copy_slice tolerations_of Tolerations (new_Toleration k) (Toleration_DeepCopyInto k))
    (slice_val tolerations_of (val_Toleration V)) (slice_reach tolerations_of (reach_Toleration V))"
  by (rule deep_copier.slice_deep_copier [OF toleration]) simp

lemma envs: "deep_copier (copy_slice envs_of Envs (new_EnvVar k) (EnvVar_DeepCopyInto k))
    (slice_val envs_of (val_EnvVar V)) (slice_reach envs_of (reach_EnvVar V))"
  by (rule deep_copier.slice_deep_copier [OF env]) simp

lemma conditions: "deep_copier (copy_slice conds_of Conds (new_Condition k) (Condition_DeepCopyInto k))
    (slice_val conds_of (val_Condition V)) (slice_reach conds_of (reach_Condition V))"
  by (rule deep_copier.slice_deep_copier [OF condition]) simp

lemma operand: "deep_copier (OperandSpec_DeepCopyInto k) (operand_val V) (operand_reach V)"
  by (rule struct_deep_copier [OF both_deep_copier [OF tolerations both_deep_copier [OF tolerations
          both_deep_copier [OF envs envs]]],
        where get = "\<lambda>x. (hopr_WorkerTolerations x, hopr_MasterTolerations x, hopr_WorkerEnvs x, hopr_MasterEnvs x)"
          and put = "\<lambda>(a, b, c, d) x. x\<lparr>hopr_WorkerTolerations := a, hopr_MasterTolerations := b,
            hopr_WorkerEnvs := c, hopr_MasterEnvs := d\<rparr>"
          and F = "\<lambda>x (a, b, c, d). (\<lparr>opr_Image = hopr_Image x, opr_ImagePullPolicy = hopr_ImagePullPolicy x,
            opr_ServicePort = hopr_ServicePort x, opr_WorkerTolerations = elems a,
            opr_MasterTolerations = elems b, opr_WorkerEnvs = elems c, opr_MasterEnvs = elems d\<rparr>,
            [a = None, b = None, c = None, d = None])"])
     (auto simp: OperandSpec_DeepCopyInto_def operand_val_def operand_reach_def both_defs split: prod.splits)

lemma spec: "deep_copier (NodeFeatureDiscoverySpec_DeepCopyInto k) (spec_val V) (spec_reach V)"
  by (rule struct_deep_copier [OF both_deep_copier [OF operand both_deep_copier [OF
          strings.deep_copier_axioms strings.deep_copier_axioms]],
        where get = "\<lambda>x. (hspc_Operand x, hspc_ExtraLabelNs x, hspc_ResourceLabels x)"
          and put = "\<lambda>(a, b, c) x. x\<lparr>hspc_Operand := a, hspc_ExtraLabelNs := b, hspc_ResourceLabels := c\<rparr>"
          and F = "\<lambda>x (a, b, c). (\<lparr>spc_Operand = fst a, spc_TopologyUpdater = hspc_TopologyUpdater x,
            spc_Instance = hspc_Instance x, spc_ExtraLabelNs = elems b, spc_ResourceLabels = elems c,
            spc_LabelWhiteList = hspc_LabelWhiteList x, spc_WorkerConfig = hspc_WorkerConfig x,
            spc_PruneOnDelete = hspc_PruneOnDelete x, spc_EnableTaints = hspc_EnableTaints x\<rparr>,
            snd a @ [b = None, c = None])"])
     (auto simp: NodeFeatureDiscoverySpec_DeepCopyInto_def spec_val_def spec_reach_def both_defs
        split: prod.splits)

lemma status: "deep_copier (NodeFeatureDiscoveryStatus_DeepCopyInto k) (status_val V) (status_reach V)"
  by (rule struct_deep_copier [OF conditions, where get = hsts_Conditions
          and put = "\<lambda>a x. x\<lparr>hsts_Conditions := a\<rparr>" and F = "\<lambda>_ a. (\<lparr>sts_Conditions = elems a\<rparr>, [a = None])"])
     (auto simp: NodeFeatureDiscoveryStatus_DeepCopyInto_def status_val_def status_reach_def split: prod.splits)

lemma nfd: "deep_copier (NodeFeatureDiscovery_DeepCopyInto k) (nfd_val V) (nfd_reach V)"
  by (rule struct_deep_copier [OF both_deep_copier [OF object_meta both_deep_copier [OF spec status]],
        where get = "\<lambda>x. (hnfd_ObjectMeta x, hnfd_Spec x, hnfd_Status x)"
          and put = "\<lambda>(a, b, c) x. x\<lparr>hnfd_ObjectMeta := a, hnfd_Spec := b, hnfd_Status := c\<rparr>"
          and F = "\<lambda>x (a, b, c). (hnfd_TypeMeta x,
            \<lparr>nfd_ObjectMeta = a, nfd_Spec = fst b, nfd_Status = fst c\<rparr>, snd b @ snd c)"])
     (auto simp: NodeFeatureDiscovery_DeepCopyInto_def nfd_val_def nfd_reach_def both_defs split: prod.splits)

lemma items: "deep_copier (copy_slice nfds_of Nfds (new_Nfd k) (NodeFeatureDiscovery_DeepCopyInto k))
    (slice_val nfds_of (nfd_val V)) (slice_reach nfds_of (nfd_reach V))"
  by (rule deep_copier.slice_deep_copier [OF nfd]) simp

lemma nfd_list: "deep_copier (NodeFeatureDiscoveryList_DeepCopyInto k) (list_val V) (list_reach V)"
  by (rule struct_deep_copier [OF both_deep_copier [OF list_meta items],
        where get = "\<lambda>x. (hlst_ListMeta x, hlst_Items x)"
          and put = "\<lambda>(a, b) x. x\<lparr>hlst_ListMeta := a, hlst_Items := b\<rparr>"
          and F = "\<lambda>x (a, b). (hlst_TypeMeta x, a, b)"])
     (auto simp: NodeFeatureDiscoveryList_DeepCopyInto_def list_val_def list_reach_def both_defs
        split: prod.splits)

text \<open>The \<^verbatim>\<open>DeepCopy\<close> methods.\<close>

lemma operand_pointer:
  "deep_copier (OperandSpec_DeepCopy k) (pointer_val operands_of (operand_val V))
     (pointer_reach operands_of (operand_reach V))"
  unfolding OperandSpec_DeepCopy_def by (rule deep_copier.new_copy_deep_copier [OF operand]) simp

lemma spec_pointer:
  "deep_copier (NodeFeatureDiscoverySpec_DeepCopy k) (pointer_val specs_of (spec_val V))
     (pointer_reach specs_of (spec_reach V))"
  unfolding NodeFeatureDiscoverySpec_DeepCopy_def by (rule deep_copier.new_copy_deep_copier [OF spec]) simp

lemma status_pointer:
  "deep_copier (NodeFeatureDiscoveryStatus_DeepCopy k) (pointer_val statuses_of (status_val V))
     (pointer_reach statuses_of (status_reach V))"
  unfolding NodeFeatureDiscoveryStatus_DeepCopy_def
  by (rule deep_copier.new_copy_deep_copier [OF status]) simp

lemma nfd_pointer:
  "deep_copier (NodeFeatureDiscovery_DeepCopy k) (pointer_val nfds_of (nfd_val V))
     (pointer_reach nfds_of (nfd_reach V))"
  unfolding NodeFeatureDiscovery_DeepCopy_def by (rule deep_copier.new_copy_deep_copier [OF nfd]) simp

lemma list_pointer:
  "deep_copier (NodeFeatureDiscoveryList_DeepCopy k) (pointer_val lists_of (list_val V))
     (pointer_reach lists_of (list_reach V))"
  unfolding NodeFeatureDiscoveryList_DeepCopy_def
  by (rule deep_copier.new_copy_deep_copier [OF nfd_list]) simp

end

interpretation configmap_pointer: deep_copier ConfigMap_DeepCopy
  "pointer_val configmaps_of (\<lambda>_ x. x)" "pointer_reach configmaps_of (\<lambda>_ _. {})"
  unfolding ConfigMap_DeepCopy_def ConfigMap_DeepCopyInto_def
  by (rule assigned.new_copy_deep_copier) simp

section \<open>An instance\<close>

text \<open>
  Values of the other packages with references of their own: a toleration points to its seconds, an
  environment variable to its source, an object's metadata holds a slice of finalizers and a list's
  points to the number of remaining items.
\<close>

datatype foreign = Ints "int list" | Sources "EnvVarSource list"

type_synonym sample_memory =
  "(Toleration \<times> pointer, EnvVar \<times> pointer, Condition, ObjectMeta \<times> slice, string \<times> pointer, foreign) memory"

fun ints_of :: "('t, 'v, 'c, 'm, 'l, foreign) cell \<Rightarrow> int list" where
  "ints_of (Foreign (Ints xs)) = xs" | "ints_of _ = []"

fun sources_of :: "('t, 'v, 'c, 'm, 'l, foreign) cell \<Rightarrow> EnvVarSource list" where
  "sources_of (Foreign (Sources xs)) = xs" | "sources_of _ = []"

definition copy_int :: "(pointer, ('t, 'v, 'c, 'm, 'l, foreign) cell) copier" where
  "copy_int = new_copy ints_of (\<lambda>xs. Foreign (Ints xs)) 0 assign"

definition copy_source :: "(pointer, ('t, 'v, 'c, 'm, 'l, foreign) cell) copier" where
  "copy_source = new_copy sources_of (\<lambda>xs. Foreign (Sources xs)) zero_EnvVarSource assign"

definition sample_copies ::
  "(Toleration \<times> pointer, EnvVar \<times> pointer, Condition, ObjectMeta \<times> slice, string \<times> pointer, foreign) kube_copies"
  where
  "sample_copies =
     \<lparr>Toleration_DeepCopyInto = beside copy_int, EnvVar_DeepCopyInto = beside copy_source,
      Condition_DeepCopyInto = assign, ObjectMeta_DeepCopyInto = beside copy_strings,
      ListMeta_DeepCopyInto = beside copy_int, new_Toleration = (zero_Toleration, None),
      new_EnvVar = (zero_EnvVar, None), new_Condition = zero_Condition,
      new_ObjectMeta = (zero_ObjectMeta, None), new_ListMeta = ([], None)\<rparr>"

definition sample_views ::
  "(Toleration \<times> pointer, EnvVar \<times> pointer, Condition, ObjectMeta \<times> slice, string \<times> pointer, foreign,
    string \<times> int option) kube_views" where
  "sample_views =
     \<lparr>val_Toleration = beside_val (\<lambda>x n. x\<lparr>tol_TolerationSeconds := n\<rparr>) (pointer_val ints_of (\<lambda>_ x. x)),
      val_EnvVar = beside_val (\<lambda>x e. x\<lparr>env_ValueFrom := e\<rparr>) (pointer_val sources_of (\<lambda>_ x. x)),
      val_Condition = (\<lambda>_ x. x),
      val_ObjectMeta = beside_val (\<lambda>x fs. x\<lparr>om_Finalizers := elems fs\<rparr>) strings_val,
      val_ListMeta = beside_val Pair (pointer_val ints_of (\<lambda>_ x. x)),
      reach_Toleration = beside_reach (pointer_reach ints_of (\<lambda>_ _. {})),
      reach_EnvVar = beside_reach (pointer_reach sources_of (\<lambda>_ _. {})),
      reach_Condition = (\<lambda>_ _. {}),
      reach_ObjectMeta = beside_reach strings_reach,
      reach_ListMeta = beside_reach (pointer_reach ints_of (\<lambda>_ _. {}))\<rparr>"

lemma copy_int_deep_copier: "deep_copier copy_int (pointer_val ints_of (\<lambda>_ x. x)) (pointer_reach ints_of (\<lambda>_ _. {}))"
  unfolding copy_int_def by (rule assigned.new_copy_deep_copier) simp

lemma copy_source_deep_copier:
  "deep_copier copy_source (pointer_val sources_of (\<lambda>_ x. x)) (pointer_reach sources_of (\<lambda>_ _. {}))"
  unfolding copy_source_def by (rule assigned.new_copy_deep_copier) simp

interpretation sample: kube_contract sample_copies sample_views
  by (rule kube_contract.intro)
     (simp_all add: sample_copies_def sample_views_def beside_deep_copier copy_int_deep_copier
       copy_source_deep_copier strings.deep_copier_axioms assigned.deep_copier_axioms)

text \<open>
  A custom resource with a finalizer, one toleration that has seconds and empty resource labels, and a
  list of it.
\<close>

definition sample_memory :: sample_memory where
  "sample_memory =
     [Foreign (Ints [30]), Tolerations [(zero_Toleration, Some 0)], Strings [''nfd-finalizer''],
      Nfds [\<lparr>hnfd_TypeMeta = (''NodeFeatureDiscovery'', ''v1''), hnfd_ObjectMeta = (zero_ObjectMeta, Some 2),
        hnfd_Spec = new_Spec\<lparr>hspc_Operand := new_OperandSpec\<lparr>hopr_MasterTolerations := Some 1\<rparr>,
          hspc_ResourceLabels := Some 5\<rparr>,
        hnfd_Status = new_Status\<rparr>],
      Lists [\<lparr>hlst_TypeMeta = ([], []), hlst_ListMeta = ([], None), hlst_Items = Some 3\<rparr>],
      Strings []]"

lemma sample_length [simp]: "length sample_memory = 6"
  by (simp add: sample_memory_def)

lemmas sample_defs = sample_memory_def sample_views_def new_Spec_def new_OperandSpec_def new_Status_def
  pointer_reach_def slice_reach_def beside_reach_def nfd_reach_def spec_reach_def operand_reach_def
  status_reach_def list_reach_def

section \<open>Properties\<close>

text \<open>
  C36: a deep copy of a custom resource is the same custom resource, in memory of its own. Given the
  contract of the copies from other packages, copying a pointer to a stored custom resource returns an
  object whose pointer, and every array that can be reached from it at any depth, is new; it has the same
  type and the same metadata, specification and status as values, and the same of its slices are nil;
  everything that was in memory is unchanged. Copying nil returns the nil object and allocates nothing.
\<close>

theorem deep_copy_same_value:
  assumes "kube_contract k V"
    and "pointer_reach nfds_of (nfd_reach V) h p \<subseteq> {..<length h}"
    and "NodeFeatureDiscovery_DeepCopyObject k p h = (obj, h')"
  shows "take (length h) h' = h \<and>
    (case p of
       None \<Rightarrow> obj = NilObject \<and> h' = h
     | Some a \<Rightarrow> (\<exists>b. obj = NfdObject (Some b) \<and>
         pointer_reach nfds_of (nfd_reach V) h' (Some b) \<subseteq> {length h..<length h'} \<and>
         nfd_val V h' (hd (nfds_of (h' ! b))) = nfd_val V h (hd (nfds_of (h ! a)))))"
proof -
  obtain q h1 where q: "NodeFeatureDiscovery_DeepCopy k p h = (q, h1)" by fastforce
  from deep_copier.copy [OF kube_contract.nfd_pointer [OF assms(1)] assms(2) q]
  have c: "grows h h1" "pointer_val nfds_of (nfd_val V) h1 q = pointer_val nfds_of (nfd_val V) h p"
    "pointer_reach nfds_of (nfd_reach V) h1 q \<subseteq> {length h..<length h1}" by auto
  have "p = None \<Longrightarrow> q = None \<and> h1 = h"
    using q by (simp add: NodeFeatureDiscovery_DeepCopy_def new_copy_def)
  with c q assms(3) show ?thesis
    by (cases p; cases q)
       (auto simp: NodeFeatureDiscovery_DeepCopyObject_def grows_take pointer_val_def)
qed

text \<open>The resource labels of the sample are empty and not nil; so are those of its copy.\<close>

theorem deep_copy_same_value_witness:
  "\<exists>b h'. NodeFeatureDiscovery_DeepCopyObject sample_copies (Some 3) sample_memory = (NfdObject (Some b), h') \<and>
     pointer_reach nfds_of (nfd_reach sample_views) h' (Some b) \<subseteq> {6..<length h'} \<and>
     take 6 h' = sample_memory \<and>
     nfd_val sample_views h' (hd (nfds_of (h' ! b))) =
       nfd_val sample_views sample_memory (hd (nfds_of (sample_memory ! 3))) \<and>
     snd (snd (nfd_val sample_views sample_memory (hd (nfds_of (sample_memory ! 3))))) =
       [True, False, True, True, True, False, True]"
proof -
  obtain obj h' where c: "NodeFeatureDiscovery_DeepCopyObject sample_copies (Some 3) sample_memory = (obj, h')"
    by fastforce
  have "pointer_reach nfds_of (nfd_reach sample_views) sample_memory (Some 3) \<subseteq> {..<length sample_memory}"
    by (simp add: sample_defs)
  from deep_copy_same_value [OF sample.kube_contract_axioms this c] c
  obtain b where "NodeFeatureDiscovery_DeepCopyObject sample_copies (Some 3) sample_memory = (NfdObject (Some b), h')"
    "pointer_reach nfds_of (nfd_reach sample_views) h' (Some b) \<subseteq> {6..<length h'}"
    "take 6 h' = sample_memory" "nfd_val sample_views h' (hd (nfds_of (h' ! b))) =
       nfd_val sample_views sample_memory (hd (nfds_of (sample_memory ! 3)))"
    by auto
  moreover have "snd (snd (nfd_val sample_views sample_memory (hd (nfds_of (sample_memory ! 3))))) =
      [True, False, True, True, True, False, True]"
    by (simp add: nfd_val_def spec_val_def operand_val_def status_val_def sample_memory_def new_Spec_def
        new_OperandSpec_def new_Status_def)
  ultimately show ?thesis by blast
qed

text \<open>
  C37: a deep copy of a list is independent of it, however the two are used. Writing any array or
  variable that the copy refers to, at any depth, leaves the value of the original list, and writing
  any one that was in memory before leaves the value of the copy.
\<close>

theorem deep_copies_independent:
  assumes "kube_contract k V"
    and "pointer_reach lists_of (list_reach V) h p \<subseteq> {..<length h}"
    and "NodeFeatureDiscoveryList_DeepCopy k p h = (q, h')"
  shows "pointer_val lists_of (list_val V) h' q = pointer_val lists_of (list_val V) h p \<and>
    (a \<in> pointer_reach lists_of (list_reach V) h' q \<longrightarrow>
       pointer_val lists_of (list_val V) (h'[a := c]) p = pointer_val lists_of (list_val V) h p) \<and>
    (a < length h \<longrightarrow>
       pointer_val lists_of (list_val V) (h'[a := c]) q = pointer_val lists_of (list_val V) h p)"
proof -
  note copier = kube_contract.list_pointer [OF assms(1)]
  from deep_copier.copy [OF copier assms(2,3)] show ?thesis
    using deep_copier.copy_independent [OF copier assms(2,3)]
      deep_copier.original_independent [OF copier assms(2,3)] by blast
qed

theorem deep_copies_independent_witness:
  "\<exists>q h'. NodeFeatureDiscoveryList_DeepCopy sample_copies (Some 4) sample_memory = (q, h') \<and>
     pointer_val lists_of (list_val sample_views) (h'[0 := Foreign (Ints [60])]) q =
       pointer_val lists_of (list_val sample_views) sample_memory (Some 4)"
proof -
  obtain q h' where c: "NodeFeatureDiscoveryList_DeepCopy sample_copies (Some 4) sample_memory = (q, h')"
    by fastforce
  have "pointer_reach lists_of (list_reach sample_views) sample_memory (Some 4) \<subseteq> {..<length sample_memory}"
    by (simp add: sample_defs)
  from deep_copies_independent [OF sample.kube_contract_axioms this c, of 0 "Foreign (Ints [60])"] c
  show ?thesis by simp
qed

end
