(* ===== verification/Mock_Control.thy ===== *)
theory Mock_Control
  imports Go_Prelude
begin

text \<open>
  What the generated mocks stand on: Go's dynamic values, and the controller of the library \<^verbatim>\<open>gomock\<close>,
  which is not part of the repository, as a record of functions on an opaque world. The locale
  \<open>gomock\<close> states its documented behaviour as far as the mocks rely on it.
\<close>

section \<open>Dynamic values\<close>

text \<open>
  A value of type \<^verbatim>\<open>any\<close>: nil, an error, a boolean, a string, or a value of another type, named, whose
  content (a pointer, a slice, a struct) is opaque.
\<close>

datatype ('e, 'x) gval =
    GNil
  | GError "'e goerror"
  | GBool bool
  | GString string
  | GRef string 'x

text \<open>
  The type assertions \<^verbatim>\<open>v, _ := x.(T)\<close>, which give the zero value when \<^verbatim>\<open>x\<close> is not of the type: for an
  error or a pointer that is nil, for a boolean false, for an interface nil.
\<close>

fun as_error :: "('e, 'x) gval \<Rightarrow> 'e err" where
  "as_error (GError e) = Some e"
| "as_error _ = None"

fun as_bool :: "('e, 'x) gval \<Rightarrow> bool" where
  "as_bool (GBool b) = b"
| "as_bool _ = False"

fun as_ref :: "string \<Rightarrow> ('e, 'x) gval \<Rightarrow> 'x option" where
  "as_ref t (GRef t' x) = (if t' = t then Some x else None)"
| "as_ref t _ = None"

definition as_interface ::
  "(string \<Rightarrow> ('e, 'x) gval \<Rightarrow> bool) \<Rightarrow> string \<Rightarrow> ('e, 'x) gval \<Rightarrow> ('e, 'x) gval" where
  "as_interface implements t v = (if implements t v then v else GNil)"

text \<open>
  \<^verbatim>\<open>ret[i]\<close> panics when the slice is too short; a mock that panics gives \<^const>\<open>None\<close>.
\<close>

definition results1 :: "('v \<Rightarrow> 'a) \<Rightarrow> 'v list \<Rightarrow> 'a option" where
  "results1 f ret = (if 0 < length ret then Some (f (ret ! 0)) else None)"

definition results2 :: "('v \<Rightarrow> 'a) \<Rightarrow> ('v \<Rightarrow> 'b) \<Rightarrow> 'v list \<Rightarrow> ('a \<times> 'b) option" where
  "results2 f g ret = (if 1 < length ret then Some (f (ret ! 0), g (ret ! 1)) else None)"

lemma results_simps [simp]:
  "results1 f [] = None" "results1 f (a # ret) = Some (f a)"
  "results2 f g [] = None" "results2 f g [a] = None"
  "results2 f g (a # b # ret) = Some (f a, g b)"
  by (simp_all add: results1_def results2_def)

text \<open>The loop that collects the variadic arguments.\<close>

fun append_all :: "'v list \<Rightarrow> 'v list \<Rightarrow> 'v list" where
  "append_all varargs [] = varargs"
| "append_all varargs (a # rest) = append_all (varargs @ [a]) rest"

lemma append_all_append [simp]: "append_all varargs rest = varargs @ rest"
  by (induction rest arbitrary: varargs) simp_all

section \<open>The controller\<close>

text \<open>
  \<open>ct_new\<close> is Go's allocation of a struct, \<open>ct_implements\<close> says which dynamic values implement an
  interface; the others are \<^verbatim>\<open>ctrl.T.Helper\<close>, \<^verbatim>\<open>ctrl.Call\<close> and \<^verbatim>\<open>ctrl.RecordCallWithMethodType\<close>. The type of a
  method is named by the type and the method; a \<^verbatim>\<open>*gomock.Call\<close> is a value of \<open>'x\<close>.
\<close>

record ('w, 'e, 'x) Controller =
  ct_new :: "'w \<Rightarrow> 'x \<times> 'w"
  ct_implements :: "string \<Rightarrow> ('e, 'x) gval \<Rightarrow> bool"
  ct_T_Helper :: "'w \<Rightarrow> 'w"
  ct_Call :: "'x \<Rightarrow> string \<Rightarrow> ('e, 'x) gval list \<Rightarrow> 'w \<Rightarrow> ('e, 'x) gval list \<times> 'w"
  ct_RecordCallWithMethodType ::
    "'x \<Rightarrow> string \<Rightarrow> string \<times> string \<Rightarrow> ('e, 'x) gval list \<Rightarrow> 'w \<Rightarrow> 'x \<times> 'w"

text \<open>
  Every generated mock is a struct of the controller and its recorder, and every recorder a struct of its
  mock. The two point at each other, so a recorder is the mock with a wrapper; \<open>m_self\<close> is the pointer to
  the mock that is handed to the controller.
\<close>

record ('w, 'e, 'x) mock =
  m_ctrl :: "('w, 'e, 'x) Controller"
  m_self :: 'x

record ('w, 'e, 'x) recorder =
  r_mock :: "('w, 'e, 'x) mock"

section \<open>Documented behaviour of the controller\<close>

text \<open>
  \<open>answer w p meth args\<close> are the values the controller will answer a call with, when an expectation
  matches it. A test gives the values with \<^verbatim>\<open>Return\<close>, here \<open>return_values\<close>, on the recorded call; the
  library takes them when they \<open>fit\<close> the type of the method, in number and types. An expectation is met
  by the call with the same receiver, method name and arguments, if no earlier one is.
\<close>

locale gomock =
  fixes ctrl :: "('w, 'e, 'x) Controller"
    and return_values :: "'x \<Rightarrow> ('e, 'x) gval list \<Rightarrow> 'w \<Rightarrow> 'w"
    and answer :: "'w \<Rightarrow> 'x \<Rightarrow> string \<Rightarrow> ('e, 'x) gval list \<Rightarrow> ('e, 'x) gval list option"
    and fit :: "string \<times> string \<Rightarrow> ('e, 'x) gval list \<Rightarrow> bool"
  assumes answer_Helper: "answer (ct_T_Helper ctrl w) = answer w"
    and answer_recorded:
      "ct_RecordCallWithMethodType ctrl p meth mt args w = (c, w') \<Longrightarrow> answer w p meth args = None \<Longrightarrow>
         fit mt rets \<Longrightarrow> answer (return_values c rets w') p meth args = Some rets"
    and Call_answer: "answer w p meth args = Some rets \<Longrightarrow> fst (ct_Call ctrl p meth args w) = rets"

text \<open>Setting up an expectation, as a test does: record the call, then say what it returns.\<close>

definition expecting ::
  "('x \<Rightarrow> ('e, 'x) gval list \<Rightarrow> 'w \<Rightarrow> 'w) \<Rightarrow> ('w \<Rightarrow> 'x \<times> 'w) \<Rightarrow> ('e, 'x) gval list \<Rightarrow> 'w \<Rightarrow> 'w" where
  "expecting return_values record_call rets w =
     (let (c, w) = record_call w in return_values c rets w)"

context gomock
begin

text \<open>A call on a mock meets the expectation recorded for the same method and arguments.\<close>

lemma replay:
  assumes "answer w p meth args = None" and "fit mt rets"
  shows "fst (ct_Call ctrl p meth args (ct_T_Helper ctrl
    (expecting return_values (\<lambda>w. ct_RecordCallWithMethodType ctrl p meth mt args (ct_T_Helper ctrl w)) rets w))) = rets"
proof -
  obtain c w' where c: "ct_RecordCallWithMethodType ctrl p meth mt args (ct_T_Helper ctrl w) = (c, w')"
    by fastforce
  have "answer (return_values c rets w') p meth args = Some rets"
    by (rule answer_recorded [OF c]) (simp_all add: answer_Helper assms)
  then show ?thesis by (simp add: expecting_def c Call_answer answer_Helper)
qed

end

section \<open>A controller in memory\<close>

text \<open>
  A controller that keeps the recorded calls and the expectations in lists. It is not translated from
  the repository; it shows that the laws of \<open>gomock\<close> can hold and is what the examples run on.
\<close>

type_synonym call_key = "nat \<times> string \<times> (nat, nat) gval list"

record script =
  sc_next :: nat
  sc_recorded :: "(nat \<times> call_key) list"
  sc_expected :: "(call_key \<times> (nat, nat) gval list) list"

definition empty_script :: script where
  "empty_script = \<lparr>sc_next = 1, sc_recorded = [], sc_expected = []\<rparr>"

definition script_answer ::
  "script \<Rightarrow> nat \<Rightarrow> string \<Rightarrow> (nat, nat) gval list \<Rightarrow> (nat, nat) gval list option" where
  "script_answer w p meth args = map_of (sc_expected w) (p, meth, args)"

definition script_record ::
  "nat \<Rightarrow> string \<Rightarrow> string \<times> string \<Rightarrow> (nat, nat) gval list \<Rightarrow> script \<Rightarrow> nat \<times> script" where
  "script_record p meth mt args w =
     (sc_next w, w\<lparr>sc_next := sc_next w + 1, sc_recorded := (sc_next w, p, meth, args) # sc_recorded w\<rparr>)"

definition script_return :: "nat \<Rightarrow> (nat, nat) gval list \<Rightarrow> script \<Rightarrow> script" where
  "script_return c rets w =
     (case map_of (sc_recorded w) c of
        None \<Rightarrow> w
      | Some k \<Rightarrow> w\<lparr>sc_expected := sc_expected w @ [(k, rets)]\<rparr>)"

definition script_call :: "nat \<Rightarrow> string \<Rightarrow> (nat, nat) gval list \<Rightarrow> script \<Rightarrow> (nat, nat) gval list \<times> script" where
  "script_call p meth args w =
     (case script_answer w p meth args of None \<Rightarrow> ([], w) | Some rets \<Rightarrow> (rets, w))"

definition script_controller :: "(script, nat, nat) Controller" where
  "script_controller =
     \<lparr>ct_new = (\<lambda>w. (sc_next w, w\<lparr>sc_next := sc_next w + 1\<rparr>)), ct_implements = (\<lambda>_ _. True),
      ct_T_Helper = (\<lambda>w. w), ct_Call = script_call, ct_RecordCallWithMethodType = script_record\<rparr>"

definition script_mock :: "(script, nat, nat) mock" where
  "script_mock = \<lparr>m_ctrl = script_controller, m_self = 0\<rparr>"

interpretation script: gomock script_controller script_return script_answer "\<lambda>_ _. True"
  by unfold_locales
    (auto simp: script_controller_def script_record_def script_return_def script_call_def script_answer_def
      map_add_def split: option.split)

lemma script_mock_sel [simp]: "m_ctrl script_mock = script_controller" "m_self script_mock = 0"
  by (simp_all add: script_mock_def)

end
