(* ===== verification/Mocks.thy ===== *)
theory Mocks
  imports Mock_Control
begin

text \<open>
  The mocks of the operator's interfaces and of the client, one definition per function of the
  \<^verbatim>\<open>mock_*.go\<close> files, in their order. A parameter of a Go interface type is a dynamic value, a string is
  a string, and a parameter of any other type is turned into a dynamic value of that type when it is
  handed to the controller.
\<close>

section \<open>\<^verbatim>\<open>internal/client/mock_client.go\<close>\<close>

type_synonym ('w, 'e, 'x) MockClient = "('w, 'e, 'x) mock"

type_synonym ('w, 'e, 'x) MockClientMockRecorder = "('w, 'e, 'x) recorder"

definition NewMockClient :: "('w, 'e, 'x) Controller \<Rightarrow> 'w \<Rightarrow> ('w, 'e, 'x) MockClient \<times> 'w" where
  "NewMockClient ctrl w = (let (p, w) = ct_new ctrl w in (\<lparr>m_ctrl = ctrl, m_self = p\<rparr>, w))"

definition MockClient_EXPECT :: "('w, 'e, 'x) MockClient \<Rightarrow> ('w, 'e, 'x) MockClientMockRecorder" where
  "MockClient_EXPECT m = \<lparr>r_mock = m\<rparr>"

definition MockClient_Create ::
  "('w, 'e, 'x) MockClient \<Rightarrow> ('e, 'x) gval \<Rightarrow> ('e, 'x) gval \<Rightarrow> ('e, 'x) gval list \<Rightarrow> 'w \<Rightarrow>
     ('e err) option \<times> 'w" where
  "MockClient_Create m arg0 arg1 arg2 w =
     (let w = ct_T_Helper (m_ctrl m) w;
          varargs = append_all [arg0, arg1] arg2;
          (ret, w) = ct_Call (m_ctrl m) (m_self m) ''Create'' varargs w
      in (results1 as_error ret, w))"

definition MockClientMockRecorder_Create ::
  "('w, 'e, 'x) MockClientMockRecorder \<Rightarrow> ('e, 'x) gval \<Rightarrow> ('e, 'x) gval \<Rightarrow> ('e, 'x) gval list \<Rightarrow> 'w \<Rightarrow> 'x \<times> 'w" where
  "MockClientMockRecorder_Create mr arg0 arg1 arg2 w =
     (let w = ct_T_Helper (m_ctrl (r_mock mr)) w;
          varargs = [arg0, arg1] @ arg2
      in ct_RecordCallWithMethodType (m_ctrl (r_mock mr)) (m_self (r_mock mr)) ''Create''
           (''MockClient'', ''Create'') varargs w)"

definition MockClient_Delete ::
  "('w, 'e, 'x) MockClient \<Rightarrow> ('e, 'x) gval \<Rightarrow> ('e, 'x) gval \<Rightarrow> ('e, 'x) gval list \<Rightarrow> 'w \<Rightarrow>
     ('e err) option \<times> 'w" where
  "MockClient_Delete m arg0 arg1 arg2 w =
     (let w = ct_T_Helper (m_ctrl m) w;
          varargs = append_all [arg0, arg1] arg2;
          (ret, w) = ct_Call (m_ctrl m) (m_self m) ''Delete'' varargs w
      in (results1 as_error ret, w))"

definition MockClientMockRecorder_Delete ::
  "('w, 'e, 'x) MockClientMockRecorder \<Rightarrow> ('e, 'x) gval \<Rightarrow> ('e, 'x) gval \<Rightarrow> ('e, 'x) gval list \<Rightarrow> 'w \<Rightarrow> 'x \<times> 'w" where
  "MockClientMockRecorder_Delete mr arg0 arg1 arg2 w =
     (let w = ct_T_Helper (m_ctrl (r_mock mr)) w;
          varargs = [arg0, arg1] @ arg2
      in ct_RecordCallWithMethodType (m_ctrl (r_mock mr)) (m_self (r_mock mr)) ''Delete''
           (''MockClient'', ''Delete'') varargs w)"

definition MockClient_DeleteAllOf ::
  "('w, 'e, 'x) MockClient \<Rightarrow> ('e, 'x) gval \<Rightarrow> ('e, 'x) gval \<Rightarrow> ('e, 'x) gval list \<Rightarrow> 'w \<Rightarrow>
     ('e err) option \<times> 'w" where
  "MockClient_DeleteAllOf m arg0 arg1 arg2 w =
     (let w = ct_T_Helper (m_ctrl m) w;
          varargs = append_all [arg0, arg1] arg2;
          (ret, w) = ct_Call (m_ctrl m) (m_self m) ''DeleteAllOf'' varargs w
      in (results1 as_error ret, w))"

definition MockClientMockRecorder_DeleteAllOf ::
  "('w, 'e, 'x) MockClientMockRecorder \<Rightarrow> ('e, 'x) gval \<Rightarrow> ('e, 'x) gval \<Rightarrow> ('e, 'x) gval list \<Rightarrow> 'w \<Rightarrow> 'x \<times> 'w" where
  "MockClientMockRecorder_DeleteAllOf mr arg0 arg1 arg2 w =
     (let w = ct_T_Helper (m_ctrl (r_mock mr)) w;
          varargs = [arg0, arg1] @ arg2
      in ct_RecordCallWithMethodType (m_ctrl (r_mock mr)) (m_self (r_mock mr)) ''DeleteAllOf''
           (''MockClient'', ''DeleteAllOf'') varargs w)"

definition MockClient_Get ::
  "('w, 'e, 'x) MockClient \<Rightarrow> ('e, 'x) gval \<Rightarrow> 'x \<Rightarrow> ('e, 'x) gval \<Rightarrow> ('e, 'x) gval list \<Rightarrow> 'w \<Rightarrow>
     ('e err) option \<times> 'w" where
  "MockClient_Get m arg0 arg1 arg2 arg3 w =
     (let w = ct_T_Helper (m_ctrl m) w;
          varargs = append_all [arg0, GRef ''types.NamespacedName'' arg1, arg2] arg3;
          (ret, w) = ct_Call (m_ctrl m) (m_self m) ''Get'' varargs w
      in (results1 as_error ret, w))"

definition MockClientMockRecorder_Get ::
  "('w, 'e, 'x) MockClientMockRecorder \<Rightarrow> ('e, 'x) gval \<Rightarrow> ('e, 'x) gval \<Rightarrow> ('e, 'x) gval \<Rightarrow> ('e, 'x) gval list \<Rightarrow> 'w \<Rightarrow> 'x \<times> 'w" where
  "MockClientMockRecorder_Get mr arg0 arg1 arg2 arg3 w =
     (let w = ct_T_Helper (m_ctrl (r_mock mr)) w;
          varargs = [arg0, arg1, arg2] @ arg3
      in ct_RecordCallWithMethodType (m_ctrl (r_mock mr)) (m_self (r_mock mr)) ''Get''
           (''MockClient'', ''Get'') varargs w)"

definition MockClient_GroupVersionKindFor ::
  "('w, 'e, 'x) MockClient \<Rightarrow> ('e, 'x) gval \<Rightarrow> 'w \<Rightarrow>
     ('x option \<times> 'e err) option \<times> 'w" where
  "MockClient_GroupVersionKindFor m arg0 w =
     (let w = ct_T_Helper (m_ctrl m) w;
          (ret, w) = ct_Call (m_ctrl m) (m_self m) ''GroupVersionKindFor'' [arg0] w
      in (results2 (as_ref ''schema.GroupVersionKind'') as_error ret, w))"

definition MockClientMockRecorder_GroupVersionKindFor ::
  "('w, 'e, 'x) MockClientMockRecorder \<Rightarrow> ('e, 'x) gval \<Rightarrow> 'w \<Rightarrow> 'x \<times> 'w" where
  "MockClientMockRecorder_GroupVersionKindFor mr arg0 w =
     (let w = ct_T_Helper (m_ctrl (r_mock mr)) w
      in ct_RecordCallWithMethodType (m_ctrl (r_mock mr)) (m_self (r_mock mr)) ''GroupVersionKindFor''
           (''MockClient'', ''GroupVersionKindFor'') [arg0] w)"

definition MockClient_IsObjectNamespaced ::
  "('w, 'e, 'x) MockClient \<Rightarrow> ('e, 'x) gval \<Rightarrow> 'w \<Rightarrow>
     (bool \<times> 'e err) option \<times> 'w" where
  "MockClient_IsObjectNamespaced m arg0 w =
     (let w = ct_T_Helper (m_ctrl m) w;
          (ret, w) = ct_Call (m_ctrl m) (m_self m) ''IsObjectNamespaced'' [arg0] w
      in (results2 as_bool as_error ret, w))"

definition MockClientMockRecorder_IsObjectNamespaced ::
  "('w, 'e, 'x) MockClientMockRecorder \<Rightarrow> ('e, 'x) gval \<Rightarrow> 'w \<Rightarrow> 'x \<times> 'w" where
  "MockClientMockRecorder_IsObjectNamespaced mr arg0 w =
     (let w = ct_T_Helper (m_ctrl (r_mock mr)) w
      in ct_RecordCallWithMethodType (m_ctrl (r_mock mr)) (m_self (r_mock mr)) ''IsObjectNamespaced''
           (''MockClient'', ''IsObjectNamespaced'') [arg0] w)"

definition MockClient_List ::
  "('w, 'e, 'x) MockClient \<Rightarrow> ('e, 'x) gval \<Rightarrow> ('e, 'x) gval \<Rightarrow> ('e, 'x) gval list \<Rightarrow> 'w \<Rightarrow>
     ('e err) option \<times> 'w" where
  "MockClient_List m arg0 arg1 arg2 w =
     (let w = ct_T_Helper (m_ctrl m) w;
          varargs = append_all [arg0, arg1] arg2;
          (ret, w) = ct_Call (m_ctrl m) (m_self m) ''List'' varargs w
      in (results1 as_error ret, w))"

definition MockClientMockRecorder_List ::
  "('w, 'e, 'x) MockClientMockRecorder \<Rightarrow> ('e, 'x) gval \<Rightarrow> ('e, 'x) gval \<Rightarrow> ('e, 'x) gval list \<Rightarrow> 'w \<Rightarrow> 'x \<times> 'w" where
  "MockClientMockRecorder_List mr arg0 arg1 arg2 w =
     (let w = ct_T_Helper (m_ctrl (r_mock mr)) w;
          varargs = [arg0, arg1] @ arg2
      in ct_RecordCallWithMethodType (m_ctrl (r_mock mr)) (m_self (r_mock mr)) ''List''
           (''MockClient'', ''List'') varargs w)"

definition MockClient_Patch ::
  "('w, 'e, 'x) MockClient \<Rightarrow> ('e, 'x) gval \<Rightarrow> ('e, 'x) gval \<Rightarrow> ('e, 'x) gval \<Rightarrow> ('e, 'x) gval list \<Rightarrow> 'w \<Rightarrow>
     ('e err) option \<times> 'w" where
  "MockClient_Patch m arg0 arg1 arg2 arg3 w =
     (let w = ct_T_Helper (m_ctrl m) w;
          varargs = append_all [arg0, arg1, arg2] arg3;
          (ret, w) = ct_Call (m_ctrl m) (m_self m) ''Patch'' varargs w
      in (results1 as_error ret, w))"

definition MockClientMockRecorder_Patch ::
  "('w, 'e, 'x) MockClientMockRecorder \<Rightarrow> ('e, 'x) gval \<Rightarrow> ('e, 'x) gval \<Rightarrow> ('e, 'x) gval \<Rightarrow> ('e, 'x) gval list \<Rightarrow> 'w \<Rightarrow> 'x \<times> 'w" where
  "MockClientMockRecorder_Patch mr arg0 arg1 arg2 arg3 w =
     (let w = ct_T_Helper (m_ctrl (r_mock mr)) w;
          varargs = [arg0, arg1, arg2] @ arg3
      in ct_RecordCallWithMethodType (m_ctrl (r_mock mr)) (m_self (r_mock mr)) ''Patch''
           (''MockClient'', ''Patch'') varargs w)"

definition MockClient_RESTMapper ::
  "('w, 'e, 'x) MockClient \<Rightarrow> 'w \<Rightarrow>
     (('e, 'x) gval) option \<times> 'w" where
  "MockClient_RESTMapper m w =
     (let w = ct_T_Helper (m_ctrl m) w;
          (ret, w) = ct_Call (m_ctrl m) (m_self m) ''RESTMapper'' [] w
      in (results1 (as_interface (ct_implements (m_ctrl m)) ''meta.RESTMapper'') ret, w))"

definition MockClientMockRecorder_RESTMapper ::
  "('w, 'e, 'x) MockClientMockRecorder \<Rightarrow> 'w \<Rightarrow> 'x \<times> 'w" where
  "MockClientMockRecorder_RESTMapper mr w =
     (let w = ct_T_Helper (m_ctrl (r_mock mr)) w
      in ct_RecordCallWithMethodType (m_ctrl (r_mock mr)) (m_self (r_mock mr)) ''RESTMapper''
           (''MockClient'', ''RESTMapper'') [] w)"

definition MockClient_Scheme ::
  "('w, 'e, 'x) MockClient \<Rightarrow> 'w \<Rightarrow>
     ('x option) option \<times> 'w" where
  "MockClient_Scheme m w =
     (let w = ct_T_Helper (m_ctrl m) w;
          (ret, w) = ct_Call (m_ctrl m) (m_self m) ''Scheme'' [] w
      in (results1 (as_ref ''*runtime.Scheme'') ret, w))"

definition MockClientMockRecorder_Scheme ::
  "('w, 'e, 'x) MockClientMockRecorder \<Rightarrow> 'w \<Rightarrow> 'x \<times> 'w" where
  "MockClientMockRecorder_Scheme mr w =
     (let w = ct_T_Helper (m_ctrl (r_mock mr)) w
      in ct_RecordCallWithMethodType (m_ctrl (r_mock mr)) (m_self (r_mock mr)) ''Scheme''
           (''MockClient'', ''Scheme'') [] w)"

definition MockClient_Status ::
  "('w, 'e, 'x) MockClient \<Rightarrow> 'w \<Rightarrow>
     (('e, 'x) gval) option \<times> 'w" where
  "MockClient_Status m w =
     (let w = ct_T_Helper (m_ctrl m) w;
          (ret, w) = ct_Call (m_ctrl m) (m_self m) ''Status'' [] w
      in (results1 (as_interface (ct_implements (m_ctrl m)) ''client.SubResourceWriter'') ret, w))"

definition MockClientMockRecorder_Status ::
  "('w, 'e, 'x) MockClientMockRecorder \<Rightarrow> 'w \<Rightarrow> 'x \<times> 'w" where
  "MockClientMockRecorder_Status mr w =
     (let w = ct_T_Helper (m_ctrl (r_mock mr)) w
      in ct_RecordCallWithMethodType (m_ctrl (r_mock mr)) (m_self (r_mock mr)) ''Status''
           (''MockClient'', ''Status'') [] w)"

definition MockClient_SubResource ::
  "('w, 'e, 'x) MockClient \<Rightarrow> string \<Rightarrow> 'w \<Rightarrow>
     (('e, 'x) gval) option \<times> 'w" where
  "MockClient_SubResource m arg0 w =
     (let w = ct_T_Helper (m_ctrl m) w;
          (ret, w) = ct_Call (m_ctrl m) (m_self m) ''SubResource'' [GString arg0] w
      in (results1 (as_interface (ct_implements (m_ctrl m)) ''client.SubResourceClient'') ret, w))"

definition MockClientMockRecorder_SubResource ::
  "('w, 'e, 'x) MockClientMockRecorder \<Rightarrow> ('e, 'x) gval \<Rightarrow> 'w \<Rightarrow> 'x \<times> 'w" where
  "MockClientMockRecorder_SubResource mr arg0 w =
     (let w = ct_T_Helper (m_ctrl (r_mock mr)) w
      in ct_RecordCallWithMethodType (m_ctrl (r_mock mr)) (m_self (r_mock mr)) ''SubResource''
           (''MockClient'', ''SubResource'') [arg0] w)"

definition MockClient_Update ::
  "('w, 'e, 'x) MockClient \<Rightarrow> ('e, 'x) gval \<Rightarrow> ('e, 'x) gval \<Rightarrow> ('e, 'x) gval list \<Rightarrow> 'w \<Rightarrow>
     ('e err) option \<times> 'w" where
  "MockClient_Update m arg0 arg1 arg2 w =
     (let w = ct_T_Helper (m_ctrl m) w;
          varargs = append_all [arg0, arg1] arg2;
          (ret, w) = ct_Call (m_ctrl m) (m_self m) ''Update'' varargs w
      in (results1 as_error ret, w))"

definition MockClientMockRecorder_Update ::
  "('w, 'e, 'x) MockClientMockRecorder \<Rightarrow> ('e, 'x) gval \<Rightarrow> ('e, 'x) gval \<Rightarrow> ('e, 'x) gval list \<Rightarrow> 'w \<Rightarrow> 'x \<times> 'w" where
  "MockClientMockRecorder_Update mr arg0 arg1 arg2 w =
     (let w = ct_T_Helper (m_ctrl (r_mock mr)) w;
          varargs = [arg0, arg1] @ arg2
      in ct_RecordCallWithMethodType (m_ctrl (r_mock mr)) (m_self (r_mock mr)) ''Update''
           (''MockClient'', ''Update'') varargs w)"

type_synonym ('w, 'e, 'x) MockStatusWriter = "('w, 'e, 'x) mock"

type_synonym ('w, 'e, 'x) MockStatusWriterMockRecorder = "('w, 'e, 'x) recorder"

definition NewMockStatusWriter :: "('w, 'e, 'x) Controller \<Rightarrow> 'w \<Rightarrow> ('w, 'e, 'x) MockStatusWriter \<times> 'w" where
  "NewMockStatusWriter ctrl w = (let (p, w) = ct_new ctrl w in (\<lparr>m_ctrl = ctrl, m_self = p\<rparr>, w))"

definition MockStatusWriter_EXPECT :: "('w, 'e, 'x) MockStatusWriter \<Rightarrow> ('w, 'e, 'x) MockStatusWriterMockRecorder" where
  "MockStatusWriter_EXPECT m = \<lparr>r_mock = m\<rparr>"

definition MockStatusWriter_Create ::
  "('w, 'e, 'x) MockStatusWriter \<Rightarrow> ('e, 'x) gval \<Rightarrow> ('e, 'x) gval \<Rightarrow> ('e, 'x) gval \<Rightarrow> ('e, 'x) gval list \<Rightarrow> 'w \<Rightarrow>
     ('e err) option \<times> 'w" where
  "MockStatusWriter_Create m arg0 arg1 arg2 arg3 w =
     (let w = ct_T_Helper (m_ctrl m) w;
          varargs = append_all [arg0, arg1, arg2] arg3;
          (ret, w) = ct_Call (m_ctrl m) (m_self m) ''Create'' varargs w
      in (results1 as_error ret, w))"

definition MockStatusWriterMockRecorder_Create ::
  "('w, 'e, 'x) MockStatusWriterMockRecorder \<Rightarrow> ('e, 'x) gval \<Rightarrow> ('e, 'x) gval \<Rightarrow> ('e, 'x) gval \<Rightarrow> ('e, 'x) gval list \<Rightarrow> 'w \<Rightarrow> 'x \<times> 'w" where
  "MockStatusWriterMockRecorder_Create mr arg0 arg1 arg2 arg3 w =
     (let w = ct_T_Helper (m_ctrl (r_mock mr)) w;
          varargs = [arg0, arg1, arg2] @ arg3
      in ct_RecordCallWithMethodType (m_ctrl (r_mock mr)) (m_self (r_mock mr)) ''Create''
           (''MockStatusWriter'', ''Create'') varargs w)"

definition MockStatusWriter_Patch ::
  "('w, 'e, 'x) MockStatusWriter \<Rightarrow> ('e, 'x) gval \<Rightarrow> ('e, 'x) gval \<Rightarrow> ('e, 'x) gval \<Rightarrow> ('e, 'x) gval list \<Rightarrow> 'w \<Rightarrow>
     ('e err) option \<times> 'w" where
  "MockStatusWriter_Patch m arg0 arg1 arg2 arg3 w =
     (let w = ct_T_Helper (m_ctrl m) w;
          varargs = append_all [arg0, arg1, arg2] arg3;
          (ret, w) = ct_Call (m_ctrl m) (m_self m) ''Patch'' varargs w
      in (results1 as_error ret, w))"

definition MockStatusWriterMockRecorder_Patch ::
  "('w, 'e, 'x) MockStatusWriterMockRecorder \<Rightarrow> ('e, 'x) gval \<Rightarrow> ('e, 'x) gval \<Rightarrow> ('e, 'x) gval \<Rightarrow> ('e, 'x) gval list \<Rightarrow> 'w \<Rightarrow> 'x \<times> 'w" where
  "MockStatusWriterMockRecorder_Patch mr arg0 arg1 arg2 arg3 w =
     (let w = ct_T_Helper (m_ctrl (r_mock mr)) w;
          varargs = [arg0, arg1, arg2] @ arg3
      in ct_RecordCallWithMethodType (m_ctrl (r_mock mr)) (m_self (r_mock mr)) ''Patch''
           (''MockStatusWriter'', ''Patch'') varargs w)"

definition MockStatusWriter_Update ::
  "('w, 'e, 'x) MockStatusWriter \<Rightarrow> ('e, 'x) gval \<Rightarrow> ('e, 'x) gval \<Rightarrow> ('e, 'x) gval list \<Rightarrow> 'w \<Rightarrow>
     ('e err) option \<times> 'w" where
  "MockStatusWriter_Update m arg0 arg1 arg2 w =
     (let w = ct_T_Helper (m_ctrl m) w;
          varargs = append_all [arg0, arg1] arg2;
          (ret, w) = ct_Call (m_ctrl m) (m_self m) ''Update'' varargs w
      in (results1 as_error ret, w))"

definition MockStatusWriterMockRecorder_Update ::
  "('w, 'e, 'x) MockStatusWriterMockRecorder \<Rightarrow> ('e, 'x) gval \<Rightarrow> ('e, 'x) gval \<Rightarrow> ('e, 'x) gval list \<Rightarrow> 'w \<Rightarrow> 'x \<times> 'w" where
  "MockStatusWriterMockRecorder_Update mr arg0 arg1 arg2 w =
     (let w = ct_T_Helper (m_ctrl (r_mock mr)) w;
          varargs = [arg0, arg1] @ arg2
      in ct_RecordCallWithMethodType (m_ctrl (r_mock mr)) (m_self (r_mock mr)) ''Update''
           (''MockStatusWriter'', ''Update'') varargs w)"

section \<open>\<^verbatim>\<open>internal/configmap/mock_configmap.go\<close>\<close>

type_synonym ('w, 'e, 'x) MockConfigMapAPI = "('w, 'e, 'x) mock"

type_synonym ('w, 'e, 'x) MockConfigMapAPIMockRecorder = "('w, 'e, 'x) recorder"

definition NewMockConfigMapAPI :: "('w, 'e, 'x) Controller \<Rightarrow> 'w \<Rightarrow> ('w, 'e, 'x) MockConfigMapAPI \<times> 'w" where
  "NewMockConfigMapAPI ctrl w = (let (p, w) = ct_new ctrl w in (\<lparr>m_ctrl = ctrl, m_self = p\<rparr>, w))"

definition MockConfigMapAPI_EXPECT :: "('w, 'e, 'x) MockConfigMapAPI \<Rightarrow> ('w, 'e, 'x) MockConfigMapAPIMockRecorder" where
  "MockConfigMapAPI_EXPECT m = \<lparr>r_mock = m\<rparr>"

definition MockConfigMapAPI_DeleteConfigMap ::
  "('w, 'e, 'x) MockConfigMapAPI \<Rightarrow> ('e, 'x) gval \<Rightarrow> string \<Rightarrow> string \<Rightarrow> 'w \<Rightarrow>
     ('e err) option \<times> 'w" where
  "MockConfigMapAPI_DeleteConfigMap m ctx namespace name w =
     (let w = ct_T_Helper (m_ctrl m) w;
          (ret, w) = ct_Call (m_ctrl m) (m_self m) ''DeleteConfigMap'' [ctx, GString namespace, GString name] w
      in (results1 as_error ret, w))"

definition MockConfigMapAPIMockRecorder_DeleteConfigMap ::
  "('w, 'e, 'x) MockConfigMapAPIMockRecorder \<Rightarrow> ('e, 'x) gval \<Rightarrow> ('e, 'x) gval \<Rightarrow> ('e, 'x) gval \<Rightarrow> 'w \<Rightarrow> 'x \<times> 'w" where
  "MockConfigMapAPIMockRecorder_DeleteConfigMap mr ctx namespace name w =
     (let w = ct_T_Helper (m_ctrl (r_mock mr)) w
      in ct_RecordCallWithMethodType (m_ctrl (r_mock mr)) (m_self (r_mock mr)) ''DeleteConfigMap''
           (''MockConfigMapAPI'', ''DeleteConfigMap'') [ctx, namespace, name] w)"

definition MockConfigMapAPI_SetWorkerConfigMapAsDesired ::
  "('w, 'e, 'x) MockConfigMapAPI \<Rightarrow> ('e, 'x) gval \<Rightarrow> 'x \<Rightarrow> 'x \<Rightarrow> 'w \<Rightarrow>
     ('e err) option \<times> 'w" where
  "MockConfigMapAPI_SetWorkerConfigMapAsDesired m ctx nfdInstance workerCM w =
     (let w = ct_T_Helper (m_ctrl m) w;
          (ret, w) = ct_Call (m_ctrl m) (m_self m) ''SetWorkerConfigMapAsDesired'' [ctx, GRef ''*nfdv1.NodeFeatureDiscovery'' nfdInstance, GRef ''*corev1.ConfigMap'' workerCM] w
      in (results1 as_error ret, w))"

definition MockConfigMapAPIMockRecorder_SetWorkerConfigMapAsDesired ::
  "('w, 'e, 'x) MockConfigMapAPIMockRecorder \<Rightarrow> ('e, 'x) gval \<Rightarrow> ('e, 'x) gval \<Rightarrow> ('e, 'x) gval \<Rightarrow> 'w \<Rightarrow> 'x \<times> 'w" where
  "MockConfigMapAPIMockRecorder_SetWorkerConfigMapAsDesired mr ctx nfdInstance workerCM w =
     (let w = ct_T_Helper (m_ctrl (r_mock mr)) w
      in ct_RecordCallWithMethodType (m_ctrl (r_mock mr)) (m_self (r_mock mr)) ''SetWorkerConfigMapAsDesired''
           (''MockConfigMapAPI'', ''SetWorkerConfigMapAsDesired'') [ctx, nfdInstance, workerCM] w)"

section \<open>\<^verbatim>\<open>internal/controllers/mock_nodefeaturediscovery_reconciler.go\<close>\<close>

type_synonym ('w, 'e, 'x) MocknodeFeatureDiscoveryHelperAPI = "('w, 'e, 'x) mock"

type_synonym ('w, 'e, 'x) MocknodeFeatureDiscoveryHelperAPIMockRecorder = "('w, 'e, 'x) recorder"

definition NewMocknodeFeatureDiscoveryHelperAPI :: "('w, 'e, 'x) Controller \<Rightarrow> 'w \<Rightarrow> ('w, 'e, 'x) MocknodeFeatureDiscoveryHelperAPI \<times> 'w" where
  "NewMocknodeFeatureDiscoveryHelperAPI ctrl w = (let (p, w) = ct_new ctrl w in (\<lparr>m_ctrl = ctrl, m_self = p\<rparr>, w))"

definition MocknodeFeatureDiscoveryHelperAPI_EXPECT :: "('w, 'e, 'x) MocknodeFeatureDiscoveryHelperAPI \<Rightarrow> ('w, 'e, 'x) MocknodeFeatureDiscoveryHelperAPIMockRecorder" where
  "MocknodeFeatureDiscoveryHelperAPI_EXPECT m = \<lparr>r_mock = m\<rparr>"

definition MocknodeFeatureDiscoveryHelperAPI_finalizeComponents ::
  "('w, 'e, 'x) MocknodeFeatureDiscoveryHelperAPI \<Rightarrow> ('e, 'x) gval \<Rightarrow> 'x \<Rightarrow> 'w \<Rightarrow>
     ('e err) option \<times> 'w" where
  "MocknodeFeatureDiscoveryHelperAPI_finalizeComponents m ctx nfdInstance w =
     (let w = ct_T_Helper (m_ctrl m) w;
          (ret, w) = ct_Call (m_ctrl m) (m_self m) ''finalizeComponents'' [ctx, GRef ''*nfdv1.NodeFeatureDiscovery'' nfdInstance] w
      in (results1 as_error ret, w))"

definition MocknodeFeatureDiscoveryHelperAPIMockRecorder_finalizeComponents ::
  "('w, 'e, 'x) MocknodeFeatureDiscoveryHelperAPIMockRecorder \<Rightarrow> ('e, 'x) gval \<Rightarrow> ('e, 'x) gval \<Rightarrow> 'w \<Rightarrow> 'x \<times> 'w" where
  "MocknodeFeatureDiscoveryHelperAPIMockRecorder_finalizeComponents mr ctx nfdInstance w =
     (let w = ct_T_Helper (m_ctrl (r_mock mr)) w
      in ct_RecordCallWithMethodType (m_ctrl (r_mock mr)) (m_self (r_mock mr)) ''finalizeComponents''
           (''MocknodeFeatureDiscoveryHelperAPI'', ''finalizeComponents'') [ctx, nfdInstance] w)"

definition MocknodeFeatureDiscoveryHelperAPI_handleGC ::
  "('w, 'e, 'x) MocknodeFeatureDiscoveryHelperAPI \<Rightarrow> ('e, 'x) gval \<Rightarrow> 'x \<Rightarrow> 'w \<Rightarrow>
     ('e err) option \<times> 'w" where
  "MocknodeFeatureDiscoveryHelperAPI_handleGC m ctx nfdInstance w =
     (let w = ct_T_Helper (m_ctrl m) w;
          (ret, w) = ct_Call (m_ctrl m) (m_self m) ''handleGC'' [ctx, GRef ''*nfdv1.NodeFeatureDiscovery'' nfdInstance] w
      in (results1 as_error ret, w))"

definition MocknodeFeatureDiscoveryHelperAPIMockRecorder_handleGC ::
  "('w, 'e, 'x) MocknodeFeatureDiscoveryHelperAPIMockRecorder \<Rightarrow> ('e, 'x) gval \<Rightarrow> ('e, 'x) gval \<Rightarrow> 'w \<Rightarrow> 'x \<times> 'w" where
  "MocknodeFeatureDiscoveryHelperAPIMockRecorder_handleGC mr ctx nfdInstance w =
     (let w = ct_T_Helper (m_ctrl (r_mock mr)) w
      in ct_RecordCallWithMethodType (m_ctrl (r_mock mr)) (m_self (r_mock mr)) ''handleGC''
           (''MocknodeFeatureDiscoveryHelperAPI'', ''handleGC'') [ctx, nfdInstance] w)"

definition MocknodeFeatureDiscoveryHelperAPI_handleMaster ::
  "('w, 'e, 'x) MocknodeFeatureDiscoveryHelperAPI \<Rightarrow> ('e, 'x) gval \<Rightarrow> 'x \<Rightarrow> 'w \<Rightarrow>
     ('e err) option \<times> 'w" where
  "MocknodeFeatureDiscoveryHelperAPI_handleMaster m ctx nfdInstance w =
     (let w = ct_T_Helper (m_ctrl m) w;
          (ret, w) = ct_Call (m_ctrl m) (m_self m) ''handleMaster'' [ctx, GRef ''*nfdv1.NodeFeatureDiscovery'' nfdInstance] w
      in (results1 as_error ret, w))"

definition MocknodeFeatureDiscoveryHelperAPIMockRecorder_handleMaster ::
  "('w, 'e, 'x) MocknodeFeatureDiscoveryHelperAPIMockRecorder \<Rightarrow> ('e, 'x) gval \<Rightarrow> ('e, 'x) gval \<Rightarrow> 'w \<Rightarrow> 'x \<times> 'w" where
  "MocknodeFeatureDiscoveryHelperAPIMockRecorder_handleMaster mr ctx nfdInstance w =
     (let w = ct_T_Helper (m_ctrl (r_mock mr)) w
      in ct_RecordCallWithMethodType (m_ctrl (r_mock mr)) (m_self (r_mock mr)) ''handleMaster''
           (''MocknodeFeatureDiscoveryHelperAPI'', ''handleMaster'') [ctx, nfdInstance] w)"

definition MocknodeFeatureDiscoveryHelperAPI_handlePrune ::
  "('w, 'e, 'x) MocknodeFeatureDiscoveryHelperAPI \<Rightarrow> ('e, 'x) gval \<Rightarrow> 'x \<Rightarrow> 'w \<Rightarrow>
     (bool \<times> 'e err) option \<times> 'w" where
  "MocknodeFeatureDiscoveryHelperAPI_handlePrune m ctx nfdInstance w =
     (let w = ct_T_Helper (m_ctrl m) w;
          (ret, w) = ct_Call (m_ctrl m) (m_self m) ''handlePrune'' [ctx, GRef ''*nfdv1.NodeFeatureDiscovery'' nfdInstance] w
      in (results2 as_bool as_error ret, w))"

definition MocknodeFeatureDiscoveryHelperAPIMockRecorder_handlePrune ::
  "('w, 'e, 'x) MocknodeFeatureDiscoveryHelperAPIMockRecorder \<Rightarrow> ('e, 'x) gval \<Rightarrow> ('e, 'x) gval \<Rightarrow> 'w \<Rightarrow> 'x \<times> 'w" where
  "MocknodeFeatureDiscoveryHelperAPIMockRecorder_handlePrune mr ctx nfdInstance w =
     (let w = ct_T_Helper (m_ctrl (r_mock mr)) w
      in ct_RecordCallWithMethodType (m_ctrl (r_mock mr)) (m_self (r_mock mr)) ''handlePrune''
           (''MocknodeFeatureDiscoveryHelperAPI'', ''handlePrune'') [ctx, nfdInstance] w)"

definition MocknodeFeatureDiscoveryHelperAPI_handleStatus ::
  "('w, 'e, 'x) MocknodeFeatureDiscoveryHelperAPI \<Rightarrow> ('e, 'x) gval \<Rightarrow> 'x \<Rightarrow> 'w \<Rightarrow>
     ('e err) option \<times> 'w" where
  "MocknodeFeatureDiscoveryHelperAPI_handleStatus m ctx nfdInstance w =
     (let w = ct_T_Helper (m_ctrl m) w;
          (ret, w) = ct_Call (m_ctrl m) (m_self m) ''handleStatus'' [ctx, GRef ''*nfdv1.NodeFeatureDiscovery'' nfdInstance] w
      in (results1 as_error ret, w))"

definition MocknodeFeatureDiscoveryHelperAPIMockRecorder_handleStatus ::
  "('w, 'e, 'x) MocknodeFeatureDiscoveryHelperAPIMockRecorder \<Rightarrow> ('e, 'x) gval \<Rightarrow> ('e, 'x) gval \<Rightarrow> 'w \<Rightarrow> 'x \<times> 'w" where
  "MocknodeFeatureDiscoveryHelperAPIMockRecorder_handleStatus mr ctx nfdInstance w =
     (let w = ct_T_Helper (m_ctrl (r_mock mr)) w
      in ct_RecordCallWithMethodType (m_ctrl (r_mock mr)) (m_self (r_mock mr)) ''handleStatus''
           (''MocknodeFeatureDiscoveryHelperAPI'', ''handleStatus'') [ctx, nfdInstance] w)"

definition MocknodeFeatureDiscoveryHelperAPI_handleTopology ::
  "('w, 'e, 'x) MocknodeFeatureDiscoveryHelperAPI \<Rightarrow> ('e, 'x) gval \<Rightarrow> 'x \<Rightarrow> 'w \<Rightarrow>
     ('e err) option \<times> 'w" where
  "MocknodeFeatureDiscoveryHelperAPI_handleTopology m ctx nfdInstance w =
     (let w = ct_T_Helper (m_ctrl m) w;
          (ret, w) = ct_Call (m_ctrl m) (m_self m) ''handleTopology'' [ctx, GRef ''*nfdv1.NodeFeatureDiscovery'' nfdInstance] w
      in (results1 as_error ret, w))"

definition MocknodeFeatureDiscoveryHelperAPIMockRecorder_handleTopology ::
  "('w, 'e, 'x) MocknodeFeatureDiscoveryHelperAPIMockRecorder \<Rightarrow> ('e, 'x) gval \<Rightarrow> ('e, 'x) gval \<Rightarrow> 'w \<Rightarrow> 'x \<times> 'w" where
  "MocknodeFeatureDiscoveryHelperAPIMockRecorder_handleTopology mr ctx nfdInstance w =
     (let w = ct_T_Helper (m_ctrl (r_mock mr)) w
      in ct_RecordCallWithMethodType (m_ctrl (r_mock mr)) (m_self (r_mock mr)) ''handleTopology''
           (''MocknodeFeatureDiscoveryHelperAPI'', ''handleTopology'') [ctx, nfdInstance] w)"

definition MocknodeFeatureDiscoveryHelperAPI_handleWorker ::
  "('w, 'e, 'x) MocknodeFeatureDiscoveryHelperAPI \<Rightarrow> ('e, 'x) gval \<Rightarrow> 'x \<Rightarrow> 'w \<Rightarrow>
     ('e err) option \<times> 'w" where
  "MocknodeFeatureDiscoveryHelperAPI_handleWorker m ctx nfdInstance w =
     (let w = ct_T_Helper (m_ctrl m) w;
          (ret, w) = ct_Call (m_ctrl m) (m_self m) ''handleWorker'' [ctx, GRef ''*nfdv1.NodeFeatureDiscovery'' nfdInstance] w
      in (results1 as_error ret, w))"

definition MocknodeFeatureDiscoveryHelperAPIMockRecorder_handleWorker ::
  "('w, 'e, 'x) MocknodeFeatureDiscoveryHelperAPIMockRecorder \<Rightarrow> ('e, 'x) gval \<Rightarrow> ('e, 'x) gval \<Rightarrow> 'w \<Rightarrow> 'x \<times> 'w" where
  "MocknodeFeatureDiscoveryHelperAPIMockRecorder_handleWorker mr ctx nfdInstance w =
     (let w = ct_T_Helper (m_ctrl (r_mock mr)) w
      in ct_RecordCallWithMethodType (m_ctrl (r_mock mr)) (m_self (r_mock mr)) ''handleWorker''
           (''MocknodeFeatureDiscoveryHelperAPI'', ''handleWorker'') [ctx, nfdInstance] w)"

definition MocknodeFeatureDiscoveryHelperAPI_hasFinalizer ::
  "('w, 'e, 'x) MocknodeFeatureDiscoveryHelperAPI \<Rightarrow> 'x \<Rightarrow> 'w \<Rightarrow>
     bool option \<times> 'w" where
  "MocknodeFeatureDiscoveryHelperAPI_hasFinalizer m nfdInstance w =
     (let w = ct_T_Helper (m_ctrl m) w;
          (ret, w) = ct_Call (m_ctrl m) (m_self m) ''hasFinalizer'' [GRef ''*nfdv1.NodeFeatureDiscovery'' nfdInstance] w
      in (results1 as_bool ret, w))"

definition MocknodeFeatureDiscoveryHelperAPIMockRecorder_hasFinalizer ::
  "('w, 'e, 'x) MocknodeFeatureDiscoveryHelperAPIMockRecorder \<Rightarrow> ('e, 'x) gval \<Rightarrow> 'w \<Rightarrow> 'x \<times> 'w" where
  "MocknodeFeatureDiscoveryHelperAPIMockRecorder_hasFinalizer mr nfdInstance w =
     (let w = ct_T_Helper (m_ctrl (r_mock mr)) w
      in ct_RecordCallWithMethodType (m_ctrl (r_mock mr)) (m_self (r_mock mr)) ''hasFinalizer''
           (''MocknodeFeatureDiscoveryHelperAPI'', ''hasFinalizer'') [nfdInstance] w)"

definition MocknodeFeatureDiscoveryHelperAPI_removeFinalizer ::
  "('w, 'e, 'x) MocknodeFeatureDiscoveryHelperAPI \<Rightarrow> ('e, 'x) gval \<Rightarrow> 'x \<Rightarrow> 'w \<Rightarrow>
     ('e err) option \<times> 'w" where
  "MocknodeFeatureDiscoveryHelperAPI_removeFinalizer m ctx instance w =
     (let w = ct_T_Helper (m_ctrl m) w;
          (ret, w) = ct_Call (m_ctrl m) (m_self m) ''removeFinalizer'' [ctx, GRef ''*nfdv1.NodeFeatureDiscovery'' instance] w
      in (results1 as_error ret, w))"

definition MocknodeFeatureDiscoveryHelperAPIMockRecorder_removeFinalizer ::
  "('w, 'e, 'x) MocknodeFeatureDiscoveryHelperAPIMockRecorder \<Rightarrow> ('e, 'x) gval \<Rightarrow> ('e, 'x) gval \<Rightarrow> 'w \<Rightarrow> 'x \<times> 'w" where
  "MocknodeFeatureDiscoveryHelperAPIMockRecorder_removeFinalizer mr ctx instance w =
     (let w = ct_T_Helper (m_ctrl (r_mock mr)) w
      in ct_RecordCallWithMethodType (m_ctrl (r_mock mr)) (m_self (r_mock mr)) ''removeFinalizer''
           (''MocknodeFeatureDiscoveryHelperAPI'', ''removeFinalizer'') [ctx, instance] w)"

definition MocknodeFeatureDiscoveryHelperAPI_setFinalizer ::
  "('w, 'e, 'x) MocknodeFeatureDiscoveryHelperAPI \<Rightarrow> ('e, 'x) gval \<Rightarrow> 'x \<Rightarrow> 'w \<Rightarrow>
     ('e err) option \<times> 'w" where
  "MocknodeFeatureDiscoveryHelperAPI_setFinalizer m ctx instance w =
     (let w = ct_T_Helper (m_ctrl m) w;
          (ret, w) = ct_Call (m_ctrl m) (m_self m) ''setFinalizer'' [ctx, GRef ''*nfdv1.NodeFeatureDiscovery'' instance] w
      in (results1 as_error ret, w))"

definition MocknodeFeatureDiscoveryHelperAPIMockRecorder_setFinalizer ::
  "('w, 'e, 'x) MocknodeFeatureDiscoveryHelperAPIMockRecorder \<Rightarrow> ('e, 'x) gval \<Rightarrow> ('e, 'x) gval \<Rightarrow> 'w \<Rightarrow> 'x \<times> 'w" where
  "MocknodeFeatureDiscoveryHelperAPIMockRecorder_setFinalizer mr ctx instance w =
     (let w = ct_T_Helper (m_ctrl (r_mock mr)) w
      in ct_RecordCallWithMethodType (m_ctrl (r_mock mr)) (m_self (r_mock mr)) ''setFinalizer''
           (''MocknodeFeatureDiscoveryHelperAPI'', ''setFinalizer'') [ctx, instance] w)"

section \<open>\<^verbatim>\<open>internal/daemonset/mock_daemonset.go\<close>\<close>

type_synonym ('w, 'e, 'x) MockDaemonsetAPI = "('w, 'e, 'x) mock"

type_synonym ('w, 'e, 'x) MockDaemonsetAPIMockRecorder = "('w, 'e, 'x) recorder"

definition NewMockDaemonsetAPI :: "('w, 'e, 'x) Controller \<Rightarrow> 'w \<Rightarrow> ('w, 'e, 'x) MockDaemonsetAPI \<times> 'w" where
  "NewMockDaemonsetAPI ctrl w = (let (p, w) = ct_new ctrl w in (\<lparr>m_ctrl = ctrl, m_self = p\<rparr>, w))"

definition MockDaemonsetAPI_EXPECT :: "('w, 'e, 'x) MockDaemonsetAPI \<Rightarrow> ('w, 'e, 'x) MockDaemonsetAPIMockRecorder" where
  "MockDaemonsetAPI_EXPECT m = \<lparr>r_mock = m\<rparr>"

definition MockDaemonsetAPI_DeleteDaemonSet ::
  "('w, 'e, 'x) MockDaemonsetAPI \<Rightarrow> ('e, 'x) gval \<Rightarrow> string \<Rightarrow> string \<Rightarrow> 'w \<Rightarrow>
     ('e err) option \<times> 'w" where
  "MockDaemonsetAPI_DeleteDaemonSet m ctx namespace name w =
     (let w = ct_T_Helper (m_ctrl m) w;
          (ret, w) = ct_Call (m_ctrl m) (m_self m) ''DeleteDaemonSet'' [ctx, GString namespace, GString name] w
      in (results1 as_error ret, w))"

definition MockDaemonsetAPIMockRecorder_DeleteDaemonSet ::
  "('w, 'e, 'x) MockDaemonsetAPIMockRecorder \<Rightarrow> ('e, 'x) gval \<Rightarrow> ('e, 'x) gval \<Rightarrow> ('e, 'x) gval \<Rightarrow> 'w \<Rightarrow> 'x \<times> 'w" where
  "MockDaemonsetAPIMockRecorder_DeleteDaemonSet mr ctx namespace name w =
     (let w = ct_T_Helper (m_ctrl (r_mock mr)) w
      in ct_RecordCallWithMethodType (m_ctrl (r_mock mr)) (m_self (r_mock mr)) ''DeleteDaemonSet''
           (''MockDaemonsetAPI'', ''DeleteDaemonSet'') [ctx, namespace, name] w)"

definition MockDaemonsetAPI_GetDaemonSet ::
  "('w, 'e, 'x) MockDaemonsetAPI \<Rightarrow> ('e, 'x) gval \<Rightarrow> string \<Rightarrow> string \<Rightarrow> 'w \<Rightarrow>
     ('x option \<times> 'e err) option \<times> 'w" where
  "MockDaemonsetAPI_GetDaemonSet m ctx namespace name w =
     (let w = ct_T_Helper (m_ctrl m) w;
          (ret, w) = ct_Call (m_ctrl m) (m_self m) ''GetDaemonSet'' [ctx, GString namespace, GString name] w
      in (results2 (as_ref ''*appsv1.DaemonSet'') as_error ret, w))"

definition MockDaemonsetAPIMockRecorder_GetDaemonSet ::
  "('w, 'e, 'x) MockDaemonsetAPIMockRecorder \<Rightarrow> ('e, 'x) gval \<Rightarrow> ('e, 'x) gval \<Rightarrow> ('e, 'x) gval \<Rightarrow> 'w \<Rightarrow> 'x \<times> 'w" where
  "MockDaemonsetAPIMockRecorder_GetDaemonSet mr ctx namespace name w =
     (let w = ct_T_Helper (m_ctrl (r_mock mr)) w
      in ct_RecordCallWithMethodType (m_ctrl (r_mock mr)) (m_self (r_mock mr)) ''GetDaemonSet''
           (''MockDaemonsetAPI'', ''GetDaemonSet'') [ctx, namespace, name] w)"

definition MockDaemonsetAPI_SetTopologyDaemonsetAsDesired ::
  "('w, 'e, 'x) MockDaemonsetAPI \<Rightarrow> ('e, 'x) gval \<Rightarrow> 'x \<Rightarrow> 'x \<Rightarrow> 'w \<Rightarrow>
     ('e err) option \<times> 'w" where
  "MockDaemonsetAPI_SetTopologyDaemonsetAsDesired m ctx nfdInstance topologyDS w =
     (let w = ct_T_Helper (m_ctrl m) w;
          (ret, w) = ct_Call (m_ctrl m) (m_self m) ''SetTopologyDaemonsetAsDesired'' [ctx, GRef ''*nfdv1.NodeFeatureDiscovery'' nfdInstance, GRef ''*appsv1.DaemonSet'' topologyDS] w
      in (results1 as_error ret, w))"

definition MockDaemonsetAPIMockRecorder_SetTopologyDaemonsetAsDesired ::
  "('w, 'e, 'x) MockDaemonsetAPIMockRecorder \<Rightarrow> ('e, 'x) gval \<Rightarrow> ('e, 'x) gval \<Rightarrow> ('e, 'x) gval \<Rightarrow> 'w \<Rightarrow> 'x \<times> 'w" where
  "MockDaemonsetAPIMockRecorder_SetTopologyDaemonsetAsDesired mr ctx nfdInstance topologyDS w =
     (let w = ct_T_Helper (m_ctrl (r_mock mr)) w
      in ct_RecordCallWithMethodType (m_ctrl (r_mock mr)) (m_self (r_mock mr)) ''SetTopologyDaemonsetAsDesired''
           (''MockDaemonsetAPI'', ''SetTopologyDaemonsetAsDesired'') [ctx, nfdInstance, topologyDS] w)"

definition MockDaemonsetAPI_SetWorkerDaemonsetAsDesired ::
  "('w, 'e, 'x) MockDaemonsetAPI \<Rightarrow> ('e, 'x) gval \<Rightarrow> 'x \<Rightarrow> 'x \<Rightarrow> 'w \<Rightarrow>
     ('e err) option \<times> 'w" where
  "MockDaemonsetAPI_SetWorkerDaemonsetAsDesired m ctx nfdInstance workerDS w =
     (let w = ct_T_Helper (m_ctrl m) w;
          (ret, w) = ct_Call (m_ctrl m) (m_self m) ''SetWorkerDaemonsetAsDesired'' [ctx, GRef ''*nfdv1.NodeFeatureDiscovery'' nfdInstance, GRef ''*appsv1.DaemonSet'' workerDS] w
      in (results1 as_error ret, w))"

definition MockDaemonsetAPIMockRecorder_SetWorkerDaemonsetAsDesired ::
  "('w, 'e, 'x) MockDaemonsetAPIMockRecorder \<Rightarrow> ('e, 'x) gval \<Rightarrow> ('e, 'x) gval \<Rightarrow> ('e, 'x) gval \<Rightarrow> 'w \<Rightarrow> 'x \<times> 'w" where
  "MockDaemonsetAPIMockRecorder_SetWorkerDaemonsetAsDesired mr ctx nfdInstance workerDS w =
     (let w = ct_T_Helper (m_ctrl (r_mock mr)) w
      in ct_RecordCallWithMethodType (m_ctrl (r_mock mr)) (m_self (r_mock mr)) ''SetWorkerDaemonsetAsDesired''
           (''MockDaemonsetAPI'', ''SetWorkerDaemonsetAsDesired'') [ctx, nfdInstance, workerDS] w)"

section \<open>\<^verbatim>\<open>internal/deployment/mock_deployment.go\<close>\<close>

type_synonym ('w, 'e, 'x) MockDeploymentAPI = "('w, 'e, 'x) mock"

type_synonym ('w, 'e, 'x) MockDeploymentAPIMockRecorder = "('w, 'e, 'x) recorder"

definition NewMockDeploymentAPI :: "('w, 'e, 'x) Controller \<Rightarrow> 'w \<Rightarrow> ('w, 'e, 'x) MockDeploymentAPI \<times> 'w" where
  "NewMockDeploymentAPI ctrl w = (let (p, w) = ct_new ctrl w in (\<lparr>m_ctrl = ctrl, m_self = p\<rparr>, w))"

definition MockDeploymentAPI_EXPECT :: "('w, 'e, 'x) MockDeploymentAPI \<Rightarrow> ('w, 'e, 'x) MockDeploymentAPIMockRecorder" where
  "MockDeploymentAPI_EXPECT m = \<lparr>r_mock = m\<rparr>"

definition MockDeploymentAPI_DeleteDeployment ::
  "('w, 'e, 'x) MockDeploymentAPI \<Rightarrow> ('e, 'x) gval \<Rightarrow> string \<Rightarrow> string \<Rightarrow> 'w \<Rightarrow>
     ('e err) option \<times> 'w" where
  "MockDeploymentAPI_DeleteDeployment m ctx namespace name w =
     (let w = ct_T_Helper (m_ctrl m) w;
          (ret, w) = ct_Call (m_ctrl m) (m_self m) ''DeleteDeployment'' [ctx, GString namespace, GString name] w
      in (results1 as_error ret, w))"

definition MockDeploymentAPIMockRecorder_DeleteDeployment ::
  "('w, 'e, 'x) MockDeploymentAPIMockRecorder \<Rightarrow> ('e, 'x) gval \<Rightarrow> ('e, 'x) gval \<Rightarrow> ('e, 'x) gval \<Rightarrow> 'w \<Rightarrow> 'x \<times> 'w" where
  "MockDeploymentAPIMockRecorder_DeleteDeployment mr ctx namespace name w =
     (let w = ct_T_Helper (m_ctrl (r_mock mr)) w
      in ct_RecordCallWithMethodType (m_ctrl (r_mock mr)) (m_self (r_mock mr)) ''DeleteDeployment''
           (''MockDeploymentAPI'', ''DeleteDeployment'') [ctx, namespace, name] w)"

definition MockDeploymentAPI_GetDeployment ::
  "('w, 'e, 'x) MockDeploymentAPI \<Rightarrow> ('e, 'x) gval \<Rightarrow> string \<Rightarrow> string \<Rightarrow> 'w \<Rightarrow>
     ('x option \<times> 'e err) option \<times> 'w" where
  "MockDeploymentAPI_GetDeployment m ctx namespace name w =
     (let w = ct_T_Helper (m_ctrl m) w;
          (ret, w) = ct_Call (m_ctrl m) (m_self m) ''GetDeployment'' [ctx, GString namespace, GString name] w
      in (results2 (as_ref ''*appsv1.Deployment'') as_error ret, w))"

definition MockDeploymentAPIMockRecorder_GetDeployment ::
  "('w, 'e, 'x) MockDeploymentAPIMockRecorder \<Rightarrow> ('e, 'x) gval \<Rightarrow> ('e, 'x) gval \<Rightarrow> ('e, 'x) gval \<Rightarrow> 'w \<Rightarrow> 'x \<times> 'w" where
  "MockDeploymentAPIMockRecorder_GetDeployment mr ctx namespace name w =
     (let w = ct_T_Helper (m_ctrl (r_mock mr)) w
      in ct_RecordCallWithMethodType (m_ctrl (r_mock mr)) (m_self (r_mock mr)) ''GetDeployment''
           (''MockDeploymentAPI'', ''GetDeployment'') [ctx, namespace, name] w)"

definition MockDeploymentAPI_SetGCDeploymentAsDesired ::
  "('w, 'e, 'x) MockDeploymentAPI \<Rightarrow> 'x \<Rightarrow> 'x \<Rightarrow> 'w \<Rightarrow>
     ('e err) option \<times> 'w" where
  "MockDeploymentAPI_SetGCDeploymentAsDesired m nfdInstance gcDep w =
     (let w = ct_T_Helper (m_ctrl m) w;
          (ret, w) = ct_Call (m_ctrl m) (m_self m) ''SetGCDeploymentAsDesired'' [GRef ''*nfdv1.NodeFeatureDiscovery'' nfdInstance, GRef ''*appsv1.Deployment'' gcDep] w
      in (results1 as_error ret, w))"

definition MockDeploymentAPIMockRecorder_SetGCDeploymentAsDesired ::
  "('w, 'e, 'x) MockDeploymentAPIMockRecorder \<Rightarrow> ('e, 'x) gval \<Rightarrow> ('e, 'x) gval \<Rightarrow> 'w \<Rightarrow> 'x \<times> 'w" where
  "MockDeploymentAPIMockRecorder_SetGCDeploymentAsDesired mr nfdInstance gcDep w =
     (let w = ct_T_Helper (m_ctrl (r_mock mr)) w
      in ct_RecordCallWithMethodType (m_ctrl (r_mock mr)) (m_self (r_mock mr)) ''SetGCDeploymentAsDesired''
           (''MockDeploymentAPI'', ''SetGCDeploymentAsDesired'') [nfdInstance, gcDep] w)"

definition MockDeploymentAPI_SetMasterDeploymentAsDesired ::
  "('w, 'e, 'x) MockDeploymentAPI \<Rightarrow> 'x \<Rightarrow> 'x \<Rightarrow> 'w \<Rightarrow>
     ('e err) option \<times> 'w" where
  "MockDeploymentAPI_SetMasterDeploymentAsDesired m nfdInstance masterDep w =
     (let w = ct_T_Helper (m_ctrl m) w;
          (ret, w) = ct_Call (m_ctrl m) (m_self m) ''SetMasterDeploymentAsDesired'' [GRef ''*nfdv1.NodeFeatureDiscovery'' nfdInstance, GRef ''*appsv1.Deployment'' masterDep] w
      in (results1 as_error ret, w))"

definition MockDeploymentAPIMockRecorder_SetMasterDeploymentAsDesired ::
  "('w, 'e, 'x) MockDeploymentAPIMockRecorder \<Rightarrow> ('e, 'x) gval \<Rightarrow> ('e, 'x) gval \<Rightarrow> 'w \<Rightarrow> 'x \<times> 'w" where
  "MockDeploymentAPIMockRecorder_SetMasterDeploymentAsDesired mr nfdInstance masterDep w =
     (let w = ct_T_Helper (m_ctrl (r_mock mr)) w
      in ct_RecordCallWithMethodType (m_ctrl (r_mock mr)) (m_self (r_mock mr)) ''SetMasterDeploymentAsDesired''
           (''MockDeploymentAPI'', ''SetMasterDeploymentAsDesired'') [nfdInstance, masterDep] w)"

section \<open>\<^verbatim>\<open>internal/job/mock_job.go\<close>\<close>

type_synonym ('w, 'e, 'x) MockJobAPI = "('w, 'e, 'x) mock"

type_synonym ('w, 'e, 'x) MockJobAPIMockRecorder = "('w, 'e, 'x) recorder"

definition NewMockJobAPI :: "('w, 'e, 'x) Controller \<Rightarrow> 'w \<Rightarrow> ('w, 'e, 'x) MockJobAPI \<times> 'w" where
  "NewMockJobAPI ctrl w = (let (p, w) = ct_new ctrl w in (\<lparr>m_ctrl = ctrl, m_self = p\<rparr>, w))"

definition MockJobAPI_EXPECT :: "('w, 'e, 'x) MockJobAPI \<Rightarrow> ('w, 'e, 'x) MockJobAPIMockRecorder" where
  "MockJobAPI_EXPECT m = \<lparr>r_mock = m\<rparr>"

definition MockJobAPI_CreatePruneJob ::
  "('w, 'e, 'x) MockJobAPI \<Rightarrow> ('e, 'x) gval \<Rightarrow> 'x \<Rightarrow> 'w \<Rightarrow>
     ('e err) option \<times> 'w" where
  "MockJobAPI_CreatePruneJob m ctx nfdInstance w =
     (let w = ct_T_Helper (m_ctrl m) w;
          (ret, w) = ct_Call (m_ctrl m) (m_self m) ''CreatePruneJob'' [ctx, GRef ''*nfdv1.NodeFeatureDiscovery'' nfdInstance] w
      in (results1 as_error ret, w))"

definition MockJobAPIMockRecorder_CreatePruneJob ::
  "('w, 'e, 'x) MockJobAPIMockRecorder \<Rightarrow> ('e, 'x) gval \<Rightarrow> ('e, 'x) gval \<Rightarrow> 'w \<Rightarrow> 'x \<times> 'w" where
  "MockJobAPIMockRecorder_CreatePruneJob mr ctx nfdInstance w =
     (let w = ct_T_Helper (m_ctrl (r_mock mr)) w
      in ct_RecordCallWithMethodType (m_ctrl (r_mock mr)) (m_self (r_mock mr)) ''CreatePruneJob''
           (''MockJobAPI'', ''CreatePruneJob'') [ctx, nfdInstance] w)"

definition MockJobAPI_GetJob ::
  "('w, 'e, 'x) MockJobAPI \<Rightarrow> ('e, 'x) gval \<Rightarrow> string \<Rightarrow> string \<Rightarrow> 'w \<Rightarrow>
     ('x option \<times> 'e err) option \<times> 'w" where
  "MockJobAPI_GetJob m ctx namespace name w =
     (let w = ct_T_Helper (m_ctrl m) w;
          (ret, w) = ct_Call (m_ctrl m) (m_self m) ''GetJob'' [ctx, GString namespace, GString name] w
      in (results2 (as_ref ''*batchv1.Job'') as_error ret, w))"

definition MockJobAPIMockRecorder_GetJob ::
  "('w, 'e, 'x) MockJobAPIMockRecorder \<Rightarrow> ('e, 'x) gval \<Rightarrow> ('e, 'x) gval \<Rightarrow> ('e, 'x) gval \<Rightarrow> 'w \<Rightarrow> 'x \<times> 'w" where
  "MockJobAPIMockRecorder_GetJob mr ctx namespace name w =
     (let w = ct_T_Helper (m_ctrl (r_mock mr)) w
      in ct_RecordCallWithMethodType (m_ctrl (r_mock mr)) (m_self (r_mock mr)) ''GetJob''
           (''MockJobAPI'', ''GetJob'') [ctx, namespace, name] w)"

section \<open>\<^verbatim>\<open>internal/status/mock_status.go\<close>\<close>

type_synonym ('w, 'e, 'x) MockStatusAPI = "('w, 'e, 'x) mock"

type_synonym ('w, 'e, 'x) MockStatusAPIMockRecorder = "('w, 'e, 'x) recorder"

definition NewMockStatusAPI :: "('w, 'e, 'x) Controller \<Rightarrow> 'w \<Rightarrow> ('w, 'e, 'x) MockStatusAPI \<times> 'w" where
  "NewMockStatusAPI ctrl w = (let (p, w) = ct_new ctrl w in (\<lparr>m_ctrl = ctrl, m_self = p\<rparr>, w))"

definition MockStatusAPI_EXPECT :: "('w, 'e, 'x) MockStatusAPI \<Rightarrow> ('w, 'e, 'x) MockStatusAPIMockRecorder" where
  "MockStatusAPI_EXPECT m = \<lparr>r_mock = m\<rparr>"

definition MockStatusAPI_AreConditionsEqual ::
  "('w, 'e, 'x) MockStatusAPI \<Rightarrow> 'x \<Rightarrow> 'x \<Rightarrow> 'w \<Rightarrow>
     bool option \<times> 'w" where
  "MockStatusAPI_AreConditionsEqual m prevConditions newConditions w =
     (let w = ct_T_Helper (m_ctrl m) w;
          (ret, w) = ct_Call (m_ctrl m) (m_self m) ''AreConditionsEqual'' [GRef ''[]metav1.Condition'' prevConditions, GRef ''[]metav1.Condition'' newConditions] w
      in (results1 as_bool ret, w))"

definition MockStatusAPIMockRecorder_AreConditionsEqual ::
  "('w, 'e, 'x) MockStatusAPIMockRecorder \<Rightarrow> ('e, 'x) gval \<Rightarrow> ('e, 'x) gval \<Rightarrow> 'w \<Rightarrow> 'x \<times> 'w" where
  "MockStatusAPIMockRecorder_AreConditionsEqual mr prevConditions newConditions w =
     (let w = ct_T_Helper (m_ctrl (r_mock mr)) w
      in ct_RecordCallWithMethodType (m_ctrl (r_mock mr)) (m_self (r_mock mr)) ''AreConditionsEqual''
           (''MockStatusAPI'', ''AreConditionsEqual'') [prevConditions, newConditions] w)"

definition MockStatusAPI_GetConditions ::
  "('w, 'e, 'x) MockStatusAPI \<Rightarrow> ('e, 'x) gval \<Rightarrow> 'x \<Rightarrow> 'w \<Rightarrow>
     ('x option) option \<times> 'w" where
  "MockStatusAPI_GetConditions m ctx nfdInstance w =
     (let w = ct_T_Helper (m_ctrl m) w;
          (ret, w) = ct_Call (m_ctrl m) (m_self m) ''GetConditions'' [ctx, GRef ''*nfdv1.NodeFeatureDiscovery'' nfdInstance] w
      in (results1 (as_ref ''[]metav1.Condition'') ret, w))"

definition MockStatusAPIMockRecorder_GetConditions ::
  "('w, 'e, 'x) MockStatusAPIMockRecorder \<Rightarrow> ('e, 'x) gval \<Rightarrow> ('e, 'x) gval \<Rightarrow> 'w \<Rightarrow> 'x \<times> 'w" where
  "MockStatusAPIMockRecorder_GetConditions mr ctx nfdInstance w =
     (let w = ct_T_Helper (m_ctrl (r_mock mr)) w
      in ct_RecordCallWithMethodType (m_ctrl (r_mock mr)) (m_self (r_mock mr)) ''GetConditions''
           (''MockStatusAPI'', ''GetConditions'') [ctx, nfdInstance] w)"

type_synonym ('w, 'e, 'x) MockstatusHelperAPI = "('w, 'e, 'x) mock"

type_synonym ('w, 'e, 'x) MockstatusHelperAPIMockRecorder = "('w, 'e, 'x) recorder"

definition NewMockstatusHelperAPI :: "('w, 'e, 'x) Controller \<Rightarrow> 'w \<Rightarrow> ('w, 'e, 'x) MockstatusHelperAPI \<times> 'w" where
  "NewMockstatusHelperAPI ctrl w = (let (p, w) = ct_new ctrl w in (\<lparr>m_ctrl = ctrl, m_self = p\<rparr>, w))"

definition MockstatusHelperAPI_EXPECT :: "('w, 'e, 'x) MockstatusHelperAPI \<Rightarrow> ('w, 'e, 'x) MockstatusHelperAPIMockRecorder" where
  "MockstatusHelperAPI_EXPECT m = \<lparr>r_mock = m\<rparr>"

definition MockstatusHelperAPI_getGCNotAvailableConditions ::
  "('w, 'e, 'x) MockstatusHelperAPI \<Rightarrow> ('e, 'x) gval \<Rightarrow> 'x \<Rightarrow> 'w \<Rightarrow>
     ('x option) option \<times> 'w" where
  "MockstatusHelperAPI_getGCNotAvailableConditions m ctx nfdInstance w =
     (let w = ct_T_Helper (m_ctrl m) w;
          (ret, w) = ct_Call (m_ctrl m) (m_self m) ''getGCNotAvailableConditions'' [ctx, GRef ''*nfdv1.NodeFeatureDiscovery'' nfdInstance] w
      in (results1 (as_ref ''[]metav1.Condition'') ret, w))"

definition MockstatusHelperAPIMockRecorder_getGCNotAvailableConditions ::
  "('w, 'e, 'x) MockstatusHelperAPIMockRecorder \<Rightarrow> ('e, 'x) gval \<Rightarrow> ('e, 'x) gval \<Rightarrow> 'w \<Rightarrow> 'x \<times> 'w" where
  "MockstatusHelperAPIMockRecorder_getGCNotAvailableConditions mr ctx nfdInstance w =
     (let w = ct_T_Helper (m_ctrl (r_mock mr)) w
      in ct_RecordCallWithMethodType (m_ctrl (r_mock mr)) (m_self (r_mock mr)) ''getGCNotAvailableConditions''
           (''MockstatusHelperAPI'', ''getGCNotAvailableConditions'') [ctx, nfdInstance] w)"

definition MockstatusHelperAPI_getMasterNotAvailableConditions ::
  "('w, 'e, 'x) MockstatusHelperAPI \<Rightarrow> ('e, 'x) gval \<Rightarrow> 'x \<Rightarrow> 'w \<Rightarrow>
     ('x option) option \<times> 'w" where
  "MockstatusHelperAPI_getMasterNotAvailableConditions m ctx nfdInstance w =
     (let w = ct_T_Helper (m_ctrl m) w;
          (ret, w) = ct_Call (m_ctrl m) (m_self m) ''getMasterNotAvailableConditions'' [ctx, GRef ''*nfdv1.NodeFeatureDiscovery'' nfdInstance] w
      in (results1 (as_ref ''[]metav1.Condition'') ret, w))"

definition MockstatusHelperAPIMockRecorder_getMasterNotAvailableConditions ::
  "('w, 'e, 'x) MockstatusHelperAPIMockRecorder \<Rightarrow> ('e, 'x) gval \<Rightarrow> ('e, 'x) gval \<Rightarrow> 'w \<Rightarrow> 'x \<times> 'w" where
  "MockstatusHelperAPIMockRecorder_getMasterNotAvailableConditions mr ctx nfdInstance w =
     (let w = ct_T_Helper (m_ctrl (r_mock mr)) w
      in ct_RecordCallWithMethodType (m_ctrl (r_mock mr)) (m_self (r_mock mr)) ''getMasterNotAvailableConditions''
           (''MockstatusHelperAPI'', ''getMasterNotAvailableConditions'') [ctx, nfdInstance] w)"

definition MockstatusHelperAPI_getTopologyNotAvailableConditions ::
  "('w, 'e, 'x) MockstatusHelperAPI \<Rightarrow> ('e, 'x) gval \<Rightarrow> 'x \<Rightarrow> 'w \<Rightarrow>
     ('x option) option \<times> 'w" where
  "MockstatusHelperAPI_getTopologyNotAvailableConditions m ctx nfdInstance w =
     (let w = ct_T_Helper (m_ctrl m) w;
          (ret, w) = ct_Call (m_ctrl m) (m_self m) ''getTopologyNotAvailableConditions'' [ctx, GRef ''*nfdv1.NodeFeatureDiscovery'' nfdInstance] w
      in (results1 (as_ref ''[]metav1.Condition'') ret, w))"

definition MockstatusHelperAPIMockRecorder_getTopologyNotAvailableConditions ::
  "('w, 'e, 'x) MockstatusHelperAPIMockRecorder \<Rightarrow> ('e, 'x) gval \<Rightarrow> ('e, 'x) gval \<Rightarrow> 'w \<Rightarrow> 'x \<times> 'w" where
  "MockstatusHelperAPIMockRecorder_getTopologyNotAvailableConditions mr ctx nfdInstance w =
     (let w = ct_T_Helper (m_ctrl (r_mock mr)) w
      in ct_RecordCallWithMethodType (m_ctrl (r_mock mr)) (m_self (r_mock mr)) ''getTopologyNotAvailableConditions''
           (''MockstatusHelperAPI'', ''getTopologyNotAvailableConditions'') [ctx, nfdInstance] w)"

definition MockstatusHelperAPI_getWorkerNotAvailableConditions ::
  "('w, 'e, 'x) MockstatusHelperAPI \<Rightarrow> ('e, 'x) gval \<Rightarrow> 'x \<Rightarrow> 'w \<Rightarrow>
     ('x option) option \<times> 'w" where
  "MockstatusHelperAPI_getWorkerNotAvailableConditions m ctx nfdInstance w =
     (let w = ct_T_Helper (m_ctrl m) w;
          (ret, w) = ct_Call (m_ctrl m) (m_self m) ''getWorkerNotAvailableConditions'' [ctx, GRef ''*nfdv1.NodeFeatureDiscovery'' nfdInstance] w
      in (results1 (as_ref ''[]metav1.Condition'') ret, w))"

definition MockstatusHelperAPIMockRecorder_getWorkerNotAvailableConditions ::
  "('w, 'e, 'x) MockstatusHelperAPIMockRecorder \<Rightarrow> ('e, 'x) gval \<Rightarrow> ('e, 'x) gval \<Rightarrow> 'w \<Rightarrow> 'x \<times> 'w" where
  "MockstatusHelperAPIMockRecorder_getWorkerNotAvailableConditions mr ctx nfdInstance w =
     (let w = ct_T_Helper (m_ctrl (r_mock mr)) w
      in ct_RecordCallWithMethodType (m_ctrl (r_mock mr)) (m_self (r_mock mr)) ''getWorkerNotAvailableConditions''
           (''MockstatusHelperAPI'', ''getWorkerNotAvailableConditions'') [ctx, nfdInstance] w)"

section \<open>Replay\<close>

text \<open>
  The mock \<open>m\<close> answers the call \<open>mock_call\<close> with the values a test has given to \<open>record_call\<close> on its
  recorder, read at the types of the results.
\<close>

definition replays ::
  "('x \<Rightarrow> ('e, 'x) gval list \<Rightarrow> 'w \<Rightarrow> 'w) \<Rightarrow> ('w \<Rightarrow> 'x \<Rightarrow> string \<Rightarrow> ('e, 'x) gval list \<Rightarrow> ('e, 'x) gval list option) \<Rightarrow>
     (string \<times> string \<Rightarrow> ('e, 'x) gval list \<Rightarrow> bool) \<Rightarrow> ('w, 'e, 'x) mock \<Rightarrow> string \<times> string \<Rightarrow>
     ('w \<Rightarrow> 'x \<times> 'w) \<Rightarrow> ('w \<Rightarrow> 'r option \<times> 'w) \<Rightarrow> (('e, 'x) gval list \<Rightarrow> 'r option) \<Rightarrow> bool" where
  "replays return_values answer fit m mt record_call mock_call results \<longleftrightarrow>
     (\<forall>w rets. answer w (m_self m) = (\<lambda>_ _. None) \<longrightarrow> fit mt rets \<longrightarrow>
        fst (mock_call (expecting return_values record_call rets w)) = results rets)"

lemmas mock_defs =
  MockClient_EXPECT_def MockConfigMapAPI_EXPECT_def MockDaemonsetAPI_EXPECT_def
  MockDeploymentAPI_EXPECT_def MockJobAPI_EXPECT_def MockStatusAPI_EXPECT_def MockStatusWriter_EXPECT_def
  MocknodeFeatureDiscoveryHelperAPI_EXPECT_def MockstatusHelperAPI_EXPECT_def MockClient_Create_def
  MockClientMockRecorder_Create_def MockClient_Delete_def MockClientMockRecorder_Delete_def
  MockClient_DeleteAllOf_def MockClientMockRecorder_DeleteAllOf_def MockClient_Get_def
  MockClientMockRecorder_Get_def MockClient_GroupVersionKindFor_def
  MockClientMockRecorder_GroupVersionKindFor_def MockClient_IsObjectNamespaced_def
  MockClientMockRecorder_IsObjectNamespaced_def MockClient_List_def MockClientMockRecorder_List_def
  MockClient_Patch_def MockClientMockRecorder_Patch_def MockClient_RESTMapper_def
  MockClientMockRecorder_RESTMapper_def MockClient_Scheme_def MockClientMockRecorder_Scheme_def
  MockClient_Status_def MockClientMockRecorder_Status_def MockClient_SubResource_def
  MockClientMockRecorder_SubResource_def MockClient_Update_def MockClientMockRecorder_Update_def
  MockStatusWriter_Create_def MockStatusWriterMockRecorder_Create_def MockStatusWriter_Patch_def
  MockStatusWriterMockRecorder_Patch_def MockStatusWriter_Update_def
  MockStatusWriterMockRecorder_Update_def MockConfigMapAPI_DeleteConfigMap_def
  MockConfigMapAPIMockRecorder_DeleteConfigMap_def MockConfigMapAPI_SetWorkerConfigMapAsDesired_def
  MockConfigMapAPIMockRecorder_SetWorkerConfigMapAsDesired_def
  MocknodeFeatureDiscoveryHelperAPI_finalizeComponents_def
  MocknodeFeatureDiscoveryHelperAPIMockRecorder_finalizeComponents_def
  MocknodeFeatureDiscoveryHelperAPI_handleGC_def MocknodeFeatureDiscoveryHelperAPIMockRecorder_handleGC_def
  MocknodeFeatureDiscoveryHelperAPI_handleMaster_def
  MocknodeFeatureDiscoveryHelperAPIMockRecorder_handleMaster_def
  MocknodeFeatureDiscoveryHelperAPI_handlePrune_def
  MocknodeFeatureDiscoveryHelperAPIMockRecorder_handlePrune_def
  MocknodeFeatureDiscoveryHelperAPI_handleStatus_def
  MocknodeFeatureDiscoveryHelperAPIMockRecorder_handleStatus_def
  MocknodeFeatureDiscoveryHelperAPI_handleTopology_def
  MocknodeFeatureDiscoveryHelperAPIMockRecorder_handleTopology_def
  MocknodeFeatureDiscoveryHelperAPI_handleWorker_def
  MocknodeFeatureDiscoveryHelperAPIMockRecorder_handleWorker_def
  MocknodeFeatureDiscoveryHelperAPI_hasFinalizer_def
  MocknodeFeatureDiscoveryHelperAPIMockRecorder_hasFinalizer_def
  MocknodeFeatureDiscoveryHelperAPI_removeFinalizer_def
  MocknodeFeatureDiscoveryHelperAPIMockRecorder_removeFinalizer_def
  MocknodeFeatureDiscoveryHelperAPI_setFinalizer_def
  MocknodeFeatureDiscoveryHelperAPIMockRecorder_setFinalizer_def MockDaemonsetAPI_DeleteDaemonSet_def
  MockDaemonsetAPIMockRecorder_DeleteDaemonSet_def MockDaemonsetAPI_GetDaemonSet_def
  MockDaemonsetAPIMockRecorder_GetDaemonSet_def MockDaemonsetAPI_SetTopologyDaemonsetAsDesired_def
  MockDaemonsetAPIMockRecorder_SetTopologyDaemonsetAsDesired_def
  MockDaemonsetAPI_SetWorkerDaemonsetAsDesired_def
  MockDaemonsetAPIMockRecorder_SetWorkerDaemonsetAsDesired_def MockDeploymentAPI_DeleteDeployment_def
  MockDeploymentAPIMockRecorder_DeleteDeployment_def MockDeploymentAPI_GetDeployment_def
  MockDeploymentAPIMockRecorder_GetDeployment_def MockDeploymentAPI_SetGCDeploymentAsDesired_def
  MockDeploymentAPIMockRecorder_SetGCDeploymentAsDesired_def
  MockDeploymentAPI_SetMasterDeploymentAsDesired_def
  MockDeploymentAPIMockRecorder_SetMasterDeploymentAsDesired_def MockJobAPI_CreatePruneJob_def
  MockJobAPIMockRecorder_CreatePruneJob_def MockJobAPI_GetJob_def MockJobAPIMockRecorder_GetJob_def
  MockStatusAPI_AreConditionsEqual_def MockStatusAPIMockRecorder_AreConditionsEqual_def
  MockStatusAPI_GetConditions_def MockStatusAPIMockRecorder_GetConditions_def
  MockstatusHelperAPI_getGCNotAvailableConditions_def
  MockstatusHelperAPIMockRecorder_getGCNotAvailableConditions_def
  MockstatusHelperAPI_getMasterNotAvailableConditions_def
  MockstatusHelperAPIMockRecorder_getMasterNotAvailableConditions_def
  MockstatusHelperAPI_getTopologyNotAvailableConditions_def
  MockstatusHelperAPIMockRecorder_getTopologyNotAvailableConditions_def
  MockstatusHelperAPI_getWorkerNotAvailableConditions_def
  MockstatusHelperAPIMockRecorder_getWorkerNotAvailableConditions_def

text \<open>What the recorder and the mock must have in common: the receiver, the method and the arguments.\<close>

context gomock
begin

lemma replaysI:
  assumes "m_ctrl m = ctrl"
    and "\<And>w. record_call w = ct_RecordCallWithMethodType ctrl (m_self m) meth mt args (ct_T_Helper ctrl w)"
    and "\<And>w. fst (mock_call w) = results (fst (ct_Call ctrl (m_self m) meth args (ct_T_Helper ctrl w)))"
  shows "replays return_values answer fit m mt record_call mock_call results"
proof -
  have "record_call = (\<lambda>w. ct_RecordCallWithMethodType ctrl (m_self m) meth mt args (ct_T_Helper ctrl w))"
    by (rule ext) (rule assms(2))
  then show ?thesis by (simp add: replays_def assms(3) replay)
qed

end

text \<open>
  C24: the mocks replay what a test expects. For each of the 44 mocked methods of the operator's
  interfaces, of the client and of the status writer: after a test has recorded a call through the
  recorder and said what it returns, the call on the mock with the same arguments, the variadic ones
  included, returns these values at the types of the method; nothing else is set on the mock, which
  panics exactly when it was given too few values.
\<close>

theorem mocks_replay:
  assumes "gomock (m_ctrl m) return_values answer fit"
  shows "replays return_values answer fit m (''MockClient'', ''Create'')
      (MockClientMockRecorder_Create (MockClient_EXPECT m) a b opts)
      (MockClient_Create m a b opts) (results1 as_error) \<and>
    replays return_values answer fit m (''MockClient'', ''Delete'')
      (MockClientMockRecorder_Delete (MockClient_EXPECT m) a b opts)
      (MockClient_Delete m a b opts) (results1 as_error) \<and>
    replays return_values answer fit m (''MockClient'', ''DeleteAllOf'')
      (MockClientMockRecorder_DeleteAllOf (MockClient_EXPECT m) a b opts)
      (MockClient_DeleteAllOf m a b opts) (results1 as_error) \<and>
    replays return_values answer fit m (''MockClient'', ''Get'')
      (MockClientMockRecorder_Get (MockClient_EXPECT m) a (GRef ''types.NamespacedName'' x) b opts)
      (MockClient_Get m a x b opts) (results1 as_error) \<and>
    replays return_values answer fit m (''MockClient'', ''GroupVersionKindFor'')
      (MockClientMockRecorder_GroupVersionKindFor (MockClient_EXPECT m) a)
      (MockClient_GroupVersionKindFor m a) (results2 (as_ref ''schema.GroupVersionKind'') as_error) \<and>
    replays return_values answer fit m (''MockClient'', ''IsObjectNamespaced'')
      (MockClientMockRecorder_IsObjectNamespaced (MockClient_EXPECT m) a)
      (MockClient_IsObjectNamespaced m a) (results2 as_bool as_error) \<and>
    replays return_values answer fit m (''MockClient'', ''List'')
      (MockClientMockRecorder_List (MockClient_EXPECT m) a b opts)
      (MockClient_List m a b opts) (results1 as_error) \<and>
    replays return_values answer fit m (''MockClient'', ''Patch'')
      (MockClientMockRecorder_Patch (MockClient_EXPECT m) a b c opts)
      (MockClient_Patch m a b c opts) (results1 as_error) \<and>
    replays return_values answer fit m (''MockClient'', ''RESTMapper'')
      (MockClientMockRecorder_RESTMapper (MockClient_EXPECT m))
      (MockClient_RESTMapper m) (results1 (as_interface (ct_implements (m_ctrl m)) ''meta.RESTMapper'')) \<and>
    replays return_values answer fit m (''MockClient'', ''Scheme'')
      (MockClientMockRecorder_Scheme (MockClient_EXPECT m))
      (MockClient_Scheme m) (results1 (as_ref ''*runtime.Scheme'')) \<and>
    replays return_values answer fit m (''MockClient'', ''Status'')
      (MockClientMockRecorder_Status (MockClient_EXPECT m))
      (MockClient_Status m) (results1 (as_interface (ct_implements (m_ctrl m)) ''client.SubResourceWriter'')) \<and>
    replays return_values answer fit m (''MockClient'', ''SubResource'')
      (MockClientMockRecorder_SubResource (MockClient_EXPECT m) (GString s))
      (MockClient_SubResource m s) (results1 (as_interface (ct_implements (m_ctrl m)) ''client.SubResourceClient'')) \<and>
    replays return_values answer fit m (''MockClient'', ''Update'')
      (MockClientMockRecorder_Update (MockClient_EXPECT m) a b opts)
      (MockClient_Update m a b opts) (results1 as_error) \<and>
    replays return_values answer fit m (''MockStatusWriter'', ''Create'')
      (MockStatusWriterMockRecorder_Create (MockStatusWriter_EXPECT m) a b c opts)
      (MockStatusWriter_Create m a b c opts) (results1 as_error) \<and>
    replays return_values answer fit m (''MockStatusWriter'', ''Patch'')
      (MockStatusWriterMockRecorder_Patch (MockStatusWriter_EXPECT m) a b c opts)
      (MockStatusWriter_Patch m a b c opts) (results1 as_error) \<and>
    replays return_values answer fit m (''MockStatusWriter'', ''Update'')
      (MockStatusWriterMockRecorder_Update (MockStatusWriter_EXPECT m) a b opts)
      (MockStatusWriter_Update m a b opts) (results1 as_error) \<and>
    replays return_values answer fit m (''MockConfigMapAPI'', ''DeleteConfigMap'')
      (MockConfigMapAPIMockRecorder_DeleteConfigMap (MockConfigMapAPI_EXPECT m) a (GString s) (GString t))
      (MockConfigMapAPI_DeleteConfigMap m a s t) (results1 as_error) \<and>
    replays return_values answer fit m (''MockConfigMapAPI'', ''SetWorkerConfigMapAsDesired'')
      (MockConfigMapAPIMockRecorder_SetWorkerConfigMapAsDesired (MockConfigMapAPI_EXPECT m) a (GRef ''*nfdv1.NodeFeatureDiscovery'' x) (GRef ''*corev1.ConfigMap'' y))
      (MockConfigMapAPI_SetWorkerConfigMapAsDesired m a x y) (results1 as_error) \<and>
    replays return_values answer fit m (''MocknodeFeatureDiscoveryHelperAPI'', ''finalizeComponents'')
      (MocknodeFeatureDiscoveryHelperAPIMockRecorder_finalizeComponents (MocknodeFeatureDiscoveryHelperAPI_EXPECT m) a (GRef ''*nfdv1.NodeFeatureDiscovery'' x))
      (MocknodeFeatureDiscoveryHelperAPI_finalizeComponents m a x) (results1 as_error) \<and>
    replays return_values answer fit m (''MocknodeFeatureDiscoveryHelperAPI'', ''handleGC'')
      (MocknodeFeatureDiscoveryHelperAPIMockRecorder_handleGC (MocknodeFeatureDiscoveryHelperAPI_EXPECT m) a (GRef ''*nfdv1.NodeFeatureDiscovery'' x))
      (MocknodeFeatureDiscoveryHelperAPI_handleGC m a x) (results1 as_error) \<and>
    replays return_values answer fit m (''MocknodeFeatureDiscoveryHelperAPI'', ''handleMaster'')
      (MocknodeFeatureDiscoveryHelperAPIMockRecorder_handleMaster (MocknodeFeatureDiscoveryHelperAPI_EXPECT m) a (GRef ''*nfdv1.NodeFeatureDiscovery'' x))
      (MocknodeFeatureDiscoveryHelperAPI_handleMaster m a x) (results1 as_error) \<and>
    replays return_values answer fit m (''MocknodeFeatureDiscoveryHelperAPI'', ''handlePrune'')
      (MocknodeFeatureDiscoveryHelperAPIMockRecorder_handlePrune (MocknodeFeatureDiscoveryHelperAPI_EXPECT m) a (GRef ''*nfdv1.NodeFeatureDiscovery'' x))
      (MocknodeFeatureDiscoveryHelperAPI_handlePrune m a x) (results2 as_bool as_error) \<and>
    replays return_values answer fit m (''MocknodeFeatureDiscoveryHelperAPI'', ''handleStatus'')
      (MocknodeFeatureDiscoveryHelperAPIMockRecorder_handleStatus (MocknodeFeatureDiscoveryHelperAPI_EXPECT m) a (GRef ''*nfdv1.NodeFeatureDiscovery'' x))
      (MocknodeFeatureDiscoveryHelperAPI_handleStatus m a x) (results1 as_error) \<and>
    replays return_values answer fit m (''MocknodeFeatureDiscoveryHelperAPI'', ''handleTopology'')
      (MocknodeFeatureDiscoveryHelperAPIMockRecorder_handleTopology (MocknodeFeatureDiscoveryHelperAPI_EXPECT m) a (GRef ''*nfdv1.NodeFeatureDiscovery'' x))
      (MocknodeFeatureDiscoveryHelperAPI_handleTopology m a x) (results1 as_error) \<and>
    replays return_values answer fit m (''MocknodeFeatureDiscoveryHelperAPI'', ''handleWorker'')
      (MocknodeFeatureDiscoveryHelperAPIMockRecorder_handleWorker (MocknodeFeatureDiscoveryHelperAPI_EXPECT m) a (GRef ''*nfdv1.NodeFeatureDiscovery'' x))
      (MocknodeFeatureDiscoveryHelperAPI_handleWorker m a x) (results1 as_error) \<and>
    replays return_values answer fit m (''MocknodeFeatureDiscoveryHelperAPI'', ''hasFinalizer'')
      (MocknodeFeatureDiscoveryHelperAPIMockRecorder_hasFinalizer (MocknodeFeatureDiscoveryHelperAPI_EXPECT m) (GRef ''*nfdv1.NodeFeatureDiscovery'' x))
      (MocknodeFeatureDiscoveryHelperAPI_hasFinalizer m x) (results1 as_bool) \<and>
    replays return_values answer fit m (''MocknodeFeatureDiscoveryHelperAPI'', ''removeFinalizer'')
      (MocknodeFeatureDiscoveryHelperAPIMockRecorder_removeFinalizer (MocknodeFeatureDiscoveryHelperAPI_EXPECT m) a (GRef ''*nfdv1.NodeFeatureDiscovery'' x))
      (MocknodeFeatureDiscoveryHelperAPI_removeFinalizer m a x) (results1 as_error) \<and>
    replays return_values answer fit m (''MocknodeFeatureDiscoveryHelperAPI'', ''setFinalizer'')
      (MocknodeFeatureDiscoveryHelperAPIMockRecorder_setFinalizer (MocknodeFeatureDiscoveryHelperAPI_EXPECT m) a (GRef ''*nfdv1.NodeFeatureDiscovery'' x))
      (MocknodeFeatureDiscoveryHelperAPI_setFinalizer m a x) (results1 as_error) \<and>
    replays return_values answer fit m (''MockDaemonsetAPI'', ''DeleteDaemonSet'')
      (MockDaemonsetAPIMockRecorder_DeleteDaemonSet (MockDaemonsetAPI_EXPECT m) a (GString s) (GString t))
      (MockDaemonsetAPI_DeleteDaemonSet m a s t) (results1 as_error) \<and>
    replays return_values answer fit m (''MockDaemonsetAPI'', ''GetDaemonSet'')
      (MockDaemonsetAPIMockRecorder_GetDaemonSet (MockDaemonsetAPI_EXPECT m) a (GString s) (GString t))
      (MockDaemonsetAPI_GetDaemonSet m a s t) (results2 (as_ref ''*appsv1.DaemonSet'') as_error) \<and>
    replays return_values answer fit m (''MockDaemonsetAPI'', ''SetTopologyDaemonsetAsDesired'')
      (MockDaemonsetAPIMockRecorder_SetTopologyDaemonsetAsDesired (MockDaemonsetAPI_EXPECT m) a (GRef ''*nfdv1.NodeFeatureDiscovery'' x) (GRef ''*appsv1.DaemonSet'' y))
      (MockDaemonsetAPI_SetTopologyDaemonsetAsDesired m a x y) (results1 as_error) \<and>
    replays return_values answer fit m (''MockDaemonsetAPI'', ''SetWorkerDaemonsetAsDesired'')
      (MockDaemonsetAPIMockRecorder_SetWorkerDaemonsetAsDesired (MockDaemonsetAPI_EXPECT m) a (GRef ''*nfdv1.NodeFeatureDiscovery'' x) (GRef ''*appsv1.DaemonSet'' y))
      (MockDaemonsetAPI_SetWorkerDaemonsetAsDesired m a x y) (results1 as_error) \<and>
    replays return_values answer fit m (''MockDeploymentAPI'', ''DeleteDeployment'')
      (MockDeploymentAPIMockRecorder_DeleteDeployment (MockDeploymentAPI_EXPECT m) a (GString s) (GString t))
      (MockDeploymentAPI_DeleteDeployment m a s t) (results1 as_error) \<and>
    replays return_values answer fit m (''MockDeploymentAPI'', ''GetDeployment'')
      (MockDeploymentAPIMockRecorder_GetDeployment (MockDeploymentAPI_EXPECT m) a (GString s) (GString t))
      (MockDeploymentAPI_GetDeployment m a s t) (results2 (as_ref ''*appsv1.Deployment'') as_error) \<and>
    replays return_values answer fit m (''MockDeploymentAPI'', ''SetGCDeploymentAsDesired'')
      (MockDeploymentAPIMockRecorder_SetGCDeploymentAsDesired (MockDeploymentAPI_EXPECT m) (GRef ''*nfdv1.NodeFeatureDiscovery'' x) (GRef ''*appsv1.Deployment'' y))
      (MockDeploymentAPI_SetGCDeploymentAsDesired m x y) (results1 as_error) \<and>
    replays return_values answer fit m (''MockDeploymentAPI'', ''SetMasterDeploymentAsDesired'')
      (MockDeploymentAPIMockRecorder_SetMasterDeploymentAsDesired (MockDeploymentAPI_EXPECT m) (GRef ''*nfdv1.NodeFeatureDiscovery'' x) (GRef ''*appsv1.Deployment'' y))
      (MockDeploymentAPI_SetMasterDeploymentAsDesired m x y) (results1 as_error) \<and>
    replays return_values answer fit m (''MockJobAPI'', ''CreatePruneJob'')
      (MockJobAPIMockRecorder_CreatePruneJob (MockJobAPI_EXPECT m) a (GRef ''*nfdv1.NodeFeatureDiscovery'' x))
      (MockJobAPI_CreatePruneJob m a x) (results1 as_error) \<and>
    replays return_values answer fit m (''MockJobAPI'', ''GetJob'')
      (MockJobAPIMockRecorder_GetJob (MockJobAPI_EXPECT m) a (GString s) (GString t))
      (MockJobAPI_GetJob m a s t) (results2 (as_ref ''*batchv1.Job'') as_error) \<and>
    replays return_values answer fit m (''MockStatusAPI'', ''AreConditionsEqual'')
      (MockStatusAPIMockRecorder_AreConditionsEqual (MockStatusAPI_EXPECT m) (GRef ''[]metav1.Condition'' x) (GRef ''[]metav1.Condition'' y))
      (MockStatusAPI_AreConditionsEqual m x y) (results1 as_bool) \<and>
    replays return_values answer fit m (''MockStatusAPI'', ''GetConditions'')
      (MockStatusAPIMockRecorder_GetConditions (MockStatusAPI_EXPECT m) a (GRef ''*nfdv1.NodeFeatureDiscovery'' x))
      (MockStatusAPI_GetConditions m a x) (results1 (as_ref ''[]metav1.Condition'')) \<and>
    replays return_values answer fit m (''MockstatusHelperAPI'', ''getGCNotAvailableConditions'')
      (MockstatusHelperAPIMockRecorder_getGCNotAvailableConditions (MockstatusHelperAPI_EXPECT m) a (GRef ''*nfdv1.NodeFeatureDiscovery'' x))
      (MockstatusHelperAPI_getGCNotAvailableConditions m a x) (results1 (as_ref ''[]metav1.Condition'')) \<and>
    replays return_values answer fit m (''MockstatusHelperAPI'', ''getMasterNotAvailableConditions'')
      (MockstatusHelperAPIMockRecorder_getMasterNotAvailableConditions (MockstatusHelperAPI_EXPECT m) a (GRef ''*nfdv1.NodeFeatureDiscovery'' x))
      (MockstatusHelperAPI_getMasterNotAvailableConditions m a x) (results1 (as_ref ''[]metav1.Condition'')) \<and>
    replays return_values answer fit m (''MockstatusHelperAPI'', ''getTopologyNotAvailableConditions'')
      (MockstatusHelperAPIMockRecorder_getTopologyNotAvailableConditions (MockstatusHelperAPI_EXPECT m) a (GRef ''*nfdv1.NodeFeatureDiscovery'' x))
      (MockstatusHelperAPI_getTopologyNotAvailableConditions m a x) (results1 (as_ref ''[]metav1.Condition'')) \<and>
    replays return_values answer fit m (''MockstatusHelperAPI'', ''getWorkerNotAvailableConditions'')
      (MockstatusHelperAPIMockRecorder_getWorkerNotAvailableConditions (MockstatusHelperAPI_EXPECT m) a (GRef ''*nfdv1.NodeFeatureDiscovery'' x))
      (MockstatusHelperAPI_getWorkerNotAvailableConditions m a x) (results1 (as_ref ''[]metav1.Condition''))"
  by (intro conjI; rule gomock.replaysI [OF assms refl])
    (simp_all add: mock_defs Let_def case_prod_beta)

text \<open>A mock of the job package that is told to return a job and no error, and does.\<close>

theorem mocks_replay_witness:
  "fst (MockJobAPI_GetJob script_mock GNil ''nfd'' ''nfd-prune''
     (expecting script_return
        (MockJobAPIMockRecorder_GetJob (MockJobAPI_EXPECT script_mock) GNil (GString ''nfd'') (GString ''nfd-prune''))
        [GRef ''*batchv1.Job'' 9, GNil] empty_script)) = Some (Some 9, None)"
proof -
  have "gomock (m_ctrl script_mock) script_return script_answer (\<lambda>_ _. True)"
    by (simp add: script.gomock_axioms)
  note all = mocks_replay [OF this, where a = GNil and s = "''nfd''" and t = "''nfd-prune''"
      and b = GNil and c = GNil and opts = "[]" and x = 0 and y = 0]
  from all have replay: "replays script_return script_answer (\<lambda>_ _. True) script_mock (''MockJobAPI'', ''GetJob'')
      (MockJobAPIMockRecorder_GetJob (MockJobAPI_EXPECT script_mock) GNil (GString ''nfd'') (GString ''nfd-prune''))
      (MockJobAPI_GetJob script_mock GNil ''nfd'' ''nfd-prune'')
      (results2 (as_ref ''*batchv1.Job'') as_error)"
    by simp
  have "script_answer empty_script (m_self script_mock) = (\<lambda>_ _. None)"
    by (intro ext) (simp add: script_answer_def empty_script_def)
  from replay [unfolded replays_def, rule_format, OF this TrueI] show ?thesis by simp
qed

end
