(* ===== verification/Fair_Runs.thy ===== *)
theory Fair_Runs
  imports Calm_Passes
begin

text \<open>
  Infinite runs in which the operator's passes and the moves of others alternate in any order, as long as
  the operator's turn always comes again: what such a run is sure to reach. The first section is about any
  program; the others about installing and deleting a custom resource in a cluster without faults.
\<close>

section \<open>Fair runs\<close>

text \<open>Each step is one of one's own, or a move of others; there are infinitely many of one's own.\<close>

definition fair_run :: "('w \<Rightarrow> 'w) \<Rightarrow> ('w \<Rightarrow> 'w \<Rightarrow> bool) \<Rightarrow> (nat \<Rightarrow> 'w) \<Rightarrow> bool" where
  "fair_run own other W \<longleftrightarrow>
     (\<forall>i. W (Suc i) = own (W i) \<or> other (W i) (W (Suc i))) \<and>
     (\<forall>i. \<exists>j\<ge>i. W (Suc j) = own (W j))"

lemma fair_run_invariant:
  assumes run: "fair_run own other W" and start: "I (W n)"
    and own: "\<And>w. I w \<Longrightarrow> I (own w)" and other: "\<And>w w'. I w \<Longrightarrow> other w w' \<Longrightarrow> I w'"
    and "n \<le> i"
  shows "I (W i)"
  using \<open>n \<le> i\<close>
proof (induction rule: dec_induct)
  case (step i)
  from run have "W (Suc i) = own (W i) \<or> other (W i) (W (Suc i))" by (simp add: fair_run_def)
  with step.IH own other show ?case by metis
qed (rule start)

text \<open>What every own step establishes and nobody takes back holds from some time on.\<close>

lemma fair_run_settles:
  assumes run: "fair_run own other W" and start: "I (W n)"
    and own: "\<And>w. I w \<Longrightarrow> I (own w) \<and> Q (own w)"
    and other: "\<And>w w'. I w \<Longrightarrow> other w w' \<Longrightarrow> I w' \<and> (Q w \<longrightarrow> Q w')"
  shows "\<exists>m\<ge>n. \<forall>i\<ge>m. I (W i) \<and> Q (W i)"
proof -
  from run obtain j where j: "n \<le> j" "W (Suc j) = own (W j)" unfolding fair_run_def by blast
  have "I (W j)"
    by (rule fair_run_invariant [where I = I, OF run start _ _ j(1)]) (use own other in auto)
  with j(2) own have "I (W (Suc j)) \<and> Q (W (Suc j))" by simp
  then have "I (W i) \<and> Q (W i)" if "Suc j \<le> i" for i
    by (rule fair_run_invariant [where I = "\<lambda>w. I w \<and> Q w", OF run _ _ _ that]) (use own other in auto)
  with j(1) show ?thesis by (meson le_SucI)
qed

text \<open>A property that others keep is lost, if at all, by an own step.\<close>

lemma fair_run_exit:
  assumes run: "fair_run own other W" and start: "P (W 0)" and "\<not> P (W n)"
    and other: "\<And>w w'. P w \<Longrightarrow> other w w' \<Longrightarrow> P w'"
  shows "\<exists>i. P (W i) \<and> W (Suc i) = own (W i) \<and> \<not> P (W (Suc i))"
proof (rule ccontr)
  assume stays: "\<nexists>i. P (W i) \<and> W (Suc i) = own (W i) \<and> \<not> P (W (Suc i))"
  have "P (W i)" for i
  proof (induction i)
    case (Suc i)
    with run stays other show ?case unfolding fair_run_def by metis
  qed (rule start)
  with \<open>\<not> P (W n)\<close> show False by blast
qed

text \<open>The operator's own step: a pass for the custom resource \<open>cr\<close>.\<close>

abbreviation pass_step ::
  "('w, 'e, 's) machinery \<Rightarrow> ('w, 'e) client \<Rightarrow> 's \<Rightarrow> ('w \<Rightarrow> cluster_key \<Rightarrow> kobject option) \<Rightarrow>
     NodeFeatureDiscovery \<Rightarrow> 'w \<Rightarrow> 'w" where
  "pass_step lib cl s view cr w \<equiv> snd (pass_at lib cl s view (nfd_Namespace cr) (nfd_Name cr) w)"

section \<open>Installing\<close>

text \<open>The operator may take over every component, and the server takes what it makes of them.\<close>

definition open_to ::
  "('w, 'e, 's) machinery \<Rightarrow> ('w, 'e) client \<Rightarrow> 's \<Rightarrow> (kobject \<Rightarrow> kobject \<Rightarrow> bool) \<Rightarrow>
     (kobject option \<Rightarrow> kobject \<Rightarrow> bool) \<Rightarrow> NodeFeatureDiscovery \<Rightarrow> (cluster_key \<Rightarrow> kobject option) \<Rightarrow> bool" where
  "open_to lib cl s admits accepts cr v \<longleftrightarrow>
     adoptable_components lib cr v \<and> acceptable_components lib cl s admits accepts cr v"

text \<open>No component is written.\<close>

definition untouched ::
  "('w \<Rightarrow> cluster_key \<Rightarrow> kobject option) \<Rightarrow> NodeFeatureDiscovery \<Rightarrow> 'w \<Rightarrow> 'w \<Rightarrow> bool" where
  "untouched view cr w w' \<longleftrightarrow> (\<forall>k \<in> set (managed_keys cr). view w' k = view w k)"

text \<open>
  Others that do not stand in the way. They leave the request and the finalizer of the custom resource in
  place. They may write the components, delete them or put other objects in their place, as long as the
  operator can take over what they leave; and they may write anything else, the status included.
\<close>

definition bystander ::
  "('w, 'e, 's) machinery \<Rightarrow> ('w, 'e) client \<Rightarrow> 's \<Rightarrow> (kobject \<Rightarrow> kobject \<Rightarrow> bool) \<Rightarrow>
     (kobject option \<Rightarrow> kobject \<Rightarrow> bool) \<Rightarrow> ('w \<Rightarrow> cluster_key \<Rightarrow> kobject option) \<Rightarrow> ('w \<Rightarrow> bool) \<Rightarrow>
     NodeFeatureDiscovery \<Rightarrow> 'w \<Rightarrow> 'w \<Rightarrow> bool" where
  "bystander lib cl s admits accepts view calm cr w w' \<longleftrightarrow>
     calm w' \<and>
     (\<forall>n. view w (cr_key cr) = Some (ONFD n) \<longrightarrow>
        (\<exists>m. view w' (cr_key cr) = Some (ONFD m) \<and> same_request m n \<and>
           om_DeletionTimestamp (nfd_ObjectMeta m) = om_DeletionTimestamp (nfd_ObjectMeta n) \<and>
           om_Finalizers (nfd_ObjectMeta m) = om_Finalizers (nfd_ObjectMeta n))) \<and>
     (untouched view cr w w' \<or> open_to lib cl s admits accepts cr (view w'))"

text \<open>The custom resource as it was asked for, alive and free to own its components.\<close>

definition requested ::
  "('w, 'e, 's) machinery \<Rightarrow> ('w, 'e) client \<Rightarrow> 's \<Rightarrow> (kobject \<Rightarrow> kobject \<Rightarrow> bool) \<Rightarrow>
     (kobject option \<Rightarrow> kobject \<Rightarrow> bool) \<Rightarrow> ('w \<Rightarrow> cluster_key \<Rightarrow> kobject option) \<Rightarrow> ('w \<Rightarrow> bool) \<Rightarrow>
     NodeFeatureDiscovery \<Rightarrow> 'w \<Rightarrow> NodeFeatureDiscovery \<Rightarrow> bool" where
  "requested lib cl s admits accepts view calm cr w m \<longleftrightarrow>
     calm w \<and> view w (cr_key cr) = Some (ONFD m) \<and> same_request m cr \<and>
     om_DeletionTimestamp (nfd_ObjectMeta m) = None \<and> open_to lib cl s admits accepts cr (view w)"

definition managed :: "NodeFeatureDiscovery \<Rightarrow> bool" where
  "managed m \<longleftrightarrow> finalizerLabel \<in> set (om_Finalizers (nfd_ObjectMeta m))"

lemma same_request_trans: "same_request l m \<Longrightarrow> same_request m n \<Longrightarrow> same_request l n"
  by (simp add: same_request_def)

lemma untouched_open:
  assumes "untouched view cr w w'" and "open_to lib cl s admits accepts cr (view w)"
  shows "open_to lib cl s admits accepts cr (view w')"
proof -
  from assms(1) have same: "view w' k = view w k" if "k \<in> set (managed_keys cr)" for k
    using that by (simp add: untouched_def)
  have "acceptable_components lib cl s admits accepts cr (view w')"
    by (rule iffD2 [OF acceptable_components_cong]) (use same assms(2) in \<open>auto simp: open_to_def\<close>)
  with assms(2) same show ?thesis
    by (simp add: open_to_def adoptable_components_def adoptable_at_def)
qed

lemma untouched_stored:
  assumes "untouched view cr w w'" and "components_stored lib admits cr (view w)"
  shows "components_stored lib admits cr (view w')"
  using assms by (simp add: untouched_def components_stored_def managed_keys_def)

lemma bystander_requested:
  assumes move: "bystander lib cl s admits accepts view calm cr w w'"
    and req: "requested lib cl s admits accepts view calm cr w m"
  shows "\<exists>m'. requested lib cl s admits accepts view calm cr w' m' \<and> (managed m' \<longleftrightarrow> managed m)"
proof -
  have "open_to lib cl s admits accepts cr (view w')"
    using move req untouched_open [of view cr w w' lib cl s admits accepts] unfolding bystander_def requested_def by blast
  with move req show ?thesis
    unfolding bystander_def requested_def managed_def by (metis same_request_trans)
qed

context calm_server
begin

lemma pass_requested:
  assumes "requested lib cl s admits accepts view calm cr w m"
  shows "\<exists>m'. requested lib cl s admits accepts view calm cr (pass_step lib cl s view cr w) m' \<and> managed m' \<and>
    (managed m \<longrightarrow> components_stored lib admits cr (view (pass_step lib cl s view cr w)))"
proof -
  from assms have m: "calm w" "view w (cr_key cr) = Some (ONFD m)" "same_request m cr"
    "om_DeletionTimestamp (nfd_ObjectMeta m) = None" "adoptable_components lib m (view w)"
    "acceptable_components lib cl s admits accepts m (view w)"
    by (auto simp: requested_def open_to_def same_request_adoptable same_request_acceptable)
  from pass_installs [OF m(1) m(2) [unfolded cr_key_def] m(4,5,6) prod.collapse [symmetric]] m(3)
  show ?thesis
    by (auto simp: requested_def open_to_def managed_def cr_key_def same_request_adoptable
        same_request_acceptable same_request_stored intro: same_request_trans)
qed

text \<open>
  Every fair run comes to hold the finalizer for good; from then on each pass restores all components,
  and where they are not touched any more they stay.
\<close>

lemma fair_run_installs:
  assumes run: "fair_run (pass_step lib cl s view cr) (bystander lib cl s admits accepts view calm cr) W"
    and start: "requested lib cl s admits accepts view calm cr (W 0) m"
  shows "\<exists>n. \<forall>i\<ge>n. (\<exists>m'. requested lib cl s admits accepts view calm cr (W i) m' \<and> managed m') \<and>
    (W (Suc i) = pass_step lib cl s view cr (W i) \<longrightarrow> components_stored lib admits cr (view (W (Suc i))))"
proof -
  define req where "req w \<longleftrightarrow> (\<exists>m. requested lib cl s admits accepts view calm cr w m)" for w
  define man where "man w \<longleftrightarrow> (\<exists>m. requested lib cl s admits accepts view calm cr w m \<and> managed m)" for w
  have "\<exists>n\<ge>0. \<forall>i\<ge>n. req (W i) \<and> man (W i)"
  proof (rule fair_run_settles [OF run])
    show "req (W 0)" using start by (auto simp: req_def)
    show "req (pass_step lib cl s view cr w) \<and> man (pass_step lib cl s view cr w)" if "req w" for w
      using that pass_requested by (fastforce simp: req_def man_def)
    show "req w' \<and> (man w \<longrightarrow> man w')" if "req w" "bystander lib cl s admits accepts view calm cr w w'" for w w'
      using that(1) bystander_requested [OF that(2)] by (auto simp: req_def man_def)
  qed
  then obtain n where n: "\<forall>i\<ge>n. man (W i)" by blast
  have "components_stored lib admits cr (view (pass_step lib cl s view cr w))" if "man w" for w
    using that pass_requested by (fastforce simp: man_def)
  with n show ?thesis unfolding man_def by metis
qed

text \<open>Once no one else touches them any more, the components stay installed.\<close>

lemma fair_run_stays_installed:
  assumes run: "fair_run own other W"
    and passes: "\<forall>i\<ge>n. W (Suc i) = own (W i) \<longrightarrow> components_stored lib admits cr (view (W (Suc i)))"
    and quiet: "\<forall>i\<ge>q. W (Suc i) = own (W i) \<or> untouched view cr (W i) (W (Suc i))"
  shows "\<exists>m. \<forall>i\<ge>m. components_stored lib admits cr (view (W i))"
proof -
  from run obtain j where j: "max n q \<le> j" "W (Suc j) = own (W j)" unfolding fair_run_def by blast
  have "components_stored lib admits cr (view (W i))" if "Suc j \<le> i" for i
    using that
  proof (induction rule: dec_induct)
    case (step i)
    with quiet j(1) have "W (Suc i) = own (W i) \<or> untouched view cr (W i) (W (Suc i))" by simp
    with step passes j(1) show ?case using untouched_stored [of view cr "W i" "W (Suc i)"] by auto
  qed (use passes j in simp)
  then show ?thesis by blast
qed

end

section \<open>Deleting\<close>

text \<open>
  The deletion is pending: the custom resource is stored as asked for, with its deletion timestamp and its
  finalizers. Others, while this is so, leave it pending and do not remove the prune job; they may change
  the status and the other metadata of the custom resource, the status of the job, and anything else, also
  the components.
\<close>

definition pending :: "NodeFeatureDiscovery \<Rightarrow> (cluster_key \<Rightarrow> kobject option) \<Rightarrow> bool" where
  "pending cr v \<longleftrightarrow>
     (\<exists>m. v (cr_key cr) = Some (ONFD m) \<and> same_request m cr \<and>
        om_DeletionTimestamp (nfd_ObjectMeta m) = om_DeletionTimestamp (nfd_ObjectMeta cr) \<and>
        om_Finalizers (nfd_ObjectMeta m) = om_Finalizers (nfd_ObjectMeta cr))"

definition onlooker ::
  "('w \<Rightarrow> cluster_key \<Rightarrow> kobject option) \<Rightarrow> ('w \<Rightarrow> bool) \<Rightarrow> NodeFeatureDiscovery \<Rightarrow> 'w \<Rightarrow> 'w \<Rightarrow> bool" where
  "onlooker view calm cr w w' \<longleftrightarrow>
     calm w' \<and>
     (pending cr (view w) \<longrightarrow>
        pending cr (view w') \<and> (view w (prune_key cr) \<noteq> None \<longrightarrow> view w' (prune_key cr) \<noteq> None))"

text \<open>A prune job that is stored at some time has, from some later time on, succeeded without a failed pod.\<close>

definition job_completes ::
  "('w \<Rightarrow> cluster_key \<Rightarrow> kobject option) \<Rightarrow> NodeFeatureDiscovery \<Rightarrow> (nat \<Rightarrow> 'w) \<Rightarrow> bool" where
  "job_completes view cr W \<longleftrightarrow>
     (\<forall>i. view (W i) (prune_key cr) \<noteq> None \<longrightarrow>
        (\<exists>k. \<forall>l\<ge>k. \<forall>j. view (W l) (prune_key cr) = Some (OJob j) \<longrightarrow> prune_succeeded j \<and> \<not> prune_failed j))"

lemma same_request_keys:
  assumes "same_request m cr"
  shows "cr_key m = cr_key cr" "prune_key m = prune_key cr" "managed_keys m = managed_keys cr"
  using assms by (simp_all add: same_request_def cr_key_def prune_key_def managed_keys_def)

lemma released_same:
  assumes "same_request m cr" and "om_Finalizers (nfd_ObjectMeta m) = om_Finalizers (nfd_ObjectMeta cr)"
  shows "released m v \<longleftrightarrow> released cr v"
  using assms same_request_keys [OF assms(1)] by (simp add: released_def)

context calm_server
begin

text \<open>A pass while the deletion is pending either lets the custom resource go, everything else gone, or keeps it.\<close>

lemma deletion_pass:
  assumes calm: "calm w" and pend: "pending cr (view w)"
    and del: "om_DeletionTimestamp (nfd_ObjectMeta cr) \<noteq> None"
    and acc: "\<forall>n. same_request n cr \<longrightarrow> acceptable_prune_job lib s accepts n"
    and w': "w' = pass_step lib cl s view cr w"
  shows "calm w'" "\<forall>k \<in> set (managed_keys cr). gone (view w' k)"
    "released cr (view w') \<or> pending cr (view w') \<and> view w' (prune_key cr) \<noteq> None"
    "view w (prune_key cr) = Some (OJob j) \<Longrightarrow> prune_succeeded j \<Longrightarrow> \<not> prune_failed j \<Longrightarrow> released cr (view w')"
proof -
  from pend obtain m where m: "view w (cr_key cr) = Some (ONFD m)" "same_request m cr"
    "om_DeletionTimestamp (nfd_ObjectMeta m) = om_DeletionTimestamp (nfd_ObjectMeta cr)"
    "om_Finalizers (nfd_ObjectMeta m) = om_Finalizers (nfd_ObjectMeta cr)"
    unfolding pending_def by blast
  note keys = same_request_keys [OF m(2)] and rel = released_same [OF m(2,4)]
  obtain res e cr' w2 where run: "Reconcile (operatorReconciler lib cl s) m w = ((res, e), cr', w2)"
    by (metis prod.exhaust)
  with m(1) w' have w2: "w2 = w'" by (simp add: pass_at_def cr_key_def)
  have mdel: "om_DeletionTimestamp (nfd_ObjectMeta m) \<noteq> None" using del m(3) by simp
  have mcr: "view w (cr_key m) = Some (ONFD m)" using m(1) keys by simp
  note t = TearDown_completes [OF calm run [unfolded w2] mdel mcr]
  show "calm w'" by (rule t(1))
  show "\<forall>k \<in> set (managed_keys cr). gone (view w' k)" using t(2) keys by simp
  have out: "teardown_outcome lib admits m (view w) (view w') e" by (rule t(3)) (use acc m(2) in simp)
  then show "released cr (view w')"
    if "view w (prune_key cr) = Some (OJob j)" "prune_succeeded j" "\<not> prune_failed j"
    using that by (auto simp: teardown_outcome_def keys rel split: if_splits)
  have pend': "pending cr (view w')" if "view w' (cr_key cr) = view w (cr_key cr)"
    using pend that by (simp add: pending_def)
  show "released cr (view w') \<or> pending cr (view w') \<and> view w' (prune_key cr) \<noteq> None"
  proof (cases "view w (prune_key cr)")
    case None
    with out pend' show ?thesis by (auto simp: teardown_outcome_def stored_as_def keys rel split: if_splits)
  next
    case (Some x)
    then obtain j where "view w (prune_key cr) = Some (OJob j)" using prune_key_job by blast
    with out pend' show ?thesis by (auto simp: teardown_outcome_def keys rel split: if_splits)
  qed
qed

lemma fair_run_deletes:
  assumes run: "fair_run (pass_step lib cl s view cr) (onlooker view calm cr) W"
    and start: "calm (W 0)" "view (W 0) (cr_key cr) = Some (ONFD cr)"
    and del: "om_DeletionTimestamp (nfd_ObjectMeta cr) \<noteq> None"
    and acc: "\<forall>n. same_request n cr \<longrightarrow> acceptable_prune_job lib s accepts n"
    and job: "job_completes view cr W"
  shows "\<exists>i. released cr (view (W i)) \<and> (\<forall>k \<in> set (managed_keys cr). gone (view (W i) k))"
proof (rule ccontr)
  assume never: "\<not> ?thesis"
  let ?here = "\<lambda>w. calm w \<and> pending cr (view w)"
  let ?job = "\<lambda>w. view w (prune_key cr) \<noteq> None"
  have here: "?here (W i)" for i
  proof (induction i)
    case 0
    with start show ?case by (auto simp: pending_def same_request_def)
  next
    case (Suc i)
    then have i: "calm (W i)" "pending cr (view (W i))" by simp_all
    from run consider "W (Suc i) = pass_step lib cl s view cr (W i)" | "onlooker view calm cr (W i) (W (Suc i))"
      unfolding fair_run_def by blast
    then show ?case
    proof cases
      case 1
      note p = deletion_pass [OF i del acc 1]
      from never p(2) have "\<not> released cr (view (W (Suc i)))" by blast
      with p(1,3) show ?thesis by blast
    qed (use i in \<open>auto simp: onlooker_def\<close>)
  qed
  have pass: "?job (W (Suc i)) \<and> \<not> released cr (view (W (Suc i)))"
    if "W (Suc i) = pass_step lib cl s view cr (W i)" for i
    using deletion_pass(2,3) [OF conjunct1 [OF here] conjunct2 [OF here] del acc that] never by blast
  from run obtain n where n: "W (Suc n) = pass_step lib cl s view cr (W n)" unfolding fair_run_def by blast
  have keeps: "?job (W i)" if "Suc n \<le> i" for i
    using that
  proof (induction rule: dec_induct)
    case (step i)
    from run consider "W (Suc i) = pass_step lib cl s view cr (W i)" | "onlooker view calm cr (W i) (W (Suc i))"
      unfolding fair_run_def by blast
    then show ?case using pass here [of i] step.IH by cases (auto simp: onlooker_def)
  qed (use pass [OF n] in simp)
  from job keeps obtain k where k: "prune_succeeded j \<and> \<not> prune_failed j"
    if "k \<le> l" "view (W l) (prune_key cr) = Some (OJob j)" for l j
    unfolding job_completes_def by blast
  from run obtain i where i: "max k (Suc n) \<le> i" "W (Suc i) = pass_step lib cl s view cr (W i)"
    unfolding fair_run_def by blast
  from keeps [of i] i(1) obtain j where j: "view (W i) (prune_key cr) = Some (OJob j)"
    using prune_key_job by fastforce
  with k [OF _ j] i(1) deletion_pass(4) [OF conjunct1 [OF here] conjunct2 [OF here] del acc i(2) j] pass [OF i(2)]
  show False by simp
qed

end

end
