(* ===== verification/Exact_Status.thy ===== *)
theory Exact_Status
  imports Quiescence
begin

text \<open>
  What the status of a custom resource must say of the workloads as they are stored, as a specification of
  its own: the first piece of bad news in the order worker, master, garbage collector, topology updater, as
  a verdict with a reason and a message, and one condition of each type that spells it out. In a calm
  cluster an applying pass stores exactly that.
\<close>

section \<open>The specification\<close>

text \<open>The news of a workload: how it is, the reason and the message of a report about it.\<close>

type_synonym news = "health \<times> string \<times> string"

definition daemonset_news :: "string \<Rightarrow> string \<Rightarrow> DaemonSet \<Rightarrow> news" where
  "daemonset_news degraded progressing ds =
     (let st = ds_Status ds
      in if dsst_DesiredNumberScheduled st = 0
         then (Broken, degraded, ''number of desired nodes for scheduling is 0'')
         else if dsst_CurrentNumberScheduled st = 0 then (Broken, degraded, ''0 nodes have pods scheduled'')
         else if dsst_NumberReady st \<noteq> dsst_DesiredNumberScheduled st
         then (Rolling, progressing, ''ds is progressing'')
         else (Healthy, [], []))"

definition deployment_news :: "string \<Rightarrow> Deployment \<Rightarrow> news" where
  "deployment_news degraded dep =
     (if dst_AvailableReplicas (dep_Status dep) = 0
      then (Broken, degraded, ''number of available pods is 0'') else (Healthy, [], []))"

fun object_news :: "string \<Rightarrow> string \<Rightarrow> kobject option \<Rightarrow> news list" where
  "object_news degraded progressing (Some (ODaemonSet ds)) = [daemonset_news degraded progressing ds]"
| "object_news degraded progressing (Some (ODeployment dep)) = [deployment_news degraded dep]"
| "object_news degraded progressing _ = []"

text \<open>The news of the workloads the custom resource asks for, in the order in which they are looked at.\<close>

definition workload_news :: "NodeFeatureDiscovery \<Rightarrow> (cluster_key \<Rightarrow> kobject option) \<Rightarrow> news list" where
  "workload_news cr v =
     (let ns = nfd_Namespace cr
      in object_news ''NFDWorkerDaemonSetDegraded'' ''NFDWorkerDaemonSetProgressing'' (v (KDaemonSet, ns, ''nfd-worker'')) @
         object_news ''NFDMasterDeploymentDegraded'' ''NFDMasterDeploymentProgressing'' (v (KDeployment, ns, ''nfd-master'')) @
         object_news ''NFDGCDegraded'' ''NFDGCDeploymentProgressing'' (v (KDeployment, ns, ''nfd-gc'')) @
         (if spc_TopologyUpdater (nfd_Spec cr)
          then object_news ''NFDTopologyDaemonSetDegraded'' ''NFDTopologyDaemonSetProgressing''
                 (v (KDaemonSet, ns, ''nfd-topology-updater''))
          else []))"

fun first_news :: "news list \<Rightarrow> news" where
  "first_news [] = (Healthy, ''AllInstanceComponentsAreDeployedSuccessfuly'', [])"
| "first_news (x # xs) = (if fst x = Healthy then first_news xs else x)"

text \<open>A condition that is true has its reason and message, one that is false a fixed reason and no message.\<close>

definition flag :: "string \<Rightarrow> bool \<Rightarrow> string \<Rightarrow> string \<Rightarrow> Condition" where
  "flag t on reason message =
     zero_Condition\<lparr>cond_Type := t, cond_Status := if on then ConditionTrue else ConditionFalse,
       cond_Reason := if on then reason else ''ConditionNotBeingMetCurrently'',
       cond_Message := if on then message else []\<rparr>"

definition news_report :: "news \<Rightarrow> Condition list" where
  "news_report n =
     (let (h, reason, message) = n
      in [flag ''Available'' (h = Healthy) reason message, flag ''Upgradeable'' (h = Healthy) ''CanBeUpgraded'' [],
          flag ''Progressing'' (h = Rolling) reason message, flag ''Degraded'' (h = Broken) reason message])"

definition due_report :: "NodeFeatureDiscovery \<Rightarrow> (cluster_key \<Rightarrow> kobject option) \<Rightarrow> Condition list" where
  "due_report cr v = news_report (first_news (workload_news cr v))"

text \<open>The three lists the code builds are the three shapes of such a report.\<close>

lemma condition_lists_news:
  "map without_time (getAvailableConditions t) = news_report (first_news [])"
  "map without_time (getDegradedConditions r m t) = news_report (Broken, r, m)"
  "map without_time (getProgressingConditions r m t) = news_report (Rolling, r, m)"
  by (simp_all add: condition_list_defs without_time_def news_report_def flag_def)

lemma due_report_cong:
  "(\<And>k. k \<in> set (managed_keys cr) \<Longrightarrow> v' k = v k) \<Longrightarrow> due_report cr v' = due_report cr v"
  by (simp add: due_report_def workload_news_def managed_keys_def Let_def cong: if_cong)

section \<open>The code computes it\<close>

definition unhealthy_report :: "news \<Rightarrow> Condition list option" where
  "unhealthy_report n = (if fst n = Healthy then None else Some (news_report n))"

context calm_server
begin

lemma DaemonSet_source_exact:
  assumes calm: "calm w" and ds: "view w (KDaemonSet, ns, n) = Some (ODaemonSet d)"
  shows "untimed (fst (getDaemonSetNotAvailableConditions lib
      \<lparr>sh_deploymentAPI = da, sh_daemonsetAPI = NewDaemonsetAPI lib cl s\<rparr> ns n r1 degraded progressing w)) =
    unhealthy_report (daemonset_news degraded progressing d)"
proof -
  obtain w1 where w1: "GetDaemonSet \<lparr>s_client = cl, s_scheme = s\<rparr> ns n w = ((d, None), w1)"
    using calm_read(1) [OF calm ds] by (metis prod.collapse)
  obtain t w2 where t: "time_Now lib w1 = (t, w2)" by fastforce
  show ?thesis
    by (simp add: getDaemonSetNotAvailableConditions_def w1 t getDaemonSetConditions_def daemonset_news_def
        unhealthy_report_def condition_lists_news Let_def)
qed

lemma Deployment_source_exact:
  assumes calm: "calm w" and dep: "view w (KDeployment, ns, n) = Some (ODeployment d)"
  shows "untimed (fst (getDeploymentNotAvailableConditions lib
      \<lparr>sh_deploymentAPI = NewDeploymentAPI lib cl s, sh_daemonsetAPI = sa\<rparr> ns n r1 degraded progressing w)) =
    unhealthy_report (deployment_news degraded d)"
proof -
  obtain w1 where w1: "GetDeployment \<lparr>d_client = cl, d_scheme = s\<rparr> ns n w = ((d, None), w1)"
    using calm_read(2) [OF calm dep] by (metis prod.collapse)
  obtain t w2 where t: "time_Now lib w1 = (t, w2)" by fastforce
  show ?thesis
    by (simp add: getDeploymentNotAvailableConditions_def w1 t getDeploymentConditions_def deployment_news_def
        unhealthy_report_def condition_lists_news Let_def)
qed

lemma stored_workload:
  assumes "\<And>k. k \<in> set (managed_keys cr) \<Longrightarrow> view w k \<noteq> None"
  shows "(KDaemonSet, ns, n) \<in> set (managed_keys cr) \<Longrightarrow> \<exists>d. view w (KDaemonSet, ns, n) = Some (ODaemonSet d)"
    and "(KDeployment, ns, n) \<in> set (managed_keys cr) \<Longrightarrow> \<exists>d. view w (KDeployment, ns, n) = Some (ODeployment d)"
proof -
  show "\<exists>d. view w (KDaemonSet, ns, n) = Some (ODaemonSet d)" if "(KDaemonSet, ns, n) \<in> set (managed_keys cr)"
  proof -
    from assms [OF that] obtain y where "view w (KDaemonSet, ns, n) = Some y" by blast
    with view_key [OF this] show ?thesis by (cases y) auto
  qed
  show "\<exists>d. view w (KDeployment, ns, n) = Some (ODeployment d)" if "(KDeployment, ns, n) \<in> set (managed_keys cr)"
  proof -
    from assms [OF that] obtain y where "view w (KDeployment, ns, n) = Some y" by blast
    with view_key [OF this] show ?thesis by (cases y) auto
  qed
qed

text \<open>Where every workload is stored, the report is the one that is due.\<close>

lemma GetConditions_due:
  assumes calm: "calm w" and stored: "\<And>k. k \<in> set (managed_keys cr) \<Longrightarrow> view w k \<noteq> None"
  shows "map without_time (fst (GetConditions lib
      (newStatusHelperAPI lib (NewDeploymentAPI lib cl s) (NewDaemonsetAPI lib cl s)) cr w)) =
    due_report cr (view w)"
proof -
  let ?H = "newStatusHelperAPI lib (NewDeploymentAPI lib cl s) (NewDaemonsetAPI lib cl s)"
  let ?ns = "nfd_Namespace cr"
  define w1 where "w1 = snd (api_getWorkerNotAvailableConditions ?H cr w)"
  define w2 where "w2 = snd (api_getMasterNotAvailableConditions ?H cr w1)"
  define w3 where "w3 = snd (api_getGCNotAvailableConditions ?H cr w2)"
  have v: "view w1 = view w" "view w2 = view w" "view w3 = view w"
    by (simp_all add: w1_def w2_def w3_def sources_view)
  have c1: "calm w1" by (simp add: w1_def calm_sources calm)
  have c2: "calm w2" by (simp add: w2_def calm_sources c1)
  have c3: "calm w3" by (simp add: w3_def calm_sources c2)
  note ds = stored_workload(1) [of cr w, OF stored] and dep = stored_workload(2) [of cr w, OF stored]
  obtain wk ma gc where k: "view w (KDaemonSet, ?ns, ''nfd-worker'') = Some (ODaemonSet wk)"
    "view w (KDeployment, ?ns, ''nfd-master'') = Some (ODeployment ma)"
    "view w (KDeployment, ?ns, ''nfd-gc'') = Some (ODeployment gc)"
    using ds [of ?ns "''nfd-worker''"] dep [of ?ns "''nfd-master''"] dep [of ?ns "''nfd-gc''"]
    by (auto simp: managed_keys_def)
  have topology: "\<exists>to. view w (KDaemonSet, ?ns, ''nfd-topology-updater'') = Some (ODaemonSet to)"
    if "spc_TopologyUpdater (nfd_Spec cr)"
    using ds [of ?ns "''nfd-topology-updater''"] that by (simp add: managed_keys_def)
  note sources = DaemonSet_source_exact [OF calm k(1)]
    Deployment_source_exact [OF c1 k(2) [folded v(1)]] Deployment_source_exact [OF c2 k(3) [folded v(2)]]
  show ?thesis
  proof (cases "spc_TopologyUpdater (nfd_Spec cr)")
    case True
    with topology obtain to where to: "view w (KDaemonSet, ?ns, ''nfd-topology-updater'') = Some (ODaemonSet to)"
      by blast
    show ?thesis
      unfolding GetConditions_untimed [OF w1_def w2_def w3_def] newStatusHelperAPI_sel source_defs sources
        DaemonSet_source_exact [OF c3 to [folded v(3)]] condition_lists_news(1)
      by (simp add: True due_report_def workload_news_def k to unhealthy_report_def del: first_news.simps(1))
  next
    case False
    then show ?thesis
      unfolding GetConditions_untimed [OF w1_def w2_def w3_def] newStatusHelperAPI_sel source_defs sources
        condition_lists_news(1)
      by (simp add: due_report_def workload_news_def k unhealthy_report_def del: first_news.simps(1))
  qed
qed

section \<open>The pass stores it\<close>

text \<open>
  Conditions that already say what is due are left as they are, so a list that someone else has filled
  keeps what it has besides; the operator's own lists, and no conditions at all, become the report that is due.
\<close>

lemma handleStatus_due:
  assumes calm: "calm w" and h: "handleStatus (operatorHelper lib cl s) cr w = (r, cr', w')"
    and cr: "view w (cr_key cr) = Some (ONFD cr)"
    and stored: "\<And>k. k \<in> set (managed_keys cr) \<Longrightarrow> view w k \<noteq> None"
  shows "\<exists>m. view w' (cr_key cr) = Some (ONFD m) \<and>
    set (due_report cr (view w')) \<subseteq> without_time ` set (sts_Conditions (nfd_Status m)) \<and>
    (sts_Conditions (nfd_Status cr) = [] \<or> report_wellformed (sts_Conditions (nfd_Status cr)) \<longrightarrow>
       map without_time (sts_Conditions (nfd_Status m)) = due_report cr (view w'))"
proof -
  let ?H = "newStatusHelperAPI lib (NewDeploymentAPI lib cl s) (NewDaemonsetAPI lib cl s)"
  obtain cs w1 where g: "GetConditions lib ?H cr w = (cs, w1)" by fastforce
  have due: "map without_time cs = due_report cr (view w')"
    using GetConditions_due [OF calm stored, where s = s] g due_report_cong [of cr "view w'" "view w"]
      handleStatus_frame [OF h] component_not_cr managed_component by (metis fst_conv)
  note wf = GetConditions_wellformed [OF g]
  have r: "r = None" using handleStatus_succeeds [OF calm h] cr by simp
  show ?thesis
  proof (cases "AreConditionsEqual lib (sts_Conditions (nfd_Status cr)) cs")
    case True
    with h g have "w' = w1" by (simp add: handleStatus_def)
    with GetConditions_view [OF g] cr have "view w' (cr_key cr) = Some (ONFD cr)" by simp
    moreover have "set (due_report cr (view w')) \<subseteq> without_time ` set (sts_Conditions (nfd_Status cr))"
      using AreConditionsEqual_covers [OF laws True] unfolding due [symmetric] by simp
    moreover have "sts_Conditions (nfd_Status cr) \<noteq> []"
      using AreConditionsEqual_covers [OF laws True] wf by (auto simp: report_wellformed_def)
    ultimately show ?thesis
      using AreConditionsEqual_reports [OF laws _ wf] True due by (intro exI [of _ cr]) auto
  next
    case False
    let ?n = "cr\<lparr>nfd_Status := (nfd_Status cr)\<lparr>sts_Conditions := cs\<rparr>\<rparr>"
    from h g False r have p: "StatusPatch_NFD cl ?n cr w1 = (None, cr', w')"
      by (simp add: handleStatus_def Let_def)
    from False have "sts_Conditions (nfd_Status cr) \<noteq> cs"
      using AreConditionsEqual_reports [OF laws wf wf] by auto
    with StatusPatch_NFD_ok [OF p] obtain n0 y where
      y: "admits (ONFD (n0\<lparr>nfd_Status := (nfd_Status n0)\<lparr>sts_Conditions := cs\<rparr>\<rparr>)) y"
        "view w' (cr_key cr) = Some y"
      by (auto simp: cr_key_def)
    then obtain m where m: "y = ONFD m" using view_key [OF y(2)] by (cases y) (auto simp: cr_key_def)
    with admits_cr y(1) have "sts_Conditions (nfd_Status m) = cs" by fastforce
    with y(2) m due show ?thesis by (intro exI [of _ m]) (simp flip: due)
  qed
qed

lemma stored_components_present:
  "components_stored lib admits cr v \<Longrightarrow> k \<in> set (managed_keys cr) \<Longrightarrow> v k \<noteq> None"
  by (auto simp: components_stored_def managed_keys_def stored_as_def split: if_splits)

lemma Apply_stores_due_report:
  assumes calm: "calm w" and run: "Reconcile (operatorReconciler lib cl s) cr w = (r, cr', w')"
    and app: "pass_of (operatorReconciler lib cl s) cr = Apply"
    and cr: "view w (cr_key cr) = Some (ONFD cr)"
    and adopt: "adoptable_components lib cr (view w)"
    and acc: "acceptable_components lib cl s admits accepts cr (view w)"
  shows "\<exists>m. view w' (cr_key cr) = Some (ONFD m) \<and>
    set (due_report cr (view w')) \<subseteq> without_time ` set (sts_Conditions (nfd_Status m)) \<and>
    (sts_Conditions (nfd_Status cr) = [] \<or> report_wellformed (sts_Conditions (nfd_Status cr)) \<longrightarrow>
       map without_time (sts_Conditions (nfd_Status m)) = due_report cr (view w'))"
proof -
  let ?H = "operatorHelper lib cl s"
  obtain e1 w1 e2 w2 e3 w3 e4 w4 e5 where
    h: "handleMaster lib ?H cr w = (e1, w1)" "handleWorker lib ?H cr w1 = (e2, w2)"
      "handleTopology lib ?H cr w2 = (e3, w3)" "handleGC lib ?H cr w3 = (e4, w4)"
      "handleStatus ?H cr w4 = (e5, cr', w')"
      "r = (zero_Result, errors_Join [e1, e2, e3, e4, e5])"
    by (rule operator_Apply [OF app run])
  note frames = handleMaster_frame [OF h(1)] handleWorker_frame [OF h(2)]
    handleTopology_frame [OF h(3)] handleGC_frame [OF h(4)]
  have 4: "calm w4" using handlers_succeed [OF calm h(1,2,3,4) adopt acc] by simp
  have cr4: "view w4 (cr_key cr) = Some (ONFD cr)" using cr by (simp add: cr_key_def frames)
  have "components_stored lib admits cr (view w')" using Apply_succeeds [OF calm run app cr adopt acc] by simp
  then have "view w4 k \<noteq> None" if "k \<in> set (managed_keys cr)" for k
    using stored_components_present [OF _ that] handleStatus_frame [OF h(5), of k]
      component_not_cr managed_component [OF that] by metis
  with handleStatus_due [OF 4 h(5) cr4] show ?thesis by blast
qed

end

text \<open>The report that is due says Available exactly when the workloads are healthy.\<close>

lemma first_news_Healthy: "fst (first_news ns) = Healthy \<longleftrightarrow> (\<forall>n \<in> set ns. fst n = Healthy)"
  by (induction ns) auto

lemma news_health:
  "fst (daemonset_news degraded progressing d) = Healthy \<longleftrightarrow> daemonset_health d = Healthy"
  "fst (deployment_news degraded d') = Healthy \<longleftrightarrow> deployment_health d' = Healthy"
  by (simp_all add: daemonset_news_def deployment_news_def daemonset_health_def deployment_health_def Let_def)

lemma report_health_news: "report_health (news_report n) = fst n"
  by (cases n; cases "fst n") (simp_all add: news_report_def flag_def report_defs zero_defs)

context calm_server
begin

lemma due_report_health:
  assumes "\<And>k. k \<in> set (managed_keys cr) \<Longrightarrow> view w k \<noteq> None"
  shows "report_health (due_report cr (view w)) = Healthy \<longleftrightarrow> workloads_healthy cr (view w)"
proof -
  let ?ns = "nfd_Namespace cr"
  note ds = stored_workload(1) [of cr w, OF assms] and dep = stored_workload(2) [of cr w, OF assms]
  obtain wk ma gc where k: "view w (KDaemonSet, ?ns, ''nfd-worker'') = Some (ODaemonSet wk)"
    "view w (KDeployment, ?ns, ''nfd-master'') = Some (ODeployment ma)"
    "view w (KDeployment, ?ns, ''nfd-gc'') = Some (ODeployment gc)"
    using ds [of ?ns "''nfd-worker''"] dep [of ?ns "''nfd-master''"] dep [of ?ns "''nfd-gc''"]
    by (auto simp: managed_keys_def)
  have "\<exists>to. spc_TopologyUpdater (nfd_Spec cr) \<longrightarrow>
      view w (KDaemonSet, ?ns, ''nfd-topology-updater'') = Some (ODaemonSet to)"
    using ds [of ?ns "''nfd-topology-updater''"] by (auto simp: managed_keys_def)
  then obtain to where "spc_TopologyUpdater (nfd_Spec cr) \<Longrightarrow>
      view w (KDaemonSet, ?ns, ''nfd-topology-updater'') = Some (ODaemonSet to)" by blast
  then show ?thesis
    by (cases "spc_TopologyUpdater (nfd_Spec cr)")
       (simp_all add: due_report_def report_health_news first_news_Healthy workload_news_def news_health
        workloads_healthy_def healthy_DaemonSet_def healthy_Deployment_def k conj_ac)
qed

end

end
