(* ===== verification/Shared_Namespace.thy ===== *)
theory Shared_Namespace
  imports Exact_Status
begin

text \<open>
  Two custom resources in one namespace. The operator names its components after nothing but their role,
  so the custom resources of a namespace ask for the same objects. The one that comes second is refused
  them, and still reports on them and, when it is deleted, removes them. The laws of the server are those
  of \<open>contested_server\<close>.
\<close>

text \<open>What is stored under a key is controlled by another custom resource than \<open>cr\<close>.\<close>

definition claimed_at ::
  "('w, 'e, 's) machinery \<Rightarrow> NodeFeatureDiscovery \<Rightarrow> (cluster_key \<Rightarrow> kobject option) \<Rightarrow> cluster_key \<Rightarrow> bool" where
  "claimed_at lib cr v k \<longleftrightarrow>
     (\<exists>x r. v k = Some x \<and> GetControllerOf lib (obj_meta x) = Some r \<and> or_Kind r = nfd_kind \<and>
        or_Name r \<noteq> nfd_Name cr \<and> or_UID r \<noteq> om_UID (nfd_ObjectMeta cr))"

text \<open>Another custom resource of the namespace of \<open>cr\<close>, which asks for all that \<open>cr\<close> asks for.\<close>

definition neighbour :: "NodeFeatureDiscovery \<Rightarrow> NodeFeatureDiscovery \<Rightarrow> bool" where
  "neighbour other cr \<longleftrightarrow>
     nfd_Namespace other = nfd_Namespace cr \<and> nfd_Name other \<noteq> nfd_Name cr \<and>
     om_UID (nfd_ObjectMeta other) \<noteq> om_UID (nfd_ObjectMeta cr) \<and>
     (spc_TopologyUpdater (nfd_Spec cr) \<longrightarrow> spc_TopologyUpdater (nfd_Spec other))"

lemma claimed_at_cong: "v' k = v k \<Longrightarrow> claimed_at lib cr v' k = claimed_at lib cr v k"
  by (simp add: claimed_at_def)

context calm_server
begin

lemma stored_claimed:
  assumes st: "stored_as lib admits mk meta payload p other name (view w k)"
    and mk: "\<And>ob. obj_meta (mk ob) = meta ob" and other: "neighbour other cr"
  shows "claimed_at lib cr (view w) k"
proof -
  from st obtain ob y r where y: "view w k = Some y" "admits (mk ob) y"
    "GetControllerOf lib (meta ob) = Some r" "controlled_by other r"
    unfolding stored_as_def by blast
  from admits_meta [OF y(2)] have "om_OwnerReferences (obj_meta y) = om_OwnerReferences (meta ob)"
    by (auto simp: mk)
  from GetControllerOf_refs [OF this] y other show ?thesis
    by (auto simp: claimed_at_def controlled_by_def neighbour_def)
qed

text \<open>An installation of the one claims every component of the other.\<close>

lemma components_claimed:
  assumes "components_stored lib admits other (view w)" and "neighbour other cr"
    and "k \<in> set (managed_keys cr)"
  shows "claimed_at lib cr (view w) k"
  using assms
  by (auto simp: components_stored_def managed_keys_def neighbour_def
      intro: stored_claimed [OF _ _ assms(2)] split: if_splits)

end

section \<open>The second custom resource is refused\<close>

context contested_server
begin

lemma setter_refused:
  assumes setter: "desired_state lib sc set_desired meta payload desired relabel"
    and "GetControllerOf lib (meta b) = Some r" "or_Kind r = nfd_kind"
      "or_Name r \<noteq> nfd_Name cr" "or_UID r \<noteq> om_UID (nfd_ObjectMeta cr)"
  shows "fst (set_desired cr b) \<noteq> None"
proof -
  have "GetControllerOf lib ((meta b)\<lparr>om_Labels := relabel (om_Labels (meta b))\<rparr>) =
      GetControllerOf lib (meta b)"
    by (rule GetControllerOf_refs) simp
  with assms(2-) show ?thesis
    by (simp add: desired_state.error_from_owner_reference [OF setter] SetControllerReference_refuses)
qed

lemma CreateOrPatch_Deployment_refuses:
  assumes setter: "desired_state lib sc set_desired dep_ObjectMeta payload desired relabel"
    and call: "CreateOrPatch_Deployment lib cl x (set_desired cr) w = (op, r, w')"
    and claim: "claimed_at lib cr (view w) (obj_key (ODeployment x))"
  shows "r \<noteq> None \<and> view w' = view w"
proof -
  from claim obtain y o' where y: "view w (obj_key (ODeployment x)) = Some y"
    "GetControllerOf lib (obj_meta y) = Some o'" "or_Kind o' = nfd_kind"
    "or_Name o' \<noteq> nfd_Name cr" "or_UID o' \<noteq> om_UID (nfd_ObjectMeta cr)"
    by (auto simp: claimed_at_def)
  from view_key [OF y(1)] obtain b where b: "y = ODeployment b" by (cases y) auto
  show ?thesis
    by (rule CreateOrPatch_Deployment_refused [OF y(1) [unfolded b] _ call])
       (rule setter_refused [OF setter y(2) [unfolded b obj_meta.simps] y(3-5)])
qed

lemma CreateOrPatch_DaemonSet_refuses:
  assumes setter: "desired_state lib sc set_desired ds_ObjectMeta payload desired relabel"
    and call: "CreateOrPatch_DaemonSet lib cl x (set_desired cr) w = (op, r, w')"
    and claim: "claimed_at lib cr (view w) (obj_key (ODaemonSet x))"
  shows "r \<noteq> None \<and> view w' = view w"
proof -
  from claim obtain y o' where y: "view w (obj_key (ODaemonSet x)) = Some y"
    "GetControllerOf lib (obj_meta y) = Some o'" "or_Kind o' = nfd_kind"
    "or_Name o' \<noteq> nfd_Name cr" "or_UID o' \<noteq> om_UID (nfd_ObjectMeta cr)"
    by (auto simp: claimed_at_def)
  from view_key [OF y(1)] obtain b where b: "y = ODaemonSet b" by (cases y) auto
  show ?thesis
    by (rule CreateOrPatch_DaemonSet_refused [OF y(1) [unfolded b] _ call])
       (rule setter_refused [OF setter y(2) [unfolded b obj_meta.simps] y(3-5)])
qed

lemma CreateOrPatch_ConfigMap_refuses:
  assumes setter: "desired_state lib sc set_desired cm_ObjectMeta payload desired relabel"
    and call: "CreateOrPatch_ConfigMap lib cl x (set_desired cr) w = (op, r, w')"
    and claim: "claimed_at lib cr (view w) (obj_key (OConfigMap x))"
  shows "r \<noteq> None \<and> view w' = view w"
proof -
  from claim obtain y o' where y: "view w (obj_key (OConfigMap x)) = Some y"
    "GetControllerOf lib (obj_meta y) = Some o'" "or_Kind o' = nfd_kind"
    "or_Name o' \<noteq> nfd_Name cr" "or_UID o' \<noteq> om_UID (nfd_ObjectMeta cr)"
    by (auto simp: claimed_at_def)
  from view_key [OF y(1)] obtain b where b: "y = OConfigMap b" by (cases y) auto
  show ?thesis
    by (rule CreateOrPatch_ConfigMap_refused [OF y(1) [unfolded b] _ call])
       (rule setter_refused [OF setter y(2) [unfolded b obj_meta.simps] y(3-5)])
qed

lemmas CreateOrPatch_refuses =
  CreateOrPatch_Deployment_refuses [OF master.desired_state_axioms]
  CreateOrPatch_Deployment_refuses [OF gc.desired_state_axioms]
  CreateOrPatch_DaemonSet_refuses [OF topology.desired_state_axioms]
  CreateOrPatch_ConfigMap_refuses [OF worker_cm.desired_state_axioms]

text \<open>A handler that is refused reports an error and writes nothing; the cluster stays calm.\<close>

lemma handleMaster_refused:
  assumes "calm w" and "handleMaster lib (operatorHelper lib cl s) cr w = (r, w')"
    and "claimed_at lib cr (view w) (KDeployment, nfd_Namespace cr, ''nfd-master'')"
  shows "calm w' \<and> r \<noteq> None \<and> view w' = view w"
  using assms
  by (auto simp: handleMaster_def Let_def split: prod.splits option.splits
      dest: calm_CreateOrPatch_Deployment CreateOrPatch_refuses(1))

lemma handleGC_refused:
  assumes "calm w" and "handleGC lib (operatorHelper lib cl s) cr w = (r, w')"
    and "claimed_at lib cr (view w) (KDeployment, nfd_Namespace cr, ''nfd-gc'')"
  shows "calm w' \<and> r \<noteq> None \<and> view w' = view w"
  using assms
  by (auto simp: handleGC_def Let_def split: prod.splits option.splits
      dest: calm_CreateOrPatch_Deployment CreateOrPatch_refuses(2))

lemma handleTopology_refused:
  assumes "calm w" and "handleTopology lib (operatorHelper lib cl s) cr w = (r, w')"
    and "spc_TopologyUpdater (nfd_Spec cr) \<Longrightarrow>
      claimed_at lib cr (view w) (KDaemonSet, nfd_Namespace cr, ''nfd-topology-updater'')"
  shows "calm w' \<and> (spc_TopologyUpdater (nfd_Spec cr) \<longrightarrow> r \<noteq> None) \<and> view w' = view w"
  using assms
  by (auto simp: handleTopology_def Let_def split: prod.splits option.splits if_splits
      dest: calm_CreateOrPatch_DaemonSet CreateOrPatch_refuses(3))

text \<open>The worker's daemon set is not even tried after its config map.\<close>

lemma handleWorker_refused:
  assumes "calm w" and "handleWorker lib (operatorHelper lib cl s) cr w = (r, w')"
    and "claimed_at lib cr (view w) (KConfigMap, nfd_Namespace cr, ''nfd-worker'')"
  shows "calm w' \<and> (\<exists>e. r = Some e \<and> reconcile_error ''worker configmap'' cr e) \<and> view w' = view w"
  using assms
  by (auto simp: handleWorker_def reconcile_error_def Let_def split: prod.splits option.splits
      dest: calm_CreateOrPatch_ConfigMap CreateOrPatch_refuses(4))

text \<open>
  The pass of the second custom resource: it reports an error for every component it did not get, it
  changes nothing but its own status, and that status is about the workloads of the first one.
\<close>

lemma Apply_refused:
  assumes calm: "calm w" and run: "Reconcile (operatorReconciler lib cl s) cr w = ((res, err), cr', w')"
    and app: "pass_of (operatorReconciler lib cl s) cr = Apply"
    and cr: "view w (cr_key cr) = Some (ONFD cr)"
    and claims: "\<forall>k \<in> set (managed_keys cr). claimed_at lib cr (view w) k"
  shows "blames ''master deployment'' cr err" "blames ''worker configmap'' cr err"
    "spc_TopologyUpdater (nfd_Spec cr) \<Longrightarrow> blames ''topology daemonset'' cr err"
    "blames ''nfd-gc deployment'' cr err"
    "k \<noteq> cr_key cr \<Longrightarrow> view w' k = view w k"
    "\<exists>m. view w' (cr_key cr) = Some (ONFD m) \<and>
      set (due_report cr (view w)) \<subseteq> without_time ` set (sts_Conditions (nfd_Status m)) \<and>
      (sts_Conditions (nfd_Status cr) = [] \<or> report_wellformed (sts_Conditions (nfd_Status cr)) \<longrightarrow>
         map without_time (sts_Conditions (nfd_Status m)) = due_report cr (view w))"
proof -
  let ?H = "operatorHelper lib cl s"
  obtain e1 w1 e2 w2 e3 w3 e4 w4 e5 where
    h: "handleMaster lib ?H cr w = (e1, w1)" "handleWorker lib ?H cr w1 = (e2, w2)"
      "handleTopology lib ?H cr w2 = (e3, w3)" "handleGC lib ?H cr w3 = (e4, w4)"
      "handleStatus ?H cr w4 = (e5, cr', w')"
      "(res, err) = (zero_Result, errors_Join [e1, e2, e3, e4, e5])"
    by (rule operator_Apply [OF app run])
  note all_claimed = claims
  note claims = claims [unfolded managed_keys_def, simplified]
  have 1: "calm w1" "e1 \<noteq> None" "view w1 = view w"
    using handleMaster_refused [OF calm h(1)] claims by auto
  obtain x where 2: "calm w2" "e2 = Some x" "reconcile_error ''worker configmap'' cr x" "view w2 = view w"
    using handleWorker_refused [OF 1(1) h(2)] claims 1(3) by auto
  have 3: "calm w3" "spc_TopologyUpdater (nfd_Spec cr) \<Longrightarrow> e3 \<noteq> None" "view w3 = view w"
    using handleTopology_refused [OF 2(1) h(3)] claims 2(4) by (auto split: if_splits)
  have 4: "calm w4" "e4 \<noteq> None" "view w4 = view w"
    using handleGC_refused [OF 3(1) h(4)] claims 3(3) by auto
  have err: "err = errors_Join [e1, e2, e3, e4, e5]" using h(6) by simp
  have blame: "blames what cr err"
    if "e \<in> {e1, e2, e3, e4}" "e \<noteq> None" "\<And>y. e = Some y \<Longrightarrow> reconcile_error what cr y" for what e
    unfolding err using that(1,2) by (auto intro!: blames_errors_Join dest: that(3))
  show "blames ''master deployment'' cr err"
    by (rule blame [of e1]) (use 1 h(1) handleMaster_error in auto)
  show "blames ''worker configmap'' cr err" by (rule blame [of e2]) (use 2 in auto)
  show "blames ''topology daemonset'' cr err" if "spc_TopologyUpdater (nfd_Spec cr)"
    by (rule blame [of e3]) (use 3 that h(3) handleTopology_error in auto)
  show "blames ''nfd-gc deployment'' cr err"
    by (rule blame [of e4]) (use 4 h(4) handleGC_error in auto)
  show "view w' k = view w k" if "k \<noteq> cr_key cr"
    using handleStatus_frame [OF h(5), of k] that 4(3) by simp
  have frame: "view w' k = view w k" if "k \<noteq> cr_key cr" for k
    using handleStatus_frame [OF h(5), of k] that 4(3) by simp
  have "due_report cr (view w') = due_report cr (view w)"
    by (rule due_report_cong) (use frame component_not_cr managed_component in metis)
  moreover have "view w4 k \<noteq> None" if "k \<in> set (managed_keys cr)" for k
    using all_claimed that 4(3) by (auto simp: claimed_at_def)
  ultimately show "\<exists>m. view w' (cr_key cr) = Some (ONFD m) \<and>
      set (due_report cr (view w)) \<subseteq> without_time ` set (sts_Conditions (nfd_Status m)) \<and>
      (sts_Conditions (nfd_Status cr) = [] \<or> report_wellformed (sts_Conditions (nfd_Status cr)) \<longrightarrow>
         map without_time (sts_Conditions (nfd_Status m)) = due_report cr (view w))"
    using handleStatus_due [OF 4(1) h(5)] 4(3) cr by simp
qed

end

section \<open>Its deletion takes the components of the first\<close>

context calm_server
begin

lemma TearDown_takes_components:
  assumes calm: "calm w" and run: "Reconcile (operatorReconciler lib cl s) cr w = (r, cr', w')"
    and del: "om_DeletionTimestamp (nfd_ObjectMeta cr) \<noteq> None"
    and cr: "view w (cr_key cr) = Some (ONFD cr)"
    and other: "neighbour other cr" "components_stored lib admits other (view w)"
  shows "view w' (cr_key other) = view w (cr_key other)"
    and "k \<in> set (managed_keys cr) \<Longrightarrow> claimed_at lib cr (view w) k \<and> gone (view w' k)"
proof -
  have "cr_key other \<notin> set (footprint cr)"
    using other(1) by (auto simp: footprint_def cr_key_def prune_key_def managed_keys_def neighbour_def)
  with run show "view w' (cr_key other) = view w (cr_key other)" by (metis Reconcile_frame)
  show "claimed_at lib cr (view w) k \<and> gone (view w' k)" if "k \<in> set (managed_keys cr)"
    using components_claimed [OF other(2,1) that] TearDown_completes(2) [OF calm _ del cr that, of s] run
    by (cases r) auto
qed

end

end
