(* ===== verification/Demo_Worlds.thy ===== *)
theory Demo_Worlds
  imports Calm_Passes Memory_Cluster
begin

text \<open>
  Concrete custom resources and clusters in memory on which the properties are exercised. Nothing here is
  translated from the repository.
\<close>

section \<open>The custom resource\<close>

text \<open>A custom resource in four stages of its life, and clusters that hold given objects.\<close>

definition demo_new :: NodeFeatureDiscovery where
  "demo_new = zero_NFD\<lparr>
     nfd_ObjectMeta := zero_ObjectMeta\<lparr>om_Name := ''nfd-instance'', om_Namespace := ''nfd'', om_UID := ''7''\<rparr>,
     nfd_Spec := zero_NFDSpec\<lparr>spc_Operand := zero_OperandSpec\<lparr>opr_Image := ''nfd''\<rparr>,
       spc_TopologyUpdater := True, spc_PruneOnDelete := True,
       spc_WorkerConfig := \<lparr>wcm_ConfigData = ''core: {}''\<rparr>\<rparr>\<rparr>"

definition demo_live :: NodeFeatureDiscovery where
  "demo_live = demo_new\<lparr>nfd_ObjectMeta := (nfd_ObjectMeta demo_new)\<lparr>om_Finalizers := [finalizerLabel]\<rparr>\<rparr>"

definition demo_deleted :: NodeFeatureDiscovery where
  "demo_deleted = demo_live\<lparr>nfd_ObjectMeta := (nfd_ObjectMeta demo_live)\<lparr>om_DeletionTimestamp := Some 5\<rparr>\<rparr>"

definition demo_job :: "int \<Rightarrow> int \<Rightarrow> Job" where
  "demo_job succeeded failed = zero_Job\<lparr>
     job_ObjectMeta := zero_ObjectMeta\<lparr>om_Name := ''nfd-prune'', om_Namespace := ''nfd''\<rparr>,
     job_Status := (job_Status zero_Job)\<lparr>jst_Succeeded := succeeded, jst_Failed := failed\<rparr>\<rparr>"

definition mem_with :: "kobject list \<Rightarrow> mem" where
  "mem_with xs = fold mem_put xs empty_mem"

abbreviation demo_operator :: "(mem, mem_error) helperAPI" where
  "demo_operator \<equiv> operatorReconciler mem_lib mem_client ()"

lemmas demo_defs = demo_new_def demo_live_def demo_deleted_def demo_job_def zero_nfd_defs zero_defs

lemma mem_calm_with [simp]: "mem_calm (mem_with xs)"
proof -
  have "mem_down (fold mem_put xs w) = mem_down w" for w
    by (induction xs arbitrary: w) simp_all
  then show ?thesis by (simp add: mem_with_def mem_calm_def empty_mem_def)
qed

lemma mem_view_with [simp]:
  "mem_view (mem_with []) = Map.empty"
  "mem_view (mem_with [x]) = [obj_key x \<mapsto> x]"
  "mem_view (mem_with [x, y]) = [obj_key x \<mapsto> x, obj_key y \<mapsto> y]"
  by (auto simp: mem_with_def empty_mem_def mem_view_def mem_put_def)

lemma mem_view_down [simp]: "mem_view (w\<lparr>mem_down := f\<rparr>) = mem_view w"
  by (rule ext) (simp add: mem_view_def)

lemma demo_meta [simp]:
  "nfd_Namespace demo_new = ''nfd''" "nfd_Name demo_new = ''nfd-instance''"
  "nfd_Namespace demo_live = ''nfd''" "nfd_Name demo_live = ''nfd-instance''"
  "nfd_Namespace demo_deleted = ''nfd''" "nfd_Name demo_deleted = ''nfd-instance''"
  "om_Namespace (job_ObjectMeta (demo_job i j)) = ''nfd''"
  "om_Name (job_ObjectMeta (demo_job i j)) = ''nfd-prune''"
  "om_DeletionTimestamp (nfd_ObjectMeta demo_new) = None"
  "om_DeletionTimestamp (nfd_ObjectMeta demo_live) = None"
  "om_DeletionTimestamp (nfd_ObjectMeta demo_deleted) = Some 5"
  "om_Finalizers (nfd_ObjectMeta demo_new) = []"
  "om_Finalizers (nfd_ObjectMeta demo_live) = [finalizerLabel]"
  "om_Finalizers (nfd_ObjectMeta demo_deleted) = [finalizerLabel]"
  "spc_PruneOnDelete (nfd_Spec demo_deleted)"
  "spc_TopologyUpdater (nfd_Spec demo_live)"
  "spc_TopologyUpdater (nfd_Spec demo_deleted)"
  by (simp_all add: demo_defs)

lemma demo_keys [simp]:
  "cr_key demo_new = (KNFD, ''nfd'', ''nfd-instance'')"
  "cr_key demo_live = (KNFD, ''nfd'', ''nfd-instance'')"
  "cr_key demo_deleted = (KNFD, ''nfd'', ''nfd-instance'')"
  "prune_key demo_deleted = (KJob, ''nfd'', ''nfd-prune'')"
  by (simp_all add: cr_key_def prune_key_def demo_defs)

lemma demo_adoptable [simp]: "adoptable_components mem_lib cr [(KNFD, ns, nm) \<mapsto> x]"
  by (auto simp: adoptable_components_def adoptable_at_def managed_keys_def)

text \<open>A custom resource that names an image asks for nothing the cluster in memory would not take.\<close>

lemma mem_takes:
  "(\<And>x. dep_Spec (snd (f x)) = p) \<Longrightarrow>
     list_all (\<lambda>c. ctr_Image c \<noteq> []) (pod_Containers (pts_Spec (dps_Template p))) \<Longrightarrow>
     taken_at lib mem_admits mem_accepts ODeployment dep_ObjectMeta dep_Spec p cr name new f None"
  "(\<And>x. ds_Spec (snd (g x)) = q) \<Longrightarrow>
     list_all (\<lambda>c. ctr_Image c \<noteq> []) (pod_Containers (pts_Spec (dss_Template q))) \<Longrightarrow>
     taken_at lib mem_admits mem_accepts ODaemonSet ds_ObjectMeta ds_Spec q cr name new' g None"
  "taken_at lib mem_admits mem_accepts OConfigMap cm_ObjectMeta cm_Data d cr name new'' h None"
  by (auto simp: taken_at_def acceptable_at_def stored_as_def mem_accepts_def mem_admits_def admitted_def)

lemma mem_acceptable:
  assumes image: "opr_Image (nfd_Operand cr) \<noteq> []" and empty: "\<And>k. k \<in> set (managed_keys cr) \<Longrightarrow> v k = None"
  shows "acceptable_components lib cl s mem_admits mem_accepts cr v"
  unfolding acceptable_components_def Let_def
proof (intro allI impI conjI)
  fix n assume same: "same_request n cr"
  note specs = same_request_specs [OF same]
  have none: "v (KDeployment, nfd_Namespace cr, ''nfd-master'') = None"
    "v (KConfigMap, nfd_Namespace cr, ''nfd-worker'') = None" "v (KDaemonSet, nfd_Namespace cr, ''nfd-worker'') = None"
    "v (KDeployment, nfd_Namespace cr, ''nfd-gc'') = None"
    using empty by (simp_all add: managed_keys_def)
  show "taken_at lib mem_admits mem_accepts ODeployment dep_ObjectMeta dep_Spec (masterDeploymentSpec cr) cr
      ''nfd-master'' (named_Deployment (nfd_Namespace cr) ''nfd-master'')
      (SetMasterDeploymentAsDesired lib \<lparr>d_client = cl, d_scheme = s\<rparr> n)
      (v (KDeployment, nfd_Namespace cr, ''nfd-master''))"
    unfolding none by (rule mem_takes(1))
      (use image master.set_payload [of lib _ n] specs in \<open>simp_all add: masterDeploymentSpec_def ImagePath_def\<close>)
  show "taken_at lib mem_admits mem_accepts ODeployment dep_ObjectMeta dep_Spec (gcDeploymentSpec cr) cr
      ''nfd-gc'' (named_Deployment (nfd_Namespace cr) ''nfd-gc'')
      (SetGCDeploymentAsDesired lib \<lparr>d_client = cl, d_scheme = s\<rparr> n)
      (v (KDeployment, nfd_Namespace cr, ''nfd-gc''))"
    unfolding none by (rule mem_takes(1))
      (use image gc.set_payload [of lib _ n] specs in \<open>simp_all add: gcDeploymentSpec_def ImagePath_def\<close>)
  show "taken_at lib mem_admits mem_accepts OConfigMap cm_ObjectMeta cm_Data
      [''nfd-worker-conf'' \<mapsto> wcm_ConfigData (spc_WorkerConfig (nfd_Spec cr))] cr ''nfd-worker''
      (named_ConfigMap (nfd_Namespace cr) ''nfd-worker'')
      (SetWorkerConfigMapAsDesired lib \<lparr>c_client = cl, c_scheme = s\<rparr> n)
      (v (KConfigMap, nfd_Namespace cr, ''nfd-worker''))"
    unfolding none by (rule mem_takes(3))
  show "taken_at lib mem_admits mem_accepts ODaemonSet ds_ObjectMeta ds_Spec (workerDaemonSetSpec cr) cr
      ''nfd-worker'' (named_DaemonSet (nfd_Namespace cr) ''nfd-worker'')
      (SetWorkerDaemonsetAsDesired lib \<lparr>s_client = cl, s_scheme = s\<rparr> n)
      (v (KDaemonSet, nfd_Namespace cr, ''nfd-worker''))"
    unfolding none by (rule mem_takes(2))
      (use image worker.set_payload [of lib _ n] specs in \<open>simp_all add: workerDaemonSetSpec_def ImagePath_def\<close>)
  show "taken_at lib mem_admits mem_accepts ODaemonSet ds_ObjectMeta ds_Spec (topologyDaemonSetSpec cr) cr
      ''nfd-topology-updater'' (named_DaemonSet (nfd_Namespace cr) ''nfd-topology-updater'')
      (SetTopologyDaemonsetAsDesired lib \<lparr>s_client = cl, s_scheme = s\<rparr> n)
      (v (KDaemonSet, nfd_Namespace cr, ''nfd-topology-updater''))" if "spc_TopologyUpdater (nfd_Spec cr)"
  proof -
    have v: "v (KDaemonSet, nfd_Namespace cr, ''nfd-topology-updater'') = None"
      using empty that by (simp add: managed_keys_def)
    show ?thesis
      unfolding v by (rule mem_takes(2))
        (use image topology.set_payload [of lib _ n] specs in \<open>simp_all add: topologyDaemonSetSpec_def ImagePath_def\<close>)
  qed
qed

lemma demo_acceptable [simp]:
  "acceptable_components lib cl s mem_admits mem_accepts demo_new [(KNFD, ns, nm) \<mapsto> x]"
  "acceptable_components lib cl s mem_admits mem_accepts demo_live [(KNFD, ns, nm) \<mapsto> x]"
  by (rule mem_acceptable; auto simp: managed_keys_def demo_defs)+

lemma demo_prune_acceptable [simp]:
  assumes "same_request n demo_deleted"
  shows "acceptable_prune_job lib s mem_accepts n"
  using assms
  by (simp add: acceptable_prune_job_def mem_accepts_def pruneJobObject_def ImagePath_def same_request_def demo_defs)

lemma demo_same_request [simp]: "same_request cr cr"
  by (simp add: same_request_def)

lemma demo_pass_of [simp]:
  "pass_of demo_operator demo_new = AddFinalizer"
  "pass_of demo_operator demo_live = Apply"
  "pass_of demo_operator demo_deleted = TearDown"
  by (simp_all add: pass_of_def hasFinalizer_def mem.ContainsFinalizer_iff)

text \<open>An applying pass on the demo cluster, which a number of the examples start from.\<close>

lemma demo_apply:
  obtains w where
    "pass_at mem_lib mem_client () mem_view ''nfd'' ''nfd-instance'' (mem_with [ONFD demo_live]) = (None, w)"
    "\<exists>cr'. Reconcile demo_operator demo_live (mem_with [ONFD demo_live]) = ((zero_Result, None), cr', w)"
    "mem_calm w"
proof -
  obtain r cr' w where run: "Reconcile demo_operator demo_live (mem_with [ONFD demo_live]) = (r, cr', w)"
    by (metis prod.exhaust)
  have "mem_calm w \<and> r = (zero_Result, None) \<and>
      components_stored mem_lib mem_admits demo_live (mem_view w)"
    by (rule calm_server.Apply_succeeds [OF mem.calm_server_axioms _ run]) simp_all
  with run show thesis by (intro that [of w]) (auto simp: pass_at_def)
qed

end
