(* ===== verification/Inevitability.thy ===== *)
theory Inevitability
  imports Fair_Runs Shared_Namespace Demo_Worlds
begin

text \<open>
  The properties of fair runs: what is sure to happen in a cluster without faults, whoever else is at
  work in it.
\<close>

section \<open>Installing and deleting\<close>

text \<open>
  C9: an installation is inevitable, and it repairs itself. Let passes and moves of others alternate in any
  order, as long as the operator's turn always comes again, from any cluster that is and stays without faults
  and in which a custom resource is stored, not being deleted and free to own its components, which the
  server accepts.
  Others leave the request, the deletion mark and the finalizers of the custom resource in place; they may write,
  delete or replace components again and again, as long as no one else controls what they leave and the
  server accepts the operator's version of it; and they may write anything else. Then from some time on the
  custom resource holds the finalizer for ever, and every single pass leaves every component stored as asked
  for, whatever happened to them before it; and if at some time the others stop writing the components,
  all components are from some time on stored as asked for, for ever.
\<close>

theorem installation_is_inevitable:
  assumes "calm_server lib cl view admits accepts calm"
    and "fair_run (pass_step lib cl s view cr) (bystander lib cl s admits accepts view calm cr) W"
    and "calm (W 0)" and "view (W 0) (cr_key cr) = Some (ONFD cr)"
    and "om_DeletionTimestamp (nfd_ObjectMeta cr) = None"
    and "adoptable_components lib cr (view (W 0))"
    and "acceptable_components lib cl s admits accepts cr (view (W 0))"
  shows "(\<exists>n. \<forall>i\<ge>n.
      (\<exists>m. view (W i) (cr_key cr) = Some (ONFD m) \<and> same_request m cr \<and>
         finalizerLabel \<in> set (om_Finalizers (nfd_ObjectMeta m))) \<and>
      (W (Suc i) = pass_step lib cl s view cr (W i) \<longrightarrow> components_stored lib admits cr (view (W (Suc i))))) \<and>
    ((\<exists>q. \<forall>i\<ge>q. W (Suc i) = pass_step lib cl s view cr (W i) \<or> untouched view cr (W i) (W (Suc i))) \<longrightarrow>
      (\<exists>n. \<forall>i\<ge>n. components_stored lib admits cr (view (W i))))"
proof -
  have "requested lib cl s admits accepts view calm cr (W 0) cr"
    using assms(3-7) by (simp add: requested_def open_to_def same_request_def)
  from calm_server.fair_run_installs [OF assms(1,2) this] obtain n where
    n: "\<forall>i\<ge>n. (\<exists>m'. requested lib cl s admits accepts view calm cr (W i) m' \<and> managed m') \<and>
      (W (Suc i) = pass_step lib cl s view cr (W i) \<longrightarrow> components_stored lib admits cr (view (W (Suc i))))"
    by blast
  then have "\<forall>i\<ge>n. (\<exists>m. view (W i) (cr_key cr) = Some (ONFD m) \<and> same_request m cr \<and>
         finalizerLabel \<in> set (om_Finalizers (nfd_ObjectMeta m))) \<and>
      (W (Suc i) = pass_step lib cl s view cr (W i) \<longrightarrow> components_stored lib admits cr (view (W (Suc i))))"
    by (fastforce simp: requested_def managed_def)
  moreover have "\<exists>n. \<forall>i\<ge>n. components_stored lib admits cr (view (W i))"
    if "\<forall>i\<ge>q. W (Suc i) = pass_step lib cl s view cr (W i) \<or> untouched view cr (W i) (W (Suc i))" for q
    by (rule calm_server.fair_run_stays_installed [OF assms(1,2) _ that]) (use n in blast)
  ultimately show ?thesis by blast
qed

text \<open>Every other step is the operator's, and in between someone deletes the master, every time.\<close>

primrec vandalised :: "nat \<Rightarrow> mem" where
  "vandalised 0 = mem_with [ONFD demo_new]"
| "vandalised (Suc i) =
     (if odd i then pass_step mem_lib mem_client () mem_view demo_new (vandalised i)
      else mem_drop (KDeployment, ''nfd'', ''nfd-master'') (vandalised i))"

lemma drop_is_bystander:
  assumes "requested mem_lib mem_client () mem_admits mem_accepts mem_view mem_calm demo_new w m"
  shows "bystander mem_lib mem_client () mem_admits mem_accepts mem_view mem_calm demo_new w
    (mem_drop (KDeployment, ''nfd'', ''nfd-master'') w)"
proof -
  let ?w' = "mem_drop (KDeployment, ''nfd'', ''nfd-master'') w"
  from assms have m: "mem_calm w" "open_to mem_lib mem_client () mem_admits mem_accepts demo_new (mem_view w)"
    by (simp_all add: requested_def)
  have "acceptable_components mem_lib mem_client () mem_admits mem_accepts demo_new (mem_view ?w')"
    by (rule acceptable_components_mix [of _ _ _ _ _ _ "mem_view w" "[(KNFD, ''nfd'', ''nfd'') \<mapsto> ONFD demo_new]"])
       (use m(2) in \<open>auto simp: open_to_def managed_keys_def\<close>)
  moreover have "adoptable_components mem_lib demo_new (mem_view ?w')"
    using m(2) by (simp add: open_to_def adoptable_components_def adoptable_at_def)
  ultimately show ?thesis
    using m(1) by (simp add: bystander_def open_to_def mem_calm_def same_request_def)
qed

theorem installation_is_inevitable_witness:
  "\<exists>n. \<forall>i\<ge>n. odd i \<longrightarrow> components_stored mem_lib mem_admits demo_new (mem_view (vandalised (Suc i)))"
proof -
  let ?req = "requested mem_lib mem_client () mem_admits mem_accepts mem_view mem_calm demo_new"
  have req: "\<exists>m. ?req (vandalised i) m" for i
  proof (induction i)
    case 0
    show ?case by (simp add: requested_def open_to_def same_request_def)
  next
    case (Suc i)
    then obtain m where m: "?req (vandalised i) m" ..
    show ?case
      using calm_server.pass_requested [OF mem.calm_server_axioms m] bystander_requested [OF drop_is_bystander [OF m] m]
      by auto
  qed
  have "fair_run (pass_step mem_lib mem_client () mem_view demo_new)
      (bystander mem_lib mem_client () mem_admits mem_accepts mem_view mem_calm demo_new) vandalised"
    unfolding fair_run_def
  proof (intro conjI allI)
    show "vandalised (Suc i) = pass_step mem_lib mem_client () mem_view demo_new (vandalised i) \<or>
        bystander mem_lib mem_client () mem_admits mem_accepts mem_view mem_calm demo_new (vandalised i) (vandalised (Suc i))"
      for i using req [of i] drop_is_bystander by auto
    show "\<exists>j\<ge>i. vandalised (Suc j) = pass_step mem_lib mem_client () mem_view demo_new (vandalised j)" for i
      by (rule exI [of _ "2 * i + 1"]) simp
  qed
  from conjunct1 [OF installation_is_inevitable [OF mem.calm_server_axioms this]] obtain n where
    "\<forall>i\<ge>n. vandalised (Suc i) = pass_step mem_lib mem_client () mem_view demo_new (vandalised i) \<longrightarrow>
       components_stored mem_lib mem_admits demo_new (mem_view (vandalised (Suc i)))"
    by auto
  then show ?thesis by (intro exI [of _ n]) simp
qed

text \<open>
  C10: a deletion is inevitable. Let passes and moves of others alternate in any order, as long as the
  operator's turn always comes again, in a cluster that is and stays without faults and in which a custom
  resource is being deleted, where the server accepts the prune job if one is asked for. Until the custom resource has been
  let go, others leave its request, its deletion mark and its finalizers as they are and do not remove the
  prune job; they may do anything else, to the components, to its status and other metadata, and to the
  status of the job. A prune job that exists at some time has from some time on succeeded without a failed
  pod. Then at some time all the components are gone and the custom resource has been let go.
\<close>

theorem deletion_is_inevitable:
  assumes "calm_server lib cl view admits accepts calm"
    and "fair_run (pass_step lib cl s view cr) (onlooker view calm cr) W"
    and "calm (W 0)" and "view (W 0) (cr_key cr) = Some (ONFD cr)"
    and "om_DeletionTimestamp (nfd_ObjectMeta cr) \<noteq> None"
    and "\<forall>n. same_request n cr \<longrightarrow> acceptable_prune_job lib s accepts n"
    and "job_completes view cr W"
  shows "\<exists>i. released cr (view (W i)) \<and> (\<forall>k \<in> set (managed_keys cr). gone (view (W i) k))"
  by (rule calm_server.fair_run_deletes [OF assms])

text \<open>The prune job is running at first; then it succeeds, and the operator makes its passes.\<close>

theorem deletion_is_inevitable_witness:
  "\<exists>n. mem_view (passes mem_lib mem_client () mem_view ''nfd'' ''nfd-instance'' n
     (mem_with [ONFD demo_deleted, OJob (demo_job 1 0)])) (cr_key demo_deleted) = None"
proof -
  let ?own = "\<lambda>w. snd (pass_at mem_lib mem_client () mem_view (nfd_Namespace demo_deleted) (nfd_Name demo_deleted) w)"
  let ?w0 = "mem_with [ONFD demo_deleted, OJob (demo_job 0 0)]"
  let ?w1 = "mem_with [ONFD demo_deleted, OJob (demo_job 1 0)]"
  let ?W = "\<lambda>i. case i of 0 \<Rightarrow> ?w0 | Suc n \<Rightarrow> passes mem_lib mem_client () mem_view ''nfd'' ''nfd-instance'' n ?w1"
  have own: "?W (Suc (Suc n)) = ?own (?W (Suc n))" for n by simp
  have "onlooker mem_view mem_calm demo_deleted (?W 0) (?W 1)" by (simp add: onlooker_def pending_def)
  then have run: "fair_run ?own (onlooker mem_view mem_calm demo_deleted) ?W"
    unfolding fair_run_def using own by (metis One_nat_def le_SucI le_refl not0_implies_Suc)
  have "mem_view (?W (Suc n)) (KJob, ''nfd'', ''nfd-prune'') = Some (OJob (demo_job 1 0))" for n
    by (simp add: api_server.passes_keep_prune_job [OF mem.api_server_axioms])
  then have "job_completes mem_view demo_deleted ?W"
    unfolding job_completes_def
    by (intro allI impI exI [of _ 1]) (auto simp: prune_succeeded_def prune_failed_def demo_job_def zero_defs
        split: nat.splits)
  from deletion_is_inevitable [OF mem.calm_server_axioms run _ _ _ _ this] obtain i where
    "released demo_deleted (mem_view (?W i))" by auto
  then have "mem_view (?W i) (cr_key demo_deleted) = None" by (simp add: released_def)
  then obtain n where "i = Suc n" by (cases i) simp_all
  with \<open>mem_view (?W i) (cr_key demo_deleted) = None\<close> show ?thesis by auto
qed

end
