(* ===== verification/Neighbours.thy ===== *)
theory Neighbours
  imports Shared_Namespace Demo_Worlds
begin

text \<open>
  The properties of two custom resources in one namespace, and a cluster in which they are exercised.
\<close>

text \<open>A second custom resource beside \<^const>\<open>demo_live\<close>, in use and being deleted.\<close>

definition second_live :: NodeFeatureDiscovery where
  "second_live = demo_live\<lparr>nfd_ObjectMeta := (nfd_ObjectMeta demo_live)\<lparr>om_Name := ''nfd-second'', om_UID := ''8''\<rparr>\<rparr>"

definition second_deleted :: NodeFeatureDiscovery where
  "second_deleted = second_live\<lparr>nfd_ObjectMeta :=
     (nfd_ObjectMeta second_live)\<lparr>om_DeletionTimestamp := Some 5\<rparr>\<rparr>"

lemma second_meta [simp]:
  "cr_key second_live = (KNFD, ''nfd'', ''nfd-second'')"
  "cr_key second_deleted = (KNFD, ''nfd'', ''nfd-second'')"
  "pass_of demo_operator second_live = Apply"
  "om_DeletionTimestamp (nfd_ObjectMeta second_live) = None"
  "om_Finalizers (nfd_ObjectMeta second_live) = [finalizerLabel]"
  "om_DeletionTimestamp (nfd_ObjectMeta second_deleted) = Some 5"
  "neighbour demo_live second_live" "neighbour demo_live second_deleted"
  by (simp_all add: second_live_def second_deleted_def cr_key_def neighbour_def pass_of_def hasFinalizer_def
      mem.ContainsFinalizer_iff demo_defs)

text \<open>The first custom resource has been installed when the second one comes.\<close>

lemma demo_neighbours:
  assumes "cr_key second = (KNFD, ''nfd'', ''nfd-second'')"
  obtains w where "mem_calm w" "mem_view w (cr_key second) = Some (ONFD second)"
    "components_stored mem_lib mem_admits demo_live (mem_view w)"
proof -
  obtain w where w: "\<exists>cr'. Reconcile demo_operator demo_live (mem_with [ONFD demo_live]) =
      ((zero_Result, None), cr', w)" "mem_calm w"
    by (rule demo_apply) blast
  then have "components_stored mem_lib mem_admits demo_live (mem_view w)"
    using api_server.Reconcile_Apply_converges [OF mem.api_server_axioms] by fastforce
  then have "components_stored mem_lib mem_admits demo_live (mem_view (mem_put (ONFD second) w))"
    using assms by (simp add: components_stored_def cr_key_def)
  moreover have "mem_calm (mem_put (ONFD second) w)" using w(2) by (simp add: mem_calm_def)
  ultimately show thesis using assms that [of "mem_put (ONFD second) w"] by (simp add: cr_key_def)
qed

text \<open>
  C29: of two custom resources in a namespace the second is refused. When another custom resource of the
  namespace has its components installed, an applying pass on the second one, in a cluster without faults,
  ends with an error that names each component it tries: the master, the worker's config map, the garbage
  collector and, if asked for, the topology updater; the worker's daemon set is not tried after its config
  map. It changes nothing but its own status, and that status comes to say what is due for the workloads of
  the other one, although none is its own.
\<close>

theorem second_custom_resource_refused:
  assumes "contested_server lib cl view admits accepts calm" and "calm w"
    and "neighbour other cr" and "components_stored lib admits other (view w)"
    and "om_DeletionTimestamp (nfd_ObjectMeta cr) = None"
    and "finalizerLabel \<in> set (om_Finalizers (nfd_ObjectMeta cr))"
    and "view w (cr_key cr) = Some (ONFD cr)"
    and "Reconcile (operatorReconciler lib cl s) cr w = ((res, err), cr', w')"
  shows "blames ''master deployment'' cr err \<and> blames ''worker configmap'' cr err \<and>
    (spc_TopologyUpdater (nfd_Spec cr) \<longrightarrow> blames ''topology daemonset'' cr err) \<and>
    blames ''nfd-gc deployment'' cr err \<and>
    (\<forall>k. k \<noteq> cr_key cr \<longrightarrow> view w' k = view w k) \<and>
    (\<exists>m. view w' (cr_key cr) = Some (ONFD m) \<and>
       set (due_report cr (view w)) \<subseteq> without_time ` set (sts_Conditions (nfd_Status m)) \<and>
       (sts_Conditions (nfd_Status cr) = [] \<or> report_wellformed (sts_Conditions (nfd_Status cr)) \<longrightarrow>
          map without_time (sts_Conditions (nfd_Status m)) = due_report cr (view w)))"
proof -
  note calm = contested_server.axioms(1) [OF assms(1)]
  have app: "pass_of (operatorReconciler lib cl s) cr = Apply"
    using assms(5,6) api_server.pass_of_Apply [OF calm_server.axioms(1) [OF calm]] by simp
  have claims: "\<forall>k \<in> set (managed_keys cr). claimed_at lib cr (view w) k"
    using calm_server.components_claimed [OF calm assms(4,3)] by blast
  note refused = contested_server.Apply_refused [OF assms(1,2,8) app assms(7) claims]
  show ?thesis by (intro conjI refused(1,2,4,6)) (blast intro: refused(3,5))+
qed

theorem second_custom_resource_refused_witness:
  "\<exists>w res err cr' w'. components_stored mem_lib mem_admits demo_live (mem_view w) \<and>
     Reconcile demo_operator second_live w = ((res, err), cr', w') \<and> err \<noteq> None \<and>
     mem_view w' (KDeployment, ''nfd'', ''nfd-master'') = mem_view w (KDeployment, ''nfd'', ''nfd-master'')"
proof -
  obtain w where w: "mem_calm w" "mem_view w (cr_key second_live) = Some (ONFD second_live)"
    "components_stored mem_lib mem_admits demo_live (mem_view w)"
    by (rule demo_neighbours [OF second_meta(1)])
  obtain res err cr' w' where run: "Reconcile demo_operator second_live w = ((res, err), cr', w')"
    by (metis prod.exhaust)
  have "finalizerLabel \<in> set (om_Finalizers (nfd_ObjectMeta second_live))" by simp
  note refused = second_custom_resource_refused
    [OF mem.contested_server_axioms w(1) second_meta(7) w(3) second_meta(4) this w(2) run]
  then have "err \<noteq> None" by (auto simp: blames_def)
  with refused w(3) run show ?thesis by (intro exI [of _ w]) auto
qed

text \<open>
  C35: the deletion of one custom resource takes the components of its neighbour. When another custom
  resource of the namespace has its components installed, a pass on the one being deleted, in a cluster
  without faults, leaves every component it asks for gone although another custom resource controls it,
  and the other one, which nobody deletes, as it was.
\<close>

theorem deletion_takes_neighbours_components:
  assumes "calm_server lib cl view admits accepts calm" and "calm w"
    and "neighbour other cr" and "components_stored lib admits other (view w)"
    and "om_DeletionTimestamp (nfd_ObjectMeta cr) \<noteq> None"
    and "view w (cr_key cr) = Some (ONFD cr)"
    and "Reconcile (operatorReconciler lib cl s) cr w = (r, cr', w')"
  shows "(\<forall>k \<in> set (managed_keys cr). claimed_at lib cr (view w) k \<and> gone (view w' k)) \<and>
    view w' (cr_key other) = view w (cr_key other)"
  using calm_server.TearDown_takes_components [OF assms(1,2,7,5,6,3,4)] by blast

theorem deletion_takes_neighbours_components_witness:
  "\<exists>w r cr' w'. Reconcile demo_operator second_deleted w = (r, cr', w') \<and>
     claimed_at mem_lib second_deleted (mem_view w) (KDeployment, ''nfd'', ''nfd-master'') \<and>
     gone (mem_view w' (KDeployment, ''nfd'', ''nfd-master''))"
proof -
  obtain w where w: "mem_calm w" "mem_view w (cr_key second_deleted) = Some (ONFD second_deleted)"
    "components_stored mem_lib mem_admits demo_live (mem_view w)"
    by (rule demo_neighbours [OF second_meta(2)])
  obtain r cr' w' where run: "Reconcile demo_operator second_deleted w = (r, cr', w')" by (metis prod.exhaust)
  have "om_DeletionTimestamp (nfd_ObjectMeta second_deleted) \<noteq> None" by simp
  note gone = deletion_takes_neighbours_components
    [OF mem.calm_server_axioms w(1) second_meta(8) w(3) this w(2) run]
  have "(KDeployment, ''nfd'', ''nfd-master'') \<in> set (managed_keys second_deleted)"
    by (simp add: managed_keys_def second_deleted_def second_live_def demo_defs)
  with gone run show ?thesis by (intro exI [of _ w]) auto
qed

end
