(* ===== verification/Spec2Isabelle.thy ===== *)
theory Spec2Isabelle
  imports Quiescence Phases Shared_Memory Operator_Main Api_Deep_Copy Mocks
    Inevitability Neighbours
begin

text \<open>
  Node Feature Discovery operator: a model of the operator's Go code and what makes it correct.

  \<^bold>\<open>The program.\<close> A Kubernetes operator installs Node Feature Discovery for a custom resource. \<^verbatim>\<open>main.go\<close>
  reads the command line and starts a manager (controller-runtime), which calls \<^verbatim>\<open>Reconcile\<close> of
  \<^verbatim>\<open>internal/controllers\<close> for the custom resource whenever it or an object it owns changes. A pass either
  adds the operator's finalizer, or brings five components up to date (the deployments of the master and
  the garbage collector, the config map and the daemon set of the worker, the daemon set of the topology
  updater) and then the status, or, once the custom resource is being deleted, removes the components,
  runs the prune job and lets the custom resource go. The packages \<^verbatim>\<open>deployment\<close>, \<^verbatim>\<open>daemonset\<close>,
  \<^verbatim>\<open>configmap\<close>, \<^verbatim>\<open>job\<close> and \<^verbatim>\<open>status\<close> under \<^verbatim>\<open>internal/\<close> build and read those objects.

  \<^bold>\<open>The theories.\<close>
  \<^item> \<open>Go_Prelude\<close>: error values, \<^verbatim>\<open>errors.Join\<close>, \<^verbatim>\<open>strings.Join\<close>, \<^verbatim>\<open>strings.TrimSpace\<close>, decimal numbers; the
    lemmas on them and the collections of simplification rules.
  \<^item> \<open>Kube_Types\<close>: the Kubernetes structs the operator fills in or reads, and when a pod is well formed.
  \<^item> \<open>Api_V1\<close>: \<^verbatim>\<open>api/v1/nodefeaturediscovery_types.go\<close>.
  \<^item> \<open>Deep_Copy\<close>, \<open>Api_Deep_Copy\<close>: \<^verbatim>\<open>api/v1/zz_generated.deepcopy.go\<close> over an explicit memory, refined to the
    values of \<open>Api_V1\<close>, which the other theories use. The contract of a deep copy is the locale
    \<open>deep_copier\<close>; slices, pointers and structs of copied parts keep it.
  \<^item> \<open>Cluster_Api\<close>: the client and the libraries as records of functions on an opaque world, and their
    documented behaviour as locales: \<open>machinery_laws\<close> (errors, finalizers, owner references, conditions),
    \<open>api_server\<close> (each request with any errors), \<open>calm_server\<close> (no faults, but the server takes a submitted
    object only when \<open>accepts\<close>, a parameter, says so), \<open>settled_server\<close> (no faults, and an unchanged object
    is not written), \<open>contested_server\<close> (no faults, and an object has one controller).
    \<open>Memory_Cluster\<close> interprets all five by a cluster in memory with faults that can be switched on, whose
    server rejects containers without an image and changes of a selector;
    \<open>Demo_Worlds\<close> has the custom resources and clusters the examples run on.
  \<^item> \<open>Component_Contracts\<close>: what the packages promise each other (\<open>desired_state\<close>, \<open>exact_setter\<close>,
    \<open>object_deleter\<close>, \<open>object_getter\<close>), interpreted by \<open>Deployment_Pkg\<close>, \<open>Daemonset_Pkg\<close> and \<open>Configmap_Pkg\<close>; \<open>Job_Pkg\<close> and
    \<open>Status_Pkg\<close> model the other two packages.
  \<^item> \<open>Reconciler\<close>: \<^verbatim>\<open>nodefeaturediscovery_reconciler.go\<close>, one definition per handler, \<open>Reconcile\<close>, the event
    predicates and the wiring. A method of an interface is a field \<open>api_...\<close> of a record of functions, a
    constructor fills the record in. Two functions of the same name in different packages carry the prefix
    \<open>dep_\<close>, \<open>ds_\<close> or \<open>job_\<close>.
  \<^item> \<open>Operator_Main\<close>: \<^verbatim>\<open>main.go\<close> and \<^verbatim>\<open>SetupWithManager\<close>, with the part of Go's \<^verbatim>\<open>flag\<close> package it uses.
  \<^item> \<open>Reconciler_Facts\<close>, \<open>Reconcile_Passes\<close>: what each handler and each of the three kinds of pass does to the
    cluster, and what it leaves alone. \<open>Lifecycle\<close>: a step relation of passes and of moves of the rest of the
    cluster. \<open>Phases\<close>: the abstract life cycle of a custom resource, which every pass refines, the order of
    its phases, and the part of the custom resource no pass changes (\<open>preserved\<close>).
    \<open>Calm_Passes\<close>: without faults, and with components the server accepts, every pass succeeds.
    \<open>Quiescence\<close>: the passes after it write nothing. \<open>Exact_Status\<close>: the report that is due for the stored
    workloads (\<open>due_report\<close>), written down without the program's calls, and that the program stores it.
  \<^item> \<open>Fair_Runs\<close>, \<open>Inevitability\<close>: infinite runs of passes and moves of others in any order, in which the
    operator's turn always comes again, and what they are sure to reach. \<open>Shared_Namespace\<close>, \<open>Neighbours\<close>:
    two custom resources in one namespace, which ask for the same objects.
  \<^item> \<open>Shared_Steps\<close>, \<open>Interference\<close>, \<open>Orphans\<close>: a pass with others writing between its calls. The locale
    \<open>shared_server\<close> states the laws of each call up to moves of others in a relation, \<open>operated_server\<close> fixes
    what the others may do; the guarantee of a pass, write by write, gives the invariant of the life cycle.
    \<open>api_server\<close> is the case without others, \<open>Shared_Memory\<close> the cluster in memory with others who follow
    a script.
  \<^item> \<open>Mock_Control\<close>, \<open>Mocks\<close>: the generated \<^verbatim>\<open>mock_*.go\<close> files over the controller of \<^verbatim>\<open>gomock\<close>, a
    parameter whose contract is the locale \<open>gomock\<close>.
  \<^item> \<open>Scheme_Setup\<close>: \<^verbatim>\<open>api/v1/groupversion_info.go\<close>, the \<^verbatim>\<open>init\<close> functions and \<^verbatim>\<open>internal/test/scheme.go\<close>.

  \<^bold>\<open>State.\<close> The world \<open>'w\<close> is opaque and threaded through every call in the order of the code; only the laws
  speak about it, through \<open>view\<close>, the stored objects by kind, namespace and name. Go errors are values of
  \<open>'e goerror\<close>, \<open>None\<close> is \<^verbatim>\<open>nil\<close>; a function that changes its argument returns the new record. Contexts and
  logging are left out. Go's \<^verbatim>\<open>int\<close> is modelled by unbounded integers: the operator only compares, prints and
  passes on the numbers it is given. No bounds or fuel are needed: every loop of the program runs over a
  list.

  \<^bold>\<open>The properties.\<close> C1 to C14, C18, C20 to C23, C30, C38 and C39 are about passes. Two passes install
  everything and it stays so (C38), and the passes after that write nothing (C1); every pass is a step of the
  life cycle (C39), nothing is created before the finalizer is in place (C18), success means convergence (C2)
  and an exact status (C11, C12, C22, C23), the handlers do not stop each other (C3), a deletion completes
  (C4) and is let go last (C5), no interleaving orphans a component, not even with others writing between the
  calls of a pass (C6, C30), a pass writes nothing else (C8, C21), the user's part of the custom resource is
  left alone (C20), and the operator hears of what it owns (C13). C9 and C10 are about infinite runs: an
  installation and a deletion are sure to be reached. C15 to C17, C25 to C28 and C34 are about the objects
  the packages build, C19 about the report, C24 about the mocks, C31 to C33 about starting the operator, C36
  and C37 about deep copies. C7, C29 and C35 state behaviour that is probably not intended: a failed prune
  pod blocks the deletion for good, and of two custom resources in a namespace the second reports the
  workloads of the first as its own and, when deleted, removes them.

  \<^bold>\<open>Assumptions.\<close> The laws of \<open>api_server\<close> describe one pass while no one else writes and the client's cache is
  in sync; between passes others may write (\<open>cluster_moves\<close>, \<open>bystander\<close>, \<open>onlooker\<close>). C6 and C30 do without
  the first: others may write at any time, but they bring no component to life. That a component can be
  installed at all needs that no one else controls the object of that name (\<open>adoptable_components\<close>) and that
  the server accepts what the operator makes of it, without a validation error or a change of an immutable
  field (\<open>acceptable_components\<close>, \<open>acceptable_prune_job\<close>): where a property needs it, it is a hypothesis. In
  C9 others may write, delete or replace components as long as these conditions hold of what they leave; in
  C10 they may do anything but change the request, the deletion mark and the finalizers of the custom
  resource or remove the prune job. C9 and C10 assume of the manager that it asks for passes again and again,
  which its periodic resync and its retries after errors provide, and C10 assumes that a prune job completes.
  \<open>CreateOrPatch\<close> is taken to apply the mutating function to the stored object, or to the empty one, and to
  store what the server makes of it.

  \<^bold>\<open>Not modelled.\<close> \<^verbatim>\<open>internal/client/client.go\<close> is only a directive for a generator. Of \<^verbatim>\<open>main\<close>, the usage
  message and the logger are left out, and of the arguments of \<^verbatim>\<open>NewManager\<close> the cluster configuration.
  Import lists, licences, struct tags and the markers for the code generators are no code of
  the operator. Time passes only through the clock of the library, so delays and the work queue of the
  manager are outside the model, as are data races inside the process: the manager runs one pass at a time.
\<close>

section \<open>Installing\<close>

text \<open>
  C1: reconciliation comes to rest. In a cluster without faults whose server does not write an unchanged
  object, from any stored custom resource that is not being deleted, may own its components and asks for
  ones the server accepts, the passes after the second one change nothing at all, however many there are: no
  component, no status, no timestamp. As a pass is asked for when something it watches has changed, the operator does not keep
  itself busy.
\<close>

theorem reconciliation_comes_to_rest:
  assumes "settled_server lib cl view admits accepts calm" and "calm w"
    and "view w (KNFD, ns, nm) = Some (ONFD cr)"
    and "om_DeletionTimestamp (nfd_ObjectMeta cr) = None"
    and "adoptable_components lib cr (view w)"
    and "acceptable_components lib cl s admits accepts cr (view w)"
  shows "view (passes lib cl s view ns nm (n + 2) w) = view (passes lib cl s view ns nm 2 w)"
  using settled_server.passes_settle [OF assms(1), OF assms(2-6), of n] by simp

theorem reconciliation_comes_to_rest_witness:
  "mem_view (passes mem_lib mem_client () mem_view ''nfd'' ''nfd-instance'' 9 (mem_with [ONFD demo_new])) =
   mem_view (passes mem_lib mem_client () mem_view ''nfd'' ''nfd-instance'' 2 (mem_with [ONFD demo_new]))"
proof -
  let ?w = "mem_with [ONFD demo_new]"
  have "mem_calm ?w" "mem_view ?w (KNFD, ''nfd'', ''nfd-instance'') = Some (ONFD demo_new)"
    "om_DeletionTimestamp (nfd_ObjectMeta demo_new) = None"
    "adoptable_components mem_lib demo_new (mem_view ?w)"
    "acceptable_components mem_lib mem_client () mem_admits mem_accepts demo_new (mem_view ?w)" by simp_all
  from reconciliation_comes_to_rest [OF mem.settled_server_axioms this, of 7] show ?thesis by simp
qed

text \<open>
  C38: an installation is stable. In a cluster without faults, from any stored custom resource that is
  not being deleted, whose components no one else controls and whose components the server accepts (no
  validation and no immutable field stands in the way), while no one else writes, every one of any number of
  passes ends without an error, from the second one on every component asked for is stored as asked for, and
  the custom resource stays, with its specification, name and UID, and holds the finalizer from the first one
  on.
\<close>

theorem installation_is_stable:
  assumes "calm_server lib cl view admits accepts calm" and "calm w"
    and "view w (KNFD, ns, nm) = Some (ONFD cr)"
    and "om_DeletionTimestamp (nfd_ObjectMeta cr) = None"
    and "adoptable_components lib cr (view w)"
    and "acceptable_components lib cl s admits accepts cr (view w)"
  shows "fst (pass_at lib cl s view ns nm (passes lib cl s view ns nm n w)) = None \<and>
    (2 \<le> n \<longrightarrow> components_stored lib admits cr (view (passes lib cl s view ns nm n w))) \<and>
    (\<exists>m. view (passes lib cl s view ns nm n w) (KNFD, ns, nm) = Some (ONFD m) \<and> same_request m cr \<and>
       (0 < n \<longrightarrow> finalizerLabel \<in> set (om_Finalizers (nfd_ObjectMeta m))))"
  using calm_server.passes_installed [OF assms(1), OF assms(2-6), of n]
    calm_server.passes_succeed [OF assms(1), OF assms(2-6), of n] by blast

theorem installation_is_stable_witness:
  "fst (pass_at mem_lib mem_client () mem_view ''nfd'' ''nfd-instance''
     (passes mem_lib mem_client () mem_view ''nfd'' ''nfd-instance'' 7 (mem_with [ONFD demo_new]))) = None \<and>
   components_stored mem_lib mem_admits demo_new
     (mem_view (passes mem_lib mem_client () mem_view ''nfd'' ''nfd-instance'' 7 (mem_with [ONFD demo_new])))"
proof -
  let ?w = "mem_with [ONFD demo_new]"
  have "mem_calm ?w" "mem_view ?w (KNFD, ''nfd'', ''nfd-instance'') = Some (ONFD demo_new)"
    "om_DeletionTimestamp (nfd_ObjectMeta demo_new) = None"
    "adoptable_components mem_lib demo_new (mem_view ?w)"
    "acceptable_components mem_lib mem_client () mem_admits mem_accepts demo_new (mem_view ?w)" by simp_all
  from installation_is_stable [OF mem.calm_server_axioms this, of 7] show ?thesis by simp
qed

text \<open>
  C2: an applying pass that reports no error has converged, in any cluster. Whatever the cluster held,
  every component the specification asks for is then stored with the content it asks for and controlled
  by the custom resource, and one that was not already being deleted is not being deleted.
\<close>

theorem successful_pass_converges:
  assumes "api_server lib cl view admits"
    and "om_DeletionTimestamp (nfd_ObjectMeta cr) = None"
    and "finalizerLabel \<in> set (om_Finalizers (nfd_ObjectMeta cr))"
    and "Reconcile (operatorReconciler lib cl s) cr w = ((res, None), cr', w')"
  shows "components_stored lib admits cr (view w') \<and>
    (\<forall>k \<in> set (managed_keys cr). \<not> terminating (view w k) \<longrightarrow> \<not> gone (view w' k))"
proof -
  have app: "pass_of (operatorReconciler lib cl s) cr = Apply"
    using assms(2,3) api_server.pass_of_Apply [OF assms(1)] by simp
  show ?thesis
    using api_server.Reconcile_Apply_converges [OF assms(1,4) app]
      api_server.Reconcile_Apply_live [OF assms(1,4) app] by blast
qed

theorem successful_pass_converges_witness:
  "\<exists>res cr' w'. Reconcile demo_operator demo_live (mem_with [ONFD demo_live]) = ((res, None), cr', w') \<and>
     components_stored mem_lib mem_admits demo_live (mem_view w') \<and>
     (\<forall>k \<in> set (managed_keys demo_live). \<not> gone (mem_view w' k))"
proof -
  obtain w where w: "pass_at mem_lib mem_client () mem_view ''nfd'' ''nfd-instance''
      (mem_with [ONFD demo_live]) = (None, w)"
    "\<exists>cr'. Reconcile demo_operator demo_live (mem_with [ONFD demo_live]) = ((zero_Result, None), cr', w)"
    by (rule demo_apply)
  then obtain cr' where
    run: "Reconcile demo_operator demo_live (mem_with [ONFD demo_live]) = ((zero_Result, None), cr', w)"
    by blast
  have "components_stored mem_lib mem_admits demo_live (mem_view w) \<and>
      (\<forall>k \<in> set (managed_keys demo_live).
         \<not> terminating (mem_view (mem_with [ONFD demo_live]) k) \<longrightarrow> \<not> gone (mem_view w k))"
    by (rule successful_pass_converges [OF mem.api_server_axioms _ _ run]) simp_all
  moreover have "\<not> terminating (mem_view (mem_with [ONFD demo_live]) k)"
    if "k \<in> set (managed_keys demo_live)" for k
    using that by (auto simp: managed_keys_def terminating_def)
  ultimately show ?thesis using run by blast
qed

section \<open>Errors\<close>

text \<open>
  C3: the handlers are independent. After an applying pass, with or without an error, the master, the
  worker's config map, the garbage collector and, if asked for, the topology updater are each stored as the
  specification asks, or the joined error of the pass names that component: a failure of one handler does
  not keep the other handlers from being applied. Inside the worker's handler the daemon set comes after the
  config map and is not tried when that fails: it is stored as asked for, or the error names it or its
  config map.
\<close>

theorem errors_isolated:
  assumes "api_server lib cl view admits"
    and "om_DeletionTimestamp (nfd_ObjectMeta cr) = None"
    and "finalizerLabel \<in> set (om_Finalizers (nfd_ObjectMeta cr))"
    and "Reconcile (operatorReconciler lib cl s) cr w = ((res, err), cr', w')"
  shows
    "(blames ''master deployment'' cr err \<or>
      stored_as lib admits ODeployment dep_ObjectMeta dep_Spec (masterDeploymentSpec cr) cr
        ''nfd-master'' (view w' (KDeployment, nfd_Namespace cr, ''nfd-master''))) \<and>
     (blames ''worker configmap'' cr err \<or>
      stored_as lib admits OConfigMap cm_ObjectMeta cm_Data
        [''nfd-worker-conf'' \<mapsto> wcm_ConfigData (spc_WorkerConfig (nfd_Spec cr))] cr
        ''nfd-worker'' (view w' (KConfigMap, nfd_Namespace cr, ''nfd-worker''))) \<and>
     (blames ''worker configmap'' cr err \<or> blames ''worker DaemonSet'' cr err \<or>
      stored_as lib admits ODaemonSet ds_ObjectMeta ds_Spec (workerDaemonSetSpec cr) cr
        ''nfd-worker'' (view w' (KDaemonSet, nfd_Namespace cr, ''nfd-worker''))) \<and>
     (\<not> spc_TopologyUpdater (nfd_Spec cr) \<or> blames ''topology daemonset'' cr err \<or>
      stored_as lib admits ODaemonSet ds_ObjectMeta ds_Spec (topologyDaemonSetSpec cr) cr
        ''nfd-topology-updater'' (view w' (KDaemonSet, nfd_Namespace cr, ''nfd-topology-updater''))) \<and>
     (blames ''nfd-gc deployment'' cr err \<or>
      stored_as lib admits ODeployment dep_ObjectMeta dep_Spec (gcDeploymentSpec cr) cr
        ''nfd-gc'' (view w' (KDeployment, nfd_Namespace cr, ''nfd-gc'')))"
proof -
  have app: "pass_of (operatorReconciler lib cl s) cr = Apply"
    using assms(2,3) api_server.pass_of_Apply [OF assms(1)] by simp
  note each = api_server.Reconcile_Apply_isolates [OF assms(1,4) app]
  show ?thesis using each(4) by (intro conjI each(1,2,3,5)) blast
qed

text \<open>The worker's config map cannot be written, and everything else is applied.\<close>

theorem errors_isolated_witness:
  "\<exists>r cr' w'. Reconcile demo_operator demo_live
       (mem_with [ONFD demo_live]\<lparr>mem_down := (\<lambda>k. fst k = KConfigMap)\<rparr>) = (r, cr', w') \<and>
     (blames ''master deployment'' demo_live (snd r) \<or>
      stored_as mem_lib mem_admits ODeployment dep_ObjectMeta dep_Spec (masterDeploymentSpec demo_live)
        demo_live ''nfd-master'' (mem_view w' (KDeployment, ''nfd'', ''nfd-master'')))"
proof -
  let ?w = "mem_with [ONFD demo_live]\<lparr>mem_down := (\<lambda>k. fst k = KConfigMap)\<rparr>"
  obtain res err cr' w' where run: "Reconcile demo_operator demo_live ?w = ((res, err), cr', w')"
    by (metis prod.exhaust)
  have "blames ''master deployment'' demo_live err \<or>
      stored_as mem_lib mem_admits ODeployment dep_ObjectMeta dep_Spec (masterDeploymentSpec demo_live)
        demo_live ''nfd-master'' (mem_view w' (KDeployment, nfd_Namespace demo_live, ''nfd-master''))"
    by (rule conjunct1 [OF errors_isolated [OF mem.api_server_axioms _ _ run]]) simp_all
  with run show ?thesis by auto
qed

section \<open>Deleting\<close>

text \<open>
  C4: in a cluster without faults, where the server accepts the prune job if one is asked for, a pass on a
  custom resource that is being deleted leaves every component it asks for gone, and then: without pruning,
  or once the prune job has succeeded and has no failed pod, it lets the custom resource go; without a prune
  job it creates one and keeps the custom resource; with a running job it changes neither; with a failed pod
  it reports an error and keeps both.
\<close>

theorem deletion_completes:
  assumes "calm_server lib cl view admits accepts calm" and "calm w"
    and "Reconcile (operatorReconciler lib cl s) cr w = ((res, err), cr', w')"
    and "om_DeletionTimestamp (nfd_ObjectMeta cr) \<noteq> None"
    and "view w (cr_key cr) = Some (ONFD cr)"
    and "acceptable_prune_job lib s accepts cr"
  shows "(\<forall>k \<in> set (managed_keys cr). gone (view w' k)) \<and>
    teardown_outcome lib admits cr (view w) (view w') err"
  using calm_server.TearDown_completes(2,3) [OF assms(1-5)] assms(6) by blast

text \<open>The prune job has succeeded: the custom resource disappears.\<close>

theorem deletion_completes_witness:
  "\<exists>err cr' w'. Reconcile demo_operator demo_deleted (mem_with [ONFD demo_deleted, OJob (demo_job 1 0)]) =
       ((zero_Result, err), cr', w') \<and> err = None \<and> mem_view w' (cr_key demo_deleted) = None"
proof -
  let ?w = "mem_with [ONFD demo_deleted, OJob (demo_job 1 0)]"
  obtain res err cr' w' where run: "Reconcile demo_operator demo_deleted ?w = ((res, err), cr', w')"
    by (metis prod.exhaust)
  have job: "mem_view ?w (prune_key demo_deleted) = Some (OJob (demo_job 1 0))" by simp
  have "prune_succeeded (demo_job 1 0)" "\<not> prune_failed (demo_job 1 0)"
    by (simp_all add: prune_succeeded_def prune_failed_def demo_defs)
  moreover have "teardown_outcome mem_lib mem_admits demo_deleted (mem_view ?w) (mem_view w') err"
    by (rule conjunct2 [OF deletion_completes [OF mem.calm_server_axioms _ run]]) simp_all
  ultimately have "err = None" "mem_view w' (cr_key demo_deleted) = None"
    unfolding teardown_outcome_def job by (simp_all add: released_def)
  moreover have "res = zero_Result"
    using run by (rule Reconcile_TearDown [OF demo_pass_of(3)]) simp_all
  ultimately show ?thesis using run by blast
qed

text \<open>
  C5: the custom resource is let go last. If a pass on a custom resource that is being deleted changes
  or removes the stored custom resource, in any cluster and whatever the pass reports, then every
  component it asks for is gone, and with pruning the prune job has succeeded without a failed pod.
\<close>

theorem release_is_last:
  assumes "api_server lib cl view admits"
    and "Reconcile (operatorReconciler lib cl s) cr w = (r, cr', w')"
    and "om_DeletionTimestamp (nfd_ObjectMeta cr) \<noteq> None"
    and "view w' (cr_key cr) \<noteq> view w (cr_key cr)"
  shows "(\<forall>k \<in> set (managed_keys cr). gone (view w' k)) \<and>
    (spc_PruneOnDelete (nfd_Spec cr) \<longrightarrow>
      (\<exists>j. view w (prune_key cr) = Some (OJob j) \<and> prune_succeeded j \<and> \<not> prune_failed j))"
  by (rule api_server.Reconcile_TearDown_safe [OF assms(1,2) _ assms(4)]) (simp add: assms(3))

theorem release_is_last_witness:
  "\<exists>r cr' w'. Reconcile demo_operator demo_deleted (mem_with [ONFD demo_deleted, OJob (demo_job 1 0)]) =
       (r, cr', w') \<and>
     mem_view w' (cr_key demo_deleted) \<noteq> Some (ONFD demo_deleted) \<and>
     (\<forall>k \<in> set (managed_keys demo_deleted). gone (mem_view w' k))"
proof -
  let ?w = "mem_with [ONFD demo_deleted, OJob (demo_job 1 0)]"
  obtain res err cr' w' where run: "Reconcile demo_operator demo_deleted ?w = ((res, err), cr', w')"
    by (metis prod.exhaust)
  have job: "mem_view ?w (prune_key demo_deleted) = Some (OJob (demo_job 1 0))" by simp
  have "prune_succeeded (demo_job 1 0)" "\<not> prune_failed (demo_job 1 0)"
    by (simp_all add: prune_succeeded_def prune_failed_def demo_defs)
  moreover have "teardown_outcome mem_lib mem_admits demo_deleted (mem_view ?w) (mem_view w') err"
    by (rule calm_server.TearDown_completes(3) [OF mem.calm_server_axioms _ run]) simp_all
  ultimately have gone: "mem_view w' (cr_key demo_deleted) = None"
    unfolding teardown_outcome_def job by (simp add: released_def)
  then have "mem_view w' (cr_key demo_deleted) \<noteq> mem_view ?w (cr_key demo_deleted)" by simp
  from release_is_last [OF mem.api_server_axioms run _ this] gone run show ?thesis by auto
qed

text \<open>
  C6: no component is orphaned, even by a race. Start from a cluster without components, and let the
  operator make passes, with any errors, while the rest of the cluster moves at any time, between two
  passes and between any two calls of one, as long as it does not create components, take off the
  operator's finalizer or switch the topology updater off: whenever a component is not gone, the custom
  resource is stored and holds the finalizer, so that its deletion still goes through the operator.
\<close>

theorem no_orphans:
  assumes "operated_server lib cl view ns nm" and "run lib cl s view ns nm w"
    and "k \<in> set (component_keys ns)" and "\<not> gone (view w k)"
  shows "\<exists>n. view w (KNFD, ns, nm) = Some (ONFD n) \<and>
    finalizerLabel \<in> set (om_Finalizers (nfd_ObjectMeta n))"
  using operated_server.run_guarded [OF assms(1,2)] assms(3,4) unfolding guarded_def by blast

theorem no_orphans_witness:
  "\<exists>w. run mem_lib mem_client () mem_view ''nfd'' ''nfd-instance'' w \<and>
     \<not> gone (mem_view w (KDeployment, ''nfd'', ''nfd-master'')) \<and>
     (\<exists>n. mem_view w (KNFD, ''nfd'', ''nfd-instance'') = Some (ONFD n) \<and>
        finalizerLabel \<in> set (om_Finalizers (nfd_ObjectMeta n)))"
proof -
  let ?w = "mem_with [ONFD demo_live]"
  obtain w where w: "pass_at mem_lib mem_client () mem_view ''nfd'' ''nfd-instance'' ?w = (None, w)"
    "\<exists>cr'. Reconcile demo_operator demo_live ?w = ((zero_Result, None), cr', w)"
    by (rule demo_apply)
  have "run mem_lib mem_client () mem_view ''nfd'' ''nfd-instance'' ?w"
    by (rule run.installed) (simp add: component_keys_def)
  from run.passed [OF this w(1)] have r: "run mem_lib mem_client () mem_view ''nfd'' ''nfd-instance'' w" .
  from w(2) obtain cr' where
    run: "Reconcile demo_operator demo_live ?w = ((zero_Result, None), cr', w)" by blast
  have live: "\<not> gone (mem_view w (KDeployment, ''nfd'', ''nfd-master''))"
    by (rule api_server.Reconcile_Apply_live [OF mem.api_server_axioms run])
       (simp_all add: managed_keys_def terminating_def)
  have k: "(KDeployment, ''nfd'', ''nfd-master'') \<in> set (component_keys ''nfd'')"
    by (simp add: component_keys_def)
  note server = alone.operated_server_axioms [of "''nfd''" "''nfd-instance''"]
  show ?thesis
    by (intro exI [of _ w] conjI r live) (rule no_orphans [OF server, OF r k live])
qed

text \<open>
  C39: every pass is a step of the life cycle. Whatever the cluster does and whatever the pass reports,
  the phase of the custom resource (absent, fresh, managed, being deleted) after a pass is the phase
  before it, or managed after fresh, or absent after being deleted; so no pass takes the finalizer off a
  custom resource in use, or brings one back, and over any number of passes the phase only moves forward
  in the order fresh, managed, being deleted, absent.
\<close>

theorem pass_refines_life_cycle:
  assumes "api_server lib cl view admits"
  shows "phase_step (phase_of (view w (KNFD, ns, nm)))
      (phase_of (view (snd (pass_at lib cl s view ns nm w)) (KNFD, ns, nm))) \<and>
    mono (\<lambda>n. phase_of (view (passes lib cl s view ns nm n w) (KNFD, ns, nm)))"
  using api_server.pass_phase [OF assms prod.collapse [symmetric]]
    api_server.passes_phase_mono [OF assms] by blast

theorem pass_refines_life_cycle_witness:
  "Managed \<le> phase_of (mem_view (passes mem_lib mem_client () mem_view ''nfd'' ''nfd-instance'' 6
     (mem_with [ONFD demo_live])) (KNFD, ''nfd'', ''nfd-instance'')) \<and>
   phase_of (mem_view (mem_with [ONFD demo_live]) (KNFD, ''nfd'', ''nfd-instance'')) = Managed \<and>
   phase_of (mem_view (snd (pass_at mem_lib mem_client () mem_view ''nfd'' ''nfd-instance''
     (mem_with [ONFD demo_live]))) (KNFD, ''nfd'', ''nfd-instance'')) = Managed"
proof -
  let ?v = "\<lambda>n. mem_view (passes mem_lib mem_client () mem_view ''nfd'' ''nfd-instance'' n (mem_with [ONFD demo_live]))
    (KNFD, ''nfd'', ''nfd-instance'')"
  have "phase_of (mem_view (mem_with [ONFD demo_live]) (KNFD, ''nfd'', ''nfd-instance'')) = Managed"
    by (simp add: phase_of_def demo_defs)
  moreover have steps: "phase_step (phase_of (?v 0)) (phase_of (?v 1)) \<and> mono (\<lambda>n. phase_of (?v n))"
    using pass_refines_life_cycle [OF mem.api_server_axioms, of "mem_with [ONFD demo_live]" "''nfd''"
        "''nfd-instance''" "()"] by simp
  moreover have "phase_of (?v 0) \<le> phase_of (?v 6)"
    by (rule monoD [OF conjunct2 [OF steps]]) simp
  ultimately show ?thesis by simp
qed

text \<open>
  C7: a failed prune pod blocks the deletion for good, even when the job succeeded on a later attempt.
  With the custom resource being deleted, pruning asked for and a prune job with a failed pod stored,
  after any number of passes the custom resource and the job are still stored unchanged and the next
  pass fails again: nothing the operator does removes the job.
\<close>

theorem failed_prune_blocks_deletion:
  assumes "api_server lib cl view admits"
    and "view w (KNFD, ns, nm) = Some (ONFD cr)"
    and "om_DeletionTimestamp (nfd_ObjectMeta cr) \<noteq> None"
    and "spc_PruneOnDelete (nfd_Spec cr)"
    and "view w (KJob, ns, ''nfd-prune'') = Some (OJob j)" and "prune_failed j"
  shows "view (passes lib cl s view ns nm n w) (KNFD, ns, nm) = Some (ONFD cr) \<and>
    fst (pass_at lib cl s view ns nm (passes lib cl s view ns nm n w)) \<noteq> None"
  using api_server.failed_prune_forever [OF assms(1), OF assms(2-6)] by blast

theorem failed_prune_blocks_deletion_witness:
  "prune_succeeded (demo_job 1 1) \<and>
   fst (pass_at mem_lib mem_client () mem_view ''nfd'' ''nfd-instance''
     (passes mem_lib mem_client () mem_view ''nfd'' ''nfd-instance'' 3
        (mem_with [ONFD demo_deleted, OJob (demo_job 1 1)]))) \<noteq> None"
proof -
  let ?w = "mem_with [ONFD demo_deleted, OJob (demo_job 1 1)]"
  have "prune_failed (demo_job 1 1)" by (simp add: prune_failed_def demo_defs)
  then have "fst (pass_at mem_lib mem_client () mem_view ''nfd'' ''nfd-instance''
     (passes mem_lib mem_client () mem_view ''nfd'' ''nfd-instance'' 3 ?w)) \<noteq> None"
    by (intro conjunct2 [OF failed_prune_blocks_deletion [OF mem.api_server_axioms, of ?w _ _ demo_deleted
          "demo_job 1 1"]]) simp_all
  then show ?thesis by (simp add: prune_succeeded_def demo_defs)
qed

section \<open>What a pass may touch\<close>

text \<open>
  C30: the guarantee of a pass, write by write. Others may write to the cluster between any two calls of
  a pass, as long as they bring no component to life. Then the pass is a sequence of their moves and of
  writes of its own, each of which is allowed in the state it meets: adding the finalizer is the only
  write of the first kind of pass; applying writes components and the status of the custom resource only;
  tearing down brings nothing to life, and touches the prune job or the custom resource only at a moment
  at which every component is gone.
\<close>

theorem writes_of_a_pass:
  assumes "shared_server lib cl view rely" and "no_revival rely cr"
    and "Reconcile (operatorReconciler lib cl s) cr w = (r, cr', w')"
  shows "shared_steps rely (pass_writes (pass_of (operatorReconciler lib cl s) cr) cr) (view w) (view w')"
  by (rule shared_server.Reconcile_keeps_guarantee [OF assms(1), OF assms(3,2)])

text \<open>A tear-down during which someone else removes the worker and switches the topology updater on.\<close>

theorem writes_of_a_pass_witness:
  "\<exists>r cr' w'. Reconcile (operatorReconciler (shared_lib ''nfd'' ''nfd-instance'')
       (shared_client ''nfd'' ''nfd-instance'') ()) demo_deleted
       (mem_with [ONFD demo_deleted], [Wait, Remove (KDaemonSet, ''nfd'', ''nfd-worker''), EnableTopology]) =
       (r, cr', w') \<and>
     shared_steps (cluster_moves ''nfd'' ''nfd-instance'') (pass_writes TearDown demo_deleted)
       (mem_view (mem_with [ONFD demo_deleted])) (shared_view w')"
proof -
  let ?R = "operatorReconciler (shared_lib ''nfd'' ''nfd-instance'') (shared_client ''nfd'' ''nfd-instance'') ()"
  let ?w = "(mem_with [ONFD demo_deleted], [Wait, Remove (KDaemonSet, ''nfd'', ''nfd-worker''), EnableTopology])"
  obtain r cr' w' where run: "Reconcile ?R demo_deleted ?w = (r, cr', w')" by (metis prod.exhaust)
  have "no_revival (cluster_moves ''nfd'' ''nfd-instance'') demo_deleted"
    using no_revival_moves [of demo_deleted "''nfd-instance''"] by simp
  note steps = writes_of_a_pass [OF shared.shared_server_axioms this run]
  have "pass_of ?R demo_deleted = TearDown" by simp
  from steps [unfolded this] run show ?thesis
    by (intro exI [of _ r] exI [of _ cr'] exI [of _ w']) (simp add: shared_view_def)
qed

text \<open>
  C8: a pass of any kind, with any errors, changes nothing but the custom resource, the prune job and
  the components the specification asks for, all in the namespace of the custom resource.
\<close>

theorem pass_footprint:
  assumes "api_server lib cl view admits"
    and "Reconcile (operatorReconciler lib cl s) cr w = (r, cr', w')"
    and "k \<notin> set (footprint cr)"
  shows "view w' k = view w k"
  by (rule api_server.Reconcile_frame [OF assms])

theorem pass_footprint_witness:
  "\<exists>r cr' w'. Reconcile demo_operator demo_live (mem_with [ONFD demo_live, OJob (demo_job 0 0)]) =
       (r, cr', w') \<and>
     mem_view w' (KDeployment, ''default'', ''nfd-master'') = None"
proof -
  obtain r cr' w' where run: "Reconcile demo_operator demo_live
      (mem_with [ONFD demo_live, OJob (demo_job 0 0)]) = (r, cr', w')"
    by (metis prod.exhaust)
  have "mem_view w' (KDeployment, ''default'', ''nfd-master'') =
      mem_view (mem_with [ONFD demo_live, OJob (demo_job 0 0)]) (KDeployment, ''default'', ''nfd-master'')"
    by (rule pass_footprint [OF mem.api_server_axioms run])
       (simp add: footprint_def managed_keys_def prune_key_def)
  with run show ?thesis by auto
qed

text \<open>
  C18: nothing is created before the finalizer is in place. A pass on a custom resource that is not being
  deleted and lacks the finalizer changes at most the custom resource; when it reports no error the
  finalizer has been added at the end, the specification is unchanged and the next pass applies the
  components.
\<close>

theorem finalizer_comes_first:
  assumes "api_server lib cl view admits"
    and "Reconcile (operatorReconciler lib cl s) cr w = ((res, err), cr', w')"
    and "om_DeletionTimestamp (nfd_ObjectMeta cr) = None"
    and "finalizerLabel \<notin> set (om_Finalizers (nfd_ObjectMeta cr))"
  shows "(\<forall>k. k \<noteq> cr_key cr \<longrightarrow> view w' k = view w k) \<and>
    (err = None \<longrightarrow> (\<exists>n. view w' (cr_key cr) = Some (ONFD n) \<and> nfd_Spec n = nfd_Spec cr \<and>
       om_Finalizers (nfd_ObjectMeta n) = om_Finalizers (nfd_ObjectMeta cr) @ [finalizerLabel] \<and>
       pass_of (operatorReconciler lib cl s) n = Apply))"
proof -
  have add: "pass_of (operatorReconciler lib cl s) cr = AddFinalizer"
    using assms(3,4) api_server.pass_of_AddFinalizer [OF assms(1)] by simp
  show ?thesis
    using api_server.Reconcile_AddFinalizer_only [OF assms(1,2) add]
      api_server.Reconcile_AddFinalizer_ok [OF assms(1) _ add] assms(2) by blast
qed

theorem finalizer_comes_first_witness:
  "\<exists>res cr' w'. Reconcile demo_operator demo_new (mem_with [ONFD demo_new]) = ((res, None), cr', w') \<and>
     (\<exists>n. mem_view w' (KNFD, ''nfd'', ''nfd-instance'') = Some (ONFD n) \<and>
        om_Finalizers (nfd_ObjectMeta n) = [finalizerLabel])"
proof -
  obtain res err cr' w' where
    run: "Reconcile demo_operator demo_new (mem_with [ONFD demo_new]) = ((res, err), cr', w')"
    by (metis prod.exhaust)
  have "(res, err) = (zero_Result, None)"
    by (rule conjunct2 [OF calm_server.AddFinalizer_succeeds [OF mem.calm_server_axioms _ run]]) simp_all
  with finalizer_comes_first [OF mem.api_server_axioms run] run show ?thesis by auto
qed

text \<open>
  C20: the operator leaves the user's part of the custom resource alone. After any number of passes,
  whatever the cluster does and the passes report, what is stored has the specification, UID, deletion mark
  and finalizers it had, but for the operator's own finalizer; nothing is stored only when the custom
  resource was being deleted and no finalizer but the operator's was on it.
\<close>

theorem custom_resource_preserved:
  assumes "api_server lib cl view admits" and "view w (KNFD, ns, nm) = Some (ONFD cr)"
  shows "preserved cr (view (passes lib cl s view ns nm n w) (KNFD, ns, nm))"
  by (rule api_server.passes_preserve [OF assms])

text \<open>The custom resource is not being deleted, so it is still there, with its specification.\<close>

theorem custom_resource_preserved_witness:
  "\<exists>m. mem_view (passes mem_lib mem_client () mem_view ''nfd'' ''nfd-instance'' 5
       ((mem_with [ONFD demo_new])\<lparr>mem_down := (\<lambda>k. fst k = KDaemonSet)\<rparr>)) (KNFD, ''nfd'', ''nfd-instance'') =
       Some (ONFD m) \<and> nfd_Spec m = nfd_Spec demo_new"
proof -
  let ?w = "(mem_with [ONFD demo_new])\<lparr>mem_down := (\<lambda>k. fst k = KDaemonSet)\<rparr>"
  have "mem_view ?w (KNFD, ''nfd'', ''nfd-instance'') = Some (ONFD demo_new)" by simp
  from custom_resource_preserved [OF mem.api_server_axioms, OF this, of "()" 5] show ?thesis
    by (auto simp: preserved_def split: option.splits)
qed

section \<open>Status\<close>

text \<open>
  C11: the status is never better than the workloads. After an applying pass that reports no error, in
  any cluster, the stored conditions contain, up to the timestamps, a well-formed report: one condition
  of each of the four types, exactly one of Available, Progressing and Degraded true. When that report
  says Available, the worker, the master, the garbage collector and, if it is asked for, the topology
  updater are stored and healthy.
\<close>

theorem status_never_overstates:
  assumes "api_server lib cl view admits"
    and "om_DeletionTimestamp (nfd_ObjectMeta cr) = None"
    and "finalizerLabel \<in> set (om_Finalizers (nfd_ObjectMeta cr))"
    and "view w (cr_key cr) = Some (ONFD cr)"
    and "Reconcile (operatorReconciler lib cl s) cr w = ((res, None), cr', w')"
  shows "\<exists>cs m. view w' (cr_key cr) = Some (ONFD m) \<and> report_wellformed cs \<and>
    without_time ` set cs \<subseteq> without_time ` set (sts_Conditions (nfd_Status m)) \<and>
    (report_health cs = Healthy \<longrightarrow> workloads_healthy cr (view w'))"
proof -
  have app: "pass_of (operatorReconciler lib cl s) cr = Apply"
    using assms(2,3) api_server.pass_of_Apply [OF assms(1)] by simp
  show ?thesis by (rule api_server.Reconcile_Apply_status [OF assms(1,5) app assms(4)])
qed

theorem status_never_overstates_witness:
  "\<exists>w' cs m. mem_view w' (KNFD, ''nfd'', ''nfd-instance'') = Some (ONFD m) \<and> report_wellformed cs \<and>
     without_time ` set cs \<subseteq> without_time ` set (sts_Conditions (nfd_Status m)) \<and>
     (report_health cs = Healthy \<longrightarrow> workloads_healthy demo_live (mem_view w'))"
proof -
  let ?w = "mem_with [ONFD demo_live]"
  obtain w where
    "\<exists>cr'. Reconcile demo_operator demo_live ?w = ((zero_Result, None), cr', w)"
    using demo_apply by blast
  then obtain cr' where run: "Reconcile demo_operator demo_live ?w = ((zero_Result, None), cr', w)" by blast
  have "\<exists>cs m. mem_view w (cr_key demo_live) = Some (ONFD m) \<and> report_wellformed cs \<and>
      without_time ` set cs \<subseteq> without_time ` set (sts_Conditions (nfd_Status m)) \<and>
      (report_health cs = Healthy \<longrightarrow> workloads_healthy demo_live (mem_view w))"
    by (rule status_never_overstates [OF mem.api_server_axioms _ _ _ run]) simp_all
  then show ?thesis by auto
qed

text \<open>
  C12: in a cluster without faults the status is exact. An applying pass on a custom resource whose
  components no one else controls and the server accepts leaves every condition of the report that is due
  for the workloads as they are stored after the pass, up to the timestamps: the verdict, the reason and the
  message of the first workload that is not healthy, in the order worker, master, garbage collector,
  topology updater, or the Available report. When the custom resource had no conditions, or a
  well-formed report, the stored conditions are that report and nothing else. The report that is due says
  Available exactly when all the workloads asked for are stored and healthy.
\<close>

theorem status_exact:
  assumes "calm_server lib cl view admits accepts calm" and "calm w"
    and "om_DeletionTimestamp (nfd_ObjectMeta cr) = None"
    and "finalizerLabel \<in> set (om_Finalizers (nfd_ObjectMeta cr))"
    and "view w (cr_key cr) = Some (ONFD cr)" and "adoptable_components lib cr (view w)"
    and "acceptable_components lib cl s admits accepts cr (view w)"
    and "Reconcile (operatorReconciler lib cl s) cr w = (r, cr', w')"
  shows "\<exists>m. view w' (cr_key cr) = Some (ONFD m) \<and>
    set (due_report cr (view w')) \<subseteq> without_time ` set (sts_Conditions (nfd_Status m)) \<and>
    (sts_Conditions (nfd_Status cr) = [] \<or> report_wellformed (sts_Conditions (nfd_Status cr)) \<longrightarrow>
       map without_time (sts_Conditions (nfd_Status m)) = due_report cr (view w')) \<and>
    (report_health (due_report cr (view w')) = Healthy \<longleftrightarrow> workloads_healthy cr (view w'))"
proof -
  have app: "pass_of (operatorReconciler lib cl s) cr = Apply"
    using assms(3,4) api_server.pass_of_Apply [OF calm_server.axioms(1) [OF assms(1)]] by simp
  note pass = calm_server.Apply_succeeds [OF assms(1,2,8) app assms(5-7)]
  have "report_health (due_report cr (view w')) = Healthy \<longleftrightarrow> workloads_healthy cr (view w')"
    by (rule calm_server.due_report_health [OF assms(1)])
       (use pass calm_server.stored_components_present [OF assms(1)] in blast)
  with calm_server.Apply_stores_due_report [OF assms(1,2,8) app assms(5-7)] show ?thesis by blast
qed

text \<open>
  Right after the installation no node wants the worker yet: the stored conditions say that it is
  degraded, and why.
\<close>

theorem status_exact_witness:
  "\<exists>w' m. mem_view w' (KNFD, ''nfd'', ''nfd-instance'') = Some (ONFD m) \<and>
     map without_time (sts_Conditions (nfd_Status m)) = due_report demo_live (mem_view w')"
proof -
  let ?w = "mem_with [ONFD demo_live]"
  obtain r cr' w' where run: "Reconcile demo_operator demo_live ?w = (r, cr', w')"
    by (metis prod.exhaust)
  have "\<exists>m. mem_view w' (cr_key demo_live) = Some (ONFD m) \<and>
      set (due_report demo_live (mem_view w')) \<subseteq> without_time ` set (sts_Conditions (nfd_Status m)) \<and>
      (sts_Conditions (nfd_Status demo_live) = [] \<or> report_wellformed (sts_Conditions (nfd_Status demo_live)) \<longrightarrow>
         map without_time (sts_Conditions (nfd_Status m)) = due_report demo_live (mem_view w')) \<and>
      (report_health (due_report demo_live (mem_view w')) = Healthy \<longleftrightarrow> workloads_healthy demo_live (mem_view w'))"
    by (rule status_exact [OF mem.calm_server_axioms _ _ _ _ _ _ run]) simp_all
  moreover have "sts_Conditions (nfd_Status demo_live) = []" by (simp add: demo_defs)
  ultimately show ?thesis by auto
qed

section \<open>Components\<close>

text \<open>
  C13: the operator hears about its components. After an applying pass without an error every component
  is stored, its kind is among those the controller is set up to watch for their owners, and its later
  change or removal passes the event filter of that watch, through the owner reference the setters wrote;
  creations are filtered out.
\<close>

theorem component_events_pass:
  assumes "api_server lib cl view admits"
    and "om_DeletionTimestamp (nfd_ObjectMeta cr) = None"
    and "finalizerLabel \<in> set (om_Finalizers (nfd_ObjectMeta cr))"
    and "Reconcile (operatorReconciler lib cl s) cr w = ((res, None), cr', w')"
    and "k \<in> set (managed_keys cr)"
  shows "\<exists>y p. view w' k = Some y \<and> (fst k, Owns, p) \<in> set (operatorWatches lib) \<and>
    p (UpdateEvent old (obj_meta y)) \<and> p (DeleteEvent (obj_meta y)) \<and> \<not> p (CreateEvent (obj_meta y))"
proof -
  have app: "pass_of (operatorReconciler lib cl s) cr = Apply"
    using assms(2,3) api_server.pass_of_Apply [OF assms(1)] by simp
  from api_server.components_stored_watched [OF assms(1)
      api_server.Reconcile_Apply_converges [OF assms(1,4) app] assms(5)]
  obtain y where "view w' k = Some y" "isControlledByNFD lib (obj_meta y)" by blast
  moreover have "(fst k, Owns, getPredicates lib) \<in> set (operatorWatches lib)"
    using assms(5) by (auto simp: operatorWatches_def managed_keys_def Let_def split: if_splits)
  ultimately show ?thesis by (intro exI [of _ y] exI [of _ "getPredicates lib"]) simp
qed

theorem component_events_pass_witness:
  "\<exists>w y p. mem_view w (KConfigMap, ''nfd'', ''nfd-worker'') = Some y \<and>
     (KConfigMap, Owns, p) \<in> set (operatorWatches mem_lib) \<and> p (DeleteEvent (obj_meta y))"
proof -
  let ?w = "mem_with [ONFD demo_live]"
  obtain w where
    "\<exists>cr'. Reconcile demo_operator demo_live ?w = ((zero_Result, None), cr', w)"
    using demo_apply by blast
  then obtain cr' where run: "Reconcile demo_operator demo_live ?w = ((zero_Result, None), cr', w)" by blast
  have k: "(KConfigMap, ''nfd'', ''nfd-worker'') \<in> set (managed_keys demo_live)"
    by (simp add: managed_keys_def)
  have "\<exists>y p. mem_view w (KConfigMap, ''nfd'', ''nfd-worker'') = Some y \<and>
      (fst (KConfigMap, ''nfd'', ''nfd-worker''), Owns, p) \<in> set (operatorWatches mem_lib) \<and>
      p (UpdateEvent zero_ObjectMeta (obj_meta y)) \<and> p (DeleteEvent (obj_meta y)) \<and>
      \<not> p (CreateEvent (obj_meta y))"
    by (rule component_events_pass [OF mem.api_server_axioms _ _ run k]) simp_all
  then show ?thesis unfolding fst_conv by blast
qed

text \<open>
  C14: the worker reads the configuration of the custom resource. After an applying pass without an
  error, the worker's pod has a volume that projects an item of a config map to the path
  \<^verbatim>\<open>/etc/kubernetes/node-feature-discovery/nfd-worker.conf\<close> of its container, and the stored config map of
  that name holds, under that item's key, the configuration data of the specification.
\<close>

theorem worker_reads_its_configuration:
  assumes "api_server lib cl view admits"
    and "om_DeletionTimestamp (nfd_ObjectMeta cr) = None"
    and "finalizerLabel \<in> set (om_Finalizers (nfd_ObjectMeta cr))"
    and "Reconcile (operatorReconciler lib cl s) cr w = ((res, None), cr', w')"
  shows "\<exists>v src item mount c.
    v \<in> set (pod_Volumes (pts_Spec (dss_Template (workerDaemonSetSpec cr)))) \<and>
    vol_ConfigMap v = Some src \<and> item \<in> set (cmv_Items src) \<and>
    (\<exists>ctr \<in> set (pod_Containers (pts_Spec (dss_Template (workerDaemonSetSpec cr)))).
       mount \<in> set (ctr_VolumeMounts ctr)) \<and>
    vm_Name mount = vol_Name v \<and>
    vm_MountPath mount @ ''/'' @ ktp_Path item =
      ''/etc/kubernetes/node-feature-discovery/nfd-worker.conf'' \<and>
    view w' (KConfigMap, nfd_Namespace cr, cmv_Name src) = Some (OConfigMap c) \<and>
    cm_Data c (ktp_Key item) = Some (wcm_ConfigData (spc_WorkerConfig (nfd_Spec cr)))"
proof -
  have app: "pass_of (operatorReconciler lib cl s) cr = Apply"
    using assms(2,3) api_server.pass_of_Apply [OF assms(1)] by simp
  obtain c where c: "view w' (KConfigMap, nfd_Namespace cr, ''nfd-worker'') = Some (OConfigMap c)"
    "cm_Data c = [''nfd-worker-conf'' \<mapsto> wcm_ConfigData (spc_WorkerConfig (nfd_Spec cr))]"
    using api_server.components_stored_config [OF assms(1)
        api_server.Reconcile_Apply_converges [OF assms(1,4) app]] by blast
  obtain v src item mount where
    "v \<in> set (pod_Volumes (pts_Spec (dss_Template (workerDaemonSetSpec cr))))"
    "vol_ConfigMap v = Some src" "cmv_Name src = ''nfd-worker''"
    "item \<in> set (cmv_Items src)" "ktp_Key item = ''nfd-worker-conf''"
    "\<exists>ctr \<in> set (pod_Containers (pts_Spec (dss_Template (workerDaemonSetSpec cr)))).
       mount \<in> set (ctr_VolumeMounts ctr)" "vm_Name mount = vol_Name v"
    "vm_MountPath mount @ ''/'' @ ktp_Path item =
       ''/etc/kubernetes/node-feature-discovery/nfd-worker.conf''"
    using worker_config_volume [of cr] by blast
  with c show ?thesis by (intro exI [of _ v] exI [of _ src] exI [of _ item] exI [of _ mount] exI [of _ c]) simp
qed

theorem worker_reads_its_configuration_witness:
  "\<exists>w (src :: ConfigMapVolumeSource) c. mem_view w (KConfigMap, ''nfd'', cmv_Name src) = Some (OConfigMap c) \<and>
     (\<exists>item \<in> set (cmv_Items src). cm_Data c (ktp_Key item) = Some ''core: {}'')"
proof -
  let ?w = "mem_with [ONFD demo_live]"
  obtain w where
    "\<exists>cr'. Reconcile demo_operator demo_live ?w = ((zero_Result, None), cr', w)"
    using demo_apply by blast
  then obtain cr' where run: "Reconcile demo_operator demo_live ?w = ((zero_Result, None), cr', w)" by blast
  have "om_DeletionTimestamp (nfd_ObjectMeta demo_live) = None"
    "finalizerLabel \<in> set (om_Finalizers (nfd_ObjectMeta demo_live))" by simp_all
  from worker_reads_its_configuration [OF mem.api_server_axioms this run]
  obtain src :: ConfigMapVolumeSource and item c where "item \<in> set (cmv_Items src)"
    "mem_view w (KConfigMap, nfd_Namespace demo_live, cmv_Name src) = Some (OConfigMap c)"
    "cm_Data c (ktp_Key item) = Some (wcm_ConfigData (spc_WorkerConfig (nfd_Spec demo_live)))"
    by blast
  moreover have "wcm_ConfigData (spc_WorkerConfig (nfd_Spec demo_live)) = ''core: {}''"
    by (simp add: demo_defs)
  ultimately show ?thesis by auto
qed

text \<open>
  C21: the prune job is written once. A pass of any kind changes the stored prune job only by creating
  it: the custom resource is then being deleted with pruning asked for and no job was stored; when the
  pass reports no error the job stored is the one the operator builds, controlled by the custom resource.
\<close>

theorem prune_job_written_once:
  assumes "api_server lib cl view admits"
    and "Reconcile (operatorReconciler lib cl s) cr w = (r, cr', w')"
    and "view w' (prune_key cr) \<noteq> view w (prune_key cr)"
  shows "om_DeletionTimestamp (nfd_ObjectMeta cr) \<noteq> None \<and> spc_PruneOnDelete (nfd_Spec cr) \<and>
    view w (prune_key cr) = None \<and>
    (snd r = None \<longrightarrow> stored_as lib admits OJob job_ObjectMeta job_Spec (job_Spec (pruneJobObject cr)) cr
       ''nfd-prune'' (view w' (prune_key cr)))"
  by (rule api_server.Reconcile_prune_key [OF assms])

theorem prune_job_written_once_witness:
  "\<exists>r cr' w'. Reconcile demo_operator demo_deleted (mem_with [ONFD demo_deleted]) = (r, cr', w') \<and>
     snd r = None \<and>
     stored_as mem_lib mem_admits OJob job_ObjectMeta job_Spec (job_Spec (pruneJobObject demo_deleted))
       demo_deleted ''nfd-prune'' (mem_view w' (prune_key demo_deleted))"
proof -
  let ?w = "mem_with [ONFD demo_deleted]"
  obtain res err cr' w' where run: "Reconcile demo_operator demo_deleted ?w = ((res, err), cr', w')"
    by (metis prod.exhaust)
  have none: "mem_view ?w (prune_key demo_deleted) = None" by simp
  have "teardown_outcome mem_lib mem_admits demo_deleted (mem_view ?w) (mem_view w') err"
    by (rule calm_server.TearDown_completes(3) [OF mem.calm_server_axioms _ run]) simp_all
  then have out: "err = None" "mem_view w' (prune_key demo_deleted) \<noteq> None"
    unfolding teardown_outcome_def none by (auto simp: stored_as_def)
  with none have "mem_view w' (prune_key demo_deleted) \<noteq> mem_view ?w (prune_key demo_deleted)" by simp
  from prune_job_written_once [OF mem.api_server_axioms run this] run out(1) show ?thesis by auto
qed

section \<open>Conditions\<close>

text \<open>
  C22: a status that says the same is not written again. When the conditions of the custom resource
  equal the computed report up to the timestamps, the status step reports no error, returns the custom
  resource as it was and changes nothing in the cluster: a reconciliation cannot trigger itself through
  the transition times.
\<close>

theorem unchanged_status_not_written:
  assumes "api_server lib cl view admits"
    and "handleStatus (operatorHelper lib cl s) cr w = (r, cr', w')"
    and "GetConditions lib
      (newStatusHelperAPI lib (NewDeploymentAPI lib cl s) (NewDaemonsetAPI lib cl s)) cr w = (cs, w1)"
    and "map without_time (sts_Conditions (nfd_Status cr)) = map without_time cs"
  shows "r = None \<and> cr' = cr \<and> view w' = view w"
  by (rule api_server.handleStatus_quiet [OF assms])

text \<open>The stored report was computed at time 3; nothing has changed since.\<close>

theorem unchanged_status_not_written_witness:
  "\<exists>cr w'. handleStatus (operatorHelper mem_lib mem_client ()) cr (mem_with [ONFD demo_live]) = (None, cr, w') \<and>
     sts_Conditions (nfd_Status cr) = getDegradedConditions ''FailedGettingNFDWorkerDaemonSet'' ''not found'' 3"
proof -
  let ?w = "mem_with [ONFD demo_live]"
  let ?cr = "demo_live\<lparr>nfd_Status := (nfd_Status demo_live)\<lparr>sts_Conditions :=
    getDegradedConditions ''FailedGettingNFDWorkerDaemonSet'' ''not found'' 3\<rparr>\<rparr>"
  obtain r cr' w' where h: "handleStatus (operatorHelper mem_lib mem_client ()) ?cr ?w = (r, cr', w')"
    by (metis prod.exhaust)
  have "GetDaemonSet \<lparr>s_client = mem_client, s_scheme = ()\<rparr> ''nfd'' ''nfd-worker'' ?w =
      ((zero_DaemonSet, Some (External NotFound)), ?w)"
    using mem_calm_with [of "[ONFD demo_live]", unfolded mem_calm_def]
    by (simp add: GetDaemonSet_def mem_client_def mem_get_def del: mem_calm_with)
  then have g: "GetConditions mem_lib (newStatusHelperAPI mem_lib (NewDeploymentAPI mem_lib mem_client ())
      (NewDaemonsetAPI mem_lib mem_client ())) ?cr ?w =
      (getDegradedConditions ''FailedGettingNFDWorkerDaemonSet'' ''not found'' (mem_clock ?w),
       ?w\<lparr>mem_clock := mem_clock ?w + 1\<rparr>)"
    by (simp add: GetConditions_def getWorkerNotAvailableConditions_def
        getDaemonSetNotAvailableConditions_def mem_lib_def)
  have "r = None \<and> cr' = ?cr \<and> mem_view w' = mem_view ?w"
    by (rule unchanged_status_not_written [OF mem.api_server_axioms h g])
       (simp add: getDegradedConditions_def without_time_def)
  with h show ?thesis by (intro exI [of _ ?cr] exI [of _ w']) simp
qed

text \<open>
  C23: the comparison of two reports is equality of what they say: of two well-formed reports,
  \<^verbatim>\<open>AreConditionsEqual\<close> is true exactly when they agree in type, status, reason and message of every
  condition.
\<close>

theorem comparison_is_equality_of_content:
  assumes "machinery_laws lib" and "report_wellformed prev" and "report_wellformed new"
  shows "AreConditionsEqual lib prev new \<longleftrightarrow> map without_time prev = map without_time new"
  by (rule AreConditionsEqual_reports [OF assms])

theorem comparison_is_equality_of_content_witness:
  "AreConditionsEqual mem_lib (getAvailableConditions 1) (getAvailableConditions 2) \<and>
   \<not> AreConditionsEqual mem_lib (getAvailableConditions 1) (getDegradedConditions ''R'' ''m'' 1)"
proof -
  have "AreConditionsEqual mem_lib (getAvailableConditions 1) (getAvailableConditions 2) \<longleftrightarrow>
      map without_time (getAvailableConditions 1) = map without_time (getAvailableConditions 2)"
    by (rule comparison_is_equality_of_content [OF mem.machinery_laws_axioms]) simp_all
  moreover have "AreConditionsEqual mem_lib (getAvailableConditions 1) (getDegradedConditions ''R'' ''m'' 1) \<longleftrightarrow>
      map without_time (getAvailableConditions 1) = map without_time (getDegradedConditions ''R'' ''m'' 1)"
    by (rule comparison_is_equality_of_content [OF mem.machinery_laws_axioms]) simp_all
  ultimately show ?thesis
    by (simp add: getAvailableConditions_def getDegradedConditions_def without_time_def zero_defs)
qed

text \<open>
  A worker daemon set that cannot be read makes the report degraded, with the text of the error as
  the message and the reason that names the failed read, and no other workload is looked at.
\<close>

theorem failed_read_is_reported:
  assumes "api_GetDaemonSet sa (nfd_Namespace cr) ''nfd-worker'' w = ((ds, Some e), w1)"
    and "time_Now lib w1 = (now, w2)"
  shows "GetConditions lib (newStatusHelperAPI lib da sa) cr w =
    (getDegradedConditions ''FailedGettingNFDWorkerDaemonSet'' (Error_text (external_text lib) e) now, w2)"
  using assms
  by (simp add: GetConditions_def getWorkerNotAvailableConditions_def
      getDaemonSetNotAvailableConditions_def)

theorem failed_read_is_reported_witness:
  "fst (GetConditions mem_lib (newStatusHelperAPI mem_lib (NewDeploymentAPI mem_lib mem_client ())
     ((NewDaemonsetAPI mem_lib mem_client ())\<lparr>api_GetDaemonSet :=
        (\<lambda>ns n w. ((zero_DaemonSet, Some (Wrapf ''read'' (External Unavailable))), w))\<rparr>))
     demo_live (mem_with [])) =
   getDegradedConditions ''FailedGettingNFDWorkerDaemonSet'' ''read: unavailable'' 0"
proof -
  let ?sa = "(NewDaemonsetAPI mem_lib mem_client ())\<lparr>api_GetDaemonSet :=
    (\<lambda>ns n w. ((zero_DaemonSet, Some (Wrapf ''read'' (External Unavailable))), w))\<rparr>"
  have "api_GetDaemonSet ?sa (nfd_Namespace demo_live) ''nfd-worker'' (mem_with []) =
      ((zero_DaemonSet, Some (Wrapf ''read'' (External Unavailable))), mem_with [])" by simp
  moreover have "time_Now mem_lib (mem_with []) = (0, (mem_with [])\<lparr>mem_clock := 1\<rparr>)"
    by (simp add: mem_lib_def mem_with_def empty_mem_def)
  ultimately show ?thesis by (simp add: failed_read_is_reported mem_lib_def)
qed

section \<open>Writing single objects\<close>

text \<open>
  C25: setting a deployment corrects any drift and nothing else. When \<^verbatim>\<open>SetMasterDeploymentAsDesired\<close>
  reports no error, the specification and the labels are the desired ones whatever the object held,
  its name, namespace, annotations, finalizers and status are untouched and it is controlled by the
  custom resource.
\<close>

theorem master_set_as_desired:
  assumes "machinery_laws lib" and "SetMasterDeploymentAsDesired lib d cr x = (None, y)"
  shows "dep_Spec y = masterDeploymentSpec cr \<and> dep_Status y = dep_Status x \<and>
    om_Labels (dep_ObjectMeta y) = [''app'' \<mapsto> ''nfd-master''] \<and>
    om_Name (dep_ObjectMeta y) = om_Name (dep_ObjectMeta x) \<and>
    om_Namespace (dep_ObjectMeta y) = om_Namespace (dep_ObjectMeta x) \<and>
    om_Annotations (dep_ObjectMeta y) = om_Annotations (dep_ObjectMeta x) \<and>
    om_Finalizers (dep_ObjectMeta y) = om_Finalizers (dep_ObjectMeta x) \<and>
    (\<exists>r. GetControllerOf lib (dep_ObjectMeta y) = Some r \<and> controlled_by cr r)"
proof -
  have "dep_Spec y = masterDeploymentSpec cr"
    using master.set_payload [of lib d cr x] assms(2) by simp
  moreover have "dep_Status y = dep_Status x"
    using assms(2) by (auto simp: SetMasterDeploymentAsDesired_def Let_def split: prod.splits)
  moreover note master.set_keeps_identity [OF assms] master.set_controlled [OF assms]
  ultimately show ?thesis by (simp add: masterLabels_def)
qed

theorem master_set_as_desired_witness:
  "\<exists>y. SetMasterDeploymentAsDesired mem_lib \<lparr>d_client = mem_client, d_scheme = ()\<rparr> demo_live
         (named_Deployment ''nfd'' ''nfd-master'') = (None, y) \<and>
       dep_Spec y = masterDeploymentSpec demo_live \<and>
       om_Name (dep_ObjectMeta y) = ''nfd-master''"
proof -
  let ?d = "\<lparr>d_client = mem_client, d_scheme = ()\<rparr>"
  let ?x = "named_Deployment ''nfd'' ''nfd-master''"
  have "adoptable mem_lib demo_live (dep_ObjectMeta ?x)"
    by (rule calm_server.adoptable_new [OF mem.calm_server_axioms])
       (simp_all add: named_Deployment_def zero_defs)
  then have "fst (SetMasterDeploymentAsDesired mem_lib ?d demo_live ?x) = None"
    by (rule calm_server.setter_succeeds(1) [OF mem.calm_server_axioms master.desired_state_axioms])
  then obtain y where y: "SetMasterDeploymentAsDesired mem_lib ?d demo_live ?x = (None, y)"
    by (metis prod.collapse)
  with master_set_as_desired [OF mem.machinery_laws_axioms y] show ?thesis by simp
qed

section \<open>Pods\<close>

text \<open>
  C27: the five pods are well formed, for any custom resource: every mount has its volume, volumes and
  mount paths are distinct, every volume has one source, and every probe asks a port the container
  declares.
\<close>

theorem pods_wellformed:
  "pod_wellformed (pts_Spec (dps_Template (masterDeploymentSpec cr))) \<and>
   pod_wellformed (pts_Spec (dps_Template (gcDeploymentSpec cr))) \<and>
   pod_wellformed (pts_Spec (dss_Template (workerDaemonSetSpec cr))) \<and>
   pod_wellformed (pts_Spec (dss_Template (topologyDaemonSetSpec cr))) \<and>
   pod_wellformed (pts_Spec (jsp_Template (job_Spec (pruneJobObject cr))))"
  by (simp add: master_pod_wellformed gc_pod_wellformed worker_pod_wellformed topology_pod_wellformed
      prune_pod_wellformed)

text \<open>
  C28: every workload selects its own pods and no others. The selector of each deployment and daemon set
  matches the labels of its own pod template, and none matches the pods of another workload or of the
  prune job, which live in the same namespace.
\<close>

theorem selectors_match_own_pods:
  "map (\<lambda>s. map (\<lambda>t. selects s (om_Labels (pts_ObjectMeta t)))
       [dps_Template (masterDeploymentSpec cr), dps_Template (gcDeploymentSpec cr),
        dss_Template (workerDaemonSetSpec cr), dss_Template (topologyDaemonSetSpec cr),
        jsp_Template (job_Spec (pruneJobObject cr))])
     [dps_Selector (masterDeploymentSpec cr), dps_Selector (gcDeploymentSpec cr),
      dss_Selector (workerDaemonSetSpec cr), dss_Selector (topologyDaemonSetSpec cr)] =
   [[True, False, False, False, False],
    [False, True, False, False, False],
    [False, False, True, False, False],
    [False, False, False, True, False]]"
  by (simp add: selects_def masterDeploymentSpec_def gcDeploymentSpec_def workerDaemonSetSpec_def
      topologyDaemonSetSpec_def pruneJobObject_def masterLabels_def gcMatchLabels_def topologyLabels_def
      getWorkerLabelsAForApp_def map_le_def zero_defs)


text \<open>
  C26: every container runs the image of the operand, for any custom resource, and the pull policy of the
  operand reaches the master, the worker and the topology updater, Always standing in for an empty one; the
  garbage collector and the prune job always pull.
\<close>

theorem images_and_pull_policies:
  "map (\<lambda>p. map (\<lambda>c. (ctr_Image c, ctr_ImagePullPolicy c)) (pod_Containers p))
     [pts_Spec (dps_Template (masterDeploymentSpec cr)), pts_Spec (dss_Template (workerDaemonSetSpec cr)),
      pts_Spec (dss_Template (topologyDaemonSetSpec cr)), pts_Spec (dps_Template (gcDeploymentSpec cr)),
      pts_Spec (jsp_Template (job_Spec (pruneJobObject cr)))] =
   (let image = opr_Image (nfd_Operand cr);
        policy = (if opr_ImagePullPolicy (nfd_Operand cr) = [] then PullAlways
                  else opr_ImagePullPolicy (nfd_Operand cr))
    in [[(image, policy)], [(image, policy)], [(image, policy)], [(image, PullAlways)], [(image, PullAlways)]])"
  by (simp add: masterDeploymentSpec_def gcDeploymentSpec_def workerDaemonSetSpec_def
      topologyDaemonSetSpec_def pruneJobObject_def ImagePath_def dep_getImagePullPolicy_def
      ds_getImagePullPolicy_def zero_defs Let_def)

end
